(* ===== verification/DHMP_Prelude.thy ===== *)
theory DHMP_Prelude
  imports Main "HOL-Library.Word"
begin

text \<open>
  Shared ground of the development: bytes, little-endian words, a flat byte-addressed
  memory, and the contract of a fixed-width wire format (locale \<open>codec\<close>).

  The C program runs on x86-64: a pointer and a \<open>size_t\<close> are 64 bits wide, integers are
  stored little-endian, and address arithmetic wraps modulo \<open>2 ^ 64\<close>.  A process's memory
  is a total function from addresses to bytes; which addresses are mapped is not modelled.
\<close>

unbundle bit_operations_syntax

named_theorems layout "facts that place a field inside a buffer"

type_synonym byte = "8 word"
type_synonym u32 = "32 word"
type_synonym u64 = "64 word"
type_synonym addr = "64 word"
type_synonym mem = "addr \<Rightarrow> byte"

section \<open>Little-endian words\<close>

fun put_le :: "nat \<Rightarrow> 'a::len word \<Rightarrow> byte list" where
  "put_le 0 w = []"
| "put_le (Suc n) w = ucast w # put_le n (drop_bit 8 w)"

fun get_le :: "byte list \<Rightarrow> 'a::len word" where
  "get_le [] = 0"
| "get_le (b # bs) = ucast b OR push_bit 8 (get_le bs)"

abbreviation put64 :: "u64 \<Rightarrow> byte list" where "put64 \<equiv> put_le 8"
abbreviation put32 :: "u32 \<Rightarrow> byte list" where "put32 \<equiv> put_le 4"
abbreviation get64 :: "byte list \<Rightarrow> u64" where "get64 \<equiv> get_le"
abbreviation get32 :: "byte list \<Rightarrow> u32" where "get32 \<equiv> get_le"

lemma length_put_le [simp]: "length (put_le n w) = n"
  by (induction n arbitrary: w) auto

lemma put_le_add: "put_le (n + k) w = put_le n w @ put_le k (drop_bit (8 * n) w)"
  by (induction n arbitrary: w) (auto simp: drop_bit_drop_bit add.commute)

lemma nth_put_le: "i < n \<Longrightarrow> put_le n w ! i = ucast (drop_bit (8 * i) w)"
  by (induction n arbitrary: w i) (auto simp: nth_Cons drop_bit_drop_bit add.commute split: nat.splits)

lemma put32_ucast: "put32 (ucast (w :: u64)) = put_le 4 w"
proof (rule nth_equalityI)
  fix i assume "i < length (put32 (ucast w))"
  then have i: "i < 4" by simp
  have "ucast (drop_bit (8 * i) (ucast w :: u32)) = (ucast (drop_bit (8 * i) w) :: byte)"
    using i by (intro bit_word_eqI) (auto simp: bit_simps)
  then show "put32 (ucast w) ! i = put_le 4 w ! i"
    using i by (simp add: nth_put_le)
qed simp

lemma get_put_le_take_bit:
  "get_le (put_le n (w :: 'a::len word)) = take_bit (8 * n) w"
proof (induction n arbitrary: w)
  case 0
  then show ?case by simp
next
  case (Suc n)
  show ?case
    by (rule bit_word_eqI)
      (auto simp: Suc bit_simps not_le)
qed

lemma get64_put64 [simp]: "get64 (put64 w) = w"
  by (simp add: get_put_le_take_bit take_bit_word_eq_self)

lemma get32_put32 [simp]: "get32 (put32 w) = w"
  by (simp add: get_put_le_take_bit take_bit_word_eq_self)

lemma put64_inject [simp]: "put64 v = put64 w \<longleftrightarrow> v = w"
  by (metis get64_put64)

lemma bit_get_le:
  "bit (get_le bs :: 'a::len word) j
    \<longleftrightarrow> j < LENGTH('a) \<and> j div 8 < length bs \<and> bit (bs ! (j div 8)) (j mod 8)"
proof (induction bs arbitrary: j)
  case (Cons b bs)
  show ?case
  proof (cases "j < 8")
    case True
    then show ?thesis by (auto simp: bit_simps)
  next
    case False
    then have "j div 8 = Suc ((j - 8) div 8)" "j mod 8 = (j - 8) mod 8"
      using le_div_geq [of 8 j] le_mod_geq [of 8 j] by simp_all
    then show ?thesis using False Cons [of "j - 8"] bit_imp_le_length [of b j] by (auto simp: bit_simps)
  qed
qed simp

lemma put_get_le:
  assumes "8 * length bs \<le> LENGTH('a)"
  shows "put_le (length bs) (get_le bs :: 'a::len word) = bs"
proof (rule nth_equalityI)
  fix i assume "i < length (put_le (length bs) (get_le bs :: 'a word))"
  then have i: "i < length bs" by simp
  have "ucast (drop_bit (8 * i) (get_le bs :: 'a word)) = bs ! i"
  proof (rule bit_word_eqI)
    fix j :: nat assume "j < LENGTH(8)"
    then have j: "j < 8" by simp
    then have "(8 * i + j) div 8 = i" "(8 * i + j) mod 8 = j" by simp_all
    moreover have "8 * i + j < LENGTH('a)" using i j assms by linarith
    ultimately show "bit (ucast (drop_bit (8 * i) (get_le bs :: 'a word)) :: byte) j = bit (bs ! i) j"
      using i j by (simp add: bit_simps bit_get_le)
  qed
  then show "put_le (length bs) (get_le bs :: 'a word) ! i = bs ! i" using i by (simp add: nth_put_le)
qed simp

lemma put64_get64: "length bs = 8 \<Longrightarrow> put64 (get64 bs) = bs"
  using put_get_le [of bs, where 'a = 64] by simp

section \<open>Memory\<close>

definition mem_read :: "mem \<Rightarrow> addr \<Rightarrow> nat \<Rightarrow> byte list" where
  "mem_read m a n = map (\<lambda>i. m (a + of_nat i)) [0..<n]"

definition mem_write :: "mem \<Rightarrow> addr \<Rightarrow> byte list \<Rightarrow> mem" where
  "mem_write m a bs = (\<lambda>x. let i = unat (x - a) in if i < length bs then bs ! i else m x)"

definition memcpy :: "mem \<Rightarrow> addr \<Rightarrow> addr \<Rightarrow> u64 \<Rightarrow> mem" where
  "memcpy m dst src n = mem_write m dst (mem_read m src (unat n))"

abbreviation store8 :: "mem \<Rightarrow> addr \<Rightarrow> byte \<Rightarrow> mem" where "store8 m a b \<equiv> mem_write m a [b]"
abbreviation store64 :: "mem \<Rightarrow> addr \<Rightarrow> u64 \<Rightarrow> mem" where "store64 m a w \<equiv> mem_write m a (put64 w)"
abbreviation load64 :: "mem \<Rightarrow> addr \<Rightarrow> u64" where "load64 m a \<equiv> get64 (mem_read m a 8)"

text \<open>Two address ranges of \<open>n\<close> and \<open>k\<close> bytes that do not meet (on the address circle).\<close>

definition disj :: "addr \<Rightarrow> nat \<Rightarrow> addr \<Rightarrow> nat \<Rightarrow> bool" where
  "disj a n b k \<longleftrightarrow> n = 0 \<or> k = 0 \<or> (n \<le> unat (b - a) \<and> unat (b - a) + k \<le> 2 ^ 64)"

lemma length_mem_read [simp]: "length (mem_read m a n) = n"
  by (simp add: mem_read_def)

lemma mem_read_0 [simp]: "mem_read m a 0 = []"
  by (simp add: mem_read_def)

lemma mem_write_Nil [simp]: "mem_write m a [] = m"
  by (simp add: mem_write_def)

lemma nth_mem_read [simp]: "i < n \<Longrightarrow> mem_read m a n ! i = m (a + of_nat i)"
  by (simp add: mem_read_def)

lemma mem_read_1 [simp]: "mem_read m a (Suc 0) = [m a]"
  by (simp add: mem_read_def)

lemma unat_of_nat_u64: "n < 2 ^ 64 \<Longrightarrow> unat (of_nat n :: u64) = n"
  by (simp add: unat_of_nat)

lemma unat_u64_less: "unat (w :: u64) < 2 ^ 64"
  using unsigned_less [of w] by simp

lemma unat_diff_u64:
  "unat ((x :: u64) - y) = (if unat y \<le> unat x then unat x - unat y else unat x + 2 ^ 64 - unat y)"
  by (simp add: unat_sub_if_size word_size)

lemma mem_write_at:
  assumes "i < length bs" "length bs \<le> 2 ^ 64"
  shows "mem_write m a bs (a + of_nat i) = bs ! i"
  using assms by (simp add: mem_write_def Let_def unat_of_nat_u64)

lemma mem_write_out:
  assumes "length bs \<le> i" "i < 2 ^ 64"
  shows "mem_write m a bs (a + of_nat i) = m (a + of_nat i)"
  using assms by (simp add: mem_write_def Let_def unat_of_nat_u64)

lemma mem_read_write_sub:
  assumes "k + n \<le> length bs" "length bs \<le> 2 ^ 64"
  shows "mem_read (mem_write m a bs) (a + of_nat k) n = take n (drop k bs)"
proof (rule nth_equalityI)
  show "length (mem_read (mem_write m a bs) (a + of_nat k) n) = length (take n (drop k bs))"
    using assms by simp
next
  fix i assume "i < length (mem_read (mem_write m a bs) (a + of_nat k) n)"
  then have i: "i < n" by simp
  have "mem_write m a bs (a + of_nat (k + i)) = bs ! (k + i)"
    using assms i by (intro mem_write_at) auto
  then show "mem_read (mem_write m a bs) (a + of_nat k) n ! i = take n (drop k bs) ! i"
    using assms i by (simp add: add.assoc)
qed

lemma mem_read_write_same:
  "length bs \<le> 2 ^ 64 \<Longrightarrow> n = length bs \<Longrightarrow> mem_read (mem_write m a bs) a n = bs"
  using mem_read_write_sub [of 0 n bs m a] by simp

lemma disj_sym: "disj a n b k \<Longrightarrow> disj b k a n"
  using unat_u64_less [of a] unat_u64_less [of b]
  by (auto simp: disj_def unat_diff_u64 word_unat_eq_iff split: if_splits)

lemma disj_offset:
  assumes "i + n \<le> j" "j + k - i \<le> 2 ^ 64"
  shows "disj (p + of_nat i) n (p + of_nat j) k"
proof (cases "n = 0 \<or> k = 0")
  case False
  have "(p + of_nat j) - (p + of_nat i) = (of_nat (j - i) :: u64)"
    using assms by simp
  moreover have "unat (of_nat (j - i) :: u64) = j - i"
    using assms False by (intro unat_of_nat_u64) linarith
  ultimately have "unat ((p + of_nat j) - (p + of_nat i)) = j - i" by metis
  then show ?thesis using assms False unfolding disj_def by linarith
qed (auto simp: disj_def)

text \<open>A part of a range is apart from whatever the range is apart from.\<close>

lemma disj_sub:
  assumes "disj a n b k" "i + l \<le> n"
  shows "disj (a + of_nat i) l b k"
proof (cases "l = 0 \<or> k = 0")
  case False
  then have d: "n \<le> unat (b - a)" "unat (b - a) + k \<le> 2 ^ 64" using assms by (auto simp: disj_def)
  have "unat (of_nat i :: u64) = i"
    using d assms(2) False unat_u64_less [of "b - a"] by (intro unat_of_nat_u64) linarith
  moreover have "b - (a + of_nat i) = (b - a) - of_nat i" by simp
  ultimately have "unat (b - (a + of_nat i)) = unat (b - a) - i"
    using d assms(2) by (simp only: unat_diff_u64) simp
  then show ?thesis using d assms(2) False unfolding disj_def by linarith
qed (auto simp: disj_def)

lemma disj_sub_right:
  assumes "disj a n b k" "i + l \<le> k"
  shows "disj a n (b + of_nat i) l"
  using disj_sub [OF disj_sym [OF assms(1)] assms(2)] by (rule disj_sym)

lemma mem_write_disj:
  assumes "disj a (length bs) b n" "i < n"
  shows "mem_write m a bs (b + of_nat i) = m (b + of_nat i)"
proof (cases "length bs = 0")
  case False
  with assms have d: "length bs \<le> unat (b - a)" "unat (b - a) + n \<le> 2 ^ 64"
    by (auto simp: disj_def)
  have "b + of_nat i = a + of_nat (unat (b - a) + i)" by simp
  moreover have "mem_write m a bs (a + of_nat (unat (b - a) + i)) = m (a + of_nat (unat (b - a) + i))"
    using d assms(2) by (intro mem_write_out) linarith+
  ultimately show ?thesis by metis
qed simp

lemma mem_read_write_disj:
  assumes "disj a (length bs) b n"
  shows "mem_read (mem_write m a bs) b n = mem_read m b n"
  unfolding mem_read_def using mem_write_disj [OF assms] by simp

lemma mem_write_append:
  assumes "b = a + of_nat (length xs)" "length xs + length ys \<le> 2 ^ 64"
  shows "mem_write (mem_write m a xs) b ys = mem_write m a (xs @ ys)"
proof (cases "ys = []")
  case False
  then have n: "unat (of_nat (length xs) :: u64) = length xs"
    using assms(2) by (intro unat_of_nat_u64) (cases ys; simp)
  show ?thesis
  proof
    fix x
    have "x - b = (x - a) - of_nat (length xs)" by (simp add: assms(1))
    then have "unat (x - b) = (if length xs \<le> unat (x - a) then unat (x - a) - length xs
        else unat (x - a) + 2 ^ 64 - length xs)"
      by (simp only: unat_diff_u64 n)
    then consider (l) "unat (x - a) < length xs" "\<not> unat (x - b) < length ys"
      | (r) "length xs \<le> unat (x - a)" "unat (x - b) = unat (x - a) - length xs"
      using assms(2) by (fastforce split: if_splits)
    then show "mem_write (mem_write m a xs) b ys x = mem_write m a (xs @ ys) x"
      by cases (auto simp: mem_write_def Let_def nth_append)
  qed
qed simp

lemma mem_read_split:
  "mem_read m a (n + k) = mem_read m a n @ mem_read m (a + of_nat n) k"
  by (rule nth_equalityI) (auto simp: nth_append add.assoc simp flip: of_nat_add)


lemma mem_read_write_whole [simp]:
  "length bs \<le> 2 ^ 64 \<Longrightarrow> mem_read (mem_write m a bs) a (length bs) = bs"
  by (rule mem_read_write_same) auto

text \<open>Reads and writes at offsets of one base address.\<close>

lemma mem_read_write_offset:
  assumes "i + length bs \<le> j \<or> j + n \<le> i" "i + length bs \<le> 2 ^ 63" "j + n \<le> 2 ^ 63"
  shows "mem_read (mem_write m (a + of_nat i) bs) (a + of_nat j) n = mem_read m (a + of_nat j) n"
proof -
  have two: "(2 :: nat) ^ 64 = 2 * 2 ^ 63" by simp
  have "disj (a + of_nat i) (length bs) (a + of_nat j) n"
  proof (cases "i + length bs \<le> j")
    case True
    then show ?thesis using assms(2,3) two by (intro disj_offset) linarith+
  next
    case False
    then have "disj (a + of_nat j) n (a + of_nat i) (length bs)"
      using assms two by (intro disj_offset) linarith+
    then show ?thesis by (rule disj_sym)
  qed
  then show ?thesis by (rule mem_read_write_disj)
qed

text \<open>
  The shape in which the program reads a buffer: a read of \<open>n\<close> bytes \<open>k\<close> bytes into a region
  whose contents are known.
\<close>

lemma mem_read_sub:
  assumes "mem_read m a (length bs) = bs" "k + n \<le> length bs"
  shows "mem_read m (a + of_nat k) n = take n (drop k bs)"
proof -
  have "take n (drop k (mem_read m a (length bs))) = mem_read m (a + of_nat k) n"
    using assms(2) by (intro nth_equalityI) (auto simp: add.assoc)
  then show ?thesis using assms(1) by simp
qed

lemma mem_byte_at:
  assumes "mem_read m a (length bs) = bs" "k < length bs"
  shows "m (a + of_nat k) = bs ! k"
  using assms by (metis nth_mem_read)

section \<open>Fixed-width wire formats\<close>

text \<open>
  A C struct that is copied to the wire with \<open>memcpy\<close> is an encoder and a decoder of one
  width.  The laws a format promises are its width and that decoding inverts encoding; what
  the message code relies on (reading a struct back out of a buffer, out of the middle of a
  buffer, or the i-th element of an array of structs) is proved here once.
\<close>

locale codec =
  fixes enc :: "'a \<Rightarrow> byte list"
    and dec :: "byte list \<Rightarrow> 'a"
    and width :: nat
  assumes length_enc [simp]: "length (enc x) = width"
    and dec_enc [simp]: "dec (enc x) = x"
begin

lemma enc_inject [simp]: "enc x = enc y \<longleftrightarrow> x = y"
  by (metis dec_enc)

lemma dec_take [simp]: "dec (take width (enc x @ rest)) = x"
  by simp

lemma dec_take_drop:
  "length pre = k \<Longrightarrow> dec (take width (drop k (pre @ enc x @ rest))) = x"
  by simp

lemma load_region:
  assumes "mem_read m a (length bs) = bs" "bs = pre @ enc x @ rest" "length pre = k"
  shows "dec (mem_read m (a + of_nat k) width) = x"
proof -
  have "mem_read m (a + of_nat k) width = take width (drop k bs)"
    using assms by (intro mem_read_sub) auto
  then show ?thesis using assms by simp
qed

lemma load_stored:
  assumes "length (enc x @ rest) \<le> 2 ^ 64"
  shows "dec (mem_read (mem_write m a (enc x @ rest)) a width) = x"
  using mem_read_write_sub [of 0 width "enc x @ rest" m a] assms by simp

lemma length_array [simp]: "length (concat (map enc xs)) = width * length xs"
  by (induction xs) auto

lemma array_nth:
  "i < length xs \<Longrightarrow> dec (take width (drop (i * width) (concat (map enc xs) @ rest))) = xs ! i"
proof (induction xs arbitrary: i)
  case (Cons x xs)
  show ?case
  proof (cases i)
    case (Suc j)
    with Cons show ?thesis by simp
  qed simp
qed simp

end

text \<open>Two formats side by side are a format.\<close>

definition enc_pair :: "('a \<Rightarrow> byte list) \<Rightarrow> ('b \<Rightarrow> byte list) \<Rightarrow> 'a \<times> 'b \<Rightarrow> byte list" where
  "enc_pair e f p = e (fst p) @ f (snd p)"

definition dec_pair ::
  "nat \<Rightarrow> (byte list \<Rightarrow> 'a) \<Rightarrow> nat \<Rightarrow> (byte list \<Rightarrow> 'b) \<Rightarrow> byte list \<Rightarrow> 'a \<times> 'b" where
  "dec_pair n d k g bs = (d (take n bs), g (take k (drop n bs)))"

locale codec_pair =
  l: codec enc1 dec1 width1 + r: codec enc2 dec2 width2
  for enc1 :: "'a \<Rightarrow> byte list" and dec1 width1
  and enc2 :: "'b \<Rightarrow> byte list" and dec2 width2

sublocale codec_pair \<subseteq> both: codec "enc_pair enc1 enc2" "dec_pair width1 dec1 width2 dec2" "width1 + width2"
  by unfold_locales (auto simp: enc_pair_def dec_pair_def)

interpretation word64: codec put64 get64 8
  by unfold_locales auto

interpretation word32: codec put32 get32 4
  by unfold_locales auto

text \<open>An array element of the batched protocols: an address and a size.\<close>

interpretation addr_size: codec_pair put64 get64 8 put64 get64 8
  by unfold_locales

end
