(* ===== verification/Murmur.thy ===== *)
theory Murmur
  imports DHMP_Prelude
begin

text \<open>
  The hash of \<open>amper/src/murmur3_hash.c\<close>, and the bucket index \<open>dhmp_hash_in_client\<close> computes
  from it.  The key is the list of the \<open>length\<close> bytes the C function reads.  The lemmas show
  that every mixing step loses nothing: the finalizer is a bijection, and keys of one length
  that differ in a single block get different hashes.
\<close>

section \<open>The hash function\<close>

definition rotl32 :: "u32 \<Rightarrow> nat \<Rightarrow> u32" where
  "rotl32 x r = push_bit r x OR drop_bit (32 - r) x"

definition getblock32 :: "byte list \<Rightarrow> nat \<Rightarrow> u32" where
  "getblock32 p i = get32 (take 4 (drop (4 * i) p))"

definition fmix32 :: "u32 \<Rightarrow> u32" where
  "fmix32 h =
     (let h = h XOR drop_bit 16 h;
          h = h * 0x85ebca6b;
          h = h XOR drop_bit 13 h;
          h = h * 0xc2b2ae35;
          h = h XOR drop_bit 16 h
      in h)"

abbreviation c1 :: u32 where "c1 \<equiv> 0xcc9e2d51"
abbreviation c2 :: u32 where "c2 \<equiv> 0x1b873593"

definition mix_k1 :: "u32 \<Rightarrow> u32" where
  "mix_k1 k1 = (let k1 = k1 * c1; k1 = rotl32 k1 15; k1 = k1 * c2 in k1)"

definition body_step :: "u32 \<Rightarrow> u32 \<Rightarrow> u32" where
  "body_step h1 k1 = (let h1 = h1 XOR mix_k1 k1; h1 = rotl32 h1 13 in h1 * 5 + 0xe6546b64)"

text \<open>The \<open>switch\<close> on \<open>length & 3\<close> falls through from each case to the next.\<close>

definition tail_k1 :: "byte list \<Rightarrow> u32" where
  "tail_k1 tail =
     (let k1 = 0;
          k1 = (if length tail = 3 then k1 XOR push_bit 16 (ucast (tail ! 2)) else k1);
          k1 = (if 2 \<le> length tail then k1 XOR push_bit 8 (ucast (tail ! 1)) else k1)
      in k1 XOR ucast (tail ! 0))"

definition tail_step :: "u32 \<Rightarrow> byte list \<Rightarrow> u32" where
  "tail_step h1 tail = (if tail = [] then h1 else h1 XOR mix_k1 (tail_k1 tail))"

definition MurmurHash3_x86_32 :: "byte list \<Rightarrow> u32" where
  "MurmurHash3_x86_32 key =
     (let nblocks = length key div 4;
          h1 = fold (\<lambda>i h1. body_step h1 (getblock32 key i)) [0..<nblocks] 0;
          h1 = tail_step h1 (drop (nblocks * 4) key);
          h1 = h1 XOR of_nat (length key)
      in fmix32 h1)"

section \<open>The bucket of an address (\<open>dhmp_hash_in_client\<close>, \<open>dhmp_work.c\<close>)\<close>

abbreviation DHMP_CLIENT_HT_SIZE :: nat where "DHMP_CLIENT_HT_SIZE \<equiv> 251"

definition dhmp_hash_in_client :: "addr \<Rightarrow> nat" where
  "dhmp_hash_in_client a =
     (let key = MurmurHash3_x86_32 (put64 a)
      in unat (((key mod 251) + 251) mod 251))"

section \<open>Every step is invertible\<close>

lemma rotl32_inverse:
  assumes "0 < r" "r < 32"
  shows "rotl32 (rotl32 x r) (32 - r) = x"
proof (rule bit_word_eqI)
  fix n assume "n < LENGTH(32)"
  then show "bit (rotl32 (rotl32 x r) (32 - r)) n = bit x n"
    using assms by (auto simp: rotl32_def bit_simps not_le)
qed

lemma inj_rotl32: "0 < r \<Longrightarrow> r < 32 \<Longrightarrow> rotl32 x r = rotl32 y r \<longleftrightarrow> x = y"
  by (metis rotl32_inverse)

lemma inj_mult_unit:
  assumes "c * d = (1 :: u32)"
  shows "x * c = y * c \<longleftrightarrow> x = y"
proof
  assume "x * c = y * c"
  then have "x * c * d = y * c * d" by simp
  then have "x * (c * d) = y * (c * d)" by (simp only: mult.assoc)
  then show "x = y" by (simp only: assms mult.right_neutral)
qed simp

lemma inj_c1: "x * c1 = y * c1 \<longleftrightarrow> x = y"
  by (rule inj_mult_unit [where d = "0xdee13bb1"]) simp

lemma inj_c2: "x * c2 = y * c2 \<longleftrightarrow> x = y"
  by (rule inj_mult_unit [where d = "0x56ed309b"]) simp

lemma inj_times5: "x * (5 :: u32) = y * 5 \<longleftrightarrow> x = y"
  by (rule inj_mult_unit [where d = "0xcccccccd"]) simp

lemma inj_mix_k1 [simp]: "mix_k1 x = mix_k1 y \<longleftrightarrow> x = y"
  by (simp add: mix_k1_def inj_c1 inj_c2 inj_rotl32)

lemma xor_cancel_right [simp]: "(a :: u32) XOR c = b XOR c \<longleftrightarrow> a = b"
  by (metis xor.assoc xor.right_neutral xor_self_eq)

lemma xor_cancel_left [simp]: "(c :: u32) XOR a = c XOR b \<longleftrightarrow> a = b"
  by (simp add: xor.commute [of c])

lemma body_step_inj_h: "body_step h k = body_step h' k \<longleftrightarrow> h = h'"
  by (simp add: body_step_def inj_times5 inj_rotl32)

lemma body_step_inj_k: "body_step h k = body_step h k' \<longleftrightarrow> k = k'"
  by (simp add: body_step_def inj_times5 inj_rotl32)

text \<open>
  The inverse of the finalizer, step by step: an xor-shift by 16 is its own inverse, one by 13
  needs the second shift, and the two multipliers are units modulo \<open>2 ^ 32\<close>.
\<close>

definition xorshift :: "nat \<Rightarrow> u32 \<Rightarrow> u32" where
  "xorshift r h = h XOR drop_bit r h"

lemma xorshift16_inverse: "xorshift 16 (xorshift 16 h) = h"
  unfolding xorshift_def
  by (rule bit_word_eqI) (auto simp: bit_simps dest: bit_imp_le_length)

lemma xorshift13_inverse: "xorshift 13 (xorshift 13 h) XOR drop_bit 26 (xorshift 13 h) = h"
  unfolding xorshift_def
  by (rule bit_word_eqI) (auto simp: bit_simps dest: bit_imp_le_length)

definition unfmix32 :: "u32 \<Rightarrow> u32" where
  "unfmix32 h =
     (let h = xorshift 16 h * 0x7ed1b41d;
          h = (xorshift 13 h XOR drop_bit 26 h) * 0xa5cb9243
      in xorshift 16 h)"

lemma fmix32_steps:
  "fmix32 h = xorshift 16 (xorshift 13 (xorshift 16 h * 0x85ebca6b) * 0xc2b2ae35)"
  by (simp add: fmix32_def xorshift_def Let_def)

lemma unfmix32_fmix32: "unfmix32 (fmix32 h) = h"
proof -
  have "0xc2b2ae35 * 0x7ed1b41d = (1 :: u32)" "0x85ebca6b * 0xa5cb9243 = (1 :: u32)"
    by simp_all
  then have "x * 0xc2b2ae35 * 0x7ed1b41d = x" "x * 0x85ebca6b * 0xa5cb9243 = x" for x :: u32
    by (metis mult.assoc mult.right_neutral)+
  then show ?thesis
    by (simp only: fmix32_steps unfmix32_def Let_def xorshift16_inverse xorshift13_inverse)
qed

lemma inj_fmix32 [simp]: "fmix32 x = fmix32 y \<longleftrightarrow> x = y"
  by (metis unfmix32_fmix32)

section \<open>Keys of 8 bytes: the pointers of the address table\<close>

lemma murmur_pointer:
  "MurmurHash3_x86_32 (put64 a) =
     fmix32 (body_step (body_step 0 (ucast a)) (ucast (drop_bit 32 a)) XOR 8)"
proof -
  have "put64 a = put32 (ucast a) @ put32 (ucast (drop_bit 32 a))"
    using put_le_add [of 4 4 a] by (simp add: put32_ucast)
  then have "getblock32 (put64 a) 0 = ucast a" "getblock32 (put64 a) 1 = ucast (drop_bit 32 a)"
    by (simp_all add: getblock32_def del: put_le.simps)
  then show ?thesis
    by (simp add: MurmurHash3_x86_32_def tail_step_def upt_rec del: put_le.simps)
qed

lemma murmur_pointer_inj_low:
  assumes "drop_bit 32 a = drop_bit 32 b" "MurmurHash3_x86_32 (put64 a) = MurmurHash3_x86_32 (put64 b)"
  shows "a = b"
proof -
  have u: "(ucast a :: u32) = ucast b"
    using assms by (simp add: murmur_pointer body_step_inj_h body_step_inj_k)
  have lo: "bit a n = bit b n" if "n < 32" for n
    using arg_cong [OF u, of "\<lambda>w. bit w n"] that by (simp add: bit_ucast_iff)
  have hi: "bit a (32 + n) = bit b (32 + n)" for n
    using arg_cong [OF assms(1), of "\<lambda>w. bit w n"] by (simp add: bit_drop_bit_eq)
  show ?thesis
  proof (rule bit_word_eqI)
    fix n
    show "bit a n = bit b n"
      using lo [of n] hi [of "n - 32"] by (cases "n < 32") auto
  qed
qed

text \<open>
  The hash of the address table separates the addresses of one 4 GiB window.  Two different
  addresses with the same upper 32 bits, such as two blocks of one region, never have the same
  32-bit MurmurHash3.
\<close>

lemma murmur_pointer_distinct:
  assumes "drop_bit 32 a = drop_bit 32 b" "a \<noteq> b"
  shows "MurmurHash3_x86_32 (put64 a) \<noteq> MurmurHash3_x86_32 (put64 b)"
  using assms murmur_pointer_inj_low by blast

lemma murmur_pointer_distinct_witness:
  "MurmurHash3_x86_32 (put64 0x7f0000001000) \<noteq> MurmurHash3_x86_32 (put64 0x7f0000002000)"
  by (rule murmur_pointer_distinct) simp_all

text \<open>
  The finalizer loses nothing: \<open>fmix32\<close> is a bijection on 32-bit words, and \<open>unfmix32\<close>
  inverts it on both sides.
\<close>

lemma fmix32_bijective: "unfmix32 (fmix32 h) = h \<and> fmix32 (unfmix32 h) = h \<and> bij fmix32"
proof -
  have "inj fmix32" by (simp add: inj_def)
  then have b: "bij fmix32" by (simp add: bij_def finite_UNIV_inj_surj)
  then obtain g where "h = fmix32 g" by (metis bij_pointE)
  then show ?thesis using b by (simp add: unfmix32_fmix32)
qed

lemma dhmp_hash_in_client_less [simp]: "dhmp_hash_in_client a < DHMP_CLIENT_HT_SIZE"
proof -
  have "unat (x mod (251 :: u32)) < 251" for x :: u32
    by (simp add: unat_mod)
  then show ?thesis by (simp add: dhmp_hash_in_client_def Let_def)
qed

end
