(* ===== verification/Verbs.thy ===== *)
theory Verbs
  imports DHMP_Prelude
begin

text \<open>
  The data of the RDMA verbs interface that the program builds and reads
  (\<open>amper/include/infiniband/verbs.h\<close>), and the two shapes of one-sided work request that
  \<open>dhmp_work.c\<close> posts.

  The verbs library itself is not modelled.  What an adapter does with a request is never
  defined: \<open>delivered\<close> names the one documented effect the protocols rely on, that a completed
  RDMA write has put the gathered bytes at the remote address.
\<close>

section \<open>Memory regions\<close>

record ibv_mr =
  mr_context :: u64
  mr_pd :: u64
  mr_addr :: addr
  mr_length :: u64
  mr_handle :: u32
  mr_lkey :: u32
  mr_rkey :: u32

text \<open>The struct as \<open>memcpy\<close> copies it: four 8-byte fields, three 4-byte fields, 4 bytes of padding.\<close>

definition put_mr :: "ibv_mr \<Rightarrow> byte list" where
  "put_mr r = put64 (mr_context r) @ put64 (mr_pd r) @ put64 (mr_addr r) @ put64 (mr_length r)
     @ put32 (mr_handle r) @ put32 (mr_lkey r) @ put32 (mr_rkey r) @ replicate 4 0"

definition get_mr :: "byte list \<Rightarrow> ibv_mr" where
  "get_mr bs = \<lparr>mr_context = get64 (take 8 bs), mr_pd = get64 (take 8 (drop 8 bs)),
     mr_addr = get64 (take 8 (drop 16 bs)), mr_length = get64 (take 8 (drop 24 bs)),
     mr_handle = get32 (take 4 (drop 32 bs)), mr_lkey = get32 (take 4 (drop 36 bs)),
     mr_rkey = get32 (take 4 (drop 40 bs))\<rparr>"

abbreviation sizeof_mr :: nat where "sizeof_mr \<equiv> 48"

interpretation mr_wire: codec put_mr get_mr sizeof_mr
  by unfold_locales (simp_all add: put_mr_def get_mr_def)

section \<open>Work requests and completions\<close>

record ibv_sge =
  sge_addr :: addr
  sge_length :: u32
  sge_lkey :: u32

datatype ibv_wr_opcode =
    IBV_WR_RDMA_WRITE
  | IBV_WR_RDMA_WRITE_WITH_IMM
  | IBV_WR_SEND
  | IBV_WR_SEND_WITH_IMM
  | IBV_WR_RDMA_READ
  | IBV_WR_ATOMIC_CMP_AND_SWP

datatype ibv_send_flag = IBV_SEND_SIGNALED | IBV_SEND_INLINE

record ibv_send_wr =
  wr_id :: u64
  wr_opcode :: ibv_wr_opcode
  wr_sg_list :: "ibv_sge list"
  wr_send_flags :: "ibv_send_flag list"
  wr_imm_data :: u32
  wr_remote_addr :: addr
  wr_rkey :: u32
  wr_compare_add :: u64
  wr_swap :: u64
  wr_ud_ah :: "nat option"
  wr_ud_remote_qpn :: u32
  wr_ud_remote_qkey :: u32

text \<open>\<open>memset(&send_wr, 0, sizeof send_wr)\<close>: the opcode numbered 0 is the RDMA write.\<close>

definition zero_wr :: ibv_send_wr where
  "zero_wr = \<lparr>wr_id = 0, wr_opcode = IBV_WR_RDMA_WRITE, wr_sg_list = [], wr_send_flags = [],
     wr_imm_data = 0, wr_remote_addr = 0, wr_rkey = 0, wr_compare_add = 0, wr_swap = 0,
     wr_ud_ah = None, wr_ud_remote_qpn = 0, wr_ud_remote_qkey = 0\<rparr>"

datatype ibv_wc_opcode =
    IBV_WC_SEND | IBV_WC_RDMA_WRITE | IBV_WC_RDMA_READ | IBV_WC_COMP_SWAP | IBV_WC_FETCH_ADD
  | IBV_WC_BIND_MW | IBV_WC_RECV | IBV_WC_RECV_RDMA_WITH_IMM | IBV_WC_OTHER

text \<open>The bytes an adapter gathers for a request from the poster's memory.\<close>

definition wr_payload :: "mem \<Rightarrow> ibv_send_wr \<Rightarrow> byte list" where
  "wr_payload m w = concat (map (\<lambda>s. mem_read m (sge_addr s) (unat (sge_length s))) (wr_sg_list w))"

definition delivered :: "mem \<Rightarrow> ibv_send_wr \<Rightarrow> mem \<Rightarrow> bool" where
  "delivered lm w rm \<longleftrightarrow>
     mem_read rm (wr_remote_addr w) (length (wr_payload lm w)) = wr_payload lm w"

text \<open>The documented effect of a completed RDMA read of one gather element.\<close>

definition fetched :: "mem \<Rightarrow> ibv_send_wr \<Rightarrow> mem \<Rightarrow> bool" where
  "fetched rm w lm \<longleftrightarrow>
     (\<forall>s \<in> set (wr_sg_list w). mem_read lm (sge_addr s) (unat (sge_length s))
        = mem_read rm (wr_remote_addr w) (unat (sge_length s)))"

lemma wr_payload_single [simp]:
  "wr_sg_list w = [s] \<Longrightarrow> wr_payload m w = mem_read m (sge_addr s) (unat (sge_length s))"
  by (simp add: wr_payload_def)

lemma delivered_by_write:
  "length (wr_payload lm w) \<le> 2 ^ 64 \<Longrightarrow>
   delivered lm w (mem_write rm (wr_remote_addr w) (wr_payload lm w))"
  by (simp add: delivered_def)

section \<open>The requests of \<open>amper_post_write\<close> and \<open>amper_post_read\<close> (\<open>dhmp_work.c\<close>)\<close>

text \<open>The shape every handler fills in: one gather element, signalled.\<close>

definition rdma_wr ::
  "ibv_wr_opcode \<Rightarrow> u64 \<Rightarrow> addr \<Rightarrow> u32 \<Rightarrow> addr \<Rightarrow> u32 \<Rightarrow> u32 \<Rightarrow> ibv_send_wr" where
  "rdma_wr opc task remote rkey sa slen slkey = zero_wr\<lparr>
     wr_id := task, wr_opcode := opc,
     wr_sg_list := [\<lparr>sge_addr = sa, sge_length = slen, sge_lkey = slkey\<rparr>],
     wr_send_flags := [IBV_SEND_SIGNALED], wr_remote_addr := remote, wr_rkey := rkey\<rparr>"

definition write_wr :: "u64 \<Rightarrow> ibv_mr \<Rightarrow> addr \<Rightarrow> u32 \<Rightarrow> u32 \<Rightarrow> bool \<Rightarrow> ibv_send_wr" where
  "write_wr task rmr sa slen slkey is_inline =
     (let w = rdma_wr IBV_WR_RDMA_WRITE task (mr_addr rmr) (mr_rkey rmr) sa slen slkey
      in if is_inline then w\<lparr>wr_send_flags := [IBV_SEND_SIGNALED, IBV_SEND_INLINE]\<rparr> else w)"

definition read_wr :: "u64 \<Rightarrow> ibv_mr \<Rightarrow> addr \<Rightarrow> u32 \<Rightarrow> u32 \<Rightarrow> bool \<Rightarrow> ibv_send_wr" where
  "read_wr task rmr sa slen slkey is_inline =
     (let w = rdma_wr IBV_WR_RDMA_READ task (mr_addr rmr) (mr_rkey rmr) sa slen slkey;
          w = (if slen = 0 then w\<lparr>wr_sg_list := []\<rparr> else w)
      in if is_inline then w\<lparr>wr_send_flags := [IBV_SEND_SIGNALED, IBV_SEND_INLINE]\<rparr> else w)"

lemma rdma_wr_simps [simp]:
  "wr_opcode (rdma_wr c t r k a n l) = c"
  "wr_remote_addr (rdma_wr c t r k a n l) = r"
  "wr_rkey (rdma_wr c t r k a n l) = k"
  "wr_sg_list (rdma_wr c t r k a n l) = [\<lparr>sge_addr = a, sge_length = n, sge_lkey = l\<rparr>]"
  "wr_id (rdma_wr c t r k a n l) = t"
  by (simp_all add: rdma_wr_def)

lemma write_wr_simps [simp]:
  "wr_opcode (write_wr t r a n k i) = IBV_WR_RDMA_WRITE"
  "wr_remote_addr (write_wr t r a n k i) = mr_addr r"
  "wr_sg_list (write_wr t r a n k i) = [\<lparr>sge_addr = a, sge_length = n, sge_lkey = k\<rparr>]"
  "wr_id (write_wr t r a n k i) = t"
  by (simp_all add: write_wr_def Let_def)

lemma read_wr_simps [simp]:
  "wr_remote_addr (read_wr t r a n k i) = mr_addr r"
  "n \<noteq> 0 \<Longrightarrow> wr_sg_list (read_wr t r a n k i) = [\<lparr>sge_addr = a, sge_length = n, sge_lkey = k\<rparr>]"
  "wr_id (read_wr t r a n k i) = t"
  by (simp_all add: read_wr_def Let_def)

lemma read_wr_opcode [simp]: "wr_opcode (read_wr t r a n k i) = IBV_WR_RDMA_READ"
  by (simp add: read_wr_def Let_def)

end
