(* ===== verification/State.thy ===== *)
theory State
  imports Verbs
begin

text \<open>
  The state of a process: \<open>struct dhmp_client\<close> (\<open>dhmp_client.h\<close>), \<open>struct dhmp_server\<close>
  (\<open>dhmp_server.h\<close>), \<open>struct dhmp_transport\<close> (\<open>dhmp_transport.h\<close>), the work items of
  \<open>dhmp_work.h\<close> and the objects they point to.

  A process is the record \<open>proc\<close>.  Bytes that the program copies with \<open>memcpy\<close> or hands to the
  adapter are in \<open>mem\<close>; C objects that are only reached through typed pointers (transports,
  \<open>dhmp_addr_info\<close> objects, the flags of work items and tasks) are in maps keyed by the
  pointer.  The global variables \<open>client\<close> and \<open>server\<close> are options, \<open>None\<close> for NULL.
\<close>

section \<open>Transports\<close>

datatype dhmp_transport_state =
    DHMP_TRANSPORT_STATE_INIT
  | DHMP_TRANSPORT_STATE_LISTEN
  | DHMP_TRANSPORT_STATE_CONNECTING
  | DHMP_TRANSPORT_STATE_CONNECTED
  | DHMP_TRANSPORT_STATE_DISCONNECTED
  | DHMP_TRANSPORT_STATE_RECONNECT
  | DHMP_TRANSPORT_STATE_CLOSED
  | DHMP_TRANSPORT_STATE_DESTROYED
  | DHMP_TRANSPORT_STATE_ERROR

text \<open>The code compares states with \<open><\<close> and \<open>>\<close>: the order of the enum.\<close>

fun state_rank :: "dhmp_transport_state \<Rightarrow> nat" where
  "state_rank DHMP_TRANSPORT_STATE_INIT = 0"
| "state_rank DHMP_TRANSPORT_STATE_LISTEN = 1"
| "state_rank DHMP_TRANSPORT_STATE_CONNECTING = 2"
| "state_rank DHMP_TRANSPORT_STATE_CONNECTED = 3"
| "state_rank DHMP_TRANSPORT_STATE_DISCONNECTED = 4"
| "state_rank DHMP_TRANSPORT_STATE_RECONNECT = 5"
| "state_rank DHMP_TRANSPORT_STATE_CLOSED = 6"
| "state_rank DHMP_TRANSPORT_STATE_DESTROYED = 7"
| "state_rank DHMP_TRANSPORT_STATE_ERROR = 8"

lemma state_rank_inject [simp]: "state_rank a = state_rank b \<longleftrightarrow> a = b"
  by (cases a; cases b) auto

instantiation dhmp_transport_state :: linorder
begin

definition less_eq_dhmp_transport_state :: "dhmp_transport_state \<Rightarrow> dhmp_transport_state \<Rightarrow> bool" where
  "a \<le> b \<longleftrightarrow> state_rank a \<le> state_rank b"

definition less_dhmp_transport_state :: "dhmp_transport_state \<Rightarrow> dhmp_transport_state \<Rightarrow> bool" where
  "a < b \<longleftrightarrow> state_rank a < state_rank b"

instance
  by intro_classes (auto simp: less_eq_dhmp_transport_state_def less_dhmp_transport_state_def)

end

text \<open>\<open>struct dhmp_mr\<close>: a registered region and the write position of the send ring.\<close>

record dhmp_mr =
  cur_pos :: u64
  dmr_addr :: addr
  dmr_mr :: ibv_mr

text \<open>\<open>struct dhmp_cq\<close>: its block, the adapter's queue and the channel its events arrive on.\<close>

record dhmp_cq =
  cq_ptr :: addr
  cq_cq :: nat
  comp_channel :: nat

record dhmp_transport =
  node_id :: int
  trans_state :: dhmp_transport_state
  send_mr :: dhmp_mr
  recv_mr :: dhmp_mr
  send_recv_size :: u64
  is_poll_qp :: bool
  nvm_used_size :: u64
  peer_ip :: u32
  cm_id :: "nat option"
  event_channel :: "nat option"
  qp :: "nat option"
  dcq :: "dhmp_cq option"
  device :: "addr option"
  tr_ah :: "nat option"
  tr_qp_num :: u32
  tr_qkey :: u32

section \<open>The client's address table entries\<close>

record dhmp_addr_info =
  read_cnt :: int
  write_cnt :: int
  write_flag :: bool
  nvm_mr :: ibv_mr

section \<open>Work items\<close>

datatype dhmp_work_type =
    DHMP_WORK_MALLOC | DHMP_WORK_FREE | DHMP_WORK_READ | DHMP_WORK_WRITE | DHMP_WORK_CLOSE
  | DHMP_WORK_DONE | DHMP_WORK_SEND | DHMP_WORK_SEND2 | DHMP_WORK_REQADDR1 | DHMP_WORK_WRITEIMM
  | DHMP_WORK_WRITEIMM2 | DHMP_WORK_WRITEIMM3 | DHMP_WORK_SREAD | DHMP_WORK_WRITE2
  | AMPER_WORK_L5 | AMPER_WORK_CLOVER | AMPER_WORK_scalable | AMPER_WORK_Tailwind
  | AMPER_WORK_Tailwind_RPC | AMPER_WORK_DaRPC | AMPER_WORK_RFP | AMPER_WORK_UD | AMPER_WORK_FaRM
  | AMPER_WORK_Herd | AMPER_WORK_pRDMA_WS | DHMP_WORK_Octopus

text \<open>
  The structs behind \<open>work_data\<close>, one constructor per struct of \<open>dhmp_work.h\<close>; the arguments are
  the fields the handler reads, in the order given.  The transport is always the client's
  \<open>connect_trans\<close>, and the flags \<open>done_flag\<close> and \<open>recv_flag\<close> are in the process state.
\<close>

datatype work_data =
    Malloc_work addr u64 int              \<comment> \<open>\<open>addr_info\<close>, \<open>length\<close>, \<open>is_special\<close>\<close>
  | Free_work addr                        \<comment> \<open>\<open>dhmp_addr\<close>\<close>
  | Rw_work addr addr u64                 \<comment> \<open>\<open>dhmp_addr\<close>, \<open>local_addr\<close>, \<open>length\<close>\<close>
  | Close_work
  | Clover_work addr u64 u64              \<comment> \<open>\<open>dhmp_addr\<close>, \<open>length\<close>, \<open>value\<close>\<close>
  | L5_work addr u64 byte addr int        \<comment> \<open>\<open>local_addr\<close>, \<open>length\<close>, \<open>flag_write\<close>, \<open>dhmp_addr\<close>, \<open>cur\<close>\<close>
  | Tailwind_work u64 ibv_mr u64 addr u64 \<comment> \<open>\<open>offset\<close>, \<open>head_mr\<close>, \<open>head_size\<close>, \<open>local_addr\<close>, \<open>length\<close>\<close>
  | DaRPC_work addr u64 addr byte byte int \<comment> \<open>\<open>globle_addr\<close>, \<open>length\<close>, \<open>local_addr\<close>, \<open>flag_write\<close>, \<open>batch\<close>, \<open>cur\<close>\<close>
  | Scalable_work u64 u64 int u64 byte byte \<comment> \<open>\<open>offset\<close>, \<open>length\<close>, \<open>write_type\<close>, \<open>size\<close>, \<open>flag_write\<close>, \<open>batch\<close>\<close>
  | RFP_work addr u64 bool addr           \<comment> \<open>\<open>local_addr\<close>, \<open>length\<close>, \<open>is_write\<close>, \<open>dhmp_addr\<close>\<close>
  | Rw2_work addr addr u64                \<comment> \<open>\<open>dhmp_addr\<close>, \<open>local_addr\<close>, \<open>length\<close>\<close>
  | Send_work addr addr u64 bool          \<comment> \<open>\<open>dhmp_addr\<close>, \<open>local_addr\<close>, \<open>length\<close>, \<open>is_write\<close>\<close>
  | Send2_work addr addr addr u64         \<comment> \<open>\<open>server_addr\<close>, \<open>dhmp_addr\<close>, \<open>local_addr\<close>, \<open>length\<close>\<close>
  | ReqAddr_work
  | WriteImm_work addr addr u64 u32       \<comment> \<open>\<open>dhmp_addr\<close>, \<open>local_addr\<close>, \<open>length\<close>, \<open>task_offset\<close>\<close>
  | WriteImm3_work addr addr u64          \<comment> \<open>\<open>dhmp_addr\<close>, \<open>local_addr\<close>, \<open>length\<close>\<close>
  | Sread_work addr addr u64              \<comment> \<open>\<open>dhmp_addr\<close>, \<open>local_addr\<close>, \<open>length\<close>\<close>
  | UD_work addr u64 addr byte byte       \<comment> \<open>\<open>globle_addr\<close>, \<open>length\<close>, \<open>local_addr\<close>, \<open>flag_write\<close>, \<open>batch\<close>\<close>

text \<open>A queue element: \<open>struct dhmp_work\<close> with the address of its \<open>work_data\<close>.\<close>

record dhmp_work =
  work_type :: dhmp_work_type
  work_ptr :: addr
  work_data :: work_data

section \<open>The client\<close>

record ring_slots =
  rs_S_mr :: ibv_mr
  rs_C_mr :: ibv_mr
  rs_Scur :: nat
  rs_Ccur :: nat
  rs_available :: "nat \<Rightarrow> int"
  rs_size :: u64
  rs_local_mr :: "nat \<Rightarrow> ibv_mr"
  rs_read_mr :: ibv_mr

record dhmp_client =
  connect_trans :: "nat option"
  addr_info_ht :: "nat \<Rightarrow> addr list"
  work_list :: "dhmp_work list"
  cas_mr :: ibv_mr
  per_ops_mr :: ibv_mr
  per_ops_mr_addr :: addr
  per_ops_mr2 :: ibv_mr
  local_mr :: ibv_mr
  read_mr_for_SFlush :: ibv_mr
  count_post_send_for_SFlush :: int
  para_request_num :: int
  ringbuffer_mr :: ibv_mr
  ringbuffer_length :: u64
  ringbuffer_cur :: u64
  octo_C_mr :: ibv_mr
  octo_local_mr :: ibv_mr
  octo_S_mr :: ibv_mr
  L5_mailbox_mr :: ibv_mr
  L5_num_1_addr :: addr
  L5_message_mr :: ibv_mr
  L5_local_smr1 :: ibv_mr
  Tailwind_mr :: ibv_mr
  RFP_write_mr :: ibv_mr
  RFP_read_mr :: ibv_mr
  RFP_time :: byte
  RFP_local_smr :: ibv_mr
  scale_Sreq_mr :: ibv_mr
  scale_Creq_mr :: ibv_mr
  scale_Cdata_mr :: ibv_mr
  scale_context_swith :: byte
  FaRM :: ring_slots
  herd :: ring_slots
  pRDMA :: ring_slots
  pRDMA_work :: "nat \<Rightarrow> addr"

section \<open>The server\<close>

record dhmp_area =
  area_ptr :: addr
  area_mr :: ibv_mr
  area_size :: u64

text \<open>The per-client entries of the arrays indexed by \<open>node_id\<close>.\<close>

record server_node =
  area_list :: "dhmp_area list"
  node_trans :: "nat option"
  L5m_mr :: ibv_mr
  L5m_addr :: addr
  L5m_C_mr :: ibv_mr
  L5m_reply_mr :: "ibv_mr option"
  L5m_is_new :: bool
  Tw_mr :: ibv_mr
  Tw_addr :: addr
  Tw_flush2_mr :: ibv_mr
  RFPs_write_mr :: ibv_mr
  RFPs_read_mr :: ibv_mr
  RFPs_time :: byte
  RFPs_size :: u64
  Sc_Sreq_mr :: ibv_mr
  Sc_Sdata_mr :: ibv_mr
  Sc_Cdata_mr :: ibv_mr
  Sc_Slocal_mr :: "ibv_mr option"
  Sc_size :: u64
  Fa_C_mr :: ibv_mr
  Fa_S_mr :: ibv_mr
  Fa_local_mr :: ibv_mr
  Fa_size :: u64
  He_S_mr :: ibv_mr
  He_size :: u64
  Oc_C_mr :: ibv_mr
  Oc_local_mr :: ibv_mr
  Oc_S_mr :: ibv_mr

record dhmp_tasklist =
  tl_rdma_trans :: "nat option"
  tl_length :: u64
  tl_dhmp_addr :: addr
  tl_cmpflag :: addr

record dhmp_server =
  nodes :: "int \<Rightarrow> server_node"
  client_list :: "nat list"
  cur_connections :: int
  client_num :: int
  nvm_total_size :: u64
  srv_nvm_used_size :: u64
  ringbufferAddr :: addr
  cur_addr :: u64
  srv_rdma_trans :: nat
  model_C_new_msg :: bool
  L5_mailbox_addr :: addr
  L5_mailbox :: ibv_mr
  srv_read_mr :: ibv_mr
  tasklist :: "int \<Rightarrow> dhmp_tasklist"
  listen_trans :: "nat option"
  DaRPC_dcq :: "int \<Rightarrow> dhmp_cq option"
  DaRPC_dcq_count :: "int \<Rightarrow> byte"

text \<open>The arrays have \<open>DHMP_CLIENT_NODE_NUM\<close> (3) entries.\<close>

abbreviation DHMP_CLIENT_NODE_NUM :: int where "DHMP_CLIENT_NODE_NUM \<equiv> 3"

definition node_ok :: "int \<Rightarrow> bool" where
  "node_ok i \<longleftrightarrow> 0 \<le> i \<and> i < DHMP_CLIENT_NODE_NUM"

section \<open>A process\<close>

datatype fault =
    Exit_minus_1       \<comment> \<open>\<open>exit(-1)\<close>\<close>
  | Null_deref         \<comment> \<open>an access through a NULL pointer\<close>
  | Dangling           \<comment> \<open>an access through a pointer to no live object\<close>
  | Out_of_bounds      \<comment> \<open>an access past the end of an array\<close>
  | Division_by_zero

text \<open>
  Calls into the operating system and the verbs library.  Each call takes the next number
  (\<open>tick\<close>) and gets the answer the environment \<open>ext\<close> has for it, so an environment is any
  sequence of answers.
\<close>

record ext =
  ext_post :: "nat \<Rightarrow> ibv_send_wr \<Rightarrow> bool"         \<comment> \<open>\<open>ibv_post_send\<close>: accepted?\<close>
  ext_post_recv :: "nat \<Rightarrow> bool"                     \<comment> \<open>\<open>ibv_post_recv\<close>: accepted?\<close>
  ext_reg :: "nat \<Rightarrow> addr \<Rightarrow> u64 \<Rightarrow> ibv_mr option"   \<comment> \<open>\<open>ibv_reg_mr\<close>\<close>
  ext_malloc :: "nat \<Rightarrow> addr"                        \<comment> \<open>\<open>malloc\<close>: 0 is NULL\<close>
  ext_nvm :: "nat \<Rightarrow> u64 \<Rightarrow> addr"                   \<comment> \<open>\<open>numa_alloc_onnode\<close>: 0 is NULL\<close>
  ext_obj :: "nat \<Rightarrow> nat option"                     \<comment> \<open>a constructor of the library: a handle or NULL\<close>
  ext_rc :: "nat \<Rightarrow> int"                             \<comment> \<open>a call that returns a status, 0 for success\<close>
  ext_junk :: "nat \<Rightarrow> u64"                           \<comment> \<open>what an uninitialised field holds\<close>
  ext_qpn :: "nat \<Rightarrow> u32"                            \<comment> \<open>\<open>cm_id->qp->qp_num\<close> of a transport\<close>
  ext_qkey :: "nat \<Rightarrow> u32"                           \<comment> \<open>the \<open>qkey\<close> that \<open>ibv_query_qp\<close> answers for a transport\<close>

text \<open>
  The macros that select code: \<open>#ifdef\<close> branches are \<open>if\<close>s on these fields.  In the repository's
  \<open>dhmp.h\<close> none of the switches is defined, and \<open>FaRM_buffer_NUM\<close> has no value.
\<close>

record build =
  UD :: bool
  Spwrite :: bool
  WFLUSH :: bool
  RFLUSH :: bool
  SFLUSH :: bool
  DaRPC_SERVER :: bool
  RFP_defined :: bool
  scaleRPC_defined :: bool
  FaRM_defined :: bool
  FaRM_buffer_NUM :: nat

definition default_build :: "nat \<Rightarrow> build" where
  "default_build n = \<lparr>UD = False, Spwrite = False, WFLUSH = False, RFLUSH = False, SFLUSH = False,
     DaRPC_SERVER = False, RFP_defined = False, scaleRPC_defined = False, FaRM_defined = False, FaRM_buffer_NUM = n\<rparr>"

lemma default_build_simps [simp]:
  "\<not> UD (default_build n)" "\<not> Spwrite (default_build n)" "\<not> WFLUSH (default_build n)"
  "\<not> RFLUSH (default_build n)" "\<not> SFLUSH (default_build n)" "\<not> DaRPC_SERVER (default_build n)"
  "\<not> RFP_defined (default_build n)" "\<not> scaleRPC_defined (default_build n)" "\<not> FaRM_defined (default_build n)"
  "FaRM_buffer_NUM (default_build n) = n"
  by (simp_all add: default_build_def)

text \<open>What the process holds and has to give back, for the clean-up paths.\<close>

datatype channel = Event_chan nat | Comp_chan nat

datatype resource =
    R_heap addr | R_nvm addr | R_mr ibv_mr | R_event_channel nat | R_event_fd channel
  | R_comp_channel nat | R_cq nat | R_qp nat | R_cm_id nat | R_pd nat | R_epoll nat

record proc =
  mem :: mem
  sq :: "(nat \<times> ibv_send_wr) list"
  rq :: "(nat \<times> addr \<times> u64) list"
  held :: "resource list"
  tick :: nat
  fault :: "fault option"
  client :: "dhmp_client option"
  server :: "dhmp_server option"
  trans :: "nat \<Rightarrow> dhmp_transport"
  addr_infos :: "addr \<rightharpoonup> dhmp_addr_info"
  recv_flag :: "addr \<Rightarrow> bool"
  done_flag :: "addr \<Rightarrow> bool"
  res_addr :: "addr \<Rightarrow> addr"
  task_done :: "addr \<Rightarrow> bool"
  ctx_stop :: bool
  global_log_level :: int

definition raise :: "fault \<Rightarrow> proc \<Rightarrow> proc" where
  "raise f p = (if fault p = None then p\<lparr>fault := Some f\<rparr> else p)"

definition acquire :: "resource \<Rightarrow> proc \<Rightarrow> proc" where
  "acquire r p = p\<lparr>held := r # held p\<rparr>"

definition release :: "resource \<Rightarrow> proc \<Rightarrow> proc" where
  "release r p = p\<lparr>held := remove1 r (held p)\<rparr>"

text \<open>An external call: the answer for the current number, and the next number.\<close>

definition ask :: "(nat \<Rightarrow> 'a) \<Rightarrow> proc \<Rightarrow> 'a \<times> proc" where
  "ask f p = (f (tick p), p\<lparr>tick := Suc (tick p)\<rparr>)"

text \<open>Access to \<open>*client\<close> and \<open>*server\<close>; a NULL pointer faults.\<close>

definition with_client :: "proc \<Rightarrow> (dhmp_client \<Rightarrow> proc) \<Rightarrow> proc" where
  "with_client p f = (case client p of None \<Rightarrow> raise Null_deref p | Some c \<Rightarrow> f c)"

definition with_server :: "proc \<Rightarrow> (dhmp_server \<Rightarrow> proc) \<Rightarrow> proc" where
  "with_server p f = (case server p of None \<Rightarrow> raise Null_deref p | Some s \<Rightarrow> f s)"

text \<open>Access to entry \<open>i\<close> of a per-node array of the server.\<close>

definition with_node :: "int \<Rightarrow> proc \<Rightarrow> (dhmp_server \<Rightarrow> server_node \<Rightarrow> proc) \<Rightarrow> proc" where
  "with_node i p f = with_server p (\<lambda>s.
     if node_ok i then f s (nodes s i) else raise Out_of_bounds p)"

definition set_node :: "int \<Rightarrow> server_node \<Rightarrow> dhmp_server \<Rightarrow> dhmp_server" where
  "set_node i n s = s\<lparr>nodes := (nodes s)(i := n)\<rparr>"

lemma with_client_simps [simp]:
  "client p = Some c \<Longrightarrow> with_client p f = f c"
  "client p = None \<Longrightarrow> with_client p f = raise Null_deref p"
  by (simp_all add: with_client_def)

lemma with_server_simps [simp]:
  "server p = Some s \<Longrightarrow> with_server p f = f s"
  "server p = None \<Longrightarrow> with_server p f = raise Null_deref p"
  by (simp_all add: with_server_def)

lemma with_node_simps [simp]:
  "server p = Some s \<Longrightarrow> node_ok i \<Longrightarrow> with_node i p f = f s (nodes s i)"
  "server p = Some s \<Longrightarrow> \<not> node_ok i \<Longrightarrow> with_node i p f = raise Out_of_bounds p"
  by (simp_all add: with_node_def)

lemma acquire_simps [simp]:
  "mem (acquire r p) = mem p" "sq (acquire r p) = sq p" "rq (acquire r p) = rq p"
  "tick (acquire r p) = tick p" "fault (acquire r p) = fault p" "client (acquire r p) = client p"
  "server (acquire r p) = server p" "trans (acquire r p) = trans p"
  "addr_infos (acquire r p) = addr_infos p" "recv_flag (acquire r p) = recv_flag p"
  "done_flag (acquire r p) = done_flag p" "res_addr (acquire r p) = res_addr p"
  "task_done (acquire r p) = task_done p" "held (acquire r p) = r # held p"
  "mem (release r p) = mem p" "sq (release r p) = sq p" "rq (release r p) = rq p"
  "tick (release r p) = tick p" "fault (release r p) = fault p" "client (release r p) = client p"
  "server (release r p) = server p" "trans (release r p) = trans p"
  "addr_infos (release r p) = addr_infos p" "recv_flag (release r p) = recv_flag p"
  "done_flag (release r p) = done_flag p" "res_addr (release r p) = res_addr p"
  "task_done (release r p) = task_done p" "held (release r p) = remove1 r (held p)"
  "ctx_stop (acquire r p) = ctx_stop p" "ctx_stop (release r p) = ctx_stop p"
  "global_log_level (acquire r p) = global_log_level p" "global_log_level (release r p) = global_log_level p"
  by (simp_all add: acquire_def release_def)

lemma raise_simps [simp]:
  "addr_infos (raise f p) = addr_infos p"
  "recv_flag (raise f p) = recv_flag p"
  "done_flag (raise f p) = done_flag p"
  "res_addr (raise f p) = res_addr p"
  "task_done (raise f p) = task_done p"
  "tick (raise f p) = tick p"
  "fault (raise f p) \<noteq> None"
  "fault p = None \<Longrightarrow> fault (raise f p) = Some f"
  "mem (raise f p) = mem p"
  "sq (raise f p) = sq p"
  "client (raise f p) = client p"
  "server (raise f p) = server p"
  "trans (raise f p) = trans p"
  "rq (raise f p) = rq p"
  "held (raise f p) = held p"
  "global_log_level (raise f p) = global_log_level p"
  "ctx_stop (raise f p) = ctx_stop p"
  by (auto simp: raise_def)

end
