(* ===== verification/Messages.thy ===== *)
theory Messages
  imports State
begin

text \<open>
  The message types and the request and response structs of \<open>amper/include/dhmp.h\<close>, each with
  the bytes it occupies when the code copies it with \<open>memcpy\<close> (x86-64 layout, padding
  written as zero).  Every struct is a \<open>codec\<close>, so that reading a request back out of a
  received buffer is one lemma.  Pointers that only travel to be echoed are plain words.
\<close>

section \<open>Message types\<close>

datatype dhmp_msg_type =
    DHMP_MSG_MALLOC_REQUEST | DHMP_MSG_MALLOC_RESPONSE | DHMP_MSG_MALLOC_ERROR
  | DHMP_MSG_FREE_REQUEST | DHMP_MSG_FREE_RESPONSE | DHMP_MSG_SERVER_INFO_REQUEST
  | DHMP_MSG_SERVER_INFO_RESPONSE | DHMP_MSG_CLOSE_CONNECTION | DHMP_MSG_SEND_REQUEST
  | DHMP_MSG_SEND_RESPONSE | DHMP_MSG_SEND2_REQUEST | DHMP_MSG_SEND2_RESPONSE
  | DHMP_MSG_REQADDR1_REQUEST | DHMP_MSG_REQADDR1_RESPONSE | DHMP_MSG_WriteImm_REQUEST
  | DHMP_MSG_WriteImm_RESPONSE | DHMP_MSG_WriteImm2_REQUEST | DHMP_MSG_WriteImm2_RESPONSE
  | DHMP_MSG_WriteImm3_REQUEST | DHMP_MSG_WriteImm3_RESPONSE | DHMP_MSG_Sread_REQUEST
  | DHMP_MSG_Sread_RESPONSE | DHMP_MSG_Write2_REQUEST | DHMP_MSG_Write2_RESPONSE
  | DHMP_MSG_Tailwind_RPC_requeset | DHMP_MSG_Tailwind_RPC_response | DHMP_MSG_DaRPC_requeset
  | DHMP_MSG_DaRPC_response | DHMP_MSG_UD_REQUEST | DHMP_MSG_UD_RESPONSE | DHMP_MSG_herd_RESPONSE
  | DHMP_MSG_pRDMA_WS_RESPONSE | DHMP_MSG_OCTO_REQUEST | DHMP_MSG_OCTO_RESPONSE

text \<open>The enum's numbering is the order of its members.\<close>

definition msg_types :: "dhmp_msg_type list" where
  "msg_types =
   [DHMP_MSG_MALLOC_REQUEST, DHMP_MSG_MALLOC_RESPONSE, DHMP_MSG_MALLOC_ERROR,
    DHMP_MSG_FREE_REQUEST, DHMP_MSG_FREE_RESPONSE, DHMP_MSG_SERVER_INFO_REQUEST,
    DHMP_MSG_SERVER_INFO_RESPONSE, DHMP_MSG_CLOSE_CONNECTION, DHMP_MSG_SEND_REQUEST,
    DHMP_MSG_SEND_RESPONSE, DHMP_MSG_SEND2_REQUEST, DHMP_MSG_SEND2_RESPONSE,
    DHMP_MSG_REQADDR1_REQUEST, DHMP_MSG_REQADDR1_RESPONSE, DHMP_MSG_WriteImm_REQUEST,
    DHMP_MSG_WriteImm_RESPONSE, DHMP_MSG_WriteImm2_REQUEST, DHMP_MSG_WriteImm2_RESPONSE,
    DHMP_MSG_WriteImm3_REQUEST, DHMP_MSG_WriteImm3_RESPONSE, DHMP_MSG_Sread_REQUEST,
    DHMP_MSG_Sread_RESPONSE, DHMP_MSG_Write2_REQUEST, DHMP_MSG_Write2_RESPONSE,
    DHMP_MSG_Tailwind_RPC_requeset, DHMP_MSG_Tailwind_RPC_response, DHMP_MSG_DaRPC_requeset,
    DHMP_MSG_DaRPC_response, DHMP_MSG_UD_REQUEST, DHMP_MSG_UD_RESPONSE, DHMP_MSG_herd_RESPONSE,
    DHMP_MSG_pRDMA_WS_RESPONSE, DHMP_MSG_OCTO_REQUEST, DHMP_MSG_OCTO_RESPONSE]"

fun index_of :: "'a list \<Rightarrow> 'a \<Rightarrow> nat" where
  "index_of [] x = 0"
| "index_of (y # ys) x = (if y = x then 0 else Suc (index_of ys x))"

definition msg_code :: "dhmp_msg_type \<Rightarrow> u32" where
  "msg_code t = of_nat (index_of msg_types t)"

text \<open>The \<open>switch\<close> on a received type: a number outside the enum is no type.\<close>

definition msg_of_code :: "u32 \<Rightarrow> dhmp_msg_type option" where
  "msg_of_code c = (if unat c < length msg_types then Some (msg_types ! unat c) else None)"

lemma index_of_nth: "x \<in> set xs \<Longrightarrow> index_of xs x < length xs \<and> xs ! index_of xs x = x"
  by (induction xs) auto

lemma in_msg_types [simp]: "t \<in> set msg_types"
  by (cases t) (simp_all add: msg_types_def)

lemma length_msg_types [simp]: "length msg_types = 34"
  by (simp add: msg_types_def)

lemma msg_of_code_code [simp]: "msg_of_code (msg_code t) = Some t"
proof -
  have i: "index_of msg_types t < 34" "msg_types ! index_of msg_types t = t"
    using index_of_nth [OF in_msg_types, of t] by simp_all
  then have "unat (msg_code t) = index_of msg_types t"
    by (simp add: msg_code_def unat_of_nat)
  with i show ?thesis by (simp add: msg_of_code_def)
qed

section \<open>Small fields\<close>

text \<open>A \<open>bool\<close> is a \<open>char\<close> (macro of \<open>dhmp.h\<close>); \<open>true\<close> is 1.\<close>

definition put_bool :: "bool \<Rightarrow> byte" where "put_bool b = (if b then 1 else 0)"

lemma put_bool_nonzero [simp]: "put_bool b \<noteq> 0 \<longleftrightarrow> b" "put_bool b = 1 \<longleftrightarrow> b" "put_bool b = 0 \<longleftrightarrow> \<not> b"
  by (auto simp: put_bool_def)

abbreviation pad :: "nat \<Rightarrow> byte list" where "pad n \<equiv> replicate n 0"

text \<open>The 8-byte field at offset \<open>k\<close>.\<close>

definition w64_at :: "nat \<Rightarrow> byte list \<Rightarrow> u64" where
  "w64_at k bs = get64 (take 8 (drop k bs))"

lemma w64_at_append [simp]:
  "length pre = k \<Longrightarrow> w64_at k (pre @ put64 v @ rest) = v"
  by (simp add: w64_at_def)

section \<open>The structs\<close>

record dhmp_mc_request =
  mcq_req_size :: u64
  mcq_addr_info :: addr
  mcq_is_special :: byte
  mcq_mr :: ibv_mr
  mcq_mr2 :: ibv_mr
  mcq_task :: addr

definition put_mc_request :: "dhmp_mc_request \<Rightarrow> byte list" where
  "put_mc_request r = put64 (mcq_req_size r) @ put64 (mcq_addr_info r) @ [mcq_is_special r] @ pad 7
     @ put_mr (mcq_mr r) @ put_mr (mcq_mr2 r) @ put64 (mcq_task r)"

definition get_mc_request :: "byte list \<Rightarrow> dhmp_mc_request" where
  "get_mc_request bs = \<lparr>mcq_req_size = w64_at 0 bs, mcq_addr_info = w64_at 8 bs,
     mcq_is_special = bs ! 16, mcq_mr = get_mr (take 48 (drop 24 bs)),
     mcq_mr2 = get_mr (take 48 (drop 72 bs)), mcq_task = w64_at 120 bs\<rparr>"

interpretation mc_request: codec put_mc_request get_mc_request 128
  by unfold_locales (simp_all add: put_mc_request_def get_mc_request_def w64_at_def nth_append)

record dhmp_mc_response =
  mcr_req_info :: dhmp_mc_request
  mcr_mr :: ibv_mr
  mcr_mr2 :: ibv_mr
  mcr_read_mr :: ibv_mr
  mcr_server_addr :: addr
  mcr_server_addr2 :: addr

definition put_mc_response :: "dhmp_mc_response \<Rightarrow> byte list" where
  "put_mc_response r = put_mc_request (mcr_req_info r) @ put_mr (mcr_mr r) @ put_mr (mcr_mr2 r)
     @ put_mr (mcr_read_mr r) @ put64 (mcr_server_addr r) @ put64 (mcr_server_addr2 r)"

definition get_mc_response :: "byte list \<Rightarrow> dhmp_mc_response" where
  "get_mc_response bs = \<lparr>mcr_req_info = get_mc_request (take 128 bs),
     mcr_mr = get_mr (take 48 (drop 128 bs)), mcr_mr2 = get_mr (take 48 (drop 176 bs)),
     mcr_read_mr = get_mr (take 48 (drop 224 bs)), mcr_server_addr = w64_at 272 bs,
     mcr_server_addr2 = w64_at 280 bs\<rparr>"

interpretation mc_response: codec put_mc_response get_mc_response 288
  by unfold_locales (simp_all add: put_mc_response_def get_mc_response_def w64_at_def)

record dhmp_free_request =
  fq_addr_info :: addr
  fq_mr :: ibv_mr
  fq_dhmp_addr :: addr

definition put_free_request :: "dhmp_free_request \<Rightarrow> byte list" where
  "put_free_request r = put64 (fq_addr_info r) @ put_mr (fq_mr r) @ put64 (fq_dhmp_addr r)"

definition get_free_request :: "byte list \<Rightarrow> dhmp_free_request" where
  "get_free_request bs = \<lparr>fq_addr_info = w64_at 0 bs, fq_mr = get_mr (take 48 (drop 8 bs)),
     fq_dhmp_addr = w64_at 56 bs\<rparr>"

interpretation free_request: codec put_free_request get_free_request 64
  by unfold_locales (simp_all add: put_free_request_def get_free_request_def w64_at_def)

text \<open>\<open>struct dhmp_free_response\<close> is the one pointer \<open>addr_info\<close>.\<close>

record dhmp_Send_request =
  sd_req_size :: u64
  sd_dhmp_addr :: addr
  sd_task :: addr
  sd_local_addr :: addr
  sd_is_write :: byte

definition put_Send_request :: "dhmp_Send_request \<Rightarrow> byte list" where
  "put_Send_request r = put64 (sd_req_size r) @ put64 (sd_dhmp_addr r) @ put64 (sd_task r)
     @ put64 (sd_local_addr r) @ [sd_is_write r] @ pad 7"

definition get_Send_request :: "byte list \<Rightarrow> dhmp_Send_request" where
  "get_Send_request bs = \<lparr>sd_req_size = w64_at 0 bs, sd_dhmp_addr = w64_at 8 bs,
     sd_task = w64_at 16 bs, sd_local_addr = w64_at 24 bs, sd_is_write = bs ! 32\<rparr>"

interpretation Send_request: codec put_Send_request get_Send_request 40
  by unfold_locales (simp_all add: put_Send_request_def get_Send_request_def w64_at_def nth_append)

text \<open>
  Three structs of three words: \<open>dhmp_Send2_request\<close> (size, server address, task),
  \<open>dhmp_TailwindRPC_request\<close> (size, address, task) and the request header shared by
  \<open>dhmp_DaRPC_request\<close> and \<open>dhmp_UD_request\<close> (size, local address array, work).  Their
  responses start with the request.
\<close>

record three_words =
  tw_req_size :: u64
  tw_addr :: addr
  tw_task :: addr

definition put_three_words :: "three_words \<Rightarrow> byte list" where
  "put_three_words r = put64 (tw_req_size r) @ put64 (tw_addr r) @ put64 (tw_task r)"

definition get_three_words :: "byte list \<Rightarrow> three_words" where
  "get_three_words bs = \<lparr>tw_req_size = w64_at 0 bs, tw_addr = w64_at 8 bs, tw_task = w64_at 16 bs\<rparr>"

interpretation three_words: codec put_three_words get_three_words 24
  by unfold_locales (simp_all add: put_three_words_def get_three_words_def w64_at_def)

type_synonym dhmp_Send2_request = three_words
type_synonym dhmp_TailwindRPC_request = three_words
type_synonym dhmp_DaRPC_request = three_words
type_synonym dhmp_UD_request = three_words

record dhmp_DaRPC_response =
  da_req_info :: dhmp_DaRPC_request
  da_write_flag :: u32
  da_batch :: u32

definition put_DaRPC_response :: "dhmp_DaRPC_response \<Rightarrow> byte list" where
  "put_DaRPC_response r = put_three_words (da_req_info r) @ put32 (da_write_flag r) @ put32 (da_batch r)"

definition get_DaRPC_response :: "byte list \<Rightarrow> dhmp_DaRPC_response" where
  "get_DaRPC_response bs = \<lparr>da_req_info = get_three_words (take 24 bs),
     da_write_flag = get32 (take 4 (drop 24 bs)), da_batch = get32 (take 4 (drop 28 bs))\<rparr>"

interpretation DaRPC_response: codec put_DaRPC_response get_DaRPC_response 32
  by unfold_locales (simp_all add: put_DaRPC_response_def get_DaRPC_response_def)

text \<open>
  \<open>dhmp_WriteImm2_request\<close>: type, size, server address, client address, task.
  \<open>dhmp_WriteImm3_request\<close> and \<open>dhmp_Write2_request\<close>: type or \<open>is_new\<close> flag (padded to 8
  bytes), size, address, task.
\<close>

record dhmp_WriteImm2_request =
  wi2_msg_type :: u32
  wi2_req_size :: u64
  wi2_server_addr :: addr
  wi2_client_addr :: addr
  wi2_task :: addr

definition put_WriteImm2_request :: "dhmp_WriteImm2_request \<Rightarrow> byte list" where
  "put_WriteImm2_request r = put32 (wi2_msg_type r) @ pad 4 @ put64 (wi2_req_size r)
     @ put64 (wi2_server_addr r) @ put64 (wi2_client_addr r) @ put64 (wi2_task r)"

definition get_WriteImm2_request :: "byte list \<Rightarrow> dhmp_WriteImm2_request" where
  "get_WriteImm2_request bs = \<lparr>wi2_msg_type = get32 (take 4 bs), wi2_req_size = w64_at 8 bs,
     wi2_server_addr = w64_at 16 bs, wi2_client_addr = w64_at 24 bs, wi2_task = w64_at 32 bs\<rparr>"

interpretation WriteImm2_request: codec put_WriteImm2_request get_WriteImm2_request 40
  by unfold_locales (simp_all add: put_WriteImm2_request_def get_WriteImm2_request_def w64_at_def)

record dhmp_WriteImm3_request =
  wi3_msg_type :: u32
  wi3_req_size :: u64
  wi3_dhmp_addr :: addr
  wi3_task :: addr

definition put_WriteImm3_request :: "dhmp_WriteImm3_request \<Rightarrow> byte list" where
  "put_WriteImm3_request r = put32 (wi3_msg_type r) @ pad 4 @ put64 (wi3_req_size r)
     @ put64 (wi3_dhmp_addr r) @ put64 (wi3_task r)"

definition get_WriteImm3_request :: "byte list \<Rightarrow> dhmp_WriteImm3_request" where
  "get_WriteImm3_request bs = \<lparr>wi3_msg_type = get32 (take 4 bs), wi3_req_size = w64_at 8 bs,
     wi3_dhmp_addr = w64_at 16 bs, wi3_task = w64_at 24 bs\<rparr>"

interpretation WriteImm3_request: codec put_WriteImm3_request get_WriteImm3_request 32
  by unfold_locales (simp_all add: put_WriteImm3_request_def get_WriteImm3_request_def w64_at_def)

record dhmp_Write2_request =
  w2_is_new :: byte
  w2_req_size :: u64
  w2_dhmp_addr :: addr
  w2_task :: addr

definition put_Write2_request :: "dhmp_Write2_request \<Rightarrow> byte list" where
  "put_Write2_request r = [w2_is_new r] @ pad 7 @ put64 (w2_req_size r)
     @ put64 (w2_dhmp_addr r) @ put64 (w2_task r)"

definition get_Write2_request :: "byte list \<Rightarrow> dhmp_Write2_request" where
  "get_Write2_request bs = \<lparr>w2_is_new = bs ! 0, w2_req_size = w64_at 8 bs,
     w2_dhmp_addr = w64_at 16 bs, w2_task = w64_at 24 bs\<rparr>"

interpretation Write2_request: codec put_Write2_request get_Write2_request 32
  by unfold_locales (simp_all add: put_Write2_request_def get_Write2_request_def w64_at_def)

record dhmp_Sread_request =
  sr_req_size :: u64
  sr_task :: addr
  sr_client_mr :: ibv_mr
  sr_server_mr :: ibv_mr

definition put_Sread_request :: "dhmp_Sread_request \<Rightarrow> byte list" where
  "put_Sread_request r = put64 (sr_req_size r) @ put64 (sr_task r) @ put_mr (sr_client_mr r)
     @ put_mr (sr_server_mr r)"

definition get_Sread_request :: "byte list \<Rightarrow> dhmp_Sread_request" where
  "get_Sread_request bs = \<lparr>sr_req_size = w64_at 0 bs, sr_task = w64_at 8 bs,
     sr_client_mr = get_mr (take 48 (drop 16 bs)), sr_server_mr = get_mr (take 48 (drop 64 bs))\<rparr>"

interpretation Sread_request: codec put_Sread_request get_Sread_request 112
  by unfold_locales (simp_all add: put_Sread_request_def get_Sread_request_def w64_at_def)

record dhmp_ReqAddr1_request =
  ra_req_size :: u64
  ra_dhmp_addr :: addr
  ra_task :: addr
  ra_cmpflag :: addr

definition put_ReqAddr1_request :: "dhmp_ReqAddr1_request \<Rightarrow> byte list" where
  "put_ReqAddr1_request r = put64 (ra_req_size r) @ put64 (ra_dhmp_addr r) @ put64 (ra_task r)
     @ put64 (ra_cmpflag r)"

definition get_ReqAddr1_request :: "byte list \<Rightarrow> dhmp_ReqAddr1_request" where
  "get_ReqAddr1_request bs = \<lparr>ra_req_size = w64_at 0 bs, ra_dhmp_addr = w64_at 8 bs,
     ra_task = w64_at 16 bs, ra_cmpflag = w64_at 24 bs\<rparr>"

interpretation ReqAddr1_request: codec put_ReqAddr1_request get_ReqAddr1_request 32
  by unfold_locales (simp_all add: put_ReqAddr1_request_def get_ReqAddr1_request_def w64_at_def)

record dhmp_octo_request =
  oc_req_size :: u64
  oc_server_addr :: addr
  oc_client_addr :: addr
  oc_task :: addr
  oc_flag_write :: byte

definition put_octo_request :: "dhmp_octo_request \<Rightarrow> byte list" where
  "put_octo_request r = put64 (oc_req_size r) @ put64 (oc_server_addr r) @ put64 (oc_client_addr r)
     @ put64 (oc_task r) @ [oc_flag_write r] @ pad 7"

definition get_octo_request :: "byte list \<Rightarrow> dhmp_octo_request" where
  "get_octo_request bs = \<lparr>oc_req_size = w64_at 0 bs, oc_server_addr = w64_at 8 bs,
     oc_client_addr = w64_at 16 bs, oc_task = w64_at 24 bs, oc_flag_write = bs ! 32\<rparr>"

interpretation octo_request: codec put_octo_request get_octo_request 40
  by unfold_locales (simp_all add: put_octo_request_def get_octo_request_def w64_at_def nth_append)

end
