(* ===== verification/Samples.thy ===== *)
theory Samples
  imports State
begin

text \<open>
  Concrete states on which the witnesses evaluate the theorems: a fresh client process, a fresh
  server process, a connected transport, and an environment in which every call succeeds.
\<close>

definition zero_mr :: ibv_mr where
  "zero_mr = \<lparr>mr_context = 0, mr_pd = 0, mr_addr = 0, mr_length = 0, mr_handle = 0, mr_lkey = 0,
     mr_rkey = 0\<rparr>"

definition mr_at :: "addr \<Rightarrow> u64 \<Rightarrow> ibv_mr" where
  "mr_at a n = zero_mr\<lparr>mr_addr := a, mr_length := n, mr_lkey := 7, mr_rkey := 9\<rparr>"

definition slots0 :: ring_slots where
  "slots0 = \<lparr>rs_S_mr = zero_mr, rs_C_mr = zero_mr, rs_Scur = 0, rs_Ccur = 0,
     rs_available = (\<lambda>_. 1), rs_size = 0, rs_local_mr = (\<lambda>_. zero_mr), rs_read_mr = zero_mr\<rparr>"

definition client0 :: dhmp_client where
  "client0 = \<lparr>connect_trans = Some 0, addr_info_ht = (\<lambda>_. []), work_list = [], cas_mr = zero_mr,
     per_ops_mr = zero_mr, per_ops_mr_addr = 0, per_ops_mr2 = zero_mr, local_mr = zero_mr, read_mr_for_SFlush = zero_mr,
     count_post_send_for_SFlush = 0, para_request_num = 0, ringbuffer_mr = zero_mr,
     ringbuffer_length = 0, ringbuffer_cur = 0, octo_C_mr = zero_mr, octo_local_mr = zero_mr,
     octo_S_mr = zero_mr, L5_mailbox_mr = zero_mr, L5_num_1_addr = 0, L5_message_mr = zero_mr,
     L5_local_smr1 = zero_mr, Tailwind_mr = zero_mr, RFP_write_mr = zero_mr, RFP_read_mr = zero_mr,
     RFP_time = 0, RFP_local_smr = zero_mr, scale_Sreq_mr = zero_mr, scale_Creq_mr = zero_mr,
     scale_Cdata_mr = zero_mr, scale_context_swith = 0, FaRM = slots0, herd = slots0, pRDMA = slots0,
     pRDMA_work = (\<lambda>_. 0)\<rparr>"

definition node0 :: server_node where
  "node0 = \<lparr>area_list = [], node_trans = None, L5m_mr = zero_mr, L5m_addr = 0, L5m_C_mr = zero_mr,
     L5m_reply_mr = None, L5m_is_new = False, Tw_mr = zero_mr, Tw_addr = 0,
     Tw_flush2_mr = zero_mr, RFPs_write_mr = zero_mr, RFPs_read_mr = zero_mr, RFPs_time = 0,
     RFPs_size = 0, Sc_Sreq_mr = zero_mr, Sc_Sdata_mr = zero_mr, Sc_Cdata_mr = zero_mr,
     Sc_Slocal_mr = None, Sc_size = 0, Fa_C_mr = zero_mr, Fa_S_mr = zero_mr,
     Fa_local_mr = zero_mr, Fa_size = 0, He_S_mr = zero_mr, He_size = 0, Oc_C_mr = zero_mr,
     Oc_local_mr = zero_mr, Oc_S_mr = zero_mr\<rparr>"

definition server0 :: dhmp_server where
  "server0 = \<lparr>nodes = (\<lambda>_. node0), client_list = [], cur_connections = 0, client_num = 0,
     nvm_total_size = 0, srv_nvm_used_size = 0, ringbufferAddr = 0, cur_addr = 0,
     srv_rdma_trans = 0, model_C_new_msg = False, L5_mailbox_addr = 0, L5_mailbox = zero_mr,
     srv_read_mr = zero_mr,
     tasklist = (\<lambda>_. \<lparr>tl_rdma_trans = None, tl_length = 0, tl_dhmp_addr = 0, tl_cmpflag = 0\<rparr>),
     listen_trans = None, DaRPC_dcq = (\<lambda>_. None), DaRPC_dcq_count = (\<lambda>_. 0)\<rparr>"

definition trans0 :: dhmp_transport where
  "trans0 = \<lparr>node_id = 0, trans_state = DHMP_TRANSPORT_STATE_CONNECTED,
     send_mr = \<lparr>cur_pos = 0, dmr_addr = 0x10000000, dmr_mr = mr_at 0x10000000 0x20000000\<rparr>,
     recv_mr = \<lparr>cur_pos = 0, dmr_addr = 0x40000000, dmr_mr = mr_at 0x40000000 0x20000000\<rparr>,
     send_recv_size = 0x20000000, is_poll_qp = False, nvm_used_size = 0, peer_ip = 0,
     cm_id = None, event_channel = None, qp = None, dcq = None, device = None, tr_ah = None, tr_qp_num = 0, tr_qkey = 0\<rparr>"

definition proc0 :: proc where
  "proc0 = \<lparr>mem = (\<lambda>_. 0), sq = [], rq = [], held = [], tick = 0, fault = None, client = None,
     server = None, trans = (\<lambda>_. trans0), addr_infos = Map.empty, recv_flag = (\<lambda>_. False),
     done_flag = (\<lambda>_. False), res_addr = (\<lambda>_. 0), task_done = (\<lambda>_. False), ctx_stop = False, global_log_level = 1\<rparr>"

definition client_proc :: proc where "client_proc = proc0\<lparr>client := Some client0\<rparr>"
definition server_proc :: proc where "server_proc = proc0\<lparr>server := Some server0\<rparr>"

definition ext_ok :: ext where
  "ext_ok = \<lparr>ext_post = (\<lambda>_ _. True), ext_post_recv = (\<lambda>_. True),
     ext_reg = (\<lambda>t a n. Some (mr_at a n)), ext_malloc = (\<lambda>t. of_nat (Suc t) * 0x1000),
     ext_nvm = (\<lambda>t n. of_nat (Suc t) * 0x100000000), ext_obj = Some, ext_rc = (\<lambda>_. 0), ext_junk = (\<lambda>_. 0), ext_qpn = (\<lambda>_. 5),
     ext_qkey = (\<lambda>_. 0x11111111)\<rparr>"

lemmas samples = zero_mr_def mr_at_def slots0_def client0_def node0_def server0_def trans0_def
  proc0_def client_proc_def server_proc_def ext_ok_def

lemma ext_ok_simps [simp]:
  "ext_post ext_ok t w" "ext_post_recv ext_ok t" "ext_obj ext_ok t = Some t" "ext_rc ext_ok t = 0"
  "ext_reg ext_ok t a n = Some (mr_at a n)"
  "ext_malloc ext_ok t = of_nat (Suc t) * 0x1000"
  "ext_nvm ext_ok t n = of_nat (Suc t) * 0x100000000"
  by (simp_all add: ext_ok_def del: of_nat_Suc)

lemma sample_procs [simp]:
  "client client_proc = Some client0" "server client_proc = None" "trans client_proc = (\<lambda>_. trans0)"
  "client server_proc = None" "server server_proc = Some server0" "trans server_proc = (\<lambda>_. trans0)"
  "fault client_proc = None" "fault server_proc = None" "tick client_proc = 0" "tick server_proc = 0"
  "mem client_proc = (\<lambda>_. 0)" "mem server_proc = (\<lambda>_. 0)" "sq client_proc = []" "sq server_proc = []"
  "trans_state trans0 = DHMP_TRANSPORT_STATE_CONNECTED"
  "mr_addr (mr_at a n) = a" "mr_length (mr_at a n) = n"
  by (simp_all add: samples)

text \<open>The effect of delivering the last posted request of \<open>p\<close> into the memory of \<open>ps\<close>.\<close>

definition deliver_last :: "proc \<Rightarrow> proc \<Rightarrow> proc" where
  "deliver_last p ps = (let w = snd (last (sq p))
     in ps\<lparr>mem := mem_write (mem ps) (wr_remote_addr w) (wr_payload (mem p) w)\<rparr>)"

lemma deliver_last_ok:
  assumes "sq p = xs @ [(h, w)]" "length (wr_payload (mem p) w) \<le> 2 ^ 64"
  shows "delivered (mem p) w (mem (deliver_last p ps))" "server (deliver_last p ps) = server ps"
    and "client (deliver_last p ps) = client ps" "sq (deliver_last p ps) = sq ps" "tick (deliver_last p ps) = tick ps"
  using assms delivered_by_write by (simp_all add: deliver_last_def Let_def)

text \<open>A process whose receive buffer at 0x40000000 holds what the last request of \<open>p\<close> gathered.\<close>

definition received :: "proc \<Rightarrow> proc \<Rightarrow> proc" where
  "received p q = q\<lparr>mem := mem_write (\<lambda>_. 0) 0x40000000 (wr_payload (mem p) (snd (last (sq p))))\<rparr>"

lemma received_simps [simp]:
  "trans (received p q) = trans q" "tick (received p q) = tick q" "sq (received p q) = sq q" "client (received p q) = client q"
  by (simp_all add: received_def)

lemma received_ok:
  assumes "sq p = xs @ [(h, w)]" "length (wr_payload (mem p) w) \<le> 2 ^ 64"
  shows "mem_read (mem (received p q)) 0x40000000 (length (wr_payload (mem p) w)) = wr_payload (mem p) w"
  using assms by (simp add: received_def mem_read_write_same)

end
