(* ===== verification/Tasks.thy ===== *)
theory Tasks
  imports Messages Samples
begin

text \<open>
  Tasks and the two-sided message path: \<open>dhmp_task.c\<close>, and from \<open>dhmp_transport.c\<close> the memory
  helpers, \<open>dhmp_create_smr_per_ops\<close>, \<open>dhmp_post_send\<close>, \<open>amper_ud_post_send\<close>,
  \<open>dhmp_post_recv\<close>, \<open>dhmp_post_all_recv\<close>, and the parsing of a received message in
  \<open>dhmp_wc_success_handler\<close>.  The lemmas show that the send ring never leaves its region, that
  parsing inverts framing, and where the receive buffers lie.
\<close>

section \<open>Posting\<close>

text \<open>The handlers that check the result of \<open>ibv_post_send\<close> leave the process with \<open>exit(-1)\<close>.\<close>

definition post_or_exit :: "ext \<Rightarrow> nat \<Rightarrow> ibv_send_wr \<Rightarrow> proc \<Rightarrow> proc" where
  "post_or_exit x h w p =
     (let (ok, p) = ask (\<lambda>t. ext_post x t w) p
      in if ok then p\<lparr>sq := sq p @ [(h, w)]\<rparr> else raise Exit_minus_1 p)"

text \<open>The handlers that ignore it go on.\<close>

definition post_unchecked :: "ext \<Rightarrow> nat \<Rightarrow> ibv_send_wr \<Rightarrow> proc \<Rightarrow> proc" where
  "post_unchecked x h w p =
     (let (ok, p) = ask (\<lambda>t. ext_post x t w) p
      in if ok then p\<lparr>sq := sq p @ [(h, w)]\<rparr> else p)"

definition amper_post_write ::
  "ext \<Rightarrow> nat \<Rightarrow> addr \<Rightarrow> ibv_mr \<Rightarrow> addr \<Rightarrow> u32 \<Rightarrow> u32 \<Rightarrow> bool \<Rightarrow> proc \<Rightarrow> proc" where
  "amper_post_write x h task rmr sa slen slkey is_inline =
     post_or_exit x h (write_wr task rmr sa slen slkey is_inline)"

definition amper_post_read ::
  "ext \<Rightarrow> nat \<Rightarrow> addr \<Rightarrow> ibv_mr \<Rightarrow> addr \<Rightarrow> u32 \<Rightarrow> u32 \<Rightarrow> bool \<Rightarrow> proc \<Rightarrow> proc" where
  "amper_post_read x h task rmr sa slen slkey is_inline =
     post_or_exit x h (read_wr task rmr sa slen slkey is_inline)"

lemma post_simps [simp]:
  "mem (post_or_exit x h w p) = mem p"
  "client (post_or_exit x h w p) = client p"
  "server (post_or_exit x h w p) = server p"
  "trans (post_or_exit x h w p) = trans p"
  "ext_post x (tick p) w \<Longrightarrow> sq (post_or_exit x h w p) = sq p @ [(h, w)]"
  "ext_post x (tick p) w \<Longrightarrow> fault (post_or_exit x h w p) = fault p"
  "\<not> ext_post x (tick p) w \<Longrightarrow> sq (post_or_exit x h w p) = sq p"
  "mem (post_unchecked x h w p) = mem p"
  "client (post_unchecked x h w p) = client p"
  "server (post_unchecked x h w p) = server p"
  "trans (post_unchecked x h w p) = trans p"
  "fault (post_unchecked x h w p) = fault p"
  "addr_infos (post_unchecked x h w p) = addr_infos p"
  "recv_flag (post_unchecked x h w p) = recv_flag p"
  "done_flag (post_unchecked x h w p) = done_flag p"
  "sq (post_unchecked x h w p) = sq p @ (if ext_post x (tick p) w then [(h, w)] else [])"
  by (simp_all add: post_or_exit_def post_unchecked_def ask_def raise_def)

section \<open>Memory\<close>

text \<open>
  \<open>nvm_malloc\<close> clears the block before anything checks the result: a failed allocation of a
  non-empty block is a write through NULL.
\<close>

definition nvm_malloc :: "ext \<Rightarrow> u64 \<Rightarrow> proc \<Rightarrow> addr \<times> proc" where
  "nvm_malloc x sz p =
     (let (a, p) = ask (\<lambda>t. ext_nvm x t sz) p
      in if a = 0 then (a, if sz = 0 then p else raise Null_deref p)
         else (a, acquire (R_nvm a) (p\<lparr>mem := mem_write (mem p) a (replicate (unat sz) 0)\<rparr>)))"

definition nvm_free :: "addr \<Rightarrow> u64 \<Rightarrow> proc \<Rightarrow> proc" where
  "nvm_free a sz p = release (R_nvm a) p"

text \<open>A \<open>size_t\<close> passed through an \<open>int\<close> parameter: truncated, then sign-extended.\<close>

definition through_int :: "u64 \<Rightarrow> u64" where
  "through_int n = scast (ucast n :: u32)"

lemma through_int_small:
  assumes "unat n < 2 ^ 31"
  shows "through_int n = n"
proof -
  have "uint n < 2 ^ 31" using assms by (metis of_nat_less_iff of_nat_numeral of_nat_power uint_nat)
  moreover have "- (2 ^ 31) \<le> uint n" by (rule order_trans [OF _ uint_ge_0]) simp
  ultimately have "signed_take_bit 31 (uint n) = uint n" by (intro signed_take_bit_int_eq_self)
  moreover have "sint (ucast n :: u32) = signed_take_bit 31 (uint n)"
    by (simp add: sint_uint unsigned_ucast_eq signed_take_bit_take_bit)
  ultimately have "sint (ucast n :: u32) = uint n" by simp
  then show ?thesis by (simp add: through_int_def scast_eq)
qed

text \<open>
  \<open>dhmp_create_smr_per_ops\<close>: the pointer to the \<open>dhmp_send_mr\<close> and the region in it, \<open>None\<close> where
  the C function returns NULL.  Its \<open>length\<close> is an \<open>int\<close>.
\<close>

definition dhmp_create_smr_per_ops :: "ext \<Rightarrow> addr \<Rightarrow> u64 \<Rightarrow> proc \<Rightarrow> (addr \<times> ibv_mr) option \<times> proc" where
  "dhmp_create_smr_per_ops x a len p =
     (let (res, p) = ask (ext_malloc x) p
      in if res = 0 then (None, p)
         else let (mr, p) = ask (\<lambda>t. ext_reg x t a (through_int len)) p
              in case mr of None \<Rightarrow> (None, p)
                 | Some r \<Rightarrow> (Some (res, r), acquire (R_mr r) (acquire (R_heap res) p)))"

text \<open>A \<open>char\<close> in an expression of type \<open>size_t\<close>: sign-extended.\<close>

definition size_of_char :: "byte \<Rightarrow> u64" where
  "size_of_char c = scast c"

lemma size_of_char_nat: "0 \<le> sint c \<Longrightarrow> size_of_char c = of_nat (nat (sint c))"
proof -
  assume "0 \<le> sint c"
  then have k: "of_nat (nat (sint c)) = (of_int (sint c) :: u64)" by simp
  show ?thesis by (simp only: size_of_char_def scast_eq k)
qed

lemma size_of_char_1 [simp]: "size_of_char 1 = 1"
  by (simp add: size_of_char_def)

section \<open>Tasks (\<open>dhmp_task.c\<close>)\<close>

record dhmp_task =
  tk_ptr :: addr
  tk_addr :: addr
  tk_length :: u64
  tk_lkey :: u32

text \<open>
  \<open>SINGLE_NORM_RECV_REGION\<close> is \<open>1*1024*1024\<close>, \<open>SEND_REGION_SIZE\<close> and \<open>RECV_REGION_SIZE\<close> are
  \<open>512*1024*1024\<close>.
\<close>

abbreviation SINGLE_NORM_RECV_REGION :: u64 where "SINGLE_NORM_RECV_REGION \<equiv> 0x100000"
abbreviation SEND_REGION_SIZE :: u64 where "SEND_REGION_SIZE \<equiv> 0x20000000"
abbreviation RECV_REGION_SIZE :: u64 where "RECV_REGION_SIZE \<equiv> 0x20000000"

definition dhmp_recv_task_create :: "ext \<Rightarrow> nat \<Rightarrow> addr \<Rightarrow> proc \<Rightarrow> dhmp_task option \<times> proc" where
  "dhmp_recv_task_create x h a p =
     (let (tp, p) = ask (ext_malloc x) p
      in if tp = 0 then (None, p)
         else (Some \<lparr>tk_ptr = tp, tk_addr = a, tk_length = SINGLE_NORM_RECV_REGION,
                     tk_lkey = mr_lkey (dmr_mr (recv_mr (trans p h)))\<rparr>, acquire (R_heap tp) p))"

text \<open>The message header: \<open>sizeof(enum dhmp_msg_type) + sizeof(size_t)\<close>.\<close>

abbreviation msg_header :: u64 where "msg_header \<equiv> 12"

definition frame :: "dhmp_msg_type \<Rightarrow> byte list \<Rightarrow> byte list" where
  "frame ty payload = put32 (msg_code ty) @ put64 (of_nat (length payload)) @ payload"

definition dhmp_send_task_create ::
  "ext \<Rightarrow> nat \<Rightarrow> dhmp_msg_type \<Rightarrow> byte list \<Rightarrow> proc \<Rightarrow> dhmp_task option \<times> proc" where
  "dhmp_send_task_create x h ty payload p =
     (let (tp, p) = ask (ext_malloc x) p
      in if tp = 0 then (None, p)
         else
           let s = send_mr (trans p h);
               data_size = of_nat (length payload);
               len = msg_header + data_size;
               pos = (if SEND_REGION_SIZE < cur_pos s + len then 0 else cur_pos s);
               a = dmr_addr s + pos;
               m = mem_write (mem p) a (put32 (msg_code ty));
               m = mem_write m (a + 4) (put64 data_size);
               m = mem_write m (a + 4 + 8) payload;
               t = (trans p h)\<lparr>send_mr := s\<lparr>cur_pos := pos + len\<rparr>\<rparr>
           in (Some \<lparr>tk_ptr = tp, tk_addr = a, tk_length = len, tk_lkey = mr_lkey (dmr_mr s)\<rparr>,
               acquire (R_heap tp) (p\<lparr>mem := m, trans := (trans p)(h := t)\<rparr>)))"

text \<open>
  A read or write task made with a NULL \<open>smr\<close> keeps what \<open>malloc\<close> left in the address and key of
  its \<open>sge\<close>.
\<close>

definition dhmp_read_task_create ::
  "ext \<Rightarrow> ibv_mr option \<Rightarrow> u64 \<Rightarrow> proc \<Rightarrow> dhmp_task option \<times> proc" where
  "dhmp_read_task_create x smr len p =
     (let (tp, p) = ask (ext_malloc x) p
      in if tp = 0 then (None, p)
         else
           let p = acquire (R_heap tp) (p\<lparr>task_done := (task_done p)(tp := False)\<rparr>)
           in case smr of
                None \<Rightarrow> (Some \<lparr>tk_ptr = tp, tk_addr = ext_junk x (tick p), tk_length = through_int len,
                             tk_lkey = ucast (ext_junk x (tick p))\<rparr>, p)
              | Some r \<Rightarrow> (Some \<lparr>tk_ptr = tp, tk_addr = mr_addr r, tk_length = through_int len,
                                tk_lkey = mr_lkey r\<rparr>, p))"

definition dhmp_write_task_create ::
  "ext \<Rightarrow> ibv_mr option \<Rightarrow> u64 \<Rightarrow> proc \<Rightarrow> dhmp_task option \<times> proc" where
  "dhmp_write_task_create x smr len p =
     (let (tp, p) = ask (ext_malloc x) p
      in if tp = 0 then (None, p)
         else
           let p = acquire (R_heap tp) (p\<lparr>task_done := (task_done p)(tp := False)\<rparr>)
           in case smr of
                None \<Rightarrow> (Some \<lparr>tk_ptr = tp, tk_addr = ext_junk x (tick p), tk_length = through_int len,
                             tk_lkey = ucast (ext_junk x (tick p))\<rparr>, p)
              | Some r \<Rightarrow> (Some \<lparr>tk_ptr = tp, tk_addr = mr_addr r, tk_length = through_int len,
                                tk_lkey = mr_lkey r\<rparr>, p))"

section \<open>Sending a message\<close>

definition send_wr_of :: "dhmp_task \<Rightarrow> ibv_send_wr" where
  "send_wr_of tk = rdma_wr IBV_WR_SEND (tk_ptr tk) 0 0 (tk_addr tk) (ucast (tk_length tk)) (tk_lkey tk)"

text \<open>
  \<open>dhmp_post_send\<close> ends with an update of \<open>client->count_post_send_for_SFlush\<close>, whichever side
  runs it.  The result is the task, \<open>None\<close> where the C function returns no value.
\<close>

definition dhmp_post_send ::
  "ext \<Rightarrow> nat \<Rightarrow> dhmp_msg_type \<Rightarrow> byte list \<Rightarrow> proc \<Rightarrow> addr option \<times> proc" where
  "dhmp_post_send x h ty payload p =
     (if trans_state (trans p h) \<noteq> DHMP_TRANSPORT_STATE_CONNECTED then (None, p)
      else case dhmp_send_task_create x h ty payload p of
        (None, p) \<Rightarrow> (None, p)
      | (Some tk, p) \<Rightarrow>
          let p = post_unchecked x h (send_wr_of tk) p
          in (Some (tk_ptr tk),
              with_client p (\<lambda>c. p\<lparr>client := Some (c\<lparr>count_post_send_for_SFlush :=
                (count_post_send_for_SFlush c + 1) mod 512\<rparr>)\<rparr>)))"

text \<open>
  The datagram variant sends the number of the local queue pair, in network byte order, as
  immediate data.
\<close>

definition htonl :: "u32 \<Rightarrow> u32" where
  "htonl w = get32 (rev (put32 w))"

definition amper_ud_post_send ::
  "ext \<Rightarrow> nat \<Rightarrow> dhmp_msg_type \<Rightarrow> byte list \<Rightarrow> proc \<Rightarrow> proc" where
  "amper_ud_post_send x h ty payload p =
     (if trans_state (trans p h) \<noteq> DHMP_TRANSPORT_STATE_CONNECTED then p
      else case dhmp_send_task_create x h ty payload p of
        (None, p) \<Rightarrow> p
      | (Some tk, p) \<Rightarrow>
          post_unchecked x h ((send_wr_of tk)\<lparr>wr_opcode := IBV_WR_SEND_WITH_IMM,
            wr_ud_ah := tr_ah (trans p h), wr_ud_remote_qpn := tr_qp_num (trans p h), wr_ud_remote_qkey := tr_qkey (trans p h),
            wr_imm_data := htonl (ext_qpn x h)\<rparr>) p)"

text \<open>The handlers choose between the two with \<open>#ifdef UD\<close>.\<close>

definition post_msg :: "build \<Rightarrow> ext \<Rightarrow> nat \<Rightarrow> dhmp_msg_type \<Rightarrow> byte list \<Rightarrow> proc \<Rightarrow> proc" where
  "post_msg b x h ty payload p =
     (if UD b then amper_ud_post_send x h ty payload p else snd (dhmp_post_send x h ty payload p))"

text \<open>What sending leaves alone, whichever way it ends.\<close>

lemma create_task_frames [simp]:
  "addr_infos (snd (dhmp_send_task_create x h ty payload p)) = addr_infos p"
  "recv_flag (snd (dhmp_send_task_create x h ty payload p)) = recv_flag p"
  "done_flag (snd (dhmp_send_task_create x h ty payload p)) = done_flag p"
  "client (snd (dhmp_send_task_create x h ty payload p)) = client p"
  "server (snd (dhmp_send_task_create x h ty payload p)) = server p"
  "res_addr (snd (dhmp_send_task_create x h ty payload p)) = res_addr p"
  "sq (snd (dhmp_send_task_create x h ty payload p)) = sq p"
  "fault (snd (dhmp_send_task_create x h ty payload p)) = fault p"
  "trans_state (trans (snd (dhmp_send_task_create x h ty payload p)) g) = trans_state (trans p g)"
  by (auto simp: dhmp_send_task_create_def ask_def Let_def)

lemma post_frames [simp]:
  "addr_infos (post_or_exit x h w p) = addr_infos p"
  "recv_flag (post_or_exit x h w p) = recv_flag p"
  "done_flag (post_or_exit x h w p) = done_flag p"
  "held (post_or_exit x h w p) = held p"
  "task_done (post_or_exit x h w p) = task_done p"
  "held (post_unchecked x h w p) = held p"
  "task_done (post_unchecked x h w p) = task_done p"
  "res_addr (post_unchecked x h w p) = res_addr p"
  "res_addr (post_or_exit x h w p) = res_addr p"
  by (simp_all add: post_or_exit_def post_unchecked_def ask_def)

lemma dhmp_post_send_frames [simp]:
  "addr_infos (snd (dhmp_post_send x h ty payload p)) = addr_infos p"
  "recv_flag (snd (dhmp_post_send x h ty payload p)) = recv_flag p"
  "done_flag (snd (dhmp_post_send x h ty payload p)) = done_flag p"
  "server (snd (dhmp_post_send x h ty payload p)) = server p"
  "res_addr (snd (dhmp_post_send x h ty payload p)) = res_addr p"
  "trans_state (trans (snd (dhmp_post_send x h ty payload p)) g) = trans_state (trans p g)"
  using create_task_frames [of x h ty payload p]
  by (auto simp: dhmp_post_send_def with_client_def Let_def
      split: prod.splits option.splits simp del: create_task_frames)

lemma dhmp_post_send_client:
  "client (snd (dhmp_post_send x h ty payload p)) = client p
   \<or> (\<exists>c. client p = Some c \<and> client (snd (dhmp_post_send x h ty payload p))
        = Some (c\<lparr>count_post_send_for_SFlush := (count_post_send_for_SFlush c + 1) mod 512\<rparr>))"
  using create_task_frames(4) [of x h ty payload p]
  by (cases "client p"; auto simp: dhmp_post_send_def with_client_def Let_def
      split: prod.splits option.splits simp del: create_task_frames)

lemma amper_ud_post_send_frames [simp]:
  "addr_infos (amper_ud_post_send x h ty payload p) = addr_infos p"
  "recv_flag (amper_ud_post_send x h ty payload p) = recv_flag p"
  "done_flag (amper_ud_post_send x h ty payload p) = done_flag p"
  "client (amper_ud_post_send x h ty payload p) = client p"
  "server (amper_ud_post_send x h ty payload p) = server p"
  "res_addr (amper_ud_post_send x h ty payload p) = res_addr p"
  "fault (amper_ud_post_send x h ty payload p) = fault p"
  "trans_state (trans (amper_ud_post_send x h ty payload p) g) = trans_state (trans p g)"
  using create_task_frames [of x h ty payload p]
  by (auto simp: amper_ud_post_send_def split: prod.splits option.splits simp del: create_task_frames)

lemma post_msg_frames [simp]:
  "addr_infos (post_msg b x h ty payload p) = addr_infos p"
  "recv_flag (post_msg b x h ty payload p) = recv_flag p"
  "done_flag (post_msg b x h ty payload p) = done_flag p"
  "server (post_msg b x h ty payload p) = server p"
  "res_addr (post_msg b x h ty payload p) = res_addr p"
  "trans_state (trans (post_msg b x h ty payload p) g) = trans_state (trans p g)"
  by (simp_all add: post_msg_def)

lemma post_msg_client_cases:
  obtains "client (post_msg b x h ty payload p) = client p"
  | c where "client p = Some c" "client (post_msg b x h ty payload p)
        = Some (c\<lparr>count_post_send_for_SFlush := (count_post_send_for_SFlush c + 1) mod 512\<rparr>)"
  using dhmp_post_send_client [of x h ty payload p] by (cases "UD b") (auto simp: post_msg_def)

lemma post_msg_table [simp]:
  "map_option addr_info_ht (client (post_msg b x h ty payload p)) = map_option addr_info_ht (client p)"
  by (rule post_msg_client_cases [of b x h ty payload p]) auto

section \<open>Receiving\<close>

text \<open>A received message, as \<open>dhmp_wc_success_handler\<close> reads it from the buffer.\<close>

record dhmp_msg =
  msg_type :: "dhmp_msg_type option"
  data_size :: u64
  msg_data :: addr

definition recv_msg :: "mem \<Rightarrow> addr \<Rightarrow> dhmp_msg" where
  "recv_msg m cxt = \<lparr>msg_type = msg_of_code (get32 (mem_read m cxt 4)),
     data_size = load64 m (cxt + 4), msg_data = cxt + 4 + 8\<rparr>"

text \<open>\<open>sizeof(struct ibv_grh)\<close> is 40.\<close>

abbreviation sizeof_grh :: u64 where "sizeof_grh \<equiv> 40"

definition dhmp_post_recv :: "ext \<Rightarrow> nat \<Rightarrow> addr \<Rightarrow> proc \<Rightarrow> proc" where
  "dhmp_post_recv x h a p =
     (if DHMP_TRANSPORT_STATE_CONNECTED < trans_state (trans p h) then p
      else case dhmp_recv_task_create x h a p of
        (None, p) \<Rightarrow> p
      | (Some tk, p) \<Rightarrow>
          let (ok, p) = ask (ext_post_recv x) p
          in if ok then p\<lparr>rq := rq p @ [(h, tk_addr tk, tk_length tk + sizeof_grh)]\<rparr> else p)"

definition dhmp_post_all_recv :: "ext \<Rightarrow> nat \<Rightarrow> proc \<Rightarrow> proc" where
  "dhmp_post_all_recv x h p =
     fold (\<lambda>i p. dhmp_post_recv x h (dmr_addr (recv_mr (trans p h)) + of_nat i * SINGLE_NORM_RECV_REGION) p)
       [0..<unat (RECV_REGION_SIZE div SINGLE_NORM_RECV_REGION)] p"

section \<open>Framing and parsing\<close>

lemma length_frame [simp]: "length (frame ty payload) = 12 + length payload"
  by (simp add: frame_def)

lemma recv_msg_frame:
  assumes "mem_read m a (length (frame ty payload)) = frame ty payload"
    and "length payload < 2 ^ 64"
  shows "recv_msg m a = \<lparr>msg_type = Some ty, data_size = of_nat (length payload), msg_data = a + 12\<rparr>"
    and "mem_read m (a + 12) (length payload) = payload"
proof -
  have r: "mem_read m (a + of_nat k) n = take n (drop k (frame ty payload))"
    if "k + n \<le> 12 + length payload" for k n
    using assms(1) that by (intro mem_read_sub) auto
  have "mem_read m a 4 = put32 (msg_code ty)" "mem_read m (a + 4) 8 = put64 (of_nat (length payload))"
    using r [of 0 4] r [of 4 8] by (simp_all add: frame_def)
  then show "recv_msg m a = \<lparr>msg_type = Some ty, data_size = of_nat (length payload), msg_data = a + 12\<rparr>"
    by (simp add: recv_msg_def add.assoc)
  show "mem_read m (a + 12) (length payload) = payload"
    using r [of 12 "length payload"] by (simp add: frame_def)
qed

text \<open>The three copies of \<open>dhmp_send_task_create\<close> lay one frame down.\<close>

lemma frame_stores:
  assumes "length payload < 2 ^ 63"
  shows "mem_write (mem_write (mem_write m a (put32 (msg_code ty))) (a + 4)
           (put64 (of_nat (length payload)))) (a + 4 + 8) payload
         = mem_write m a (frame ty payload)"
proof -
  have "mem_write (mem_write m a (put32 (msg_code ty))) (a + 4) (put64 (of_nat (length payload)))
        = mem_write m a (put32 (msg_code ty) @ put64 (of_nat (length payload)))"
    by (intro mem_write_append) auto
  moreover have "mem_write (mem_write m a (put32 (msg_code ty) @ put64 (of_nat (length payload))))
      (a + 4 + 8) payload = mem_write m a (frame ty payload)"
    using assms mem_write_append [of "a + 4 + 8" a "put32 (msg_code ty) @ put64 (of_nat (length payload))" payload m]
    by (simp add: frame_def add.assoc)
  ultimately show ?thesis by simp
qed

section \<open>The send ring\<close>

definition ring_ok :: "dhmp_transport \<Rightarrow> bool" where
  "ring_ok t \<longleftrightarrow> cur_pos (send_mr t) \<le> SEND_REGION_SIZE"

text \<open>Where the next frame of \<open>n\<close> bytes goes.\<close>

definition ring_pos :: "dhmp_transport \<Rightarrow> u64 \<Rightarrow> u64" where
  "ring_pos t n = (if SEND_REGION_SIZE < cur_pos (send_mr t) + n then 0 else cur_pos (send_mr t))"

lemma ring_pos_fits:
  assumes "n \<le> SEND_REGION_SIZE" "ring_ok t"
  shows "unat (ring_pos t n) + unat n \<le> unat SEND_REGION_SIZE"
proof -
  have "unat (cur_pos (send_mr t) + n) = unat (cur_pos (send_mr t)) + unat n"
    using assms by (intro unat_add_lem [THEN iffD1]) (simp add: word_le_nat_alt ring_ok_def)
  then show ?thesis
    using assms by (auto simp: ring_pos_def word_le_nat_alt word_less_nat_alt)
qed

text \<open>The task and the transport after a frame of \<open>n\<close> bytes has been put in the ring.\<close>

definition ring_task :: "addr \<Rightarrow> dhmp_transport \<Rightarrow> u64 \<Rightarrow> dhmp_task" where
  "ring_task tp t n = \<lparr>tk_ptr = tp, tk_addr = dmr_addr (send_mr t) + ring_pos t n, tk_length = n,
     tk_lkey = mr_lkey (dmr_mr (send_mr t))\<rparr>"

definition ring_advance :: "dhmp_transport \<Rightarrow> u64 \<Rightarrow> dhmp_transport" where
  "ring_advance t n = t\<lparr>send_mr := (send_mr t)\<lparr>cur_pos := ring_pos t n + n\<rparr>\<rparr>"

lemma ring_task_simps [simp]:
  "tk_ptr (ring_task tp t n) = tp"
  "tk_addr (ring_task tp t n) = dmr_addr (send_mr t) + ring_pos t n"
  "tk_length (ring_task tp t n) = n"
  "tk_lkey (ring_task tp t n) = mr_lkey (dmr_mr (send_mr t))"
  by (simp_all add: ring_task_def)

lemma ring_advance_simps [simp]:
  "trans_state (ring_advance t n) = trans_state t"
  "recv_mr (ring_advance t n) = recv_mr t"
  "dmr_addr (send_mr (ring_advance t n)) = dmr_addr (send_mr t)"
  "node_id (ring_advance t n) = node_id t"
  by (simp_all add: ring_advance_def)

lemma ring_advance_ok: "n \<le> SEND_REGION_SIZE \<Longrightarrow> ring_ok t \<Longrightarrow> ring_ok (ring_advance t n)"
  using ring_pos_fits [of n t]
  by (simp add: ring_ok_def ring_advance_def word_le_nat_alt unat_word_ariths)

lemma dhmp_send_task_create_eq:
  assumes "ext_malloc x (tick p) \<noteq> 0" "length payload < 2 ^ 63"
  shows "dhmp_send_task_create x h ty payload p =
    (let t = trans p h; tk = ring_task (ext_malloc x (tick p)) t (12 + of_nat (length payload))
     in (Some tk,
         p\<lparr>tick := Suc (tick p), mem := mem_write (mem p) (tk_addr tk) (frame ty payload),
           trans := (trans p)(h := ring_advance t (tk_length tk)),
           held := R_heap (tk_ptr tk) # held p\<rparr>))"
  using assms frame_stores [OF assms(2), of "mem p"]
  by (simp add: dhmp_send_task_create_def ask_def Let_def ring_pos_def ring_task_def ring_advance_def acquire_def)

lemma dhmp_post_send_eq:
  fixes x h ty payload p
  defines "tk \<equiv> ring_task (ext_malloc x (tick p)) (trans p h) (12 + of_nat (length payload))"
    and "q \<equiv> snd (dhmp_post_send x h ty payload p)"
  assumes "trans_state (trans p h) = DHMP_TRANSPORT_STATE_CONNECTED"
    and "ext_malloc x (tick p) \<noteq> 0" "length payload < 2 ^ 63"
  shows "fst (dhmp_post_send x h ty payload p) = Some (tk_ptr tk)"
    and "sq q = sq p @ (if ext_post x (Suc (tick p)) (send_wr_of tk) then [(h, send_wr_of tk)] else [])"
    and "mem q = mem_write (mem p) (tk_addr tk) (frame ty payload)"
    and "trans q = (trans p)(h := ring_advance (trans p h) (tk_length tk))"
    and "server q = server p"
    and "client q = map_option (\<lambda>c. c\<lparr>count_post_send_for_SFlush :=
           (count_post_send_for_SFlush c + 1) mod 512\<rparr>) (client p)"
    and "client p \<noteq> None \<Longrightarrow> fault q = fault p"
    and "fault p = None \<Longrightarrow> client p = None \<Longrightarrow> fault q = Some Null_deref"
  using assms(3-)
  by (cases "client p"; simp add: dhmp_post_send_def dhmp_send_task_create_eq Let_def tk_def q_def
      ask_def post_unchecked_def)+

lemma unat_ucast_u32: "unat (ucast (w :: u64) :: u32) = unat w mod 2 ^ 32"
  by (simp add: unsigned_ucast_eq take_bit_eq_mod)

text \<open>A frame that has been laid down is what the adapter gathers.\<close>

lemma frame_payload:
  assumes "12 + length payload < 2 ^ 32" "tk_length tk = 12 + of_nat (length payload)"
  shows "wr_payload (mem_write m (tk_addr tk) (frame ty payload)) (send_wr_of tk) = frame ty payload"
proof -
  have u: "(12 + of_nat (length payload) :: u64) = of_nat (12 + length payload)" by simp
  have "unat (ucast (tk_length tk) :: u32) = 12 + length payload"
    unfolding assms(2) u using assms(1)
    by (simp add: unat_ucast_u32 unat_of_nat_u64 del: of_nat_add)
  then show ?thesis using assms(1) by (simp add: send_wr_of_def mem_read_write_same)
qed

section \<open>Properties of the message path\<close>

lemma dhmp_post_send_sent:
  assumes "sq (snd (dhmp_post_send x h ty payload p)) \<noteq> sq p"
  shows "trans_state (trans p h) = DHMP_TRANSPORT_STATE_CONNECTED" "ext_malloc x (tick p) \<noteq> 0"
  using assms by (auto simp: dhmp_post_send_def dhmp_send_task_create_def ask_def Let_def split: if_splits)

text \<open>What the adapter gathers for a message that was posted.\<close>

lemma post_send_payload:
  assumes "q = snd (dhmp_post_send x h ty payload p)" "sq q = sq p @ [(h, w)]"
    and "12 + length payload < 2 ^ 32"
  shows "wr_payload (mem q) w = frame ty payload"
proof -
  let ?tk = "ring_task (ext_malloc x (tick p)) (trans p h) (12 + of_nat (length payload))"
  have s: "trans_state (trans p h) = DHMP_TRANSPORT_STATE_CONNECTED" "ext_malloc x (tick p) \<noteq> 0"
    using assms(1,2) dhmp_post_send_sent [of x h ty payload p] by auto
  note e = dhmp_post_send_eq [where payload = payload and ty = ty, OF s, folded assms(1)]
  have "w = send_wr_of ?tk" "mem q = mem_write (mem p) (tk_addr ?tk) (frame ty payload)"
    using assms(2,3) e(2,3) by (auto split: if_splits)
  then show ?thesis using frame_payload [OF assms(3), of ?tk "mem p" ty] by simp
qed

text \<open>What one request gathers is shorter than memory.\<close>

lemma post_send_length:
  assumes "sq (snd (dhmp_post_send x h ty payload p)) = xs @ [(g, w)]" "sq p = xs"
  shows "length (wr_payload m w) \<le> 2 ^ 64"
  using assms by (auto simp: dhmp_post_send_def dhmp_send_task_create_def ask_def Let_def with_client_def send_wr_of_def
      less_imp_le [OF less_trans [OF unsigned_less]] split: if_splits option.splits)

text \<open>Sending touches no memory but the send region.\<close>

lemma post_send_ring:
  assumes "ring_ok (trans p h)" "12 + length payload \<le> 2 ^ 29"
    and "q = snd (dhmp_post_send x h ty payload p)"
  shows "ring_ok (trans q h)"
    and "mem q a \<noteq> mem p a \<Longrightarrow> unat (a - dmr_addr (send_mr (trans p h))) < 2 ^ 29"
proof -
  have "ring_ok (trans q h)
    \<and> (mem q a \<noteq> mem p a \<longrightarrow> unat (a - dmr_addr (send_mr (trans p h))) < 2 ^ 29)"
  proof (cases "trans_state (trans p h) = DHMP_TRANSPORT_STATE_CONNECTED \<and> ext_malloc x (tick p) \<noteq> 0")
    case True
    let ?n = "12 + of_nat (length payload) :: u64"
    note e = dhmp_post_send_eq [where p = p and h = h and x = x and payload = payload and ty = ty, folded assms(3)]
    have "unat (of_nat (12 + length payload) :: u64) = 12 + length payload"
      using assms(2) by (intro unat_of_nat_u64) simp
    then have n: "unat ?n = 12 + length payload" by simp
    then have le: "?n \<le> SEND_REGION_SIZE" using assms(2) by (simp add: word_le_nat_alt)
    note fits = ring_pos_fits [OF le assms(1)]
    have "unat (a - dmr_addr (send_mr (trans p h))) < 2 ^ 29" if "mem q a \<noteq> mem p a"
    proof -
      let ?b = "dmr_addr (send_mr (trans p h)) + ring_pos (trans p h) ?n"
      have "unat (a - ?b) < 12 + length payload"
        using that True e(3) assms(2) by (auto simp: mem_write_def Let_def split: if_splits)
      moreover have "a - dmr_addr (send_mr (trans p h)) = (a - ?b) + ring_pos (trans p h) ?n" by simp
      then have "unat (a - dmr_addr (send_mr (trans p h))) \<le> unat (a - ?b) + unat (ring_pos (trans p h) ?n)"
        by (simp only: unat_word_ariths) (rule mod_less_eq_dividend)
      ultimately show ?thesis using fits n by simp
    qed
    then show ?thesis using True e(4) assms(2) ring_advance_ok [OF le assms(1)] by simp
  next
    case False
    then have "trans q = trans p" "mem q = mem p"
      using assms(3) by (auto simp: dhmp_post_send_def dhmp_send_task_create_def ask_def)
    then show ?thesis using assms(1) by simp
  qed
  then show "ring_ok (trans q h)"
    and "mem q a \<noteq> mem p a \<Longrightarrow> unat (a - dmr_addr (send_mr (trans p h))) < 2 ^ 29" by blast+
qed

lemma post_send_outside:
  assumes "ring_ok (trans p h)" "12 + length payload \<le> 2 ^ 29"
    and "disj (dmr_addr (send_mr (trans p h))) (2 ^ 29) a n"
  shows "mem_read (mem (snd (dhmp_post_send x h ty payload p))) a n = mem_read (mem p) a n"
proof (rule nth_equalityI)
  fix i assume "i < length (mem_read (mem (snd (dhmp_post_send x h ty payload p))) a n)"
  then have i: "i < n" by simp
  have "disj (dmr_addr (send_mr (trans p h))) (2 ^ 29) (a + of_nat i) 1"
    using disj_sub_right [OF assms(3), of i 1] i by simp
  then have "\<not> unat (a + of_nat i - dmr_addr (send_mr (trans p h))) < 2 ^ 29"
    by (simp add: disj_def)
  then show "mem_read (mem (snd (dhmp_post_send x h ty payload p))) a n ! i = mem_read (mem p) a n ! i"
    using post_send_ring(2) [OF assms(1,2) refl, of x ty "a + of_nat i"] i by auto
qed simp

text \<open>
  C18: a message that was posted arrives.  If \<open>dhmp_post_send\<close> posted a request and the bytes the
  adapter gathers for it are in the receive buffer at \<open>cxt\<close>, then the completion handler's parse
  of that buffer yields the type and size that were sent, and the data are the payload.
\<close>

lemma send_recv_roundtrip:
  assumes "q = snd (dhmp_post_send x h ty payload p)" "sq q = sq p @ [(h, w)]"
    and "12 + length payload < 2 ^ 32"
    and "mem_read rm cxt (length (wr_payload (mem q) w)) = wr_payload (mem q) w"
  shows "recv_msg rm cxt = \<lparr>msg_type = Some ty, data_size = of_nat (length payload), msg_data = cxt + 12\<rparr>
    \<and> mem_read rm (msg_data (recv_msg rm cxt)) (length payload) = payload"
  using recv_msg_frame [of rm cxt ty payload] assms(3,4) post_send_payload [OF assms(1-3)] by simp

lemma send_recv_roundtrip_witness:
  "let q = snd (dhmp_post_send ext_ok 0 DHMP_MSG_FREE_RESPONSE [1, 2, 3] client_proc);
       w = send_wr_of (ring_task 0x1000 trans0 15);
       rm = mem_write (\<lambda>_. 0) 0x500 (wr_payload (mem q) w)
   in recv_msg rm 0x500 = \<lparr>msg_type = Some DHMP_MSG_FREE_RESPONSE, data_size = 3, msg_data = 0x50c\<rparr>
      \<and> mem_read rm 0x50c 3 = [1, 2, 3]"
proof -
  let ?q = "snd (dhmp_post_send ext_ok 0 DHMP_MSG_FREE_RESPONSE [1, 2, 3] client_proc)"
  let ?w = "send_wr_of (ring_task 0x1000 trans0 15)"
  have e: "sq ?q = sq client_proc @ [(0, ?w)]"
    using dhmp_post_send_eq(2) [where p = client_proc and h = 0 and x = ext_ok
        and payload = "[1, 2, 3]" and ty = DHMP_MSG_FREE_RESPONSE] by simp
  have "length (wr_payload (mem ?q) ?w) = 15"
    by (simp add: send_wr_of_def)
  then show ?thesis
    using send_recv_roundtrip [OF refl e, where cxt = "0x500"
        and rm = "mem_write (\<lambda>_. 0) 0x500 (wr_payload (mem ?q) ?w)"]
    by (auto simp: Let_def mem_read_write_same numeral_3_eq_3)
qed

text \<open>
  C27: the send ring stays inside its region: a message of at most \<open>SEND_REGION_SIZE\<close> bytes with
  its header changes only bytes of the transport's send region, and the ring position stays
  within the region for the next message.
\<close>

lemma send_ring_bounded:
  assumes "ring_ok (trans p h)" "12 + length payload \<le> 2 ^ 29"
    and "q = snd (dhmp_post_send x h ty payload p)"
  shows "ring_ok (trans q h)
    \<and> (mem q a \<noteq> mem p a \<longrightarrow> unat (a - dmr_addr (send_mr (trans p h))) < 2 ^ 29)"
  using post_send_ring [OF assms] by blast

lemma send_ring_bounded_witness:
  "ring_ok (trans (snd (dhmp_post_send ext_ok 0 DHMP_MSG_FREE_RESPONSE [1, 2, 3] client_proc)) 0)"
  using send_ring_bounded [of client_proc 0 "[1, 2, 3]" _ ext_ok DHMP_MSG_FREE_RESPONSE]
  by (simp add: ring_ok_def trans0_def)

text \<open>
  A process that is not a client cannot answer.  Every connected \<open>dhmp_post_send\<close> of a
  server process (the global \<open>client\<close> is NULL) posts its message and then faults on the
  counter \<open>client->count_post_send_for_SFlush\<close>.
\<close>

lemma server_post_send_faults:
  assumes "client p = None" "fault p = None" "trans_state (trans p h) = DHMP_TRANSPORT_STATE_CONNECTED"
    and "ext_malloc x (tick p) \<noteq> 0"
  shows "fault (snd (dhmp_post_send x h ty payload p)) = Some Null_deref"
  using assms by (auto simp: dhmp_post_send_def dhmp_send_task_create_def ask_def Let_def post_unchecked_def)

lemma server_post_send_faults_witness:
  "fault (snd (dhmp_post_send ext_ok 0 DHMP_MSG_FREE_RESPONSE [1] server_proc)) = Some Null_deref"
  by (rule server_post_send_faults) simp_all

section \<open>The receive buffers\<close>

lemma dhmp_post_recv_ok:
  assumes "trans_state (trans p h) \<le> DHMP_TRANSPORT_STATE_CONNECTED"
    and "ext_malloc x (tick p) \<noteq> 0" "ext_post_recv x (Suc (tick p))"
  shows "dhmp_post_recv x h a p =
    p\<lparr>tick := Suc (Suc (tick p)), rq := rq p @ [(h, a, SINGLE_NORM_RECV_REGION + 40)],
      held := R_heap (ext_malloc x (tick p)) # held p\<rparr>"
  using assms by (simp add: dhmp_post_recv_def dhmp_recv_task_create_def ask_def Let_def acquire_def)

lemma post_recvs_ok:
  assumes "trans_state (trans p h) \<le> DHMP_TRANSPORT_STATE_CONNECTED"
    and "\<And>t. ext_malloc x t \<noteq> 0" "\<And>t. ext_post_recv x t"
  shows "rq (fold (\<lambda>i p. dhmp_post_recv x h (f (trans p h) i) p) is p)
      = rq p @ map (\<lambda>i. (h, f (trans p h) i, SINGLE_NORM_RECV_REGION + 40)) is"
  using assms(1)
proof (induction "is" arbitrary: p)
  case (Cons i js)
  then show ?case by (simp add: dhmp_post_recv_ok assms(2,3))
qed simp

definition recv_buffer :: "dhmp_transport \<Rightarrow> nat \<Rightarrow> addr \<times> u64" where
  "recv_buffer t i = (dmr_addr (recv_mr t) + of_nat i * SINGLE_NORM_RECV_REGION, SINGLE_NORM_RECV_REGION + 40)"

lemma recv_buffer_count: "unat (RECV_REGION_SIZE div SINGLE_NORM_RECV_REGION) = 512"
  by (simp only: unat_div) simp

text \<open>
  \<open>dhmp_post_all_recv\<close> posts 512 buffers, one per megabyte of the receive region, and each is
  posted with 40 bytes more than its share: the end of every buffer lies 40 bytes into the next
  one, and the last one ends 40 bytes past the region.
\<close>

lemma post_all_recv_buffers:
  assumes "trans_state (trans p h) \<le> DHMP_TRANSPORT_STATE_CONNECTED"
    and "\<And>t. ext_malloc x t \<noteq> 0" "\<And>t. ext_post_recv x t"
  shows "rq (dhmp_post_all_recv x h p) = rq p @ map (\<lambda>i. (h, recv_buffer (trans p h) i)) [0..<512]
    \<and> (i < 511 \<longrightarrow> fst (recv_buffer (trans p h) i) + snd (recv_buffer (trans p h) i)
         = fst (recv_buffer (trans p h) (Suc i)) + 40)
    \<and> fst (recv_buffer (trans p h) 511) + snd (recv_buffer (trans p h) 511)
         = dmr_addr (recv_mr (trans p h)) + RECV_REGION_SIZE + 40"
  using post_recvs_ok [OF assms, of "\<lambda>t i. dmr_addr (recv_mr t) + of_nat i * SINGLE_NORM_RECV_REGION" "[0..<512]"]
  unfolding dhmp_post_all_recv_def recv_buffer_count by (simp add: recv_buffer_def algebra_simps)

lemma post_all_recv_buffers_witness:
  "fst (recv_buffer trans0 511) + snd (recv_buffer trans0 511)
     = dmr_addr (recv_mr trans0) + RECV_REGION_SIZE + 40"
  using post_all_recv_buffers [of client_proc 0 "ext_ok\<lparr>ext_malloc := (\<lambda>_. 1)\<rparr>" 0] by simp

end
