(* ===== verification/Work_Queue.thy ===== *)
theory Work_Queue
  imports Tasks
begin

text \<open>
  The client's work list and the calls of the application interface that feed it
  (\<open>dhmp_client.c\<close>), with the worker's side of the list (\<open>dhmp_work_handle_thread\<close>,
  \<open>dhmp_work.c\<close>).

  A call runs in two steps: it queues a work item, and after the worker has set \<open>done_flag\<close> it
  frees the item and returns.  \<open>Waiting w\<close> is the state between the two, with the item's pointer.
  The struct behind \<open>work_data\<close> is on the caller's stack; its address is the argument \<open>wp\<close>.

  The interface \<open>fifo\<close> is what the rest relies on: items are taken in the order they were added.
\<close>

section \<open>The interface of a queue\<close>

locale fifo =
  fixes items :: "'q \<Rightarrow> 'a list"
    and add_tail :: "'a \<Rightarrow> 'q \<Rightarrow> 'q"
    and take_first :: "'q \<Rightarrow> 'a option \<times> 'q"
  assumes items_add [simp]: "items (add_tail a q) = items q @ [a]"
    and take_empty [simp]: "items q = [] \<Longrightarrow> take_first q = (None, q)"
    and take_some: "items q = a # as \<Longrightarrow> \<exists>q'. take_first q = (Some a, q') \<and> items q' = as"
begin

lemma items_adds [simp]: "items (fold add_tail as q) = items q @ as"
  by (induction as arbitrary: q) auto

text \<open>\<open>n\<close> takes.\<close>

fun takes :: "nat \<Rightarrow> 'q \<Rightarrow> 'a list \<times> 'q" where
  "takes 0 q = ([], q)"
| "takes (Suc n) q = (case take_first q of
     (None, q') \<Rightarrow> ([], q') | (Some a, q') \<Rightarrow> (let (as, q'') = takes n q' in (a # as, q'')))"

lemma takes_items: "fst (takes n q) = take n (items q) \<and> items (snd (takes n q)) = drop n (items q)"
proof (induction n arbitrary: q)
  case (Suc n)
  show ?case
  proof (cases "items q")
    case (Cons a as)
    then obtain q' where "take_first q = (Some a, q')" "items q' = as"
      using take_some by blast
    with Cons Suc [of q'] show ?thesis by (simp add: case_prod_unfold)
  qed simp
qed simp

lemma takes_adds: "length (items q) = k \<Longrightarrow> fst (takes (k + length as) (fold add_tail as q)) = items q @ as"
  by (simp add: takes_items)

end

section \<open>The work list\<close>

definition list_add_tail :: "dhmp_work \<Rightarrow> dhmp_client \<Rightarrow> dhmp_client" where
  "list_add_tail w c = c\<lparr>work_list := work_list c @ [w]\<rparr>"

text \<open>The critical section of \<open>dhmp_work_handle_thread\<close>.\<close>

definition take_work :: "dhmp_client \<Rightarrow> dhmp_work option \<times> dhmp_client" where
  "take_work c = (case work_list c of [] \<Rightarrow> (None, c) | w # ws \<Rightarrow> (Some w, c\<lparr>work_list := ws\<rparr>))"

interpretation wl: fifo work_list list_add_tail take_work
  by unfold_locales (auto simp: list_add_tail_def take_work_def)

text \<open>
  Work items are handled in the order they were queued: adding any items to the list and then
  taking as many as it holds yields the old items followed by the new ones in order, which is
  what one pass of the worker thread per item handles.
\<close>

lemma work_list_fifo:
  "fst (wl.takes (length (work_list c) + length ws) (fold list_add_tail ws c)) = work_list c @ ws"
  by (rule wl.takes_adds) simp

section \<open>Submitting\<close>

datatype 'r call = Returned 'r | Waiting addr

text \<open>\<open>client->connect_trans\<close>, when it is set and connected: the guard of the calls.\<close>

definition connected_trans :: "proc \<Rightarrow> dhmp_client \<Rightarrow> nat option" where
  "connected_trans p c =
     (case connect_trans c of
        None \<Rightarrow> None
      | Some h \<Rightarrow> if trans_state (trans p h) = DHMP_TRANSPORT_STATE_CONNECTED then Some h else None)"

text \<open>What every call does once its guard has passed: allocate, fill in, add to the list.\<close>

definition enqueue ::
  "ext \<Rightarrow> 'r \<Rightarrow> dhmp_work_type \<Rightarrow> addr \<Rightarrow> bool \<Rightarrow> work_data \<Rightarrow> dhmp_client \<Rightarrow> proc \<Rightarrow> 'r call \<times> proc" where
  "enqueue x err ty wp clear_recv wd c p =
     (let (w, p) = ask (ext_malloc x) p
      in if w = 0 then (Returned err, p)
         else (Waiting w,
           (acquire (R_heap w) p)\<lparr>
             done_flag := (done_flag p)(wp := False),
             recv_flag := (if clear_recv then (recv_flag p)(wp := False) else recv_flag p),
             client := Some (list_add_tail \<lparr>work_type = ty, work_ptr = wp, work_data = wd\<rparr> c)\<rparr>))"

definition submit ::
  "ext \<Rightarrow> dhmp_work_type \<Rightarrow> addr \<Rightarrow> bool \<Rightarrow> work_data \<Rightarrow> proc \<Rightarrow> int call \<times> proc" where
  "submit x ty wp clear_recv wd p =
     (case client p of
        None \<Rightarrow> (Returned (-1), raise Null_deref p)
      | Some c \<Rightarrow>
          (case connected_trans p c of
             None \<Rightarrow> (Returned (-1), p)
           | Some h \<Rightarrow> enqueue x (-1) ty wp clear_recv wd c p))"

text \<open>
  The calls that have to wait for something between the allocation and the queueing start like
  this; their loop follows in a definition of its own.
\<close>

definition begin_call :: "ext \<Rightarrow> 'r \<Rightarrow> addr \<Rightarrow> bool \<Rightarrow> proc \<Rightarrow> 'r call \<times> proc" where
  "begin_call x err wp clear_recv p =
     (case client p of
        None \<Rightarrow> (Returned err, raise Null_deref p)
      | Some c \<Rightarrow>
          (case connected_trans p c of
             None \<Rightarrow> (Returned err, p)
           | Some h \<Rightarrow>
               let (w, p) = ask (ext_malloc x) p
               in if w = 0 then (Returned err, p)
                  else (Waiting w, (acquire (R_heap w) p)\<lparr>done_flag := (done_flag p)(wp := False),
                    recv_flag := (if clear_recv then (recv_flag p)(wp := False) else recv_flag p)\<rparr>)))"

text \<open>After the wait: \<open>free(work)\<close> and the result.  \<open>None\<close> while \<open>done_flag\<close> is not set.\<close>

definition finish_call :: "addr \<Rightarrow> addr \<Rightarrow> (proc \<Rightarrow> 'r) \<Rightarrow> proc \<Rightarrow> ('r \<times> proc) option" where
  "finish_call wp w r p = (if done_flag p wp then Some (r p, release (R_heap w) p) else None)"

definition dhmp_malloc :: "ext \<Rightarrow> addr \<Rightarrow> u64 \<Rightarrow> int \<Rightarrow> proc \<Rightarrow> addr call \<times> proc" where
  "dhmp_malloc x wp len is_special p =
     (case client p of
        None \<Rightarrow> (Returned 0, raise Null_deref p)
      | Some c \<Rightarrow>
          if connect_trans c = None then (Returned 0, p)
          else
            let (w, p) = ask (ext_malloc x) p
            in if w = 0 then (Returned 0, p)
               else
                 let (ai, q) = ask (ext_malloc x) p
                 in if ai = 0 then (Returned 0, q)
                    else
                      let j = ext_junk x (tick p);
                          info = \<lparr>read_cnt = uint j, write_cnt = uint j, write_flag = (j \<noteq> 0),
                            nvm_mr = \<lparr>mr_context = j, mr_pd = j, mr_addr = j, mr_length = 0,
                              mr_handle = ucast j, mr_lkey = ucast j, mr_rkey = ucast j\<rparr>\<rparr>
                      in (Waiting w,
                          (acquire (R_heap ai) (acquire (R_heap w) q))\<lparr>
                            addr_infos := (addr_infos q)(ai \<mapsto> info),
                            done_flag := (done_flag q)(wp := False),
                            recv_flag := (recv_flag q)(wp := False),
                            client := Some (list_add_tail \<lparr>work_type = DHMP_WORK_MALLOC,
                              work_ptr = wp, work_data = Malloc_work ai len is_special\<rparr> c)\<rparr>))"

definition dhmp_malloc_return :: "addr \<Rightarrow> addr \<Rightarrow> proc \<Rightarrow> (addr \<times> proc) option" where
  "dhmp_malloc_return wp w = finish_call wp w (\<lambda>p. res_addr p wp)"

definition dhmp_free :: "ext \<Rightarrow> addr \<Rightarrow> addr \<Rightarrow> proc \<Rightarrow> int call \<times> proc" where
  "dhmp_free x wp dhmp_addr p =
     (if dhmp_addr = 0 then (Returned 0, p)
      else submit x DHMP_WORK_FREE wp False (Free_work dhmp_addr) p)"

definition dhmp_read :: "ext \<Rightarrow> addr \<Rightarrow> addr \<Rightarrow> addr \<Rightarrow> u64 \<Rightarrow> proc \<Rightarrow> int call \<times> proc" where
  "dhmp_read x wp dhmp_addr local_buf count =
     submit x DHMP_WORK_READ wp False (Rw_work dhmp_addr local_buf count)"

definition dhmp_write :: "ext \<Rightarrow> addr \<Rightarrow> addr \<Rightarrow> addr \<Rightarrow> u64 \<Rightarrow> proc \<Rightarrow> int call \<times> proc" where
  "dhmp_write x wp dhmp_addr local_buf count =
     submit x DHMP_WORK_WRITE wp False (Rw_work dhmp_addr local_buf count)"

definition amper_clover_compare_and_set ::
  "ext \<Rightarrow> addr \<Rightarrow> addr \<Rightarrow> u64 \<Rightarrow> u64 \<Rightarrow> proc \<Rightarrow> int call \<times> proc" where
  "amper_clover_compare_and_set x wp dhmp_addr len value =
     submit x AMPER_WORK_CLOVER wp False (Clover_work dhmp_addr len value)"

definition amper_write_L5 ::
  "ext \<Rightarrow> addr \<Rightarrow> int \<Rightarrow> addr \<Rightarrow> u64 \<Rightarrow> addr \<Rightarrow> byte \<Rightarrow> proc \<Rightarrow> int call \<times> proc" where
  "amper_write_L5 x wp cur local_buf count globle_addr flag_write =
     submit x AMPER_WORK_L5 wp False (L5_work local_buf count flag_write globle_addr cur)"

definition amper_scalable ::
  "ext \<Rightarrow> addr \<Rightarrow> u64 \<Rightarrow> u64 \<Rightarrow> int \<Rightarrow> u64 \<Rightarrow> byte \<Rightarrow> byte \<Rightarrow> proc \<Rightarrow> int call \<times> proc" where
  "amper_scalable x wp offset count write_type len flag_write batch =
     submit x AMPER_WORK_scalable wp False (Scalable_work offset count write_type len flag_write batch)"

definition amper_sendRPC_Tailwind ::
  "ext \<Rightarrow> addr \<Rightarrow> u64 \<Rightarrow> ibv_mr \<Rightarrow> u64 \<Rightarrow> addr \<Rightarrow> u64 \<Rightarrow> proc \<Rightarrow> int call \<times> proc" where
  "amper_sendRPC_Tailwind x wp offset head_mr head_size local_buf len =
     submit x AMPER_WORK_Tailwind_RPC wp True (Tailwind_work offset head_mr head_size local_buf len)"

definition amper_write_Tailwind ::
  "ext \<Rightarrow> addr \<Rightarrow> u64 \<Rightarrow> ibv_mr \<Rightarrow> u64 \<Rightarrow> addr \<Rightarrow> u64 \<Rightarrow> proc \<Rightarrow> int call \<times> proc" where
  "amper_write_Tailwind x wp offset head_mr head_size local_buf len =
     submit x AMPER_WORK_Tailwind wp False (Tailwind_work offset head_mr head_size local_buf len)"

definition amper_RFP :: "ext \<Rightarrow> addr \<Rightarrow> addr \<Rightarrow> addr \<Rightarrow> u64 \<Rightarrow> bool \<Rightarrow> proc \<Rightarrow> int call \<times> proc" where
  "amper_RFP x wp local_buf globle_addr count is_write =
     submit x AMPER_WORK_RFP wp False (RFP_work local_buf count is_write globle_addr)"

definition dhmp_write2 :: "ext \<Rightarrow> addr \<Rightarrow> addr \<Rightarrow> addr \<Rightarrow> u64 \<Rightarrow> proc \<Rightarrow> int call \<times> proc" where
  "dhmp_write2 x wp dhmp_addr local_buf count =
     submit x DHMP_WORK_WRITE2 wp False (Rw2_work dhmp_addr local_buf count)"

definition dhmp_send :: "ext \<Rightarrow> addr \<Rightarrow> addr \<Rightarrow> addr \<Rightarrow> u64 \<Rightarrow> bool \<Rightarrow> proc \<Rightarrow> int call \<times> proc" where
  "dhmp_send x wp dhmp_addr local_buf count is_write =
     submit x DHMP_WORK_SEND wp True (Send_work dhmp_addr local_buf count is_write)"

definition rdma_stress :: "ext \<Rightarrow> addr \<Rightarrow> proc \<Rightarrow> int call \<times> proc" where
  "rdma_stress x wp = submit x DHMP_WORK_REQADDR1 wp True ReqAddr_work"

definition dhmp_write_imm :: "ext \<Rightarrow> addr \<Rightarrow> addr \<Rightarrow> addr \<Rightarrow> u64 \<Rightarrow> u32 \<Rightarrow> proc \<Rightarrow> int call \<times> proc" where
  "dhmp_write_imm x wp dhmp_addr local_buf len task_offset =
     submit x DHMP_WORK_WRITEIMM wp True (WriteImm_work dhmp_addr local_buf len task_offset)"

definition dhmp_write_imm2 ::
  "ext \<Rightarrow> addr \<Rightarrow> int \<Rightarrow> addr \<Rightarrow> addr \<Rightarrow> u64 \<Rightarrow> byte \<Rightarrow> proc \<Rightarrow> int call \<times> proc" where
  "dhmp_write_imm2 x wp cur dhmp_addr local_addr len flag_write =
     submit x DHMP_WORK_Octopus wp False (L5_work local_addr len flag_write dhmp_addr cur)"

definition dhmp_write_imm3 :: "ext \<Rightarrow> addr \<Rightarrow> addr \<Rightarrow> addr \<Rightarrow> u64 \<Rightarrow> proc \<Rightarrow> int call \<times> proc" where
  "dhmp_write_imm3 x wp dhmp_addr local_buf len =
     submit x DHMP_WORK_WRITEIMM3 wp True (WriteImm3_work dhmp_addr local_buf len)"

definition dhmp_send2 :: "ext \<Rightarrow> addr \<Rightarrow> addr \<Rightarrow> addr \<Rightarrow> addr \<Rightarrow> u64 \<Rightarrow> proc \<Rightarrow> int call \<times> proc" where
  "dhmp_send2 x wp server_addr dhmp_addr local_buf len =
     submit x DHMP_WORK_SEND2 wp True (Send2_work server_addr dhmp_addr local_buf len)"

definition dhmp_Sread :: "ext \<Rightarrow> addr \<Rightarrow> addr \<Rightarrow> addr \<Rightarrow> u64 \<Rightarrow> proc \<Rightarrow> int call \<times> proc" where
  "dhmp_Sread x wp dhmp_addr local_buf len =
     submit x DHMP_WORK_SREAD wp True (Sread_work dhmp_addr local_buf len)"

end
