(* ===== verification/Addr_Table.thy ===== *)
theory Addr_Table
  imports State Murmur
begin

text \<open>
  The client's address table: \<open>addr_info_ht\<close>, an array of \<open>DHMP_CLIENT_HT_SIZE\<close> chains of
  \<open>dhmp_addr_info\<close> objects, with \<open>dhmp_addr_info_insert_ht\<close>, \<open>dhmp_get_addr_info_from_ht\<close> and
  \<open>hlist_del\<close> as \<open>dhmp_work.c\<close> uses them.  A chain is the list of the pointers to its entries;
  the objects are in the process heap, and an entry that points to no live object is a
  dangling pointer.

  The interface \<open>addr_map\<close> says what the rest of the client relies on: the table is a partial map
  from remote addresses to entries.  The table of the code is an instance (\<open>at\<close>).
\<close>

section \<open>The interface\<close>

locale addr_map =
  fixes lookup :: "'s \<Rightarrow> addr \<Rightarrow> addr option"
    and insert_entry :: "addr \<Rightarrow> addr \<Rightarrow> 's \<Rightarrow> 's"
    and delete_entry :: "addr \<Rightarrow> addr \<Rightarrow> 's \<Rightarrow> 's"
    and invar :: "'s \<Rightarrow> bool"
    and fresh :: "'s \<Rightarrow> addr \<Rightarrow> addr \<Rightarrow> bool"
  assumes lookup_insert:
      "\<lbrakk>invar s; fresh s a e\<rbrakk> \<Longrightarrow> lookup (insert_entry a e s) b = (if b = a then Some e else lookup s b)"
    and lookup_delete:
      "\<lbrakk>invar s; lookup s a = Some e\<rbrakk> \<Longrightarrow> lookup (delete_entry a e s) b = (if b = a then None else lookup s b)"
    and invar_insert: "\<lbrakk>invar s; fresh s a e\<rbrakk> \<Longrightarrow> invar (insert_entry a e s)"
    and invar_delete: "\<lbrakk>invar s; lookup s a = Some e\<rbrakk> \<Longrightarrow> invar (delete_entry a e s)"
    and fresh_new: "fresh s a e \<Longrightarrow> lookup s a = None"
    and fresh_insert:
      "\<lbrakk>invar s; fresh s a e; fresh s b f; a \<noteq> b; e \<noteq> f\<rbrakk> \<Longrightarrow> fresh (insert_entry a e s) b f"
begin

lemma insert_delete:
  assumes "invar s" "fresh s a e"
  shows "lookup (delete_entry a e (insert_entry a e s)) b = lookup s b"
  using assms by (simp add: lookup_delete lookup_insert invar_insert fresh_new)

lemma insert_commute:
  assumes "invar s" "fresh s a e" "fresh s b f" "a \<noteq> b" "e \<noteq> f"
  shows "lookup (insert_entry a e (insert_entry b f s)) c = lookup (insert_entry b f (insert_entry a e s)) c"
  using assms by (auto simp: lookup_insert invar_insert fresh_insert)

lemma delete_other:
  assumes "invar s" "lookup s a = Some e" "b \<noteq> a"
  shows "lookup (delete_entry a e s) b = lookup s b"
  using assms by (simp add: lookup_delete)

text \<open>Any run of inserts of new, pairwise different addresses is found again.\<close>

lemma insert_many:
  assumes "invar s" "\<forall>(a, e) \<in> set xs. fresh s a e" "distinct (map fst xs)" "distinct (map snd xs)"
  shows "invar (fold (\<lambda>(a, e). insert_entry a e) xs s)
    \<and> lookup (fold (\<lambda>(a, e). insert_entry a e) xs s) b
        = (case map_of xs b of Some e \<Rightarrow> Some e | None \<Rightarrow> lookup s b)"
  using assms
proof (induction xs arbitrary: s)
  case (Cons x xs)
  obtain a e where x: "x = (a, e)" by force
  have f: "fresh s a e" using Cons.prems x by simp
  have "fresh (insert_entry a e s) c g" if "(c, g) \<in> set xs" for c g
    using Cons.prems that x by (intro fresh_insert [OF Cons.prems(1) f]) (auto simp: rev_image_eqI)
  then have "invar (fold (\<lambda>(a, e). insert_entry a e) xs (insert_entry a e s))
    \<and> lookup (fold (\<lambda>(a, e). insert_entry a e) xs (insert_entry a e s)) b
      = (case map_of xs b of Some e \<Rightarrow> Some e | None \<Rightarrow> lookup (insert_entry a e s) b)"
    using Cons.prems x f by (intro Cons.IH) (auto intro: invar_insert)
  moreover have "a \<notin> fst ` set xs" using Cons.prems x by simp
  then have "map_of xs a = None" by (simp add: map_of_eq_None_iff)
  ultimately show ?case using Cons.prems f
    by (auto simp: x lookup_insert split: option.splits)
qed simp

end

section \<open>The table of the code\<close>

type_synonym heap = "addr \<rightharpoonup> dhmp_addr_info"
type_synonym table = "nat \<Rightarrow> addr list"

definition dhmp_addr_info_insert_ht :: "addr \<Rightarrow> addr \<Rightarrow> table \<Rightarrow> table" where
  "dhmp_addr_info_insert_ht dhmp_addr addr_info ht =
     (let index = dhmp_hash_in_client dhmp_addr in ht(index := addr_info # ht index))"

text \<open>
  The \<open>hlist_for_each_entry\<close> loop: it stops at the first entry whose region starts at the
  address, and leaves the cursor NULL when there is none.
\<close>

fun hlist_find :: "heap \<Rightarrow> addr \<Rightarrow> addr list \<Rightarrow> fault + addr option" where
  "hlist_find h dhmp_addr [] = Inr None"
| "hlist_find h dhmp_addr (e # es) =
     (case h e of
        None \<Rightarrow> Inl Dangling
      | Some i \<Rightarrow> if mr_addr (nvm_mr i) = dhmp_addr then Inr (Some e) else hlist_find h dhmp_addr es)"

definition dhmp_get_addr_info_from_ht :: "heap \<Rightarrow> table \<Rightarrow> nat \<Rightarrow> addr \<Rightarrow> fault + addr option" where
  "dhmp_get_addr_info_from_ht h ht index dhmp_addr =
     (if ht index = [] then Inr None else hlist_find h dhmp_addr (ht index))"

text \<open>\<open>hlist_del\<close> of an entry that is on the chain of bucket \<open>index\<close>.\<close>

definition hlist_del :: "nat \<Rightarrow> addr \<Rightarrow> table \<Rightarrow> table" where
  "hlist_del index e ht = ht(index := remove1 e (ht index))"

section \<open>Well-formed tables\<close>

definition key_of :: "heap \<Rightarrow> addr \<Rightarrow> addr" where
  "key_of h e = (case h e of None \<Rightarrow> 0 | Some i \<Rightarrow> mr_addr (nvm_mr i))"

text \<open>
  Every entry is a live object on the chain of its own address, and no address has two entries.
\<close>

definition chain_ok :: "heap \<Rightarrow> nat \<Rightarrow> addr list \<Rightarrow> bool" where
  "chain_ok h i es \<longleftrightarrow> distinct (map (key_of h) es)
     \<and> (\<forall>e \<in> set es. h e \<noteq> None \<and> dhmp_hash_in_client (key_of h e) = i)"

definition table_ok :: "heap \<Rightarrow> table \<Rightarrow> bool" where
  "table_ok h ht \<longleftrightarrow> (\<forall>i. chain_ok h i (ht i))"

definition table_lookup :: "heap \<Rightarrow> table \<Rightarrow> addr \<Rightarrow> addr option" where
  "table_lookup h ht a = find (\<lambda>e. key_of h e = a) (ht (dhmp_hash_in_client a))"

lemma hlist_find_eq:
  "\<forall>e \<in> set es. h e \<noteq> None \<Longrightarrow> hlist_find h a es = Inr (find (\<lambda>e. key_of h e = a) es)"
  by (induction es) (auto simp: key_of_def split: option.splits)

text \<open>On a well-formed table the search of the code is the lookup of the map: it never faults.\<close>

lemma get_addr_info_lookup:
  assumes "table_ok h ht"
  shows "dhmp_get_addr_info_from_ht h ht (dhmp_hash_in_client a) a = Inr (table_lookup h ht a)"
proof -
  have "\<forall>e \<in> set (ht (dhmp_hash_in_client a)). h e \<noteq> None"
    using assms by (auto simp: table_ok_def chain_ok_def)
  then show ?thesis
    by (simp add: dhmp_get_addr_info_from_ht_def table_lookup_def hlist_find_eq)
qed

lemma find_Some_iff_key:
  "distinct (map k es) \<Longrightarrow> find (\<lambda>e. k e = a) es = Some e \<longleftrightarrow> e \<in> set es \<and> k e = a"
  by (induction es) (auto simp: rev_image_eqI)

lemma find_remove1_key:
  "distinct (map k es) \<Longrightarrow> e \<in> set es \<Longrightarrow>
   find (\<lambda>f. k f = b) (remove1 e es) = (if b = k e then None else find (\<lambda>f. k f = b) es)"
  by (induction es) (auto simp: find_None_iff image_iff)

lemma table_lookup_iff:
  assumes "table_ok h ht"
  shows "table_lookup h ht a = Some e \<longleftrightarrow> e \<in> set (ht (dhmp_hash_in_client a)) \<and> key_of h e = a"
  using assms by (simp add: table_lookup_def table_ok_def chain_ok_def find_Some_iff_key)

lemma chain_ok_Cons:
  "chain_ok h i (e # es) \<longleftrightarrow> chain_ok h i es \<and> h e \<noteq> None \<and> dhmp_hash_in_client (key_of h e) = i
     \<and> find (\<lambda>f. key_of h f = key_of h e) es = None"
  unfolding chain_ok_def find_None_iff by simp (metis (no_types, lifting) image_iff)

lemma table_ok_insert:
  assumes "table_ok h ht" "h e \<noteq> None" "key_of h e = a" "table_lookup h ht a = None"
  shows "table_ok h (dhmp_addr_info_insert_ht a e ht)"
proof -
  have "chain_ok h i ((ht(i := e # ht i)) i)" if "i = dhmp_hash_in_client a" for i
    using assms that by (simp add: table_ok_def table_lookup_def chain_ok_Cons)
  moreover have "chain_ok h i (ht i)" for i using assms(1) by (simp add: table_ok_def)
  ultimately show ?thesis by (simp add: table_ok_def dhmp_addr_info_insert_ht_def Let_def)
qed

lemma distinct_map_remove1: "distinct (map f xs) \<Longrightarrow> distinct (map f (remove1 x xs))"
  by (induction xs) (auto dest: subsetD [OF set_remove1_subset])

lemma table_ok_delete:
  "table_ok h ht \<Longrightarrow> table_ok h (hlist_del i e ht)"
  unfolding table_ok_def chain_ok_def hlist_del_def
  by (auto simp: distinct_map_remove1 dest: notin_set_remove1)

lemma lookup_insert_ht:
  assumes "key_of h e = a"
  shows "table_lookup h (dhmp_addr_info_insert_ht a e ht) b = (if b = a then Some e else table_lookup h ht b)"
  using assms by (auto simp: table_lookup_def dhmp_addr_info_insert_ht_def Let_def)

lemma lookup_delete_ht:
  assumes "table_ok h ht" "table_lookup h ht a = Some e"
  shows "table_lookup h (hlist_del (dhmp_hash_in_client a) e ht) b
      = (if b = a then None else table_lookup h ht b)"
proof (cases "dhmp_hash_in_client b = dhmp_hash_in_client a")
  case True
  have "distinct (map (key_of h) (ht (dhmp_hash_in_client a)))"
    using assms(1) by (simp add: table_ok_def chain_ok_def)
  moreover have "e \<in> set (ht (dhmp_hash_in_client a))" "key_of h e = a"
    using assms by (simp_all add: table_lookup_iff)
  ultimately show ?thesis
    using True find_remove1_key [of "key_of h" "ht (dhmp_hash_in_client a)" e b]
    by (simp add: table_lookup_def hlist_del_def)
qed (auto simp: table_lookup_def hlist_del_def)

text \<open>
  Looking an entry up depends only on the keys of the objects: an update of an object that
  leaves its region in place leaves the table alone.
\<close>

lemma key_of_upd: "h e = Some i \<Longrightarrow> mr_addr (nvm_mr j) = mr_addr (nvm_mr i) \<Longrightarrow> key_of (h(e \<mapsto> j)) = key_of h"
  by (auto simp: key_of_def)

lemma table_upd_same_key:
  assumes "h e = Some i" "mr_addr (nvm_mr j) = mr_addr (nvm_mr i)"
  shows "table_lookup (h(e \<mapsto> j)) ht = table_lookup h ht" "table_ok (h(e \<mapsto> j)) ht \<longleftrightarrow> table_ok h ht"
  using assms by (auto simp: table_lookup_def table_ok_def chain_ok_def key_of_upd fun_eq_iff)

text \<open>An object that is on no chain can be changed or freed at will.\<close>

definition off_table :: "table \<Rightarrow> addr \<Rightarrow> bool" where
  "off_table ht e \<longleftrightarrow> (\<forall>i. e \<notin> set (ht i))"

lemma table_off_upd:
  assumes "off_table ht e"
  shows "table_lookup (h(e := j)) ht = table_lookup h ht" "table_ok (h(e := j)) ht \<longleftrightarrow> table_ok h ht"
proof -
  have k: "key_of (h(e := j)) f = key_of h f" "(h(e := j)) f = h f" if "f \<in> set (ht i)" for f i
    using assms that by (auto simp: key_of_def off_table_def)
  show "table_lookup (h(e := j)) ht = table_lookup h ht"
    unfolding table_lookup_def by (intro ext find_cong refl) (simp add: k)
  show "table_ok (h(e := j)) ht \<longleftrightarrow> table_ok h ht"
    unfolding table_ok_def chain_ok_def using k by (simp cong: map_cong)
qed

lemma off_table_delete:
  assumes "table_ok h ht" "table_lookup h ht a = Some e"
  shows "off_table (hlist_del (dhmp_hash_in_client a) e ht) e"
proof -
  have e: "e \<in> set (ht (dhmp_hash_in_client a))" "key_of h e = a"
    using assms by (simp_all add: table_lookup_iff)
  have "e \<notin> set (ht i)" if "i \<noteq> dhmp_hash_in_client a" for i
    using that assms(1) e(2) by (auto simp: table_ok_def chain_ok_def)
  moreover have "distinct (ht (dhmp_hash_in_client a))"
    using assms(1) by (simp add: table_ok_def chain_ok_def distinct_map)
  ultimately show ?thesis by (auto simp: off_table_def hlist_del_def)
qed

section \<open>The table is a map\<close>

definition fresh_entry :: "heap \<times> table \<Rightarrow> addr \<Rightarrow> addr \<Rightarrow> bool" where
  "fresh_entry s a e \<longleftrightarrow> fst s e \<noteq> None \<and> key_of (fst s) e = a \<and> table_lookup (fst s) (snd s) a = None"

interpretation at: addr_map
  "\<lambda>s. table_lookup (fst s) (snd s)"
  "\<lambda>a e s. (fst s, dhmp_addr_info_insert_ht a e (snd s))"
  "\<lambda>a e s. (fst s, hlist_del (dhmp_hash_in_client a) e (snd s))"
  "\<lambda>s. table_ok (fst s) (snd s)"
  fresh_entry
  by unfold_locales
    (auto simp: fresh_entry_def lookup_insert_ht lookup_delete_ht table_ok_insert table_ok_delete)

text \<open>
  C29: entering any run of new addresses in the address table and then searching it with the code's
  loop finds exactly the entry of each address, and no search faults.
\<close>

lemma addr_table_insert_many:
  assumes "table_ok h ht" "\<forall>(a, e) \<in> set xs. h e \<noteq> None \<and> key_of h e = a \<and> table_lookup h ht a = None"
    and "distinct (map fst xs)" "distinct (map snd xs)"
  shows "dhmp_get_addr_info_from_ht h (fold (\<lambda>(a, e). dhmp_addr_info_insert_ht a e) xs ht)
            (dhmp_hash_in_client b) b
       = Inr (case map_of xs b of Some e \<Rightarrow> Some e | None \<Rightarrow> table_lookup h ht b)"
proof -
  have f: "fold (\<lambda>(a, e) s. (fst s, dhmp_addr_info_insert_ht a e (snd s))) ys (h, t)
      = (h, fold (\<lambda>(a, e). dhmp_addr_info_insert_ht a e) ys t)" for ys t
    by (induction ys arbitrary: t) (auto split: prod.splits)
  have "\<forall>(a, e) \<in> set xs. fresh_entry (h, ht) a e" using assms(2) by (auto simp: fresh_entry_def)
  then show ?thesis
    using at.insert_many [of "(h, ht)" xs b] assms
    by (simp add: f get_addr_info_lookup split: option.split)
qed

definition sample_heap :: heap where
  "sample_heap = [0x100 \<mapsto> \<lparr>read_cnt = 0, write_cnt = 0, write_flag = False,
      nvm_mr = \<lparr>mr_context = 0, mr_pd = 0, mr_addr = 0x5000, mr_length = 64, mr_handle = 0, mr_lkey = 1, mr_rkey = 1\<rparr>\<rparr>]"

lemma addr_table_insert_many_witness:
  "dhmp_get_addr_info_from_ht sample_heap
     (fold (\<lambda>(a, e). dhmp_addr_info_insert_ht a e) [(0x5000, 0x100)] (\<lambda>_. []))
     (dhmp_hash_in_client 0x5000) 0x5000 = Inr (Some 0x100)"
proof -
  have "table_ok sample_heap (\<lambda>_. [])" by (simp add: table_ok_def chain_ok_def)
  moreover have "\<forall>(a, e) \<in> set [(0x5000, 0x100)]. sample_heap e \<noteq> None \<and> key_of sample_heap e = a
      \<and> table_lookup sample_heap (\<lambda>_. []) a = None"
    by (simp add: sample_heap_def key_of_def table_lookup_def)
  ultimately show ?thesis
    using addr_table_insert_many [where b = "0x5000"] by fastforce
qed

definition sample_table :: table where
  "sample_table = dhmp_addr_info_insert_ht 0x5000 0x100 (\<lambda>_. [])"

lemma sample_key [simp]: "key_of sample_heap 0x100 = 0x5000"
  by (simp add: sample_heap_def key_of_def)

lemma sample_table_ok [simp]: "table_ok sample_heap sample_table"
  unfolding sample_table_def
  by (intro table_ok_insert) (simp_all add: table_ok_def chain_ok_def table_lookup_def, simp add: sample_heap_def)

lemma sample_lookup [simp]: "table_lookup sample_heap sample_table a = (if a = 0x5000 then Some 0x100 else None)"
  using lookup_insert_ht [OF sample_key] by (simp add: sample_table_def) (simp add: table_lookup_def)

text \<open>
  C30: \<open>dhmp_free\<close> of an address removes that address from the table and no other: after
  \<open>hlist_del\<close> of the entry the search found, the search for the address finds nothing, and every
  other search is unchanged.
\<close>

lemma addr_table_delete:
  assumes "table_ok h ht"
    and "dhmp_get_addr_info_from_ht h ht (dhmp_hash_in_client a) a = Inr (Some e)"
  shows "table_ok h (hlist_del (dhmp_hash_in_client a) e ht)
    \<and> dhmp_get_addr_info_from_ht h (hlist_del (dhmp_hash_in_client a) e ht) (dhmp_hash_in_client b) b
      = (if b = a then Inr None else dhmp_get_addr_info_from_ht h ht (dhmp_hash_in_client b) b)"
  using at.lookup_delete [of "(h, ht)" a e b] at.invar_delete [of "(h, ht)" a e] assms
  by (simp add: get_addr_info_lookup)

lemma addr_table_delete_witness:
  "dhmp_get_addr_info_from_ht sample_heap
     (hlist_del (dhmp_hash_in_client 0x5000) 0x100 sample_table) (dhmp_hash_in_client 0x5000) 0x5000 = Inr None"
  using addr_table_delete [OF sample_table_ok, of "0x5000" "0x100" "0x5000"]
  by (simp add: get_addr_info_lookup)

end
