(* ===== verification/Client_Mem.thy ===== *)
theory Client_Mem
  imports Work_Queue Addr_Table
begin

text \<open>
  Remote memory as the client sees it: the work handlers of \<open>dhmp_work.c\<close> for malloc, free, read,
  write and the clover compare-and-set, the one-sided transfers \<open>dhmp_rdma_read\<close> and
  \<open>dhmp_rdma_write\<close>, and the handlers of the server's answers
  (\<open>dhmp_malloc_response_handler\<close>, \<open>dhmp_malloc_error_handler\<close>, \<open>dhmp_free_response_handler\<close>,
  \<open>dhmp_transport.c\<close>).

  A handler runs on the worker thread and spins in \<open>while\<close> loops that other threads end.  It is
  modelled as a resumable function: its argument \<open>pc\<close> says which loop it is in, and a call runs
  it to its next loop.  A call that finds the loop's condition unchanged returns the same \<open>pc\<close>.
\<close>

datatype pc =
    Start
  | Spin_flag addr                            \<comment> \<open>\<open>while(addr_info->write_flag)\<close>\<close>
  | Wait_task "(addr \<times> ibv_mr) option" addr   \<comment> \<open>\<open>while(!task->done_flag)\<close>, with the \<open>smr\<close> to free\<close>
  | Wait_recv                                 \<comment> \<open>\<open>while(!work->recv_flag)\<close>\<close>
  | Wait_cleared addr                         \<comment> \<open>\<open>while(addr_info->nvm_mr.addr!=NULL)\<close>\<close>
  | Wait_second addr                          \<comment> \<open>\<open>while(!task2->done_flag)\<close>\<close>
  | Wait_flush addr addr                      \<comment> \<open>the same, with the \<open>task\<close> still to wait for\<close>
  | Wait_byte addr                            \<comment> \<open>\<open>while(*reply == 0)\<close>\<close>
  | Finished

section \<open>Shared steps\<close>

definition set_done :: "addr \<Rightarrow> proc \<Rightarrow> proc" where
  "set_done wp p = p\<lparr>done_flag := (done_flag p)(wp := True)\<rparr>"

definition set_recv :: "addr \<Rightarrow> proc \<Rightarrow> proc" where
  "set_recv wp p = p\<lparr>recv_flag := (recv_flag p)(wp := True)\<rparr>"

lemma set_flag_simps [simp]:
  "done_flag (set_done wp p) wp" "recv_flag (set_recv wp p) wp"
  "mem (set_done wp p) = mem p" "sq (set_done wp p) = sq p" "client (set_done wp p) = client p"
  "addr_infos (set_done wp p) = addr_infos p" "fault (set_done wp p) = fault p"
  "trans (set_done wp p) = trans p" "recv_flag (set_done wp p) = recv_flag p"
  "held (set_done wp p) = held p" "server (set_done wp p) = server p"
  "task_done (set_done wp p) = task_done p" "res_addr (set_done wp p) = res_addr p"
  "mem (set_recv wp p) = mem p" "sq (set_recv wp p) = sq p" "client (set_recv wp p) = client p"
  "addr_infos (set_recv wp p) = addr_infos p" "fault (set_recv wp p) = fault p"
  "trans (set_recv wp p) = trans p" "done_flag (set_recv wp p) = done_flag p"
  "held (set_recv wp p) = held p" "server (set_recv wp p) = server p"
  "task_done (set_recv wp p) = task_done p" "res_addr (set_recv wp p) = res_addr p"
  by (simp_all add: set_done_def set_recv_def)

text \<open>\<open>dhmp_hash_in_client\<close> and \<open>dhmp_get_addr_info_from_ht\<close>, as every handler calls them.\<close>

definition find_info :: "addr \<Rightarrow> proc \<Rightarrow> addr option \<times> proc" where
  "find_info a p =
     (case client p of
        None \<Rightarrow> (None, raise Null_deref p)
      | Some c \<Rightarrow>
          (case dhmp_get_addr_info_from_ht (addr_infos p) (addr_info_ht c) (dhmp_hash_in_client a) a of
             Inl f \<Rightarrow> (None, raise f p)
           | Inr r \<Rightarrow> (r, p)))"

text \<open>An update of \<open>*addr_info\<close>.\<close>

definition update_info :: "addr \<Rightarrow> (dhmp_addr_info \<Rightarrow> dhmp_addr_info) \<Rightarrow> proc \<Rightarrow> proc" where
  "update_info e f p =
     (case addr_infos p e of
        None \<Rightarrow> raise Dangling p
      | Some i \<Rightarrow> p\<lparr>addr_infos := (addr_infos p)(e \<mapsto> f i)\<rparr>)"

section \<open>One-sided transfers\<close>

text \<open>
  \<open>dhmp_rdma_read\<close>: the part up to its wait.  The second component is \<open>Finished\<close> where the
  function returns -1.
\<close>

definition dhmp_rdma_read_post ::
  "ext \<Rightarrow> nat \<Rightarrow> ibv_mr \<Rightarrow> addr \<Rightarrow> u64 \<Rightarrow> proc \<Rightarrow> pc \<times> proc" where
  "dhmp_rdma_read_post x h rmr local_addr len p =
     (let len = through_int len;
          (smr, p) = dhmp_create_smr_per_ops x local_addr len p
      in case dhmp_read_task_create x (map_option snd smr) len p of
           (None, p) \<Rightarrow> (Finished, p)
         | (Some tk, p) \<Rightarrow>
             let w = rdma_wr IBV_WR_RDMA_READ (tk_ptr tk) (mr_addr rmr) (mr_rkey rmr)
                       (tk_addr tk) (ucast (tk_length tk)) (tk_lkey tk);
                 (ok, p) = ask (\<lambda>t. ext_post x t w) p
             in if ok then (Wait_task smr (tk_ptr tk), p\<lparr>sq := sq p @ [(h, w)]\<rparr>)
                else (Finished, p))"

text \<open>After the wait the region is given back, but not the task.\<close>

definition dhmp_rdma_read_end :: "(addr \<times> ibv_mr) option \<Rightarrow> proc \<Rightarrow> proc" where
  "dhmp_rdma_read_end smr p =
     (case smr of None \<Rightarrow> raise Null_deref p
      | Some (s, r) \<Rightarrow> release (R_heap s) (release (R_mr r) p))"

definition dhmp_rdma_write_post ::
  "ext \<Rightarrow> nat \<Rightarrow> ibv_mr \<Rightarrow> addr \<Rightarrow> u64 \<Rightarrow> proc \<Rightarrow> pc \<times> proc" where
  "dhmp_rdma_write_post x h rmr local_addr len p =
     (let len = through_int len;
          (smr, p) = dhmp_create_smr_per_ops x local_addr len p
      in case dhmp_write_task_create x (map_option snd smr) len p of
           (None, p) \<Rightarrow> (Finished, p)
         | (Some tk, p) \<Rightarrow>
             (Wait_task smr (tk_ptr tk),
              amper_post_write x h (tk_ptr tk) rmr (tk_addr tk) (ucast (tk_length tk)) (tk_lkey tk) False p))"

definition dhmp_rdma_write_end :: "(addr \<times> ibv_mr) option \<Rightarrow> addr \<Rightarrow> proc \<Rightarrow> proc" where
  "dhmp_rdma_write_end smr tk p =
     (case smr of None \<Rightarrow> raise Null_deref p
      | Some (s, r) \<Rightarrow> release (R_heap tk) (release (R_heap s) (release (R_mr r) p)))"

section \<open>The work handlers\<close>

text \<open>
  The regions a malloc request carries, by \<open>is_special\<close>; \<open>req_msg\<close> is on the stack, and
  the fields that are not assigned keep what was there (\<open>junk\<close>).
\<close>

definition malloc_request ::
  "dhmp_client \<Rightarrow> dhmp_mc_request \<Rightarrow> addr \<Rightarrow> u64 \<Rightarrow> int \<Rightarrow> addr \<Rightarrow> dhmp_mc_request" where
  "malloc_request c junk ai len is_special wp =
     (let req = junk\<lparr>mcq_req_size := len, mcq_addr_info := ai, mcq_is_special := of_int is_special,
                     mcq_task := wp\<rparr>;
          req = (if is_special = 3 then req\<lparr>mcq_mr := local_mr c\<rparr> else req);
          req = (if is_special = 4 then req\<lparr>mcq_mr := local_mr c\<rparr> else req);
          req = (if is_special = 7 then req\<lparr>mcq_mr := scale_Cdata_mr c\<rparr> else req);
          req = (if is_special = 8 then req\<lparr>mcq_mr := rs_C_mr (FaRM c)\<rparr> else req)
      in if is_special = 10 then req\<lparr>mcq_mr := octo_C_mr c\<rparr> else req)"

definition dhmp_malloc_work_handler ::
  "build \<Rightarrow> ext \<Rightarrow> dhmp_mc_request \<Rightarrow> nat \<Rightarrow> addr \<Rightarrow> addr \<Rightarrow> u64 \<Rightarrow> int \<Rightarrow> pc \<Rightarrow> proc \<Rightarrow> pc \<times> proc" where
  "dhmp_malloc_work_handler b x junk h wp ai len is_special pc p =
     (case pc of
        Start \<Rightarrow> (Wait_recv, with_client p (\<lambda>c.
          post_msg b x h DHMP_MSG_MALLOC_REQUEST
            (put_mc_request (malloc_request c junk ai len is_special wp)) p))
      | Wait_recv \<Rightarrow>
          if \<not> recv_flag p wp then (pc, p)
          else if is_special \<noteq> 0 then (Finished, set_done wp p)
          else
            (case addr_infos p ai of
               None \<Rightarrow> (Finished, raise Dangling p)
             | Some i \<Rightarrow>
                 let a = mr_addr (nvm_mr i);
                     p = (if a = 0 then release (R_heap ai) (p\<lparr>addr_infos := (addr_infos p)(ai := None)\<rparr>)
                          else with_client p (\<lambda>c. (update_info ai (\<lambda>i. i\<lparr>write_flag := False\<rparr>) p)\<lparr>
                            client := Some (c\<lparr>addr_info_ht :=
                              dhmp_addr_info_insert_ht a ai (addr_info_ht c)\<rparr>)\<rparr>))
                 in (Finished, set_done wp (p\<lparr>res_addr := (res_addr p)(wp := a)\<rparr>)))
      | _ \<Rightarrow> (pc, p))"

definition dhmp_free_work_handler ::
  "build \<Rightarrow> ext \<Rightarrow> dhmp_free_request \<Rightarrow> nat \<Rightarrow> addr \<Rightarrow> addr \<Rightarrow> pc \<Rightarrow> proc \<Rightarrow> pc \<times> proc" where
  "dhmp_free_work_handler b x junk h wp dhmp_addr pc p =
     (case pc of
        Start \<Rightarrow>
          (case find_info dhmp_addr p of
             (None, p) \<Rightarrow> (Finished, set_done wp p)
           | (Some e, p) \<Rightarrow>
               (case (client p, addr_infos p e) of
                  (Some c, Some i) \<Rightarrow>
                    let p = p\<lparr>client := Some (c\<lparr>addr_info_ht :=
                              hlist_del (dhmp_hash_in_client dhmp_addr) e (addr_info_ht c)\<rparr>)\<rparr>
                    in (Wait_cleared e, post_msg b x h DHMP_MSG_FREE_REQUEST
                          (put_free_request (junk\<lparr>fq_addr_info := e, fq_mr := nvm_mr i\<rparr>)) p)
                | _ \<Rightarrow> (Finished, raise Dangling p)))
      | Wait_cleared e \<Rightarrow>
          (case addr_infos p e of
             None \<Rightarrow> (Finished, raise Dangling p)
           | Some i \<Rightarrow>
               if mr_addr (nvm_mr i) \<noteq> 0 then (pc, p)
               else (Finished, set_done wp (release (R_heap e) (p\<lparr>addr_infos := (addr_infos p)(e := None)\<rparr>))))
      | _ \<Rightarrow> (pc, p))"

text \<open>The handlers of reads and writes share their first step: find the entry or give up.\<close>

definition rw_begin :: "addr \<Rightarrow> addr \<Rightarrow> proc \<Rightarrow> pc \<times> proc" where
  "rw_begin wp dhmp_addr p =
     (case find_info dhmp_addr p of
        (None, p) \<Rightarrow> (Finished, set_done wp p)
      | (Some e, p) \<Rightarrow> (Spin_flag e, p))"

text \<open>A transfer that failed to start (\<open>Finished\<close>) goes on to \<open>out\<close>.\<close>

definition out_if_failed :: "addr \<Rightarrow> pc \<times> proc \<Rightarrow> pc \<times> proc" where
  "out_if_failed wp r = (case r of (Finished, p) \<Rightarrow> (Finished, set_done wp p) | _ \<Rightarrow> r)"

definition dhmp_read_work_handler ::
  "ext \<Rightarrow> nat \<Rightarrow> addr \<Rightarrow> addr \<Rightarrow> addr \<Rightarrow> u64 \<Rightarrow> pc \<Rightarrow> proc \<Rightarrow> pc \<times> proc" where
  "dhmp_read_work_handler x h wp dhmp_addr local_addr len pc p =
     (case pc of
        Start \<Rightarrow> rw_begin wp dhmp_addr p
      | Spin_flag e \<Rightarrow>
          (case addr_infos p e of
             None \<Rightarrow> (Finished, raise Dangling p)
           | Some i \<Rightarrow>
               if write_flag i then (pc, p)
               else out_if_failed wp (dhmp_rdma_read_post x h (nvm_mr i) local_addr len
                      (p\<lparr>addr_infos := (addr_infos p)(e \<mapsto> i\<lparr>read_cnt := read_cnt i + 1\<rparr>)\<rparr>)))
      | Wait_task smr tk \<Rightarrow>
          if task_done p tk then (Finished, set_done wp (dhmp_rdma_read_end smr p)) else (pc, p)
      | _ \<Rightarrow> (pc, p))"

definition dhmp_write_work_handler ::
  "ext \<Rightarrow> nat \<Rightarrow> addr \<Rightarrow> addr \<Rightarrow> addr \<Rightarrow> u64 \<Rightarrow> pc \<Rightarrow> proc \<Rightarrow> pc \<times> proc" where
  "dhmp_write_work_handler x h wp dhmp_addr local_addr len pc p =
     (case pc of
        Start \<Rightarrow> rw_begin wp dhmp_addr p
      | Spin_flag e \<Rightarrow>
          (case addr_infos p e of
             None \<Rightarrow> (Finished, raise Dangling p)
           | Some i \<Rightarrow>
               if write_flag i then (pc, p)
               else out_if_failed wp (dhmp_rdma_write_post x h (nvm_mr i) local_addr len
                      (p\<lparr>addr_infos := (addr_infos p)(e \<mapsto>
                          i\<lparr>write_flag := True, write_cnt := write_cnt i + 1\<rparr>)\<rparr>)))
      | Wait_task smr tk \<Rightarrow>
          if task_done p tk then (Finished, set_done wp (dhmp_rdma_write_end smr tk p)) else (pc, p)
      | _ \<Rightarrow> (pc, p))"

text \<open>
  The compare-and-set expects 0 whatever the value, and returns without setting \<open>done_flag\<close> when
  it gets no task.
\<close>

definition clover_wr :: "addr \<Rightarrow> ibv_mr \<Rightarrow> u64 \<Rightarrow> u64 \<Rightarrow> ibv_mr \<Rightarrow> ibv_send_wr" where
  "clover_wr task r len value cas =
     (rdma_wr IBV_WR_ATOMIC_CMP_AND_SWP task (mr_addr r + len) (mr_rkey r) (mr_addr cas) 8 (mr_lkey cas))
       \<lparr>wr_compare_add := 0, wr_swap := value\<rparr>"

definition amper_clover_work_handler ::
  "ext \<Rightarrow> nat \<Rightarrow> addr \<Rightarrow> addr \<Rightarrow> u64 \<Rightarrow> u64 \<Rightarrow> pc \<Rightarrow> proc \<Rightarrow> pc \<times> proc" where
  "amper_clover_work_handler x h wp dhmp_addr len value pc p =
     (case pc of
        Start \<Rightarrow>
          (case find_info dhmp_addr p of
             (None, p) \<Rightarrow> (Finished, set_done wp p)
           | (Some e, p) \<Rightarrow>
               (case (client p, addr_infos p e) of
                  (Some c, Some i) \<Rightarrow>
                    (case dhmp_write_task_create x None 0 p of
                       (None, p) \<Rightarrow> (Finished, p)
                     | (Some tk, p) \<Rightarrow>
                         (Wait_task None (tk_ptr tk),
                          post_or_exit x h (clover_wr (tk_ptr tk) (nvm_mr i) len value (cas_mr c)) p))
                | _ \<Rightarrow> (Finished, raise Dangling p)))
      | Wait_task smr tk \<Rightarrow> if task_done p tk then (Finished, set_done wp p) else (pc, p)
      | _ \<Rightarrow> (pc, p))"

definition dhmp_close_work_handler :: "ext \<Rightarrow> nat \<Rightarrow> addr \<Rightarrow> pc \<Rightarrow> proc \<Rightarrow> pc \<times> proc" where
  "dhmp_close_work_handler x h wp pc p =
     (case pc of
        Start \<Rightarrow> (Finished, set_done wp (snd (dhmp_post_send x h DHMP_MSG_CLOSE_CONNECTION (put32 0) p)))
      | _ \<Rightarrow> (pc, p))"

section \<open>The server's answers\<close>

definition all_available :: "nat \<Rightarrow> (nat \<Rightarrow> int) \<Rightarrow> nat \<Rightarrow> int" where
  "all_available n f = (\<lambda>i. if i < n then 1 else f i)"

definition take_response :: "build \<Rightarrow> dhmp_mc_response \<Rightarrow> dhmp_client \<Rightarrow> dhmp_client" where
  "take_response b r c =
     (let k = mcq_is_special (mcr_req_info r)
      in if k = 1 then c\<lparr>ringbuffer_mr := mcr_mr r, ringbuffer_length := 0x4000000, ringbuffer_cur := 0\<rparr>
         else if k = 2 then c
         else if k = 3 then c\<lparr>L5_mailbox_mr := mcr_mr r, L5_message_mr := mcr_mr2 r\<rparr>
         else if k = 4 then c\<lparr>Tailwind_mr := mcr_mr r\<rparr>
         else if k = 5 then c\<lparr>read_mr_for_SFlush := mcr_mr r\<rparr>
         else if k = 6 then c\<lparr>RFP_write_mr := mcr_mr r, RFP_read_mr := mcr_mr2 r, RFP_time := 1\<rparr>
         else if k = 7 then c\<lparr>scale_Sreq_mr := mcr_mr r, scale_context_swith := 0\<rparr>
         else if k = 8 then c\<lparr>FaRM := (FaRM c)\<lparr>rs_S_mr := mcr_mr2 r,
                rs_size := mcq_req_size (mcr_req_info r), rs_Scur := 0, rs_Ccur := 0,
                rs_available := all_available (FaRM_buffer_NUM b) (rs_available (FaRM c))\<rparr>\<rparr>
         else if k = 9 then c\<lparr>herd := (herd c)\<lparr>rs_S_mr := mcr_mr r,
                rs_size := mcq_req_size (mcr_req_info r), rs_Scur := 0, rs_Ccur := 0,
                rs_available := all_available (FaRM_buffer_NUM b) (rs_available (herd c))\<rparr>\<rparr>
         else if k = 10 then c\<lparr>octo_S_mr := mcr_mr r\<rparr>
         else c)"

text \<open>
  The answer to a malloc request.  For L5 the constant 1 that the mailbox write will send is
  stored in \<open>client->L5.num_1\<close>.
\<close>

definition dhmp_malloc_response_handler :: "build \<Rightarrow> addr \<Rightarrow> proc \<Rightarrow> proc" where
  "dhmp_malloc_response_handler b data p =
     (let r = get_mc_response (mem_read (mem p) data 288);
          q = mcr_req_info r;
          k = mcq_is_special q;
          p = (if 1 \<le> k \<and> k \<le> 10
               then with_client p (\<lambda>c.
                      let p = p\<lparr>client := Some (take_response b r c)\<rparr>
                      in if k = 3 then p\<lparr>mem := store64 (mem p) (L5_num_1_addr c) 1\<rparr> else p)
               else update_info (mcq_addr_info q) (\<lambda>i. i\<lparr>nvm_mr := mcr_mr r\<rparr>) p)
      in set_recv (mcq_task q) p)"

text \<open>The error answer clears the region of the entry, and sets no flag of the waiting work.\<close>

definition dhmp_malloc_error_handler :: "addr \<Rightarrow> proc \<Rightarrow> proc" where
  "dhmp_malloc_error_handler data p =
     (let q = mcr_req_info (get_mc_response (mem_read (mem p) data 288))
      in update_info (mcq_addr_info q)
           (\<lambda>i. i\<lparr>nvm_mr := (nvm_mr i)\<lparr>mr_length := mcq_req_size q, mr_addr := 0\<rparr>\<rparr>) p)"

definition dhmp_free_response_handler :: "addr \<Rightarrow> proc \<Rightarrow> proc" where
  "dhmp_free_response_handler data p =
     update_info (load64 (mem p) data) (\<lambda>i. i\<lparr>nvm_mr := (nvm_mr i)\<lparr>mr_addr := 0\<rparr>\<rparr>) p"

section \<open>The client's table invariant\<close>

definition table_inv :: "proc \<Rightarrow> bool" where
  "table_inv p \<longleftrightarrow> (case client p of None \<Rightarrow> False | Some c \<Rightarrow> table_ok (addr_infos p) (addr_info_ht c))"

text \<open>The entry of an address, and the regions reachable through the table.\<close>

definition entry_of :: "proc \<Rightarrow> addr \<Rightarrow> addr option" where
  "entry_of p a = (case client p of None \<Rightarrow> None | Some c \<Rightarrow> table_lookup (addr_infos p) (addr_info_ht c) a)"

lemma find_info_entry:
  assumes "table_inv p"
  shows "find_info a p = (entry_of p a, p)"
  using assms by (auto simp: table_inv_def find_info_def entry_of_def get_addr_info_lookup split: option.splits)

lemma table_inv_cong:
  assumes "map_option addr_info_ht (client q) = map_option addr_info_ht (client p)"
    and "addr_infos q = addr_infos p"
  shows "table_inv q = table_inv p \<and> entry_of q = entry_of p"
  using assms by (cases "client p"; cases "client q") (auto simp: table_inv_def entry_of_def)

text \<open>A change of counters and flags that leaves every region where it was is invisible to the table.\<close>

definition same_regions :: "proc \<Rightarrow> proc \<Rightarrow> bool" where
  "same_regions p q \<longleftrightarrow> client q = client p
     \<and> (\<forall>e. map_option nvm_mr (addr_infos q e) = map_option nvm_mr (addr_infos p e))"

lemma same_regions_table:
  assumes "same_regions p q"
  shows "table_inv q = table_inv p \<and> entry_of q = entry_of p"
proof -
  have m: "map_option nvm_mr (addr_infos q e) = map_option nvm_mr (addr_infos p e)" for e
    using assms by (simp add: same_regions_def)
  have k: "key_of (addr_infos q) = key_of (addr_infos p)"
  proof
    fix e
    show "key_of (addr_infos q) e = key_of (addr_infos p) e"
      using m [of e] by (cases "addr_infos q e"; cases "addr_infos p e"; simp add: key_of_def)
  qed
  have n: "addr_infos q e = None \<longleftrightarrow> addr_infos p e = None" for e
    using m [of e] by (metis option.map_disc_iff)
  have "table_lookup (addr_infos q) ht = table_lookup (addr_infos p) ht"
    "table_ok (addr_infos q) ht = table_ok (addr_infos p) ht" for ht
    by (simp_all add: table_lookup_def table_ok_def chain_ok_def k n fun_eq_iff)
  then show ?thesis
    using assms by (cases "client p") (auto simp: same_regions_def table_inv_def entry_of_def fun_eq_iff)
qed

text \<open>The transfers leave the client's tables alone.\<close>

lemma create_smr_frames [simp]:
  "client (snd (dhmp_create_smr_per_ops x a len p)) = client p"
  "addr_infos (snd (dhmp_create_smr_per_ops x a len p)) = addr_infos p"
  "mem (snd (dhmp_create_smr_per_ops x a len p)) = mem p"
  "sq (snd (dhmp_create_smr_per_ops x a len p)) = sq p"
  "server (snd (dhmp_create_smr_per_ops x a len p)) = server p"
  "trans (snd (dhmp_create_smr_per_ops x a len p)) = trans p"
  "fault (snd (dhmp_create_smr_per_ops x a len p)) = fault p"
  by (auto simp: dhmp_create_smr_per_ops_def ask_def Let_def split: option.splits)

lemma task_create_frames [simp]:
  "client (snd (dhmp_read_task_create x smr len p)) = client p"
  "addr_infos (snd (dhmp_read_task_create x smr len p)) = addr_infos p"
  "mem (snd (dhmp_read_task_create x smr len p)) = mem p"
  "sq (snd (dhmp_read_task_create x smr len p)) = sq p"
  "server (snd (dhmp_read_task_create x smr len p)) = server p"
  "trans (snd (dhmp_read_task_create x smr len p)) = trans p"
  "fault (snd (dhmp_read_task_create x smr len p)) = fault p"
  "dhmp_write_task_create x smr len p = dhmp_read_task_create x smr len p"
  by (auto simp: dhmp_read_task_create_def dhmp_write_task_create_def ask_def Let_def split: option.splits)

lemma rdma_post_frames [simp]:
  "client (snd (dhmp_rdma_read_post x h r a len p)) = client p"
  "addr_infos (snd (dhmp_rdma_read_post x h r a len p)) = addr_infos p"
  "client (snd (dhmp_rdma_write_post x h r a len p)) = client p"
  "addr_infos (snd (dhmp_rdma_write_post x h r a len p)) = addr_infos p"
  by (simp_all add: dhmp_rdma_read_post_def dhmp_rdma_write_post_def amper_post_write_def ask_def
      Let_def case_prod_unfold split: option.split)

section \<open>Properties\<close>

lemma malloc_response_ordinary:
  assumes "mem_read (mem p) data 288 = put_mc_response r" "mcq_is_special (mcr_req_info r) = 0"
    and "addr_infos p (mcq_addr_info (mcr_req_info r)) = Some i"
  shows "dhmp_malloc_response_handler b data p =
    set_recv (mcq_task (mcr_req_info r))
      (p\<lparr>addr_infos := (addr_infos p)(mcq_addr_info (mcr_req_info r) \<mapsto> i\<lparr>nvm_mr := mcr_mr r\<rparr>)\<rparr>)"
  using assms by (simp add: dhmp_malloc_response_handler_def update_info_def Let_def)

text \<open>
  C19: an allocation the server granted can be used.  When the answer to an ordinary malloc request
  has been handled, the waiting \<open>dhmp_malloc\<close> finishes with the address of the granted region, the
  address table stays well formed, the new address is found with the region the server
  sent, and every other address is found as before.
\<close>

lemma malloc_then_found:
  assumes "table_inv p" "client p = Some c"
    and "mem_read (mem p) data 288 = put_mc_response r" "mcq_is_special (mcr_req_info r) = 0"
    and "addr_infos p (mcq_addr_info (mcr_req_info r)) = Some i"
    and "off_table (addr_info_ht c) (mcq_addr_info (mcr_req_info r))"
    and "mr_addr (mcr_mr r) \<noteq> 0" "entry_of p (mr_addr (mcr_mr r)) = None"
    and "dhmp_malloc_work_handler b x junk h (mcq_task (mcr_req_info r)) (mcq_addr_info (mcr_req_info r))
           len 0 Wait_recv (dhmp_malloc_response_handler b data p) = (pc, q)"
  shows "pc = Finished \<and> done_flag q (mcq_task (mcr_req_info r))
    \<and> res_addr q (mcq_task (mcr_req_info r)) = mr_addr (mcr_mr r) \<and> table_inv q
    \<and> find_info a q = (if a = mr_addr (mcr_mr r) then Some (mcq_addr_info (mcr_req_info r)) else entry_of p a, q)
    \<and> map_option nvm_mr (addr_infos q (mcq_addr_info (mcr_req_info r))) = Some (mcr_mr r)"
proof -
  let ?e = "mcq_addr_info (mcr_req_info r)" and ?a = "mr_addr (mcr_mr r)"
  let ?i = "i\<lparr>nvm_mr := mcr_mr r, write_flag := False\<rparr>"
  have q: "pc = Finished" "client q = Some (c\<lparr>addr_info_ht := dhmp_addr_info_insert_ht ?a ?e (addr_info_ht c)\<rparr>)"
    "addr_infos q = (addr_infos p)(?e \<mapsto> ?i)" "done_flag q (mcq_task (mcr_req_info r))"
    "res_addr q (mcq_task (mcr_req_info r)) = ?a"
    using assms(2-5,7,9)
    by (auto simp: malloc_response_ordinary dhmp_malloc_work_handler_def Let_def update_info_def
        set_recv_def set_done_def)
  have ok: "table_ok (addr_infos p) (addr_info_ht c)" and none: "table_lookup (addr_infos p) (addr_info_ht c) ?a = None"
    using assms(1,2,8) by (simp_all add: table_inv_def entry_of_def)
  note off = table_off_upd [OF assms(6), of "addr_infos p" "Some ?i"]
  have key: "key_of (addr_infos q) ?e = ?a" by (simp add: q key_of_def)
  have ok': "table_ok (addr_infos q) (addr_info_ht c)" using ok off by (simp add: q)
  have "table_ok (addr_infos q) (dhmp_addr_info_insert_ht ?a ?e (addr_info_ht c))"
    using none off key by (intro table_ok_insert ok') (simp_all add: q(3))
  then have inv: "table_inv q" by (simp add: table_inv_def q(2))
  moreover have "entry_of q a = (if a = ?a then Some ?e else entry_of p a)"
    using lookup_insert_ht [OF key] off(1) by (simp add: entry_of_def q(2,3) assms(2))
  ultimately show ?thesis using q by (simp add: find_info_entry)
qed

text \<open>The client of the witnesses has one entry in its heap and an answer for it in memory.\<close>

definition sample_response :: dhmp_mc_response where
  "sample_response = \<lparr>mcr_req_info = \<lparr>mcq_req_size = 64, mcq_addr_info = 0x100, mcq_is_special = 0,
       mcq_mr = zero_mr, mcq_mr2 = zero_mr, mcq_task = 0x200\<rparr>,
     mcr_mr = mr_at 0x7000 64, mcr_mr2 = zero_mr, mcr_read_mr = zero_mr, mcr_server_addr = 0x7000,
     mcr_server_addr2 = 0\<rparr>"

definition granted_proc :: proc where
  "granted_proc = client_proc\<lparr>mem := mem_write (\<lambda>_. 0) 0x900 (put_mc_response sample_response),
     addr_infos := sample_heap\<rparr>"

lemma granted_proc_simps:
  "client granted_proc = Some client0" "addr_infos granted_proc = sample_heap"
  "mem_read (mem granted_proc) 0x900 288 = put_mc_response sample_response"
  "table_inv granted_proc" "entry_of granted_proc a = None"
  by (auto simp: granted_proc_def mem_read_write_same table_inv_def entry_of_def client0_def
      table_ok_def chain_ok_def table_lookup_def)

lemma malloc_then_found_witness:
  "let (pc, q) = dhmp_malloc_work_handler (default_build 1) ext_ok (mcr_req_info sample_response) 0 0x200 0x100
       64 0 Wait_recv (dhmp_malloc_response_handler (default_build 1) 0x900 granted_proc)
   in pc = Finished \<and> res_addr q 0x200 = 0x7000 \<and> fst (find_info 0x7000 q) = Some 0x100"
proof -
  obtain pc q where r: "dhmp_malloc_work_handler (default_build 1) ext_ok (mcr_req_info sample_response) 0
     0x200 0x100 64 0 Wait_recv (dhmp_malloc_response_handler (default_build 1) 0x900 granted_proc) = (pc, q)"
    by force
  obtain i where i: "sample_heap 0x100 = Some i" by (simp add: sample_heap_def)
  show ?thesis
    using malloc_then_found [OF granted_proc_simps(4,1,3), of i "default_build 1" ext_ok
        "mcr_req_info sample_response" 0 64 pc q "0x7000"] r i
    by (simp add: granted_proc_simps sample_response_def off_table_def client0_def)
qed

text \<open>
  An allocation the server refused never returns.  \<open>dhmp_malloc_error_handler\<close> clears the
  region but does not set \<open>recv_flag\<close>, so the worker, and with it every queued call, stays in the
  loop that waits for it.
\<close>

lemma malloc_error_keeps_waiting:
  assumes "\<not> recv_flag p wp"
  shows "dhmp_malloc_work_handler b x junk h wp ai len k Wait_recv (dhmp_malloc_error_handler data p)
       = (Wait_recv, dhmp_malloc_error_handler data p)"
proof -
  have "recv_flag (dhmp_malloc_error_handler data p) = recv_flag p"
    by (auto simp: dhmp_malloc_error_handler_def update_info_def Let_def split: option.splits)
  then show ?thesis using assms by (simp add: dhmp_malloc_work_handler_def)
qed

lemma malloc_error_keeps_waiting_witness:
  "fst (dhmp_malloc_work_handler (default_build 1) ext_ok (mcr_req_info sample_response) 0 0x200 0x100 64 0
      Wait_recv (dhmp_malloc_error_handler 0x900 granted_proc)) = Wait_recv"
  by (subst malloc_error_keeps_waiting) (simp_all add: granted_proc_def client_proc_def proc0_def)

lemma free_begin_unknown:
  assumes "table_inv p" "entry_of p a = None"
  shows "dhmp_free_work_handler b x junk h wp a Start p = (Finished, set_done wp p)"
  using assms by (simp add: dhmp_free_work_handler_def find_info_entry)

lemma free_begin_known:
  assumes "table_inv p" "entry_of p a = Some e" "dhmp_free_work_handler b x junk h wp a Start p = (pc, q)"
  shows "pc = Wait_cleared e" "table_inv q" "entry_of q b' = (if b' = a then None else entry_of p b')"
    "addr_infos q = addr_infos p"
proof -
  obtain c where c: "client p = Some c" "table_ok (addr_infos p) (addr_info_ht c)"
    "table_lookup (addr_infos p) (addr_info_ht c) a = Some e"
    using assms(1,2) by (auto simp: table_inv_def entry_of_def split: option.splits)
  have live: "e \<in> set (addr_info_ht c (dhmp_hash_in_client a))"
    using c by (simp add: table_lookup_iff)
  then obtain i where i: "addr_infos p e = Some i"
    using c(2) by (auto simp: table_ok_def chain_ok_def)
  let ?p = "p\<lparr>client := Some (c\<lparr>addr_info_ht := hlist_del (dhmp_hash_in_client a) e (addr_info_ht c)\<rparr>)\<rparr>"
  have q: "pc = Wait_cleared e" "q = post_msg b x h DHMP_MSG_FREE_REQUEST
      (put_free_request (junk\<lparr>fq_addr_info := e, fq_mr := nvm_mr i\<rparr>)) ?p"
    using assms c(1) i by (auto simp: dhmp_free_work_handler_def find_info_entry)
  have "table_inv q = table_inv ?p \<and> entry_of q = entry_of ?p"
    by (rule table_inv_cong) (simp_all add: q)
  moreover have "table_inv ?p" using table_ok_delete [OF c(2)] by (simp add: table_inv_def)
  moreover have "entry_of ?p b' = (if b' = a then None else entry_of p b')"
    using lookup_delete_ht [OF c(2,3)] c(1) by (simp add: entry_of_def)
  ultimately show "table_inv q" "entry_of q b' = (if b' = a then None else entry_of p b')" by simp_all
  show "pc = Wait_cleared e" "addr_infos q = addr_infos p" by (simp_all add: q)
qed

text \<open>
  Freeing is safe against a second free.  \<open>dhmp_free\<close> of a known address takes the address out
  of the table and waits for the server; a second \<open>dhmp_free\<close> of the same address that is handled
  before the answer arrives, or after it, sends nothing and just finishes.
\<close>

lemma double_free_sends_nothing:
  assumes "table_inv p" "entry_of p a = Some e"
    and "dhmp_free_work_handler b x junk h wp a Start p = (pc, q)"
    and "table_inv q' = table_inv q" "entry_of q' = entry_of q"
  shows "pc = Wait_cleared e \<and> (d \<noteq> a \<longrightarrow> entry_of q d = entry_of p d)
    \<and> dhmp_free_work_handler b x junk' h wp' a Start q' = (Finished, set_done wp' q')
    \<and> sq (set_done wp' q') = sq q'"
  using free_begin_known [OF assms(1-3)] free_begin_unknown [of q' a] assms(4,5) by auto

definition freeable_proc :: proc where
  "freeable_proc = client_proc\<lparr>addr_infos := sample_heap,
     client := Some (client0\<lparr>addr_info_ht := sample_table\<rparr>)\<rparr>"

lemma freeable_proc_simps [simp]:
  "table_inv freeable_proc" "entry_of freeable_proc 0x5000 = Some 0x100"
  by (simp_all add: table_inv_def entry_of_def freeable_proc_def)

lemma double_free_sends_nothing_witness:
  "let q = snd (dhmp_free_work_handler (default_build 1) ext_ok
      \<lparr>fq_addr_info = 0, fq_mr = zero_mr, fq_dhmp_addr = 0\<rparr> 0 0x200 0x5000 Start freeable_proc)
   in dhmp_free_work_handler (default_build 1) ext_ok
      \<lparr>fq_addr_info = 0, fq_mr = zero_mr, fq_dhmp_addr = 0\<rparr> 0 0x300 0x5000 Start q
      = (Finished, set_done 0x300 q)"
  using double_free_sends_nothing [OF freeable_proc_simps prod.collapse [symmetric] refl refl]
  by (simp add: Let_def)

lemma rw_begin_frames:
  "table_inv p \<Longrightarrow> client (snd (rw_begin wp a p)) = client p \<and> addr_infos (snd (rw_begin wp a p)) = addr_infos p"
  by (auto simp: rw_begin_def find_info_entry split: option.splits)

lemma out_if_failed_frames [simp]:
  "client (snd (out_if_failed wp r)) = client (snd r)"
  "addr_infos (snd (out_if_failed wp r)) = addr_infos (snd r)"
  by (auto simp: out_if_failed_def split: prod.splits pc.splits)

lemma rdma_end_frames [simp]:
  "client (dhmp_rdma_read_end smr p) = client p" "addr_infos (dhmp_rdma_read_end smr p) = addr_infos p"
  "client (dhmp_rdma_write_end smr tk p) = client p" "addr_infos (dhmp_rdma_write_end smr tk p) = addr_infos p"
  by (auto simp: dhmp_rdma_read_end_def dhmp_rdma_write_end_def split: option.splits prod.splits)

text \<open>Reads and writes change at most the counters and the write flag of one entry.\<close>

lemma read_handler_state:
  assumes "table_inv p"
  shows "same_regions p (snd (dhmp_read_work_handler x h wp a la len pc p))"
  using rw_begin_frames [OF assms, of wp a]
  by (cases pc; auto simp: dhmp_read_work_handler_def same_regions_def split: option.split)

lemma write_handler_state:
  assumes "table_inv p"
  shows "same_regions p (snd (dhmp_write_work_handler x h wp a la len pc p))"
  using rw_begin_frames [OF assms, of wp a]
  by (cases pc; auto simp: dhmp_write_work_handler_def same_regions_def split: option.split)

lemma clover_handler_state:
  assumes "table_inv p"
  shows "same_regions p (snd (amper_clover_work_handler x h wp a len v pc p))"
  using assms
  by (cases pc; simp add: amper_clover_work_handler_def find_info_entry case_prod_unfold same_regions_def
      split: option.split)



lemma write_post_held:
  assumes "dhmp_rdma_write_post x h r a len p = (Wait_task (Some smr) tk, q)"
  shows "held (dhmp_rdma_write_end (Some smr) tk q) = held p"
  using assms
  by (cases smr) (auto simp: dhmp_rdma_write_post_def dhmp_rdma_write_end_def dhmp_create_smr_per_ops_def
      dhmp_read_task_create_def amper_post_write_def ask_def Let_def split: if_splits option.splits)

lemma read_post_held:
  assumes "dhmp_rdma_read_post x h r a len p = (Wait_task (Some smr) tk, q)"
  shows "held (dhmp_rdma_read_end (Some smr) q) = R_heap tk # held p"
  using assms
  by (cases smr) (auto simp: dhmp_rdma_read_post_def dhmp_rdma_read_end_def dhmp_create_smr_per_ops_def
      dhmp_read_task_create_def ask_def Let_def split: if_splits option.splits)

text \<open>
  What a one-sided transfer registers it gives back, except the task of a read.  After
  \<open>dhmp_rdma_write\<close> the process holds exactly what it held before; after \<open>dhmp_rdma_read\<close> it
  also holds the task, which nothing frees.
\<close>

lemma transfer_resources:
  assumes "dhmp_rdma_write_post x h r a len p = (Wait_task (Some smr) tk, q)"
    and "dhmp_rdma_read_post x h r' a' len' p' = (Wait_task (Some smr') tk', q')"
  shows "held (dhmp_rdma_write_end (Some smr) tk q) = held p
    \<and> held (dhmp_rdma_read_end (Some smr') q') = R_heap tk' # held p'"
  using write_post_held [OF assms(1)] read_post_held [OF assms(2)] by simp

lemma transfer_resources_witness:
  "held (dhmp_rdma_read_end (Some (0x1000, mr_at 0x600 64))
      (snd (dhmp_rdma_read_post ext_ok 0 (mr_at 0x5000 64) 0x600 64 client_proc))) = [R_heap 0x3000]"
proof -
  have w: "\<exists>q. dhmp_rdma_write_post ext_ok 0 (mr_at 0x5000 64) 0x600 64 client_proc
      = (Wait_task (Some (0x1000, mr_at 0x600 64)) 0x3000, q)"
    by (simp add: dhmp_rdma_write_post_def dhmp_create_smr_per_ops_def dhmp_read_task_create_def ask_def
        Let_def through_int_def)
  have r: "\<exists>q. dhmp_rdma_read_post ext_ok 0 (mr_at 0x5000 64) 0x600 64 client_proc
      = (Wait_task (Some (0x1000, mr_at 0x600 64)) 0x3000, q)"
    by (simp add: dhmp_rdma_read_post_def dhmp_create_smr_per_ops_def dhmp_read_task_create_def ask_def
        Let_def through_int_def)
  show ?thesis using w r transfer_resources by (fastforce simp: client_proc_def proc0_def)
qed

end
