(* ===== verification/Server_Mem.thy ===== *)
theory Server_Mem
  imports Client_Mem
begin

text \<open>
  Memory as the server hands it out: \<open>dhmp_area_create\<close>, \<open>dhmp_malloc_poll_area\<close> and
  \<open>amper_allocspace_for_server\<close> (\<open>dhmp_server.c\<close>), and the handlers of malloc and free requests
  (\<open>dhmp_transport.c\<close>).

  A server thread that \<open>amper_allocspace_for_server\<close> starts is modelled with the protocol it
  serves; here only the buffers it polls are set up.
\<close>

section \<open>Areas\<close>

definition dhmp_area_create :: "ext \<Rightarrow> u64 \<Rightarrow> int \<Rightarrow> proc \<Rightarrow> dhmp_area option \<times> proc" where
  "dhmp_area_create x len node p =
     (let (a, p) = nvm_malloc x len p
      in if a = 0 then (None, p)
         else
           let (mr, p) = ask (\<lambda>t. ext_reg x t a len) p
           in case mr of
                None \<Rightarrow> (None, nvm_free a len p)
              | Some r \<Rightarrow>
                  let p = acquire (R_mr r) p; (ap, p) = ask (ext_malloc x) p
                  in if ap = 0 then (None, nvm_free a len (release (R_mr r) p))
                     else
                       let area = \<lparr>area_ptr = ap, area_mr = r, area_size = len\<rparr>
                       in (Some area, with_node node (acquire (R_heap ap) p) (\<lambda>s n.
                            (acquire (R_heap ap) p)\<lparr>server :=
                              Some (set_node node (n\<lparr>area_list := area # area_list n\<rparr>) s)\<rparr>)))"

definition dhmp_malloc_poll_area :: "ext \<Rightarrow> u64 \<Rightarrow> proc \<Rightarrow> ibv_mr option \<times> proc" where
  "dhmp_malloc_poll_area x len p =
     (let (a, p) = nvm_malloc x len p
      in if a = 0 then (None, p)
         else
           let (mr, p) = ask (\<lambda>t. ext_reg x t a len) p
           in case mr of
                None \<Rightarrow> (None, nvm_free a len p)
              | Some r \<Rightarrow> (Some r, acquire (R_mr r) p))"

section \<open>Buffers of the RPC models\<close>

text \<open>\<open>temp = nvm_malloc(size); temp_smr = dhmp_create_smr_per_ops(temp, size)\<close>, then \<open>temp_smr->mr\<close>.\<close>

definition new_region :: "ext \<Rightarrow> u64 \<Rightarrow> proc \<Rightarrow> addr \<times> ibv_mr option \<times> proc" where
  "new_region x len p =
     (let (a, p) = nvm_malloc x len p; (smr, p) = dhmp_create_smr_per_ops x a len p
      in case smr of
           None \<Rightarrow> (a, None, raise Null_deref p)
         | Some (sp, r) \<Rightarrow> (a, Some r, p))"

text \<open>The same, stored into entry \<open>node\<close> of a per-node array.\<close>

definition new_node_region ::
  "ext \<Rightarrow> u64 \<Rightarrow> int \<Rightarrow> (addr \<Rightarrow> ibv_mr \<Rightarrow> server_node \<Rightarrow> server_node) \<Rightarrow> proc \<Rightarrow> proc" where
  "new_node_region x len node store p =
     (case new_region x len p of
        (a, None, p) \<Rightarrow> p
      | (a, Some r, p) \<Rightarrow> with_node node p (\<lambda>s n. p\<lparr>server := Some (set_node node (store a r n) s)\<rparr>))"

definition upd_node :: "int \<Rightarrow> (server_node \<Rightarrow> server_node) \<Rightarrow> proc \<Rightarrow> proc" where
  "upd_node node f p = with_node node p (\<lambda>s n. p\<lparr>server := Some (set_node node (f n) s)\<rparr>)"

text \<open>\<open>BATCH\<close> is 1.  The lengths are the sums of \<open>sizeof\<close>s in the code.\<close>

abbreviation (input) BATCH :: u64 where "BATCH \<equiv> 1"

definition amper_allocspace_for_server :: "build \<Rightarrow> ext \<Rightarrow> nat \<Rightarrow> int \<Rightarrow> u64 \<Rightarrow> proc \<Rightarrow> proc" where
  "amper_allocspace_for_server b x h is_special sz p =
     (let node = node_id (trans p h);
          (arg, p) = ask (ext_malloc x) p;
          p = (if arg = 0 then raise Null_deref p else acquire (R_heap arg) p)
      in if is_special = 3 then
           let p = (if node \<noteq> 0 then p
                    else case new_region x 3 p of
                      (a, None, p) \<Rightarrow> p
                    | (a, Some r, p) \<Rightarrow> with_server p (\<lambda>s.
                        p\<lparr>server := Some (s\<lparr>L5_mailbox_addr := a, L5_mailbox := r\<rparr>)\<rparr>));
               p = new_node_region x (sz + 18) node (\<lambda>a r n. n\<lparr>L5m_addr := a, L5m_mr := r\<rparr>) p;
               (t, p) = ask (ext_malloc x) p;
               (smr, p) = dhmp_create_smr_per_ops x t (sz + 8 + 1) p
           in upd_node node (\<lambda>n. n\<lparr>L5m_reply_mr := map_option snd smr\<rparr>) p
         else if is_special = 4 then
           with_node node p (\<lambda>s n.
             let p = (if Tw_addr n \<noteq> 0 then nvm_free (Tw_addr n) sz (release (R_mr (Tw_mr n)) p) else p);
                 (a, p) = nvm_malloc x sz p;
                 (smr, p) = dhmp_create_smr_per_ops x a sz p
             in case smr of
                  None \<Rightarrow> raise Null_deref p
                | Some (sp, r) \<Rightarrow> release (R_heap sp) (upd_node node (\<lambda>n. n\<lparr>Tw_addr := a, Tw_mr := r\<rparr>) p))
         else if is_special = 5 then
           (case new_region x 1 p of
              (a, None, p) \<Rightarrow> p
            | (a, Some r, p) \<Rightarrow> with_server p (\<lambda>s. p\<lparr>server := Some (s\<lparr>srv_read_mr := r\<rparr>)\<rparr>))
         else if is_special = 6 then
           let p = new_node_region x (sz + 24) node (\<lambda>a r n. n\<lparr>RFPs_write_mr := r\<rparr>) p
           in new_node_region x (sz + 24) node (\<lambda>a r n. n\<lparr>RFPs_read_mr := r, RFPs_size := sz\<rparr>) p
         else if is_special = 7 then
           let len = 4 + BATCH * (16 + 8 + sz);
               p = new_node_region x len node (\<lambda>a r n. n\<lparr>Sc_Sreq_mr := r\<rparr>) p;
               p = new_node_region x len node (\<lambda>a r n. n\<lparr>Sc_Sdata_mr := r\<rparr>) p
           in new_node_region x len node (\<lambda>a r n. n\<lparr>Sc_Slocal_mr := Some r, Sc_size := sz\<rparr>) p
         else if is_special = 8 then
           let len = 2 + (16 + 8 + sz) * BATCH
           in new_node_region x (len * of_nat (FaRM_buffer_NUM b)) node
                (\<lambda>a r n. n\<lparr>Fa_S_mr := r, Fa_size := sz\<rparr>) p
         else if is_special = 9 then
           let len = 1 + 1 + 16 + 8 + sz
           in new_node_region x (len * of_nat (FaRM_buffer_NUM b)) node
                (\<lambda>a r n. n\<lparr>He_S_mr := r, He_size := sz\<rparr>) p
         else if is_special = 10 then
           let len = 40 + sz;
               p = new_node_region x len node (\<lambda>a r n. n\<lparr>Oc_S_mr := r\<rparr>) p
           in new_node_region x len node (\<lambda>a r n. n\<lparr>Oc_local_mr := r\<rparr>) p
         else p)"

section \<open>The malloc request\<close>

text \<open>
  \<open>SINGLE_POLL_RECV_REGION\<close> is 64 MiB, \<open>SINGLE_AREA_SIZE\<close> is 4194304, \<open>Tailwind_log_size\<close> is 100.
  The response is on the stack: what the chosen branch does not assign keeps its old contents
  (\<open>junk\<close>).
\<close>

abbreviation SINGLE_AREA_SIZE :: u64 where "SINGLE_AREA_SIZE \<equiv> 0x400000"

definition dhmp_malloc_area ::
  "ext \<Rightarrow> u64 \<Rightarrow> int \<Rightarrow> dhmp_mc_response \<Rightarrow> proc \<Rightarrow> bool \<times> dhmp_mc_response \<times> proc" where
  "dhmp_malloc_area x len node resp p =
     (case dhmp_area_create x len node p of
        (None, p) \<Rightarrow> (False, resp, p)
      | (Some a, p) \<Rightarrow> (True, resp\<lparr>mcr_mr := area_mr a, mcr_server_addr := mr_addr (area_mr a)\<rparr>, p))"

text \<open>The branch of the request: its success, the response, and the state.\<close>

definition malloc_branch ::
  "build \<Rightarrow> ext \<Rightarrow> nat \<Rightarrow> dhmp_mc_response \<Rightarrow> proc \<Rightarrow> bool \<times> dhmp_mc_response \<times> proc" where
  "malloc_branch b x h resp p =
     (let q = mcr_req_info resp; k = mcq_is_special q; node = node_id (trans p h);
          get = (\<lambda>p f. case server p of None \<Rightarrow> resp | Some s \<Rightarrow> f (nodes s node))
      in if k = 1 then
           (case dhmp_malloc_poll_area x 0x4000000 p of
              (None, p) \<Rightarrow> (False, resp, p)
            | (Some r, p) \<Rightarrow> (True, resp\<lparr>mcr_mr := r, mcr_server_addr := mr_addr r\<rparr>,
                with_server p (\<lambda>s. p\<lparr>server := Some (s\<lparr>srv_rdma_trans := h\<rparr>)\<rparr>)))
         else if k = 2 then
           (True, resp, with_server p (\<lambda>s. p\<lparr>server := Some (s\<lparr>srv_rdma_trans := h\<rparr>)\<rparr>))
         else if k = 3 then
           let p = upd_node node (\<lambda>n. n\<lparr>L5m_C_mr := mcq_mr q\<rparr>) p;
               p = amper_allocspace_for_server b x h 3 (mcq_req_size q) p
           in (True, (case server p of None \<Rightarrow> resp | Some s \<Rightarrow>
                 resp\<lparr>mcr_mr := (L5_mailbox s)\<lparr>mr_addr := mr_addr (L5_mailbox s) + of_int node\<rparr>,
                      mcr_mr2 := L5m_mr (nodes s node)\<rparr>), p)
         else if k = 4 then
           let p = upd_node node (\<lambda>n. n\<lparr>Tw_flush2_mr := mcq_mr q\<rparr>) p;
               p = amper_allocspace_for_server b x h 4 (mcq_req_size q * 100) p
           in (True, get p (\<lambda>n. resp\<lparr>mcr_mr := Tw_mr n\<rparr>), p)
         else if k = 5 then
           let p = amper_allocspace_for_server b x h 5 0 p
           in (True, resp\<lparr>mcr_mr := dmr_mr (recv_mr (trans p h))\<rparr>, p)
         else if k = 6 then
           let p = amper_allocspace_for_server b x h 6 (mcq_req_size q) p
           in (True, get p (\<lambda>n. resp\<lparr>mcr_mr := RFPs_write_mr n, mcr_mr2 := RFPs_read_mr n\<rparr>), p)
         else if k = 7 then
           let p = amper_allocspace_for_server b x h 7 (mcq_req_size q) p;
               p = upd_node node (\<lambda>n. n\<lparr>Sc_Cdata_mr := mcq_mr q\<rparr>) p
           in (True, get p (\<lambda>n. resp\<lparr>mcr_mr := Sc_Sreq_mr n\<rparr>), p)
         else if k = 8 then
           let p = amper_allocspace_for_server b x h 8 (mcq_req_size q) p;
               p = upd_node node (\<lambda>n. n\<lparr>Fa_C_mr := mcq_mr q\<rparr>) p
           in (True, get p (\<lambda>n. resp\<lparr>mcr_mr := Fa_S_mr n\<rparr>), p)
         else if k = 9 then
           let p = amper_allocspace_for_server b x h 9 (mcq_req_size q) p
           in (True, get p (\<lambda>n. resp\<lparr>mcr_mr := He_S_mr n\<rparr>), p)
         else if k = 10 then
           let p = upd_node node (\<lambda>n. n\<lparr>Oc_C_mr := mcq_mr q\<rparr>) p;
               p = amper_allocspace_for_server b x h 10 (mcq_req_size q) p
           in (True, get p (\<lambda>n. resp\<lparr>mcr_mr := Oc_S_mr n\<rparr>), p)
         else if mcq_req_size q \<le> SINGLE_AREA_SIZE
           then dhmp_malloc_area x (mcq_req_size q) node resp p
         else (True, resp, p))"

text \<open>\<open>nvm_used_size\<close> of the transport counts the length of whatever region the response holds.\<close>

definition add_used :: "nat \<Rightarrow> u64 \<Rightarrow> proc \<Rightarrow> proc" where
  "add_used h n p = p\<lparr>trans := (trans p)(h := (trans p h)\<lparr>nvm_used_size := nvm_used_size (trans p h) + n\<rparr>)\<rparr>"

definition dhmp_malloc_request_handler ::
  "build \<Rightarrow> ext \<Rightarrow> dhmp_mc_response \<Rightarrow> nat \<Rightarrow> addr \<Rightarrow> proc \<Rightarrow> proc" where
  "dhmp_malloc_request_handler b x junk h data p =
     (let resp = junk\<lparr>mcr_req_info := get_mc_request (mem_read (mem p) data 128)\<rparr>;
          (ok, resp, p) = malloc_branch b x h resp p
      in if ok then add_used h (mr_length (mcr_mr resp))
                (post_msg b x h DHMP_MSG_MALLOC_RESPONSE (put_mc_response resp) p)
         else post_msg b x h DHMP_MSG_MALLOC_ERROR (put_mc_response resp) p)"

section \<open>The free request\<close>

definition dhmp_free_one_area :: "ibv_mr \<Rightarrow> nat \<Rightarrow> proc \<Rightarrow> proc" where
  "dhmp_free_one_area mr h p =
     (let node = node_id (trans p h)
      in with_node node p (\<lambda>s n.
           case find (\<lambda>a. mr_lkey mr = mr_lkey (area_mr a)) (area_list n) of
             None \<Rightarrow> p
           | Some a \<Rightarrow>
               release (R_heap (area_ptr a)) (nvm_free (mr_addr (area_mr a)) (area_size a)
                 (release (R_mr (area_mr a))
                   (p\<lparr>server := Some (set_node node (n\<lparr>area_list := remove1 a (area_list n)\<rparr>) s)\<rparr>)))))"

definition dhmp_free_request_handler :: "build \<Rightarrow> ext \<Rightarrow> nat \<Rightarrow> addr \<Rightarrow> proc \<Rightarrow> proc" where
  "dhmp_free_request_handler b x h data p =
     (let q = get_free_request (mem_read (mem p) data 64);
          p = add_used h (- mr_length (fq_mr q)) p;
          p = dhmp_free_one_area (fq_mr q) h p
      in post_msg b x h DHMP_MSG_FREE_RESPONSE (put64 (fq_addr_info q)) p)"

section \<open>Properties\<close>

lemma nvm_malloc_frames [simp]:
  "server (snd (nvm_malloc x n p)) = server p" "client (snd (nvm_malloc x n p)) = client p"
  "trans (snd (nvm_malloc x n p)) = trans p" "sq (snd (nvm_malloc x n p)) = sq p"
  "addr_infos (snd (nvm_malloc x n p)) = addr_infos p"
  by (auto simp: nvm_malloc_def ask_def Let_def)

lemma nvm_free_frames [simp]:
  "server (nvm_free a n p) = server p" "client (nvm_free a n p) = client p"
  "trans (nvm_free a n p) = trans p" "sq (nvm_free a n p) = sq p" "fault (nvm_free a n p) = fault p"
  "held (nvm_free a n p) = remove1 (R_nvm a) (held p)"
  by (simp_all add: nvm_free_def)

lemma send_task_trans:
  "nvm_used_size (trans (snd (dhmp_send_task_create x h ty payload p)) g) = nvm_used_size (trans p g)"
  "node_id (trans (snd (dhmp_send_task_create x h ty payload p)) g) = node_id (trans p g)"
  by (auto simp: dhmp_send_task_create_def ask_def Let_def)

lemma post_msg_trans [simp]:
  "nvm_used_size (trans (post_msg b x h ty payload p) g) = nvm_used_size (trans p g)"
  "node_id (trans (post_msg b x h ty payload p) g) = node_id (trans p g)"
  using send_task_trans [of x h ty payload p g]
  by (auto simp: post_msg_def dhmp_post_send_def amper_ud_post_send_def with_client_def Let_def
      split: prod.splits option.splits)

text \<open>The documented behaviour of \<open>ibv_reg_mr\<close>: the region it returns starts at the given address.\<close>

definition reg_keeps_addr :: "ext \<Rightarrow> bool" where
  "reg_keeps_addr x \<longleftrightarrow> (\<forall>t a n r. ext_reg x t a n = Some r \<longrightarrow> mr_addr r = a)"

lemma ext_ok_reg [simp]: "reg_keeps_addr ext_ok"
  by (simp add: reg_keeps_addr_def)

lemma area_create_state:
  assumes "dhmp_area_create x len node p = (Some a, q)" "server p = Some s" "node_ok node"
  shows "server q = Some (set_node node ((nodes s node)\<lparr>area_list := a # area_list (nodes s node)\<rparr>) s)"
    and "trans q = trans p" and "client q = client p"
  using assms by (auto simp: dhmp_area_create_def nvm_malloc_def ask_def Let_def split: if_splits option.splits)

lemma area_create_held:
  assumes "dhmp_area_create x len node p = (Some a, q)" "server p = Some s" "node_ok node" "reg_keeps_addr x"
  shows "held q = [R_heap (area_ptr a), R_mr (area_mr a), R_nvm (mr_addr (area_mr a))] @ held p"
  using assms by (auto simp: dhmp_area_create_def nvm_malloc_def ask_def Let_def reg_keeps_addr_def
      split: if_splits option.splits)

lemma area_create_failed:
  assumes "dhmp_area_create x len node p = (None, q)"
  shows "server q = server p" "fault p = None \<Longrightarrow> fault q = None \<Longrightarrow> held q = held p"
  using assms by (auto simp: dhmp_area_create_def nvm_malloc_def ask_def Let_def raise_def acquire_def
      split: if_splits option.splits)

lemma set_node_simps [simp]:
  "nodes (set_node i n s) j = (if j = i then n else nodes s j)"
  "set_node i m (set_node i n s) = set_node i m s"
  "set_node i (nodes s i) s = s"
  by (auto simp: set_node_def)

text \<open>
  C26: creating an area and freeing it again leaves the server as it was.  \<open>dhmp_free_one_area\<close>, given
  the region of the area the client was sent, takes exactly that area off the list of the client's
  node and gives back its memory, its registration and its descriptor; a failed
  \<open>dhmp_area_create\<close> holds on to nothing either.
\<close>

lemma area_create_free:
  assumes "server p = Some s" "node_ok (node_id (trans p h))" "reg_keeps_addr x"
    and "dhmp_area_create x len (node_id (trans p h)) p = (r, q)" "fault p = None" "fault q = None"
  shows "(case r of None \<Rightarrow> server q = server p \<and> held q = held p
    | Some a \<Rightarrow> server (dhmp_free_one_area (area_mr a) h q) = server p
        \<and> held (dhmp_free_one_area (area_mr a) h q) = held p)"
proof (cases r)
  case None
  then show ?thesis using area_create_failed [of x len "node_id (trans p h)" p q] assms(4-6) by simp
next
  case (Some a)
  note st = area_create_state [OF assms(4) [unfolded Some] assms(1,2)]
  note hd = area_create_held [OF assms(4) [unfolded Some] assms(1,2,3)]
  have "nodes s (node_id (trans p h)) = (nodes s (node_id (trans p h)))
      \<lparr>area_list := area_list (nodes s (node_id (trans p h)))\<rparr>" by simp
  then have r: "dhmp_free_one_area (area_mr a) h q = release (R_heap (area_ptr a))
      (nvm_free (mr_addr (area_mr a)) (area_size a) (release (R_mr (area_mr a)) (q\<lparr>server := Some s\<rparr>)))"
    using st(1,2) assms(2) by (simp add: dhmp_free_one_area_def)
  show ?thesis using hd assms(1) by (simp add: Some r)
qed

lemma area_create_free_witness:
  "let (r, q) = dhmp_area_create ext_ok 64 0 server_proc
   in held (dhmp_free_one_area (area_mr (the r)) 0 q) = []"
proof -
  obtain r q where e: "dhmp_area_create ext_ok 64 0 server_proc = (r, q)" by force
  then have "fault q = None \<and> r \<noteq> None"
    by (auto simp: dhmp_area_create_def nvm_malloc_def ask_def Let_def node_ok_def)
  then show ?thesis
    using area_create_free [of server_proc server0 0 ext_ok 64 r q] e
    by (auto simp: node_ok_def trans0_def server_proc_def proc0_def split: option.splits)
qed

text \<open>
  A free request touches only the areas of the client that sent it: the entries of every other
  node stay as they were, and at most one area, one with the key of the request, leaves the
  list of the sender's node.
\<close>

lemma free_only_own_areas:
  assumes "server p = Some s" "server (dhmp_free_request_handler b x h data p) = Some s'"
  shows "(\<forall>j. j \<noteq> node_id (trans p h) \<longrightarrow> nodes s' j = nodes s j)
    \<and> (area_list (nodes s' (node_id (trans p h))) = area_list (nodes s (node_id (trans p h)))
       \<or> (\<exists>a \<in> set (area_list (nodes s (node_id (trans p h)))).
            mr_lkey (area_mr a) = mr_lkey (fq_mr (get_free_request (mem_read (mem p) data 64)))
            \<and> area_list (nodes s' (node_id (trans p h))) = remove1 a (area_list (nodes s (node_id (trans p h))))))"
  using assms
  by (cases "node_ok (node_id (trans p h))")
    (auto simp: dhmp_free_request_handler_def dhmp_free_one_area_def add_used_def Let_def find_Some_iff
      split: option.splits intro!: bexI)

lemma free_only_own_areas_witness:
  "nodes (the (server (dhmp_free_request_handler (default_build 1) ext_ok 0 0x900 server_proc))) 1 = node0"
  using free_only_own_areas [of server_proc server0 "default_build 1" ext_ok 0 "0x900"
      "the (server (dhmp_free_request_handler (default_build 1) ext_ok 0 0x900 server_proc))"]
  by (simp add: dhmp_free_request_handler_def dhmp_free_one_area_def add_used_def Let_def node_ok_def
      trans0_def server0_def node0_def)

text \<open>
  A malloc request for more than \<open>SINGLE_AREA_SIZE\<close> bytes is answered with success although
  nothing was allocated: the server sends a malloc response whose region is whatever was on the
  stack, and adds that region's length to the transport's used size.
\<close>

lemma oversized_malloc_granted:
  assumes "mem_read (mem p) data 128 = put_mc_request q" "mcq_is_special q = 0" "SINGLE_AREA_SIZE < mcq_req_size q"
  shows "server (dhmp_malloc_request_handler b x junk h data p) = server p
    \<and> dhmp_malloc_request_handler b x junk h data p
      = add_used h (mr_length (mcr_mr junk)) (post_msg b x h DHMP_MSG_MALLOC_RESPONSE
          (put_mc_response (junk\<lparr>mcr_req_info := q\<rparr>)) p)"
  using assms by (simp add: dhmp_malloc_request_handler_def malloc_branch_def Let_def add_used_def not_le [symmetric])

definition big_request :: dhmp_mc_request where
  "big_request = \<lparr>mcq_req_size = 0x400001, mcq_addr_info = 0x100, mcq_is_special = 0, mcq_mr = zero_mr,
     mcq_mr2 = zero_mr, mcq_task = 0x200\<rparr>"

lemma oversized_malloc_granted_witness:
  "server (dhmp_malloc_request_handler (default_build 1) ext_ok sample_response 0 0x900
     (server_proc\<lparr>mem := mem_write (\<lambda>_. 0) 0x900 (put_mc_request big_request)\<rparr>)) = Some server0"
  by (rule trans [OF conjunct1 [OF oversized_malloc_granted [where q = big_request]]])
    (simp_all add: mem_read_write_same, simp_all add: big_request_def)

end
