(* ===== verification/RPC_L5.thy ===== *)
theory RPC_L5
  imports Server_Mem
begin

text \<open>
  The L5 protocol: \<open>amper_L5_work_handler\<close> (\<open>dhmp_work.c\<close>), \<open>amper_L5_request_handler\<close> and
  \<open>L5_run\<close> (\<open>dhmp_server.c\<close>).  The client writes a request (address, size, flag, data) into its
  message buffer on the server, then the byte 1 into its mailbox; the server's poll thread clears the
  mailbox byte, serves the request and writes the reply into the client's reply buffer,
  where the client spins on one byte.
\<close>

section \<open>The client\<close>

text \<open>The request is built in \<open>client->L5.local_smr1\<close>.\<close>

definition L5_build :: "addr \<Rightarrow> addr \<Rightarrow> u64 \<Rightarrow> byte \<Rightarrow> addr \<Rightarrow> mem \<Rightarrow> mem" where
  "L5_build t local_addr len flag_write dhmp_addr m =
     (let m = mem_write m t (put64 dhmp_addr);
          m = mem_write m (t + 8) (put64 len);
          m = mem_write m (t + 8 + 8) [flag_write]
      in if flag_write = 1 then memcpy m (t + (8 + 8 + 1)) local_addr len else m)"

definition L5_head_size :: "byte \<Rightarrow> u64 \<Rightarrow> u64" where
  "L5_head_size flag_write len = 8 + 8 + 1 + (if flag_write = 1 then len else 0)"

definition L5_reply_at :: "dhmp_client \<Rightarrow> byte \<Rightarrow> u64 \<Rightarrow> addr" where
  "L5_reply_at c flag_write len = mr_addr (local_mr c) + (if flag_write \<noteq> 0 then 1 else len)"

definition amper_L5_work_handler ::
  "ext \<Rightarrow> nat \<Rightarrow> addr \<Rightarrow> addr \<Rightarrow> u64 \<Rightarrow> byte \<Rightarrow> addr \<Rightarrow> pc \<Rightarrow> proc \<Rightarrow> pc \<times> proc" where
  "amper_L5_work_handler x h wp local_addr len flag_write dhmp_addr pc p =
     (case client p of
        None \<Rightarrow> (Finished, raise Null_deref p)
      | Some c \<Rightarrow>
     (case pc of
        Start \<Rightarrow>
          let t = mr_addr (L5_local_smr1 c);
              p = p\<lparr>mem := L5_build t local_addr len flag_write dhmp_addr (mem p)\<rparr>
          in (case dhmp_write_task_create x None 0 p of
                (None, p) \<Rightarrow> (Finished, p)
              | (Some tk, p) \<Rightarrow>
                  let (sge, p) = ask (ext_malloc x) p;
                      p = (if sge = 0 then raise Null_deref p else acquire (R_heap sge) p)
                  in (Wait_task None (tk_ptr tk),
                      post_or_exit x h (rdma_wr IBV_WR_RDMA_WRITE (tk_ptr tk) (mr_addr (L5_message_mr c))
                        (mr_rkey (L5_message_mr c)) t (ucast (L5_head_size flag_write len))
                        (mr_lkey (L5_local_smr1 c))) p))
      | Wait_task _ tk \<Rightarrow>
          if \<not> task_done p tk then (pc, p)
          else (case dhmp_write_task_create x None 0 (release (R_heap tk) p) of
                  (None, p) \<Rightarrow> (Finished, p)
                | (Some tk2, p) \<Rightarrow>
                    (Wait_second (tk_ptr tk2),
                     amper_post_write x h (tk_ptr tk2) (L5_mailbox_mr c) (L5_num_1_addr c) 1 0 True p))
      | Wait_second tk \<Rightarrow>
          if \<not> task_done p tk then (pc, p)
          else (Wait_byte (L5_reply_at c flag_write len), release (R_heap tk) p)
      | Wait_byte reply \<Rightarrow>
          if mem p reply = 0 then (pc, p)
          else
            let m = (if flag_write = 1 then mem p
                     else memcpy (mem p) local_addr (mr_addr (local_mr c)) (load64 (mem p) (reply + 1)))
            in (Finished, set_done wp (p\<lparr>mem := store8 m reply 0\<rparr>))
      | _ \<Rightarrow> (pc, p)))"

section \<open>The server\<close>

text \<open>
  What the handler puts into memory: the served data and the reply, as a function of the memory,
  the message buffer and the reply buffer; with the size of the reply.
\<close>

definition L5_serve :: "addr \<Rightarrow> addr \<Rightarrow> mem \<Rightarrow> mem \<times> u64" where
  "L5_serve context reply m =
     (let server_addr = load64 m context;
          sz = load64 m (context + 8);
          write_flag = m (context + 8 + 8)
      in if write_flag = 1 then
           let m = memcpy m server_addr (context + 8 + 8 + 1) sz;
               m = store8 m reply 1;
               m = store8 m (reply + 1) 1
           in (store64 m (reply + 1 + 1) sz, 8 + 2)
         else
           let m = memcpy m reply server_addr sz;
               m = store8 m (reply + sz) 1
           in (store64 m (reply + sz + 1) sz, 8 + 1 + sz))"

definition amper_L5_request_handler :: "ext \<Rightarrow> int \<Rightarrow> pc \<Rightarrow> proc \<Rightarrow> pc \<times> proc" where
  "amper_L5_request_handler x node pc p =
     (case (server p, pc) of
        (None, _) \<Rightarrow> (Finished, raise Null_deref p)
      | (Some s, Start) \<Rightarrow>
          if \<not> node_ok node then (Finished, raise Out_of_bounds p)
          else
            (case L5m_reply_mr (nodes s node) of
               None \<Rightarrow> (Finished, raise Null_deref p)
             | Some r \<Rightarrow>
                 let n = nodes s node; (m, reply_size) = L5_serve (L5m_addr n) (mr_addr r) (mem p)
                 in (case dhmp_write_task_create x None 0 (p\<lparr>mem := m\<rparr>) of
                       (None, p) \<Rightarrow> (Finished, p)
                     | (Some tk, p) \<Rightarrow>
                         let p = p\<lparr>mem := store64 (mem p) (L5m_addr n) 0\<rparr>
                         in (case node_trans n of
                               None \<Rightarrow> (Finished, raise Null_deref p)
                             | Some h \<Rightarrow>
                                 (Wait_task None (tk_ptr tk),
                                  amper_post_write x h (tk_ptr tk) (L5m_C_mr n) (mr_addr r) (ucast reply_size)
                                    (mr_lkey r) False p))))
      | (Some s, Wait_task _ tk) \<Rightarrow>
          if \<not> task_done p tk then (pc, p)
          else (Finished, release (R_heap tk) (upd_node node (\<lambda>n. n\<lparr>L5m_is_new := True\<rparr>) p))
      | _ \<Rightarrow> (pc, p))"

text \<open>
  One turn of \<open>L5_run\<close>: \<open>i\<close> is the mailbox looked at, the first result says whether a request was
  found, in which case the handler runs for that node before the index moves on.
\<close>

definition L5_run_poll :: "int \<Rightarrow> proc \<Rightarrow> bool \<times> proc" where
  "L5_run_poll i p =
     (case server p of
        None \<Rightarrow> (False, raise Null_deref p)
      | Some s \<Rightarrow>
          if L5_mailbox_addr s = 0 then (False, p)
          else if mem p (L5_mailbox_addr s + of_int i) \<noteq> 0
            then (True, p\<lparr>mem := store8 (mem p) (L5_mailbox_addr s + of_int i) 0\<rparr>)
            else (False, p))"

definition L5_run_next :: "int \<Rightarrow> proc \<Rightarrow> int \<times> proc" where
  "L5_run_next i p =
     (case server p of
        None \<Rightarrow> (i, raise Null_deref p)
      | Some s \<Rightarrow>
          if L5_mailbox_addr s = 0 then (i, p)
          else if client_num s = 0 then (i, raise Division_by_zero p)
          else ((i + 1) mod client_num s, p))"

section \<open>The bytes of a request and of a reply\<close>

definition L5_request :: "addr \<Rightarrow> byte \<Rightarrow> u64 \<Rightarrow> byte list \<Rightarrow> byte list" where
  "L5_request dhmp_addr flag_write len bs = put64 dhmp_addr @ put64 len @ [flag_write] @ bs"

lemma length_L5_request [simp]: "length (L5_request a f n bs) = 17 + length bs"
  by (simp add: L5_request_def)

lemma L5_build_eq:
  assumes "flag_write = 1 \<Longrightarrow> disj t 17 la (unat n)" "unat n < 2 ^ 63"
  shows "L5_build t la n flag_write da m =
    mem_write m t (L5_request da flag_write n (if flag_write = 1 then mem_read m la (unat n) else []))"
proof -
  have h: "mem_write (mem_write (mem_write m t (put64 da)) (t + 8) (put64 n)) (t + 8 + 8) [flag_write]
      = mem_write m t (L5_request da flag_write n [])"
    by (simp add: mem_write_append L5_request_def add.assoc)
  have d: "mem_read (mem_write m t (L5_request da flag_write n [])) la (unat n) = mem_read m la (unat n)"
    if "flag_write = 1"
    using assms(1) that by (intro mem_read_write_disj) simp
  show ?thesis
    using h d assms(2) by (auto simp: L5_build_def Let_def memcpy_def mem_write_append) (simp add: L5_request_def)
qed

text \<open>What the server finds in its message buffer.\<close>

lemma L5_request_fields:
  assumes "mem_read m ctx (length r) = r" "r = L5_request da f n bs"
  shows "load64 m ctx = da" "load64 m (ctx + 8) = n" "m (ctx + 8 + 8) = f"
    and "mem_read m (ctx + 8 + 8 + 1) (length bs) = bs"
proof -
  have r: "mem_read m (ctx + of_nat k) l = take l (drop k r)" if "k + l \<le> 17 + length bs" for k l
    using assms that by (intro mem_read_sub) auto
  show "load64 m ctx = da" "load64 m (ctx + 8) = n" "mem_read m (ctx + 8 + 8 + 1) (length bs) = bs"
    using r [of 0 8] r [of 8 8] r [of 17 "length bs"] assms(2) by (simp_all add: L5_request_def add.assoc)
  show "m (ctx + 8 + 8) = f"
    using mem_byte_at [OF assms(1), of 16] assms(2) by (simp add: L5_request_def nth_append add.assoc)
qed

text \<open>What serving does to memory, as one write of the data and one of the reply.\<close>

lemma L5_serve_write:
  assumes "mem_read m ctx (17 + unat n) = L5_request da 1 n bs" "length bs = unat n" "unat n < 2 ^ 63"
  shows "L5_serve ctx reply m = (mem_write (mem_write m da bs) reply ([1, 1] @ put64 n), 10)"
proof -
  note f = L5_request_fields [where r = "L5_request da 1 n bs", OF _ refl, of m ctx]
  have "mem_write (mem_write (mem_write k reply [1]) (reply + 1) [1]) (reply + 1 + 1) (put64 n)
      = mem_write k reply ([1, 1] @ put64 n)" for k
    by (simp add: mem_write_append add.assoc)
  then show ?thesis using f assms by (simp add: L5_serve_def Let_def memcpy_def)
qed

lemma L5_serve_read:
  assumes "mem_read m ctx 17 = L5_request da 0 n []" "unat n < 2 ^ 63"
  shows "L5_serve ctx reply m = (mem_write m reply (mem_read m da (unat n) @ [1] @ put64 n), 9 + n)"
proof -
  note f = L5_request_fields [where r = "L5_request da 0 n []", OF _ refl, of m ctx]
  have "mem_write (mem_write (mem_write m reply bs) (reply + n) [1]) (reply + n + 1) (put64 n)
      = mem_write m reply (bs @ [1] @ put64 n)" if "length bs = unat n" for bs
    using that assms(2) mem_write_append [of "reply + n" reply bs "[1]" m]
      mem_write_append [of "reply + n + 1" reply "bs @ [1]" "put64 n" m]
    by (simp add: add.assoc)
  then show ?thesis using f assms by (simp add: L5_serve_def Let_def memcpy_def)
qed

section \<open>A call, end to end\<close>

lemma L5_start_posts:
  assumes "client p = Some c" "amper_L5_work_handler x h wp la n f da Start p = (Wait_task s tk, p1)"
    and "sq p1 = sq p @ [(h, w)]" "f = 1 \<Longrightarrow> disj (mr_addr (L5_local_smr1 c)) 17 la (unat n)"
    and "17 + unat n < 2 ^ 32"
  shows "wr_remote_addr w = mr_addr (L5_message_mr c)"
    and "wr_payload (mem p1) w = L5_request da f n (if f = 1 then mem_read (mem p) la (unat n) else [])"
proof -
  let ?t = "mr_addr (L5_local_smr1 c)"
  let ?r = "L5_request da f n (if f = 1 then mem_read (mem p) la (unat n) else [])"
  have w: "wr_remote_addr w = mr_addr (L5_message_mr c)"
    "wr_sg_list w = [\<lparr>sge_addr = ?t, sge_length = ucast (L5_head_size f n), sge_lkey = mr_lkey (L5_local_smr1 c)\<rparr>]"
    and m: "mem p1 = L5_build ?t la n f da (mem p)"
    using assms(1-3)
    by (auto simp: amper_L5_work_handler_def dhmp_read_task_create_def ask_def Let_def post_or_exit_def
        split: if_splits)
  have l: "unat (ucast (L5_head_size f n) :: u32) = length ?r"
  proof -
    have "unat (17 + n) = 17 + unat n"
      using assms(5) by (simp add: unat_word_ariths)
    then show ?thesis using assms(5) by (auto simp: L5_head_size_def unat_ucast_u32)
  qed
  show "wr_remote_addr w = mr_addr (L5_message_mr c)" by (fact w)
  have "mem p1 = mem_write (mem p) ?t ?r"
    using m assms(4,5) L5_build_eq [of f ?t la n da "mem p"] by simp
  moreover have "length ?r \<le> 2 ^ 64" using assms(5) by simp
  ultimately show "wr_payload (mem p1) w = ?r"
    using w(2) l by (simp add: mem_read_write_same)
qed

lemma L5_handler_start:
  assumes "server ps = Some s" "node_ok i" "L5m_reply_mr (nodes s i) = Some r"
    and "amper_L5_request_handler x i Start ps = (Wait_task v tk, ps1)" "sq ps1 = sq ps @ [(hs, w)]"
  shows "mem ps1 = store64 (fst (L5_serve (L5m_addr (nodes s i)) (mr_addr r) (mem ps))) (L5m_addr (nodes s i)) 0"
    and "wr_remote_addr w = mr_addr (L5m_C_mr (nodes s i))"
    and "wr_payload m w = mem_read m (mr_addr r)
           (unat (ucast (snd (L5_serve (L5m_addr (nodes s i)) (mr_addr r) (mem ps))) :: u32))"
  using assms
  by (auto simp: amper_L5_request_handler_def dhmp_read_task_create_def ask_def Let_def amper_post_write_def
      post_or_exit_def case_prod_unfold split: if_splits option.splits)

text \<open>
  Where a server keeps things: the bytes of the client's object, its message buffer (of which the
  handler clears the first 8 bytes) and its reply buffer do not overlap.
\<close>

definition L5_layout :: "addr \<Rightarrow> u64 \<Rightarrow> addr \<Rightarrow> addr \<Rightarrow> bool" where
  "L5_layout da n context reply \<longleftrightarrow> disj reply 10 da (unat n) \<and> disj context 8 da (unat n)
     \<and> disj context 8 reply (unat n + 10)"

lemma disj_shorter: "disj a k b (n + l) \<Longrightarrow> disj a k b n"
  by (auto simp: disj_def)

text \<open>
  A client and a server with their L5 buffers set up, for the witnesses: the client's object is 2 bytes at
  0x600, the server's at 0x50000.
\<close>

definition L5_client :: proc where
  "L5_client = client_proc\<lparr>mem := mem_write (\<lambda>_. 0) 0x600 [0xAA, 0xBB],
     client := Some (client0\<lparr>L5_local_smr1 := mr_at 0x10000 64, L5_message_mr := mr_at 0x20000 64,
       local_mr := mr_at 0x30000 64\<rparr>)\<rparr>"

definition L5_server :: proc where
  "L5_server = server_proc\<lparr>server := Some (set_node 0 (node0\<lparr>L5m_addr := 0x20000, node_trans := Some 1,
     L5m_reply_mr := Some (mr_at 0x60000 64), L5m_C_mr := mr_at 0x30000 64\<rparr>) server0)\<rparr>"

abbreviation L5_sent :: "byte \<Rightarrow> proc" where
  "L5_sent f \<equiv> snd (amper_L5_work_handler ext_ok 0 0x40 0x600 2 f 0x50000 Start L5_client)"

abbreviation L5_arrived :: "byte \<Rightarrow> proc" where
  "L5_arrived f \<equiv> deliver_last (L5_sent f) L5_server"

abbreviation L5_served :: "byte \<Rightarrow> proc" where
  "L5_served f \<equiv> snd (amper_L5_request_handler ext_ok 0 Start (L5_arrived f))"

definition L5_client_rec :: dhmp_client where
  "L5_client_rec = client0\<lparr>L5_local_smr1 := mr_at 0x10000 64, L5_message_mr := mr_at 0x20000 64,
     local_mr := mr_at 0x30000 64\<rparr>"

definition L5_node_rec :: server_node where
  "L5_node_rec = node0\<lparr>L5m_addr := 0x20000, node_trans := Some 1, L5m_reply_mr := Some (mr_at 0x60000 64),
     L5m_C_mr := mr_at 0x30000 64\<rparr>"

lemma L5_sample_simps [simp]:
  "client L5_client = Some L5_client_rec" "server L5_server = Some (set_node 0 L5_node_rec server0)"
  "L5_local_smr1 L5_client_rec = mr_at 0x10000 64" "L5_message_mr L5_client_rec = mr_at 0x20000 64"
  "local_mr L5_client_rec = mr_at 0x30000 64" "L5m_addr L5_node_rec = 0x20000"
  "L5m_reply_mr L5_node_rec = Some (mr_at 0x60000 64)" "L5m_C_mr L5_node_rec = mr_at 0x30000 64" "node_trans L5_node_rec = Some 1"
  "node_ok 0" "tick L5_server = 0" "sq L5_server = []" "tick L5_client = 0"
  by (simp_all add: L5_client_def L5_client_rec_def L5_server_def L5_node_rec_def node_ok_def)

lemma L5_sample_run:
  assumes "f = 0 \<or> f = 1"
  obtains tk w tk' w' where
    "amper_L5_work_handler ext_ok 0 0x40 0x600 2 f 0x50000 Start L5_client = (Wait_task None tk, L5_sent f)"
    "sq (L5_sent f) = sq L5_client @ [(0, w)]" "delivered (mem (L5_sent f)) w (mem (L5_arrived f))"
    "server (L5_arrived f) = Some (set_node 0 L5_node_rec server0)"
    "amper_L5_request_handler ext_ok 0 Start (L5_arrived f) = (Wait_task None tk', L5_served f)"
    "sq (L5_served f) = sq (L5_arrived f) @ [(1, w')]"
    "delivered (mem (L5_served f)) w' (mem (deliver_last (L5_served f) L5_client))"
    "client (deliver_last (L5_served f) L5_client) = Some L5_client_rec"
proof -
  obtain tk w where st: "amper_L5_work_handler ext_ok 0 0x40 0x600 2 f 0x50000 Start L5_client
      = (Wait_task None tk, L5_sent f)" "sq (L5_sent f) = sq L5_client @ [(0, w)]"
    by (simp add: amper_L5_work_handler_def dhmp_read_task_create_def ask_def Let_def)
  have "length (wr_payload (mem (L5_sent f)) w) \<le> 2 ^ 64"
    using L5_start_posts(2) [OF L5_sample_simps(1) st] by (simp add: disj_def)
  note dv = deliver_last_ok [OF st(2) this, of L5_server]
  obtain tk' w' where hs: "amper_L5_request_handler ext_ok 0 Start (L5_arrived f) = (Wait_task None tk', L5_served f)"
    "sq (L5_served f) = sq (L5_arrived f) @ [(1, w')]"
    using dv
    by (simp add: amper_L5_request_handler_def dhmp_read_task_create_def ask_def Let_def amper_post_write_def
        case_prod_unfold)
  have s: "server (L5_arrived f) = Some (set_node 0 L5_node_rec server0)" using dv(2) by simp
  have "length (wr_payload (mem (L5_served f)) w') \<le> 2 ^ 64"
    using L5_handler_start(3) [OF s L5_sample_simps(10) _ hs, of "mr_at 0x60000 64"]
    by (simp add: less_imp_le [OF less_trans [OF unsigned_less]])
  note dv' = deliver_last_ok [OF hs(2) this, of L5_client]
  show thesis
    using that [OF st dv(1) s hs dv'(1)] dv'(3) by simp
qed

text \<open>
  C2: an L5 write takes effect and is answered.  If the client's request is delivered into its message
  buffer on the server and the server's handler runs, then the object at the given address
  holds the client's bytes, and once the reply is delivered into the client's reply buffer the
  client's wait ends and the call is marked done.
\<close>

lemma L5_write_end_to_end:
  assumes "client p = Some c" "amper_L5_work_handler x h wp la n 1 da Start p = (Wait_task u tk, p1)"
    and "sq p1 = sq p @ [(h, w)]" "17 + unat n < 2 ^ 32" "disj (mr_addr (L5_local_smr1 c)) 17 la (unat n)"
    and "server ps = Some s" "node_ok i" "L5m_reply_mr (nodes s i) = Some r"
    and "delivered (mem p1) w (mem ps)" "mr_addr (L5_message_mr c) = L5m_addr (nodes s i)"
    and "L5_layout da n (L5m_addr (nodes s i)) (mr_addr r)"
    and "amper_L5_request_handler y i Start ps = (Wait_task v tk', ps1)" "sq ps1 = sq ps @ [(hs, w')]"
    and "delivered (mem ps1) w' (mem q)" "mr_addr (L5m_C_mr (nodes s i)) = mr_addr (local_mr c)" "client q = Some c"
  shows "mem_read (mem ps1) da (unat n) = mem_read (mem p) la (unat n)
    \<and> (\<exists>q'. amper_L5_work_handler x h wp la n 1 da (Wait_byte (L5_reply_at c 1 n)) q = (Finished, q') \<and> done_flag q' wp)"
proof -
  let ?ctx = "L5m_addr (nodes s i)" and ?d = "mem_read (mem p) la (unat n)"
  note st = L5_start_posts [OF assms(1-3) assms(5) assms(4)]
  have "mem_read (mem ps) ?ctx (17 + unat n) = L5_request da 1 n ?d"
    using assms(9,10) st by (simp add: delivered_def)
  then have sv: "L5_serve ?ctx (mr_addr r) (mem ps)
      = (mem_write (mem_write (mem ps) da ?d) (mr_addr r) ([1, 1] @ put64 n), 10)"
    using assms(4) by (intro L5_serve_write) simp_all
  note hs = L5_handler_start [OF assms(6-8,12,13)]
  have lay: "disj (mr_addr r) 10 da (unat n)" "disj ?ctx 8 da (unat n)" "disj ?ctx 8 (mr_addr r) 10"
    using assms(11) by (auto simp: L5_layout_def disj_def)
  have m1: "mem ps1 = store64 (mem_write (mem_write (mem ps) da ?d) (mr_addr r) ([1, 1] @ put64 n)) ?ctx 0"
    using hs(1) sv by simp
  have obj: "mem_read (mem ps1) da (unat n) = ?d"
    using lay assms(4) by (simp add: m1 mem_read_write_disj mem_read_write_same del: put_le.simps)
  have "mem_read (mem ps1) (mr_addr r) 10 = [1, 1] @ put64 n"
    using lay by (simp add: m1 mem_read_write_disj mem_read_write_same del: put_le.simps)
  then have "mem_read (mem q) (mr_addr (local_mr c)) (length ([1, 1] @ put64 n)) = [1, 1] @ put64 n"
    using assms(14,15) hs(2) hs(3) [of "mem ps1"] sv by (simp add: delivered_def del: put_le.simps)
  from mem_byte_at [OF this, of 1] have "mem q (mr_addr (local_mr c) + 1) = 1" by simp
  then have "amper_L5_work_handler x h wp la n 1 da (Wait_byte (L5_reply_at c 1 n)) q
      = (Finished, set_done wp (q\<lparr>mem := store8 (mem q) (mr_addr (local_mr c) + 1) 0\<rparr>))"
    using assms(16) by (simp add: amper_L5_work_handler_def L5_reply_at_def Let_def)
  then show ?thesis using obj by simp
qed

lemma L5_write_end_to_end_witness:
  "mem_read (mem (L5_served 1)) 0x50000 2 = mem_read (mem L5_client) 0x600 2
    \<and> fst (amper_L5_work_handler ext_ok 0 0x40 0x600 2 1 0x50000 (Wait_byte 0x30001)
          (deliver_last (L5_served 1) L5_client)) = Finished"
proof (rule L5_sample_run [of 1])
  fix tk w tk' w'
  assume a: "amper_L5_work_handler ext_ok 0 0x40 0x600 2 1 0x50000 Start L5_client = (Wait_task None tk, L5_sent 1)"
    "sq (L5_sent 1) = sq L5_client @ [(0, w)]" "delivered (mem (L5_sent 1)) w (mem (L5_arrived 1))"
    "server (L5_arrived 1) = Some (set_node 0 L5_node_rec server0)"
    "amper_L5_request_handler ext_ok 0 Start (L5_arrived 1) = (Wait_task None tk', L5_served 1)"
    "sq (L5_served 1) = sq (L5_arrived 1) @ [(1, w')]"
    "delivered (mem (L5_served 1)) w' (mem (deliver_last (L5_served 1) L5_client))"
    "client (deliver_last (L5_served 1) L5_client) = Some L5_client_rec"
  show ?thesis
    using L5_write_end_to_end [OF L5_sample_simps(1) a(1,2) _ _ a(4) L5_sample_simps(10) _ a(3) _ _ a(5,6,7) _ a(8)]
    by (auto simp: disj_def L5_layout_def L5_reply_at_def)
qed simp

text \<open>
  C31: an L5 read returns the server's bytes.  If the request is delivered, the server's handler runs and
  its reply is delivered, then the client's wait ends with the object's bytes in the local buffer.
\<close>

lemma L5_read_end_to_end:
  assumes "client p = Some c" "amper_L5_work_handler x h wp la n 0 da Start p = (Wait_task u tk, p1)"
    and "sq p1 = sq p @ [(h, w)]" "17 + unat n < 2 ^ 32"
    and "server ps = Some s" "node_ok i" "L5m_reply_mr (nodes s i) = Some r"
    and "delivered (mem p1) w (mem ps)" "mr_addr (L5_message_mr c) = L5m_addr (nodes s i)"
    and "disj (L5m_addr (nodes s i)) 8 (mr_addr r) (unat n + 9)"
    and "amper_L5_request_handler y i Start ps = (Wait_task v tk', ps1)" "sq ps1 = sq ps @ [(hs, w')]"
    and "delivered (mem ps1) w' (mem q)" "mr_addr (L5m_C_mr (nodes s i)) = mr_addr (local_mr c)" "client q = Some c"
    and "disj (mr_addr (local_mr c) + n) 1 la (unat n)"
  shows "\<exists>q'. amper_L5_work_handler x h wp la n 0 da (Wait_byte (L5_reply_at c 0 n)) q = (Finished, q')
    \<and> done_flag q' wp \<and> mem_read (mem q') la (unat n) = mem_read (mem ps) da (unat n)"
proof -
  let ?ctx = "L5m_addr (nodes s i)" and ?d = "mem_read (mem ps) da (unat n)" and ?l = "mr_addr (local_mr c)"
  note st = L5_start_posts [OF assms(1-3) _ assms(4)]
  have "mem_read (mem ps) ?ctx 17 = L5_request da 0 n []"
    using assms(8,9) st by (simp add: delivered_def)
  then have sv: "L5_serve ?ctx (mr_addr r) (mem ps) = (mem_write (mem ps) (mr_addr r) (?d @ [1] @ put64 n), 9 + n)"
    using assms(4) by (intro L5_serve_read) simp_all
  note hs = L5_handler_start [OF assms(5-7,11,12)]
  have len: "unat (ucast (9 + n) :: u32) = unat n + 9"
    using assms(4) by (simp add: unat_ucast_u32 unat_word_ariths)
  have "mem_read (mem ps1) (mr_addr r) (unat n + 9) = ?d @ [1] @ put64 n"
    using hs(1) sv assms(4,10) by (simp add: mem_read_write_disj mem_read_write_same del: put_le.simps)
  then have r: "mem_read (mem q) ?l (length (?d @ [1] @ put64 n)) = ?d @ [1] @ put64 n"
    using assms(13,14) hs(2) hs(3) [of "mem ps1"] sv len by (simp add: delivered_def del: put_le.simps)
  have b: "mem q (?l + n) = 1" using mem_byte_at [OF r, of "unat n"] by (simp add: nth_append)
  have s8: "load64 (mem q) (?l + n + 1) = n"
    using mem_read_sub [OF r, of "unat n + 1" 8] by (simp add: ac_simps del: put_le.simps)
  have d: "mem_read (mem q) ?l (unat n) = ?d" using mem_read_sub [OF r, of 0 "unat n"] by simp
  have "amper_L5_work_handler x h wp la n 0 da (Wait_byte (L5_reply_at c 0 n)) q
      = (Finished, set_done wp (q\<lparr>mem := store8 (mem_write (mem q) la ?d) (?l + n) 0\<rparr>))"
    using assms(15) b s8 d by (simp add: amper_L5_work_handler_def L5_reply_at_def Let_def memcpy_def)
  moreover have "mem_read (store8 (mem_write (mem q) la ?d) (?l + n) 0) la (unat n) = ?d"
    using assms(4,16) by (simp add: mem_read_write_disj mem_read_write_same)
  ultimately show ?thesis by simp
qed

lemma L5_read_end_to_end_witness:
  "fst (amper_L5_work_handler ext_ok 0 0x40 0x600 2 0 0x50000 (Wait_byte 0x30002)
          (deliver_last (L5_served 0) L5_client)) = Finished"
proof (rule L5_sample_run [of 0])
  fix tk w tk' w'
  assume a: "amper_L5_work_handler ext_ok 0 0x40 0x600 2 0 0x50000 Start L5_client = (Wait_task None tk, L5_sent 0)"
    "sq (L5_sent 0) = sq L5_client @ [(0, w)]" "delivered (mem (L5_sent 0)) w (mem (L5_arrived 0))"
    "server (L5_arrived 0) = Some (set_node 0 L5_node_rec server0)"
    "amper_L5_request_handler ext_ok 0 Start (L5_arrived 0) = (Wait_task None tk', L5_served 0)"
    "sq (L5_served 0) = sq (L5_arrived 0) @ [(1, w')]"
    "delivered (mem (L5_served 0)) w' (mem (deliver_last (L5_served 0) L5_client))"
    "client (deliver_last (L5_served 0) L5_client) = Some L5_client_rec"
  show ?thesis
    using L5_read_end_to_end [OF L5_sample_simps(1) a(1,2) _ a(4) L5_sample_simps(10) _ a(3) _ _ a(5,6,7) _ a(8)]
    by (auto simp: disj_def L5_reply_at_def)
qed simp

section \<open>A stale reply byte\<close>

text \<open>
  C34: an L5 write that follows a read can finish before the server has seen it.  The read clears the byte
  behind the data it received, but a write waits on the second byte of the same buffer, which
  still holds the second byte of those data: if that is not zero, the wait of the write ends
  at once.
\<close>

lemma L5_write_after_read_finishes_early:
  assumes "client q = Some c" "1 < n" "mem q (mr_addr (local_mr c) + 1) \<noteq> 0"
    and "amper_L5_work_handler x h wp la n 0 da (Wait_byte (L5_reply_at c 0 n)) q = (Finished, q1)"
    and "disj la (unat (load64 (mem q) (mr_addr (local_mr c) + n + 1))) (mr_addr (local_mr c) + 1) 1"
    and "client q2 = Some c'" "local_mr c' = local_mr c"
    and "mem q2 (mr_addr (local_mr c) + 1) = mem q1 (mr_addr (local_mr c) + 1)"
  shows "\<exists>q3. amper_L5_work_handler x h wp' la' n' 1 da' (Wait_byte (L5_reply_at c' 1 n')) q2 = (Finished, q3)
    \<and> done_flag q3 wp'"
proof -
  let ?l = "mr_addr (local_mr c)"
  have keep: "mem q1 (?l + 1) = mem q (?l + 1)"
  proof (cases "mem q (?l + n) = 0")
    case True
    then show ?thesis using assms(1,4) by (auto simp: amper_L5_work_handler_def L5_reply_at_def)
  next
    case False
    have ne: "?l + 1 - (?l + n) \<noteq> 0" using assms(2) by auto
    let ?m = "memcpy (mem q) la ?l (load64 (mem q) (?l + n + 1))"
    have "mem q1 = store8 ?m (?l + n) 0"
      using False assms(1,4) by (auto simp: amper_L5_work_handler_def L5_reply_at_def Let_def)
    moreover have "?m (?l + 1) = mem q (?l + 1)"
      using assms(5) mem_write_disj [of la "mem_read (mem q) ?l (unat (load64 (mem q) (?l + n + 1)))" "?l + 1" 1 0]
      by (simp add: memcpy_def)
    ultimately show ?thesis using ne by (simp add: mem_write_def Let_def unat_eq_0)
  qed
  then have "mem q2 (?l + 1) \<noteq> 0" using assms(3,8) by simp
  then show ?thesis
    using assms(6,7) by (simp add: amper_L5_work_handler_def L5_reply_at_def Let_def)
qed

definition L5_read_back :: proc where
  "L5_read_back = L5_client\<lparr>mem := mem_write (\<lambda>_. 0) 0x30000 ([0x41, 0x42, 1] @ put64 2)\<rparr>"

lemma L5_write_after_read_finishes_early_witness:
  "let q1 = snd (amper_L5_work_handler ext_ok 0 0x40 0x600 2 0 0x50000 (Wait_byte 0x30002) L5_read_back)
   in fst (amper_L5_work_handler ext_ok 0 0x48 0x700 8 1 0x50000 (Wait_byte 0x30001) q1) = Finished"
proof -
  let ?h = "amper_L5_work_handler ext_ok 0 0x40 0x600 2 0 0x50000 (Wait_byte 0x30002) L5_read_back"
  have m: "mem_read (mem L5_read_back) (0x30000 + of_nat k) n = take n (drop k ([0x41, 0x42, 1] @ put64 2))"
    if "k + n \<le> 11" for k n
  proof -
    have "mem L5_read_back = mem_write (\<lambda>_. 0) 0x30000 ([0x41, 0x42, 1] @ put64 2)"
      by (simp add: L5_read_back_def del: put_le.simps)
    then show ?thesis using that by (simp only:) (rule mem_read_write_sub, auto)
  qed
  have b: "mem L5_read_back 0x30001 = 0x42" "mem L5_read_back 0x30002 = 1" "load64 (mem L5_read_back) 0x30003 = 2"
    using m [of 1 1] m [of 2 1] m [of 3 8] by (simp_all del: put_le.simps)
  have c: "client L5_read_back = Some L5_client_rec" by (simp add: L5_read_back_def)
  have h: "?h = (Finished, snd ?h)" "client (snd ?h) = Some L5_client_rec"
    using c b by (simp_all add: amper_L5_work_handler_def Let_def)
  show ?thesis
    using L5_write_after_read_finishes_early [OF c, of 2 ext_ok 0 "0x40" "0x600" "0x50000" "snd ?h" "snd ?h"
        L5_client_rec "0x48" "0x700" 8 "0x50000"] b h
    by (auto simp: L5_reply_at_def Let_def disj_def)
qed

end
