(* ===== verification/L5_System.thy ===== *)
theory L5_System
  imports RPC_L5
begin

text \<open>
  The L5 call as a transition system: the client's worker, the adapter and the server's poll thread
  take steps in any order.  The adapter delivers requests of one connection in the order
  they were posted, and marks the task of a request done when it has delivered it; that is the
  documented behaviour of a reliable connection and the only step that is not code.

  The main result: whenever the poll thread finds the mailbox byte set, the whole request
  is already in the message buffer.
\<close>

record L5_call =
  c_ext :: ext
  c_trans :: nat
  c_wp :: addr
  c_la :: addr
  c_n :: u64
  c_f :: byte
  c_da :: addr
  s_ext :: ext
  s_node :: int

record L5_system =
  cl :: proc
  cpc :: pc
  sv :: proc
  wire :: "(ibv_send_wr \<times> byte list) list"

definition client_turn :: "L5_call \<Rightarrow> pc \<Rightarrow> proc \<Rightarrow> pc \<times> proc" where
  "client_turn k = amper_L5_work_handler (c_ext k) (c_trans k) (c_wp k) (c_la k) (c_n k) (c_f k) (c_da k)"

text \<open>The requests posted by a step, with the bytes gathered for them.\<close>

definition newly :: "proc \<Rightarrow> proc \<Rightarrow> (ibv_send_wr \<times> byte list) list" where
  "newly p q = map (\<lambda>(h, w). (w, wr_payload (mem q) w)) (drop (length (sq p)) (sq q))"

inductive L5_step :: "L5_call \<Rightarrow> L5_system \<Rightarrow> L5_system \<Rightarrow> bool" for k where
  client_step: "client_turn k (cpc s) (cl s) = (pc', p') \<Longrightarrow>
     L5_step k s (s\<lparr>cl := p', cpc := pc', wire := wire s @ newly (cl s) p'\<rparr>)"
| deliver_step: "wire s = (w, bs) # rest \<Longrightarrow>
     L5_step k s (s\<lparr>sv := (sv s)\<lparr>mem := mem_write (mem (sv s)) (wr_remote_addr w) bs\<rparr>,
       cl := (cl s)\<lparr>task_done := (task_done (cl s))(wr_id w := True)\<rparr>, wire := rest\<rparr>)"
| poll_step: "L5_run_poll (s_node k) (sv s) = (True, p') \<Longrightarrow>
     amper_L5_request_handler (s_ext k) (s_node k) Start p' = (pc', p'') \<Longrightarrow>
     L5_step k s (s\<lparr>sv := p''\<rparr>)"

inductive L5_reach :: "L5_call \<Rightarrow> L5_system \<Rightarrow> L5_system \<Rightarrow> bool" for k where
  reach_refl: "L5_reach k s s"
| reach_step: "L5_reach k s t \<Longrightarrow> L5_step k t u \<Longrightarrow> L5_reach k s u"

inductive_cases L5_stepE: "L5_step k s t"

section \<open>The setting of a call\<close>

text \<open>
  \<open>bs\<close> are the bytes to write, empty for a read.  The client's and the server's buffers are where
  the connection put them, and do not overlap.
\<close>

definition L5_setting :: "L5_call \<Rightarrow> dhmp_client \<Rightarrow> dhmp_server \<Rightarrow> byte list \<Rightarrow> bool" where
  "L5_setting k c sr bs \<longleftrightarrow>
     (let n = nodes sr (s_node k); box = L5_mailbox_addr sr + of_int (s_node k) in
      node_ok (s_node k) \<and> L5_mailbox_addr sr \<noteq> 0
      \<and> c_f k \<in> {0, 1} \<and> length bs = (if c_f k = 1 then unat (c_n k) else 0) \<and> 32 + unat (c_n k) < 2 ^ 32
      \<and> disj (mr_addr (L5_local_smr1 c)) 17 (c_la k) (unat (c_n k))
      \<and> mr_addr (L5_message_mr c) = L5m_addr n \<and> mr_addr (L5_mailbox_mr c) = box
      \<and> disj (L5m_addr n) (17 + unat (c_n k)) box 1 \<and> disj (c_da k) (unat (c_n k)) box 1
      \<and> (\<exists>r. L5m_reply_mr n = Some r \<and> disj (mr_addr r) (unat (c_n k) + 10) box 1))"

abbreviation box_of :: "L5_call \<Rightarrow> dhmp_server \<Rightarrow> addr" where
  "box_of k sr \<equiv> L5_mailbox_addr sr + of_int (s_node k)"

text \<open>The request is in the message buffer.\<close>

definition arrived :: "L5_call \<Rightarrow> dhmp_server \<Rightarrow> byte list \<Rightarrow> mem \<Rightarrow> bool" where
  "arrived k sr bs m \<longleftrightarrow> mem_read m (L5m_addr (nodes sr (s_node k))) (17 + length bs) = L5_request (c_da k) (c_f k) (c_n k) bs"

text \<open>
  The phases of a call.  The mailbox byte is clear until the mailbox write is delivered; that write
  is posted after the message write was delivered.
\<close>

definition phase :: "L5_call \<Rightarrow> dhmp_client \<Rightarrow> dhmp_server \<Rightarrow> byte list \<Rightarrow> L5_system \<Rightarrow> bool" where
  "phase k c sr bs s \<longleftrightarrow>
     (case cpc s of
        Start \<Rightarrow> wire s = [] \<and> mem (sv s) (box_of k sr) = 0
          \<and> (c_f k = 1 \<longrightarrow> mem_read (mem (cl s)) (c_la k) (unat (c_n k)) = bs)
      | Wait_task u tk \<Rightarrow> mem (sv s) (box_of k sr) = 0
          \<and> ((\<exists>w. wire s = [(w, L5_request (c_da k) (c_f k) (c_n k) bs)] \<and> \<not> task_done (cl s) tk
                \<and> wr_id w = tk \<and> wr_remote_addr w = L5m_addr (nodes sr (s_node k)))
             \<or> wire s = [] \<and> (task_done (cl s) tk \<longrightarrow> arrived k sr bs (mem (sv s))))
      | _ \<Rightarrow> (wire s = [] \<or> (\<exists>w b. wire s = [(w, [b])] \<and> wr_remote_addr w = box_of k sr)
                \<and> mem (sv s) (box_of k sr) = 0)
          \<and> (wire s \<noteq> [] \<or> mem (sv s) (box_of k sr) \<noteq> 0 \<longrightarrow> arrived k sr bs (mem (sv s))))"

definition L5_inv :: "L5_call \<Rightarrow> dhmp_client \<Rightarrow> dhmp_server \<Rightarrow> byte list \<Rightarrow> L5_system \<Rightarrow> bool" where
  "L5_inv k c sr bs s \<longleftrightarrow> client (cl s) = Some c \<and> server (sv s) = Some sr \<and> phase k c sr bs s"

section \<open>Every step keeps the invariant\<close>

lemma newly_Nil [simp]: "sq q = sq p \<Longrightarrow> newly p q = []"
  by (simp add: newly_def)

lemma newly_one: "sq q = sq p @ [(h, w)] \<Longrightarrow> newly p q = [(w, wr_payload (mem q) w)]"
  by (simp add: newly_def)

text \<open>The three things the first part of the client's handler can do.\<close>

lemma client_start_cases:
  assumes "client p = Some c" "client_turn k Start p = (pc', p')"
  obtains (no_task) "pc' = Finished" "sq p' = sq p" "client p' = Some c"
  | (no_post) tk where "pc' = Wait_task None tk" "sq p' = sq p" "client p' = Some c" "\<not> task_done p' tk"
  | (posted) tk w where "pc' = Wait_task None tk" "sq p' = sq p @ [(c_trans k, w)]" "client p' = Some c"
      "\<not> task_done p' tk" "wr_id w = tk"
  using assms
  by (auto simp: client_turn_def amper_L5_work_handler_def dhmp_read_task_create_def ask_def Let_def
      post_or_exit_def raise_def split: if_splits)

lemma client_task_cases:
  assumes "client p = Some c" "client_turn k (Wait_task u tk) p = (pc', p')"
  obtains (wait) "\<not> task_done p tk" "pc' = Wait_task u tk" "p' = p"
  | (no_task) "task_done p tk" "pc' = Finished" "sq p' = sq p" "client p' = Some c"
  | (no_post) t where "task_done p tk" "pc' = Wait_second t" "sq p' = sq p" "client p' = Some c"
  | (posted) t w where "task_done p tk" "pc' = Wait_second t" "sq p' = sq p @ [(c_trans k, w)]" "client p' = Some c"
      "wr_remote_addr w = mr_addr (L5_mailbox_mr c)" "length (wr_payload (mem p') w) = 1"
  using assms
  by (auto simp: client_turn_def amper_L5_work_handler_def dhmp_read_task_create_def ask_def Let_def
      amper_post_write_def post_or_exit_def raise_def split: if_splits)

lemma client_later:
  assumes "client p = Some c" "client_turn k pc p = (pc', p')" "pc \<noteq> Start" "\<And>u tk. pc \<noteq> Wait_task u tk"
  shows "sq p' = sq p" "client p' = Some c" "pc' \<noteq> Start" "\<And>u tk. pc' \<noteq> Wait_task u tk"
  using assms by (cases pc; auto simp: client_turn_def amper_L5_work_handler_def Let_def split: if_splits)+

lemma phase_later:
  assumes "cpc s \<noteq> Start" "\<And>u tk. cpc s \<noteq> Wait_task u tk"
  shows "phase k c sr bs s \<longleftrightarrow>
      (wire s = [] \<or> (\<exists>w b. wire s = [(w, [b])] \<and> wr_remote_addr w = box_of k sr) \<and> mem (sv s) (box_of k sr) = 0)
      \<and> (wire s \<noteq> [] \<or> mem (sv s) (box_of k sr) \<noteq> 0 \<longrightarrow> arrived k sr bs (mem (sv s)))"
  using assms by (cases "cpc s") (auto simp: phase_def)

lemma client_step_inv:
  assumes "L5_setting k c sr bs" "L5_inv k c sr bs s" "client_turn k (cpc s) (cl s) = (pc', p')"
  shows "L5_inv k c sr bs (s\<lparr>cl := p', cpc := pc', wire := wire s @ newly (cl s) p'\<rparr>)"
proof -
  have c: "client (cl s) = Some c" and ph: "phase k c sr bs s" using assms(2) by (simp_all add: L5_inv_def)
  consider (start) "cpc s = Start" | (task) u tk where "cpc s = Wait_task u tk"
    | (later) "cpc s \<noteq> Start" "\<And>u tk. cpc s \<noteq> Wait_task u tk" by blast
  then show ?thesis
  proof cases
    case start
    note st = assms(3) [unfolded start]
    have b: "c_f k = 1 \<longrightarrow> mem_read (mem (cl s)) (c_la k) (unat (c_n k)) = bs" "c_f k \<noteq> 1 \<longrightarrow> bs = []"
      using ph start assms(1) by (auto simp: phase_def L5_setting_def Let_def)
    show ?thesis
    proof (rule client_start_cases [OF c st])
      fix tk w
      assume p: "pc' = Wait_task None tk" "sq p' = sq (cl s) @ [(c_trans k, w)]" "client p' = Some c"
        "\<not> task_done p' tk" "wr_id w = tk"
      note st' = st [unfolded client_turn_def p(1)]
      have "wr_remote_addr w = mr_addr (L5_message_mr c)"
        "wr_payload (mem p') w = L5_request (c_da k) (c_f k) (c_n k)
           (if c_f k = 1 then mem_read (mem (cl s)) (c_la k) (unat (c_n k)) else [])"
        using assms(1) by (intro L5_start_posts [OF c st' p(2)]; auto simp: L5_setting_def Let_def)+
      then show ?thesis
        using assms(1,2) ph start p b by (auto simp: L5_inv_def phase_def newly_one L5_setting_def Let_def)
    qed (use assms(2) ph start in \<open>auto simp: L5_inv_def phase_def\<close>)
  next
    case (task u tk)
    note st = assms(3) [unfolded task]
    show ?thesis
    proof (rule client_task_cases [OF c st])
      fix t w
      assume p: "task_done (cl s) tk" "pc' = Wait_second t" "sq p' = sq (cl s) @ [(c_trans k, w)]"
        "client p' = Some c" "wr_remote_addr w = mr_addr (L5_mailbox_mr c)" "length (wr_payload (mem p') w) = 1"
      then obtain b where "wr_payload (mem p') w = [b]" by (auto simp: length_Suc_conv)
      then show ?thesis
        using assms(1,2) ph task p by (auto simp: L5_inv_def phase_def newly_one L5_setting_def Let_def)
    qed (use assms(2) ph task in \<open>auto simp: L5_inv_def phase_def\<close>)
  next
    case later
    note lt = client_later [OF c assms(3) later]
    then show ?thesis
      using assms(2) ph later by (simp add: L5_inv_def phase_later)
  qed
qed

lemma deliver_step_inv:
  assumes "L5_setting k c sr bs" "L5_inv k c sr bs s" "wire s = (w, b) # rest"
  shows "L5_inv k c sr bs (s\<lparr>sv := (sv s)\<lparr>mem := mem_write (mem (sv s)) (wr_remote_addr w) b\<rparr>,
       cl := (cl s)\<lparr>task_done := (task_done (cl s))(wr_id w := True)\<rparr>, wire := rest\<rparr>)"
proof -
  have ph: "phase k c sr bs s" using assms(2) by (simp add: L5_inv_def)
  have fit: "length bs \<le> unat (c_n k)" "32 + unat (c_n k) < 2 ^ 32"
    and dj: "disj (L5m_addr (nodes sr (s_node k))) (17 + unat (c_n k)) (box_of k sr) 1"
    using assms(1) by (auto simp: L5_setting_def Let_def)
  have dj': "disj (L5m_addr (nodes sr (s_node k))) (17 + length bs) (box_of k sr) 1"
    using dj fit by (auto simp: disj_def)
  consider (task) u tk where "cpc s = Wait_task u tk" | (later) "cpc s \<noteq> Start" "\<And>u tk. cpc s \<noteq> Wait_task u tk"
    using ph assms(3) by (cases "cpc s") (auto simp: phase_def)
  then show ?thesis
  proof cases
    case task
    then have w: "b = L5_request (c_da k) (c_f k) (c_n k) bs" "rest = []" "mem (sv s) (box_of k sr) = 0"
      "wr_remote_addr w = L5m_addr (nodes sr (s_node k))"
      using ph assms(3) by (auto simp: phase_def)
    have "mem_write (mem (sv s)) (wr_remote_addr w) b (box_of k sr) = 0"
      using mem_write_disj [of "wr_remote_addr w" b "box_of k sr" 1 0 "mem (sv s)"] w dj' by simp
    moreover have "arrived k sr bs (mem_write (mem (sv s)) (wr_remote_addr w) b)"
      using fit by (simp add: arrived_def w mem_read_write_same)
    ultimately show ?thesis using assms(2) task w by (simp add: L5_inv_def phase_def)
  next
    case later
    then obtain v where w: "b = [v]" "rest = []" "wr_remote_addr w = box_of k sr" "arrived k sr bs (mem (sv s))"
      using ph assms(3) by (auto simp: phase_later)
    have "arrived k sr bs (mem_write (mem (sv s)) (wr_remote_addr w) b)"
      using w disj_sym [OF dj'] by (simp add: arrived_def mem_read_write_disj)
    then show ?thesis using assms(2) later w by (simp add: L5_inv_def phase_later)
  qed
qed

lemma poll_found:
  assumes "L5_run_poll i p = (True, p')" "server p = Some sr"
  shows "mem p (L5_mailbox_addr sr + of_int i) \<noteq> 0"
    and "p' = p\<lparr>mem := store8 (mem p) (L5_mailbox_addr sr + of_int i) 0\<rparr>"
  using assms by (auto simp: L5_run_poll_def split: if_splits)

lemma handler_server_mem:
  assumes "amper_L5_request_handler x i Start p = (pc', p')" "server p = Some sr" "node_ok i"
    and "L5m_reply_mr (nodes sr i) = Some r"
  shows "server p' = Some sr"
    and "mem p' = fst (L5_serve (L5m_addr (nodes sr i)) (mr_addr r) (mem p))
       \<or> mem p' = store64 (fst (L5_serve (L5m_addr (nodes sr i)) (mr_addr r) (mem p))) (L5m_addr (nodes sr i)) 0"
  using assms
  by (auto simp: amper_L5_request_handler_def dhmp_read_task_create_def ask_def Let_def amper_post_write_def
      case_prod_unfold post_or_exit_def raise_def split: if_splits option.splits)

lemma mem_write_keeps_byte: "disj a (length bs) b 1 \<Longrightarrow> mem_write m a bs b = m b"
  using mem_write_disj [of a bs b 1 0 m] by simp

lemma poll_step_inv:
  assumes "L5_setting k c sr bs" "L5_inv k c sr bs s" "L5_run_poll (s_node k) (sv s) = (True, p')"
    and "amper_L5_request_handler (s_ext k) (s_node k) Start p' = (pc', p'')"
  shows "L5_inv k c sr bs (s\<lparr>sv := p''\<rparr>)"
proof -
  let ?ctx = "L5m_addr (nodes sr (s_node k))" and ?box = "box_of k sr" and ?n = "unat (c_n k)"
  have sr: "server (sv s) = Some sr" and ph: "phase k c sr bs s" using assms(2) by (simp_all add: L5_inv_def)
  obtain r where r: "L5m_reply_mr (nodes sr (s_node k)) = Some r" and nd: "node_ok (s_node k)"
    and lay: "disj ?ctx (17 + ?n) ?box 1" "disj (c_da k) ?n ?box 1" "disj (mr_addr r) (?n + 10) ?box 1"
    and len: "c_f k \<in> {0, 1}" "length bs = (if c_f k = 1 then ?n else 0)" "32 + ?n < 2 ^ 32"
    using assms(1) by (auto simp: L5_setting_def Let_def)
  note p' = poll_found [OF assms(3) sr]
  have lt: "cpc s \<noteq> Start" "\<And>u tk. cpc s \<noteq> Wait_task u tk"
    using ph p'(1) by (auto simp: phase_def)
  then have w: "wire s = []" "arrived k sr bs (mem (sv s))" using ph p'(1) by (auto simp: phase_later)
  let ?m = "store8 (mem (sv s)) ?box 0"
  have "disj ?ctx (17 + length bs) ?box 1" using lay(1) len by (auto simp: disj_def)
  then have a: "mem_read ?m ?ctx (17 + length bs) = L5_request (c_da k) (c_f k) (c_n k) bs"
    using w(2) disj_sym by (simp add: arrived_def mem_read_write_disj)
  have b0: "?m ?box = 0" by (simp add: mem_write_def)
  have sv: "fst (L5_serve ?ctx (mr_addr r) ?m) ?box = 0"
  proof (cases "c_f k = 1")
    case True
    then have "L5_serve ?ctx (mr_addr r) ?m = (mem_write (mem_write ?m (c_da k) bs) (mr_addr r) ([1, 1] @ put64 (c_n k)), 10)"
      using a len by (intro L5_serve_write) simp_all
    moreover have "disj (mr_addr r) 10 ?box 1" using lay(3) by (auto simp: disj_def)
    ultimately show ?thesis using lay(2) len True b0 by (simp add: mem_write_keeps_byte del: put_le.simps)
  next
    case False
    then have f: "c_f k = 0" "bs = []" using len by auto
    then have "L5_serve ?ctx (mr_addr r) ?m
        = (mem_write ?m (mr_addr r) (mem_read ?m (c_da k) ?n @ [1] @ put64 (c_n k)), 9 + c_n k)"
      using a len by (intro L5_serve_read) simp_all
    moreover have "disj (mr_addr r) (?n + 9) ?box 1" using lay(3) by (auto simp: disj_def)
    ultimately show ?thesis using b0 by (simp add: mem_write_keeps_byte add.commute del: put_le.simps)
  qed
  have "disj ?ctx 8 ?box 1" using lay(1) by (auto simp: disj_def)
  moreover have "server p' = Some sr" "mem p' = ?m" using p'(2) sr by simp_all
  ultimately have "server p'' = Some sr" "mem p'' ?box = 0"
    using handler_server_mem [OF assms(4) _ nd r] sv by (auto simp: mem_write_keeps_byte)
  then show ?thesis using assms(2) lt w(1) by (simp add: L5_inv_def phase_later)
qed

lemma L5_step_inv:
  assumes "L5_step k s t" "L5_setting k c sr bs" "L5_inv k c sr bs s"
  shows "L5_inv k c sr bs t"
  using assms(1)
proof (cases rule: L5_step.cases)
  case client_step
  then show ?thesis using client_step_inv [OF assms(2,3)] by simp
next
  case deliver_step
  then show ?thesis using deliver_step_inv [OF assms(2,3)] by simp
next
  case poll_step
  then show ?thesis using poll_step_inv [OF assms(2,3)] by simp
qed

lemma L5_reach_inv:
  "L5_reach k s t \<Longrightarrow> L5_setting k c sr bs \<Longrightarrow> L5_inv k c sr bs s \<Longrightarrow> L5_inv k c sr bs t"
  by (induction rule: L5_reach.induct) (auto intro: L5_step_inv)

section \<open>The mailbox announces a complete request\<close>

text \<open>
  C1: the poll thread never acts on half a request.  In every state an L5 call can reach, whatever the
  order in which the worker, the adapter and the poll thread run, if the poll thread finds the
  client's mailbox byte set then the message buffer holds the complete request: the address, the
  size, the flag and, for a write, all the data.
\<close>

lemma L5_mailbox_means_complete:
  assumes "L5_setting k c sr bs" "client (cl s) = Some c" "server (sv s) = Some sr"
    and "cpc s = Start" "wire s = []" "mem (sv s) (L5_mailbox_addr sr + of_int (s_node k)) = 0"
    and "c_f k = 1 \<Longrightarrow> mem_read (mem (cl s)) (c_la k) (unat (c_n k)) = bs"
    and "L5_reach k s t" "fst (L5_run_poll (s_node k) (sv t))"
  shows "mem_read (mem (sv t)) (L5m_addr (nodes sr (s_node k))) (17 + length bs)
    = L5_request (c_da k) (c_f k) (c_n k) bs"
proof -
  have "L5_inv k c sr bs s" using assms(2-7) by (auto simp: L5_inv_def phase_def)
  then have i: "L5_inv k c sr bs t" using L5_reach_inv assms(1,8) by blast
  obtain p' where "L5_run_poll (s_node k) (sv t) = (True, p')"
    using assms(9) by (cases "L5_run_poll (s_node k) (sv t)") auto
  then have "mem (sv t) (box_of k sr) \<noteq> 0" using poll_found(1) i by (simp add: L5_inv_def)
  then show ?thesis using i by (cases "cpc t") (auto simp: L5_inv_def phase_def arrived_def)
qed

text \<open>A run of a write of 2 bytes up to the moment the mailbox is found set.\<close>

definition call2 :: L5_call where
  "call2 = \<lparr>c_ext = ext_ok, c_trans = 0, c_wp = 0x40, c_la = 0x600, c_n = 2, c_f = 1, c_da = 0x50000,
     s_ext = ext_ok, s_node = 0\<rparr>"

definition client2 :: dhmp_client where
  "client2 = L5_client_rec\<lparr>L5_mailbox_mr := mr_at 0x70000 3, L5_num_1_addr := 0x80\<rparr>"

definition server2 :: dhmp_server where
  "server2 = (set_node 0 L5_node_rec server0)\<lparr>L5_mailbox_addr := 0x70000\<rparr>"

definition system2 :: L5_system where
  "system2 = \<lparr>cl = client_proc\<lparr>mem := mem_write (mem_write (\<lambda>_. 0) 0x600 [0xAA, 0xBB]) 0x80 [1], client := Some client2\<rparr>,
     cpc = Start, sv = server_proc\<lparr>server := Some server2\<rparr>, wire = []\<rparr>"

lemma system2_simps [simp]:
  "client (cl system2) = Some client2" "server (sv system2) = Some server2" "cpc system2 = Start"
  "wire system2 = []" "mem (sv system2) = (\<lambda>_. 0)" "sq (cl system2) = []" "tick (cl system2) = 0"
  "s_node call2 = 0" "c_n call2 = 2" "c_f call2 = 1" "c_la call2 = 0x600" "c_da call2 = 0x50000"
  "L5_mailbox_mr client2 = mr_at 0x70000 3" "L5_num_1_addr client2 = 0x80" "L5_mailbox_addr server2 = 0x70000"
  "L5_message_mr client2 = mr_at 0x20000 64" "L5_local_smr1 client2 = mr_at 0x10000 64"
  "nodes server2 0 = L5_node_rec"
  by (simp_all add: system2_def call2_def client2_def server2_def set_node_def)

lemma system2_mem: "mem (cl system2) = mem_write (mem_write (\<lambda>_. 0) 0x600 [0xAA, 0xBB]) 0x80 [1]"
  by (simp add: system2_def)

lemma setting2: "L5_setting call2 client2 server2 [0xAA, 0xBB]"
  by (simp add: L5_setting_def disj_def)

lemma system2_runs: "\<exists>t. L5_reach call2 system2 t \<and> fst (L5_run_poll 0 (sv t))"
proof -
  obtain p1 w1 where c1: "client_turn call2 Start (cl system2) = (Wait_task None 0x1000, p1)"
    "sq p1 = [(0, w1)]" "client p1 = Some client2" "wr_id w1 = 0x1000" "tick p1 = Suc (Suc (Suc 0))"
    "mem p1 = L5_build 0x10000 0x600 2 1 0x50000 (mem (cl system2))"
    by (simp add: client_turn_def call2_def amper_L5_work_handler_def dhmp_read_task_create_def ask_def Let_def
        post_or_exit_def)
  let ?s1 = "system2\<lparr>cl := p1, cpc := Wait_task None 0x1000, wire := [(w1, wr_payload (mem p1) w1)]\<rparr>"
  have r1: "L5_step call2 system2 ?s1"
    using client_step [of call2 system2 "Wait_task None 0x1000" p1] c1(1,2) by (simp add: newly_def)
  let ?p2 = "p1\<lparr>task_done := (task_done p1)(0x1000 := True)\<rparr>"
  let ?v2 = "(sv system2)\<lparr>mem := mem_write (\<lambda>_. 0) (wr_remote_addr w1) (wr_payload (mem p1) w1)\<rparr>"
  let ?s2 = "\<lparr>cl = ?p2, cpc = Wait_task None 0x1000, sv = ?v2, wire = []\<rparr>"
  have r2: "L5_step call2 ?s1 ?s2"
    using deliver_step [of ?s1 w1 "wr_payload (mem p1) w1" "[]" call2] c1(4) by (simp add: system2_def)
  have m: "mem p1 0x80 = 1"
    by (simp add: c1(6) system2_mem L5_build_def memcpy_def mem_write_def Let_def)
  obtain p3 w3 where c3: "client_turn call2 (Wait_task None 0x1000) ?p2 = (Wait_second 0x4000, p3)"
    "sq p3 = sq ?p2 @ [(0, w3)]" "wr_remote_addr w3 = 0x70000" "wr_payload (mem p3) w3 = [mem p1 0x80]"
    using c1(3,5)
    by (simp add: client_turn_def call2_def amper_L5_work_handler_def dhmp_read_task_create_def ask_def Let_def
        amper_post_write_def)
  let ?s3 = "?s2\<lparr>cl := p3, cpc := Wait_second 0x4000, wire := [(w3, [1])]\<rparr>"
  have r3: "L5_step call2 ?s2 ?s3"
    using client_step [of call2 ?s2 "Wait_second 0x4000" p3] c3 m by (simp add: newly_def)
  let ?s4 = "?s3\<lparr>sv := ?v2\<lparr>mem := mem_write (mem ?v2) 0x70000 [1]\<rparr>,
      cl := p3\<lparr>task_done := (task_done p3)(wr_id w3 := True)\<rparr>, wire := []\<rparr>"
  have r4: "L5_step call2 ?s3 ?s4"
    using deliver_step [of ?s3 w3 "[1]" "[]" call2] c3(3) by simp
  have "L5_reach call2 system2 ?s4"
    using reach_step [OF reach_step [OF reach_step [OF reach_step [OF reach_refl r1] r2] r3] r4] .
  moreover have "fst (L5_run_poll 0 (sv ?s4))"
    by (simp add: L5_run_poll_def mem_write_def Let_def)
  ultimately show ?thesis by blast
qed

lemma L5_mailbox_means_complete_witness:
  "\<exists>t. L5_reach call2 system2 t \<and> fst (L5_run_poll 0 (sv t))
    \<and> mem_read (mem (sv t)) 0x20000 19 = L5_request 0x50000 1 2 [0xAA, 0xBB]"
proof -
  obtain t where t: "L5_reach call2 system2 t" "fst (L5_run_poll 0 (sv t))" using system2_runs by blast
  have "mem_read (mem (cl system2)) 0x600 2 = [0xAA, 0xBB]"
    by (simp add: system2_mem mem_read_def mem_write_def Let_def upt_rec)
  then show ?thesis
    using L5_mailbox_means_complete [OF setting2, of system2 t] t by (intro exI [of _ t]) simp
qed

end
