(* ===== verification/RPC_RFP.thy ===== *)
theory RPC_RFP
  imports Server_Mem
begin

text \<open>
  The RFP protocol: \<open>amper_RFP_work_handler\<close> (\<open>dhmp_work.c\<close>), \<open>amper_RFP_request_handler\<close> and
  \<open>RFP_run\<close> (\<open>dhmp_server.c\<close>).  The client writes data and header into the server's write buffer, the
  header's last byte being the valid flag the server polls; the server puts the answer into its
  read buffer, closed by a time stamp that alternates between 1 and 2, and the client reads
  that buffer again and again until it finds the stamp it expects.
\<close>

section \<open>The client\<close>

definition RFP_build :: "addr \<Rightarrow> addr \<Rightarrow> u64 \<Rightarrow> bool \<Rightarrow> addr \<Rightarrow> mem \<Rightarrow> mem" where
  "RFP_build t local_addr len is_write dhmp_addr m =
     (let (t, m) = (if is_write then (t + len, store8 (memcpy m t local_addr len) (t + len) 1)
                    else (t, store8 m t 0));
          m = mem_write m (t + 1) (put64 dhmp_addr);
          m = mem_write m (t + 1 + 8) (put64 len)
      in store8 m (t + 1 + 8 + 8) 1)"

definition RFP_reply_size :: "bool \<Rightarrow> u64 \<Rightarrow> u64" where
  "RFP_reply_size is_write len = 8 + 2 + (if is_write then 0 else len)"

text \<open>The read the client repeats, from the server's read buffer into \<open>per_ops_mr2\<close>.\<close>

definition RFP_fetch :: "ext \<Rightarrow> nat \<Rightarrow> dhmp_client \<Rightarrow> addr \<Rightarrow> u64 \<Rightarrow> proc \<Rightarrow> proc" where
  "RFP_fetch x h c tk reply_size =
     amper_post_read x h tk (RFP_read_mr c) (mr_addr (per_ops_mr2 c)) (ucast (through_int reply_size))
       (mr_lkey (per_ops_mr2 c)) False"

definition amper_RFP_work_handler ::
  "ext \<Rightarrow> nat \<Rightarrow> addr \<Rightarrow> addr \<Rightarrow> u64 \<Rightarrow> bool \<Rightarrow> addr \<Rightarrow> pc \<Rightarrow> proc \<Rightarrow> pc \<times> proc" where
  "amper_RFP_work_handler x h wp local_addr len is_write dhmp_addr pc p =
     (case client p of
        None \<Rightarrow> (Finished, raise Null_deref p)
      | Some c \<Rightarrow>
     (let reply_size = RFP_reply_size is_write len in case pc of
        Start \<Rightarrow>
          let t = mr_addr (RFP_local_smr c);
              head_size = 8 + 8 + 2 + (if is_write then len else 0);
              p = p\<lparr>mem := RFP_build t local_addr len is_write dhmp_addr (mem p)\<rparr>
          in (case dhmp_write_task_create x None 0 p of
                (None, p) \<Rightarrow> (Finished, p)
              | (Some tk, p) \<Rightarrow>
                  (Wait_task None (tk_ptr tk),
                   post_or_exit x h (rdma_wr IBV_WR_RDMA_WRITE (tk_ptr tk)
                     (mr_addr (RFP_write_mr c) + (if is_write then 0 else len)) (mr_rkey (RFP_write_mr c))
                     t (ucast head_size) (mr_lkey (RFP_local_smr c))) p))
      | Wait_task _ tk \<Rightarrow>
          if \<not> task_done p tk then (pc, p)
          else (case dhmp_read_task_create x (Some (per_ops_mr2 c)) reply_size (release (R_heap tk) p) of
                  (None, p) \<Rightarrow> (Finished, p)
                | (Some tk, p) \<Rightarrow> (Wait_second (tk_ptr tk), RFP_fetch x h c (tk_ptr tk) reply_size p))
      | Wait_second tk \<Rightarrow>
          if \<not> task_done p tk then (pc, p)
          else
            let p = p\<lparr>task_done := (task_done p)(tk := False)\<rparr>
            in if mem p (mr_addr (per_ops_mr2 c) + reply_size - 1) \<noteq> RFP_time c
               then (pc, RFP_fetch x h c tk reply_size p)
               else
                 let m = (if is_write then mem p
                          else memcpy (mem p) local_addr (mr_addr (per_ops_mr2 c) + 8 + 1) len)
                 in (Finished, set_done wp (release (R_heap tk)
                      (p\<lparr>mem := m, client := Some (c\<lparr>RFP_time := (if RFP_time c = 1 then 2 else 1)\<rparr>)\<rparr>)))
      | _ \<Rightarrow> (pc, p)))"

section \<open>The server\<close>

text \<open>Memory after a request of \<open>sz\<close> bytes has been served, and the next stamp.\<close>

definition RFP_serve :: "addr \<Rightarrow> addr \<Rightarrow> u64 \<Rightarrow> byte \<Rightarrow> mem \<Rightarrow> mem \<times> byte" where
  "RFP_serve wbuf rbuf sz time m =
     (let context = wbuf + sz;
          write_flag = m context;
          server_addr = load64 m (context + 1);
          m = mem_write m (rbuf + 1) (put64 sz);
          (t, m) = (if write_flag = 1 then (rbuf + 8 + 1, memcpy m server_addr wbuf sz)
                    else (rbuf + 8 + 1 + sz, memcpy m (rbuf + 8 + 1) server_addr sz))
      in if time = 1 then (store8 m t 1, 2) else (store8 m t 2, 1))"

definition amper_RFP_request_handler :: "int \<Rightarrow> u64 \<Rightarrow> proc \<Rightarrow> proc" where
  "amper_RFP_request_handler node sz p = with_node node p (\<lambda>s n.
     let (m, time) = RFP_serve (mr_addr (RFPs_write_mr n)) (mr_addr (RFPs_read_mr n)) sz (RFPs_time n) (mem p)
     in p\<lparr>mem := m, server := Some (set_node node (n\<lparr>RFPs_time := time\<rparr>) s)\<rparr>)"

text \<open>\<open>RFP_run\<close>: its start, and one turn of its loop (\<open>False\<close>: the loop ends).\<close>

definition RFP_run_start :: "int \<Rightarrow> proc \<Rightarrow> proc" where
  "RFP_run_start node = upd_node node (\<lambda>n. n\<lparr>RFPs_time := 1\<rparr>)"

definition RFP_poll_addr :: "server_node \<Rightarrow> addr" where
  "RFP_poll_addr n = mr_addr (RFPs_write_mr n) + RFPs_size n + 8 + 8 + 1"

definition RFP_run_turn :: "int \<Rightarrow> proc \<Rightarrow> bool \<times> proc" where
  "RFP_run_turn node p =
     (case server p of
        None \<Rightarrow> (False, raise Null_deref p)
      | Some s \<Rightarrow>
          let n = nodes s node in
          if \<not> node_ok node then (False, raise Out_of_bounds p)
          else if RFPs_time n = 0 then (False, p)
          else if mem p (RFP_poll_addr n) \<noteq> 0 then
            let p = amper_RFP_request_handler node (RFPs_size n) p
            in (True, p\<lparr>mem := store8 (mem p) (RFP_poll_addr n) 0\<rparr>)
          else (True, p))"

section \<open>The bytes of a request\<close>

definition RFP_header :: "addr \<Rightarrow> u64 \<Rightarrow> bool \<Rightarrow> byte list" where
  "RFP_header dhmp_addr len is_write = [put_bool is_write] @ put64 dhmp_addr @ put64 len @ [1]"

lemma length_RFP_header [simp]: "length (RFP_header a n w) = 18"
  by (simp add: RFP_header_def)

lemma RFP_header_stores:
  "store8 (mem_write (mem_write (store8 m t (put_bool w)) (t + 1) (put64 da)) (t + 1 + 8) (put64 n)) (t + 1 + 8 + 8) 1
   = mem_write m t (RFP_header da n w)"
  by (simp add: mem_write_append RFP_header_def add.assoc del: put_le.simps)

lemma RFP_build_eq:
  assumes "unat n < 2 ^ 63"
  shows "RFP_build t la n w da m = mem_write m t ((if w then mem_read m la (unat n) else []) @ RFP_header da n w)"
proof (cases w)
  case True
  then have "RFP_build t la n w da m
      = mem_write (mem_write m t (mem_read m la (unat n))) (t + n) (RFP_header da n w)"
    using RFP_header_stores [of "memcpy m t la n" "t + n" w da n]
    by (simp add: RFP_build_def memcpy_def put_bool_def)
  then show ?thesis using assms True by (simp add: mem_write_append)
next
  case False
  then show ?thesis
    using RFP_header_stores [of m t w da n] by (simp add: RFP_build_def put_bool_def)
qed

lemma RFP_header_fields:
  assumes "mem_read m a 18 = RFP_header da n w"
  shows "m a = put_bool w" "load64 m (a + 1) = da"
proof -
  have r: "mem_read m (a + of_nat k) l = take l (drop k (RFP_header da n w))" if "k + l \<le> 18" for k l
    using assms that by (intro mem_read_sub) auto
  show "m a = put_bool w" "load64 m (a + 1) = da"
    using r [of 0 1] r [of 1 8] by (simp_all add: RFP_header_def del: put_le.simps)
qed

section \<open>Serving\<close>

definition next_stamp :: "byte \<Rightarrow> byte" where
  "next_stamp t = (if t = 1 then 2 else 1)"

definition stamp :: "byte \<Rightarrow> byte" where
  "stamp t = (if t = 1 then 1 else 2)"

lemma RFP_serve_write:
  assumes "mem_read m wbuf (unat n + 18) = bs @ RFP_header da n True" "length bs = unat n" "unat n < 2 ^ 62"
    and "disj rbuf (unat n + 10) wbuf (unat n)"
  shows "RFP_serve wbuf rbuf n t m =
    (mem_write (mem_write (mem_write m (rbuf + 1) (put64 n)) da bs) (rbuf + 9) [stamp t], next_stamp t)"
proof -
  have r: "mem_read m (wbuf + of_nat k) l = take l (drop k (bs @ RFP_header da n True))" if "k + l \<le> unat n + 18" for k l
    using assms(1,2) that by (intro mem_read_sub) auto
  have "mem_read m (wbuf + n) 18 = RFP_header da n True" using r [of "unat n" 18] assms(2) by simp
  note f = RFP_header_fields [OF this]
  have "disj (rbuf + 1) 8 wbuf (unat n)" using disj_sub [OF assms(4), of 1 8] by simp
  then have "mem_read (mem_write m (rbuf + 1) (put64 n)) wbuf (unat n) = bs"
    using r [of 0 "unat n"] assms(2) by (simp add: mem_read_write_disj)
  then show ?thesis
    using f by (simp add: RFP_serve_def Let_def memcpy_def stamp_def next_stamp_def add.assoc del: put_le.simps)
qed

lemma RFP_serve_read:
  assumes "mem_read m (wbuf + n) 18 = RFP_header da n False" "unat n < 2 ^ 62"
    and "disj (rbuf + 1) 8 da (unat n)"
  shows "RFP_serve wbuf rbuf n t m =
    (mem_write m (rbuf + 1) (put64 n @ mem_read m da (unat n) @ [stamp t]), next_stamp t)"
proof -
  note f = RFP_header_fields [OF assms(1)]
  have d: "mem_read (mem_write m (rbuf + 1) (put64 n)) da (unat n) = mem_read m da (unat n)"
    using assms(3) by (simp add: mem_read_write_disj)
  have a: "mem_write (mem_write m (rbuf + 1) (put64 n)) (rbuf + 9) bs = mem_write m (rbuf + 1) (put64 n @ bs)"
    if "length bs = unat n" for bs
    using that assms(2) by (intro mem_write_append) simp_all
  have b: "mem_write (mem_write m (rbuf + 1) (put64 n @ bs)) (rbuf + 9 + n) [v] = mem_write m (rbuf + 1) (put64 n @ bs @ [v])"
    if "length bs = unat n" for bs v
    using that assms(2) mem_write_append [of "rbuf + 9 + n" "rbuf + 1" "put64 n @ bs" "[v]" m] by (simp add: ac_simps)
  show ?thesis
    using f a b d by (simp add: RFP_serve_def Let_def memcpy_def stamp_def next_stamp_def add.assoc del: put_le.simps)
qed

lemma RFP_start_posts:
  assumes "client p = Some c" "amper_RFP_work_handler x h wp la n iw da Start p = (Wait_task u tk, p1)"
    and "sq p1 = sq p @ [(h, w)]" "18 + unat n < 2 ^ 32"
  shows "wr_remote_addr w = mr_addr (RFP_write_mr c) + (if iw then 0 else n)"
    and "wr_payload (mem p1) w = (if iw then mem_read (mem p) la (unat n) else []) @ RFP_header da n iw"
proof -
  let ?t = "mr_addr (RFP_local_smr c)"
  let ?r = "(if iw then mem_read (mem p) la (unat n) else []) @ RFP_header da n iw"
  have w: "wr_remote_addr w = mr_addr (RFP_write_mr c) + (if iw then 0 else n)"
    "wr_sg_list w = [\<lparr>sge_addr = ?t, sge_length = ucast (18 + (if iw then n else 0)), sge_lkey = mr_lkey (RFP_local_smr c)\<rparr>]"
    and m: "mem p1 = RFP_build ?t la n iw da (mem p)"
    using assms(1-3)
    by (auto simp: amper_RFP_work_handler_def dhmp_read_task_create_def ask_def Let_def post_or_exit_def
        split: if_splits)
  have l: "unat (ucast (18 + (if iw then n else 0)) :: u32) = length ?r"
    using assms(4) by (auto simp: unat_ucast_u32 unat_word_ariths)
  show "wr_remote_addr w = mr_addr (RFP_write_mr c) + (if iw then 0 else n)" by (fact w)
  have "mem p1 = mem_write (mem p) ?t ?r"
    using m assms(4) by (simp add: RFP_build_eq)
  moreover have "length ?r \<le> 2 ^ 64" using assms(4) by simp
  ultimately show "wr_payload (mem p1) w = ?r"
    using w(2) l by (simp add: mem_read_write_same)
qed

text \<open>The client's last step: the stamp it expects is there.\<close>

lemma RFP_finish:
  assumes "client q = Some c" "task_done q tk" "mem q (mr_addr (per_ops_mr2 c) + RFP_reply_size iw n - 1) = RFP_time c"
  shows "amper_RFP_work_handler x h wp la n iw da (Wait_second tk) q =
    (Finished, set_done wp (release (R_heap tk) (q\<lparr>task_done := (task_done q)(tk := False),
       mem := (if iw then mem q else memcpy (mem q) la (mr_addr (per_ops_mr2 c) + 8 + 1) n),
       client := Some (c\<lparr>RFP_time := next_stamp (RFP_time c)\<rparr>)\<rparr>)))"
  using assms by (simp add: amper_RFP_work_handler_def Let_def next_stamp_def)

section \<open>Properties\<close>

text \<open>The two sides of the witnesses: objects of 2 bytes, at 0x600 on the client and at 0x50000 on the server.\<close>

definition RFP_client_rec :: dhmp_client where
  "RFP_client_rec = client0\<lparr>RFP_local_smr := mr_at 0x10000 64, RFP_write_mr := mr_at 0x20000 64,
     RFP_read_mr := mr_at 0x30000 64, per_ops_mr2 := mr_at 0x40000 64, RFP_time := 1\<rparr>"

definition RFP_client :: proc where
  "RFP_client = client_proc\<lparr>mem := mem_write (\<lambda>_. 0) 0x600 [0xAA, 0xBB], client := Some RFP_client_rec\<rparr>"

definition RFP_node_rec :: server_node where
  "RFP_node_rec = node0\<lparr>RFPs_write_mr := mr_at 0x20000 64, RFPs_read_mr := mr_at 0x30000 64, RFPs_time := 1, RFPs_size := 2\<rparr>"

definition RFP_server :: proc where
  "RFP_server = server_proc\<lparr>mem := mem_write (\<lambda>_. 0) 0x50000 [0x11, 0x22],
     server := Some (set_node 0 RFP_node_rec server0)\<rparr>"

lemma RFP_sample_simps [simp]:
  "client RFP_client = Some RFP_client_rec" "server RFP_server = Some (set_node 0 RFP_node_rec server0)"
  "RFP_local_smr RFP_client_rec = mr_at 0x10000 64" "RFP_write_mr RFP_client_rec = mr_at 0x20000 64"
  "per_ops_mr2 RFP_client_rec = mr_at 0x40000 64" "RFP_time RFP_client_rec = 1"
  "RFPs_write_mr RFP_node_rec = mr_at 0x20000 64" "RFPs_read_mr RFP_node_rec = mr_at 0x30000 64"
  "RFPs_time RFP_node_rec = 1" "tick RFP_client = 0" "sq RFP_client = []"
  by (simp_all add: RFP_client_def RFP_client_rec_def RFP_server_def RFP_node_rec_def)

abbreviation RFP_sent :: "bool \<Rightarrow> proc" where
  "RFP_sent iw \<equiv> snd (amper_RFP_work_handler ext_ok 0 0x48 0x600 2 iw 0x50000 Start RFP_client)"

abbreviation RFP_served :: "bool \<Rightarrow> proc" where
  "RFP_served iw \<equiv> amper_RFP_request_handler 0 2 (deliver_last (RFP_sent iw) RFP_server)"

definition RFP_fetched :: "proc \<Rightarrow> proc" where
  "RFP_fetched ps = RFP_client\<lparr>mem := mem_write (\<lambda>_. 0) 0x40000 (mem_read (mem ps) 0x30000 12), task_done := (\<lambda>_. True)\<rparr>"

lemma RFP_fetched_simps [simp]:
  "client (RFP_fetched ps) = Some RFP_client_rec" "task_done (RFP_fetched ps) tk"
  "k \<le> 12 \<Longrightarrow> mem_read (mem (RFP_fetched ps)) 0x40000 k = mem_read (mem ps) 0x30000 k"
  using mem_read_write_sub [of 0 k "mem_read (mem ps) 0x30000 12" "\<lambda>_. 0" "0x40000"]
    mem_read_sub [of "mem ps" "0x30000" "mem_read (mem ps) 0x30000 12" 0 k]
  by (simp_all add: RFP_fetched_def)

lemma RFP_sample_run:
  obtains tk w where
    "amper_RFP_work_handler ext_ok 0 0x48 0x600 2 iw 0x50000 Start RFP_client = (Wait_task None tk, RFP_sent iw)"
    "sq (RFP_sent iw) = sq RFP_client @ [(0, w)]"
    "delivered (mem (RFP_sent iw)) w (mem (deliver_last (RFP_sent iw) RFP_server))"
    "server (deliver_last (RFP_sent iw) RFP_server) = Some (set_node 0 RFP_node_rec server0)"
proof -
  obtain tk w where st: "amper_RFP_work_handler ext_ok 0 0x48 0x600 2 iw 0x50000 Start RFP_client
      = (Wait_task None tk, RFP_sent iw)" "sq (RFP_sent iw) = sq RFP_client @ [(0, w)]"
    by (simp add: amper_RFP_work_handler_def dhmp_read_task_create_def ask_def Let_def)
  have "length (wr_payload (mem (RFP_sent iw)) w) \<le> 2 ^ 64"
    using RFP_start_posts(2) [OF RFP_sample_simps(1) st] by simp
  note dv = deliver_last_ok [OF st(2) this, of RFP_server]
  show thesis using that [OF st dv(1)] dv(2) by simp
qed

text \<open>
  C3: an RFP write takes effect, and the two sides' stamps stay in step.  When the request is delivered
  and served, the object holds the client's bytes; when the client, whose stamp equals the
  server's, has fetched the reply, its next look at the stamp ends the call, and both sides
  expect the same stamp for the next one.
\<close>

lemma RFP_write_end_to_end:
  assumes "client p = Some c" "amper_RFP_work_handler x h wp la n True da Start p = (Wait_task u tk, p1)"
    and "sq p1 = sq p @ [(h, w)]" "18 + unat n < 2 ^ 32"
    and "server ps = Some s" "node_ok i" "delivered (mem p1) w (mem ps)"
    and "mr_addr (RFP_write_mr c) = mr_addr (RFPs_write_mr (nodes s i))"
    and "disj (mr_addr (RFPs_read_mr (nodes s i))) (unat n + 10) (mr_addr (RFPs_write_mr (nodes s i))) (unat n)"
    and "disj (mr_addr (RFPs_read_mr (nodes s i))) (unat n + 10) da (unat n)"
    and "ps1 = amper_RFP_request_handler i n ps"
    and "client q = Some c" "task_done q tk2" "RFPs_time (nodes s i) = RFP_time c" "RFP_time c \<in> {1, 2}"
    and "mem_read (mem q) (mr_addr (per_ops_mr2 c)) 10 = mem_read (mem ps1) (mr_addr (RFPs_read_mr (nodes s i))) 10"
  shows "mem_read (mem ps1) da (unat n) = mem_read (mem p) la (unat n)
    \<and> (\<exists>q' c' s'. amper_RFP_work_handler x h wp la n True da (Wait_second tk2) q = (Finished, q') \<and> done_flag q' wp
         \<and> client q' = Some c' \<and> server ps1 = Some s' \<and> RFP_time c' = RFPs_time (nodes s' i))"
proof -
  let ?wb = "mr_addr (RFPs_write_mr (nodes s i))" and ?rb = "mr_addr (RFPs_read_mr (nodes s i))"
  let ?d = "mem_read (mem p) la (unat n)" and ?t = "RFPs_time (nodes s i)"
  note st = RFP_start_posts [OF assms(1-4)]
  have "mem_read (mem ps) ?wb (unat n + 18) = ?d @ RFP_header da n True"
    using assms(7,8) st by (simp add: delivered_def add.commute)
  then have sv: "RFP_serve ?wb ?rb n ?t (mem ps)
      = (mem_write (mem_write (mem_write (mem ps) (?rb + 1) (put64 n)) da ?d) (?rb + 9) [stamp ?t], next_stamp ?t)"
    using assms(4,9) by (intro RFP_serve_write) simp_all
  have ps1: "mem ps1 = mem_write (mem_write (mem_write (mem ps) (?rb + 1) (put64 n)) da ?d) (?rb + 9) [stamp ?t]"
    "server ps1 = Some (set_node i ((nodes s i)\<lparr>RFPs_time := next_stamp ?t\<rparr>) s)"
    using assms(5,6,11) sv by (simp_all add: amper_RFP_request_handler_def)
  have "disj (?rb + 9) 1 da (unat n)" using disj_sub [OF assms(10), of 9 1] by simp
  then have obj: "mem_read (mem ps1) da (unat n) = ?d"
    using assms(4) by (simp add: ps1 mem_read_write_disj mem_read_write_same)
  have "mem ps1 (?rb + 9) = stamp ?t" by (simp add: ps1 mem_write_def)
  moreover have "mem q (mr_addr (per_ops_mr2 c) + of_nat 9) = mem ps1 (?rb + of_nat 9)"
    using arg_cong [OF assms(16), of "\<lambda>l. l ! 9"] by simp
  ultimately have "mem q (mr_addr (per_ops_mr2 c) + RFP_reply_size True n - 1) = RFP_time c"
    using assms(14,15) by (auto simp: RFP_reply_size_def stamp_def add.commute)
  then show ?thesis
    using RFP_finish [OF assms(12,13)] obj ps1(2) assms(14) by simp
qed

lemma RFP_write_end_to_end_witness:
  "mem_read (mem (RFP_served True)) 0x50000 2 = mem_read (mem RFP_client) 0x600 2
    \<and> fst (amper_RFP_work_handler ext_ok 0 0x48 0x600 2 True 0x50000 (Wait_second 0x99)
          (RFP_fetched (RFP_served True))) = Finished"
proof (rule RFP_sample_run [of True])
  fix tk w
  assume a: "amper_RFP_work_handler ext_ok 0 0x48 0x600 2 True 0x50000 Start RFP_client = (Wait_task None tk, RFP_sent True)"
    "sq (RFP_sent True) = sq RFP_client @ [(0, w)]"
    "delivered (mem (RFP_sent True)) w (mem (deliver_last (RFP_sent True) RFP_server))"
    "server (deliver_last (RFP_sent True) RFP_server) = Some (set_node 0 RFP_node_rec server0)"
  show ?thesis
    using RFP_write_end_to_end [OF RFP_sample_simps(1) a(1,2) _ a(4) _ a(3) _ _ _ refl RFP_fetched_simps(1) [of "RFP_served True"]
        RFP_fetched_simps(2) [of "RFP_served True" "0x99"], where i = 0]
    by (auto simp: disj_def node_ok_def)
qed

text \<open>
  An RFP read returns the server's bytes, if the request's size is the size the server was set up
  with: once the reply is fetched, the call ends with the object's bytes in the local buffer and
  the stamps in step.
\<close>

lemma RFP_read_end_to_end:
  assumes "client p = Some c" "amper_RFP_work_handler x h wp la n False da Start p = (Wait_task u tk, p1)"
    and "sq p1 = sq p @ [(h, w)]" "18 + unat n < 2 ^ 32"
    and "server ps = Some s" "node_ok i" "delivered (mem p1) w (mem ps)"
    and "mr_addr (RFP_write_mr c) = mr_addr (RFPs_write_mr (nodes s i))"
    and "disj (mr_addr (RFPs_read_mr (nodes s i))) (unat n + 10) da (unat n)"
    and "ps1 = amper_RFP_request_handler i n ps"
    and "client q = Some c" "task_done q tk2" "RFPs_time (nodes s i) = RFP_time c" "RFP_time c \<in> {1, 2}"
    and "mem_read (mem q) (mr_addr (per_ops_mr2 c)) (unat n + 10)
           = mem_read (mem ps1) (mr_addr (RFPs_read_mr (nodes s i))) (unat n + 10)"
  shows "\<exists>q' c' s'. amper_RFP_work_handler x h wp la n False da (Wait_second tk2) q = (Finished, q') \<and> done_flag q' wp
      \<and> mem_read (mem q') la (unat n) = mem_read (mem ps) da (unat n)
      \<and> client q' = Some c' \<and> server ps1 = Some s' \<and> RFP_time c' = RFPs_time (nodes s' i)"
proof -
  let ?wb = "mr_addr (RFPs_write_mr (nodes s i))" and ?rb = "mr_addr (RFPs_read_mr (nodes s i))"
  let ?d = "mem_read (mem ps) da (unat n)" and ?t = "RFPs_time (nodes s i)" and ?b = "mr_addr (per_ops_mr2 c)"
  note st = RFP_start_posts [OF assms(1-4)]
  have "mem_read (mem ps) (?wb + n) 18 = RFP_header da n False"
    using assms(7,8) st by (simp add: delivered_def)
  moreover have "disj (?rb + 1) 8 da (unat n)" using disj_sub [OF assms(9), of 1 8] by simp
  ultimately have sv: "RFP_serve ?wb ?rb n ?t (mem ps)
      = (mem_write (mem ps) (?rb + 1) (put64 n @ ?d @ [stamp ?t]), next_stamp ?t)"
    using assms(4) by (intro RFP_serve_read) simp_all
  have ps1: "mem ps1 = mem_write (mem ps) (?rb + 1) (put64 n @ ?d @ [stamp ?t])"
    "server ps1 = Some (set_node i ((nodes s i)\<lparr>RFPs_time := next_stamp ?t\<rparr>) s)"
    using assms(5,6,10) sv by (simp_all add: amper_RFP_request_handler_def del: put_le.simps)
  have "mem_read (mem q) (?b + of_nat 1) (unat n + 9) = mem_read (mem ps1) (?rb + of_nat 1) (unat n + 9)"
    using mem_read_sub [of "mem q" ?b "mem_read (mem ps1) ?rb (unat n + 10)" 1 "unat n + 9"] assms(15)
      mem_read_sub [of "mem ps1" ?rb "mem_read (mem ps1) ?rb (unat n + 10)" 1 "unat n + 9"] by simp
  then have r: "mem_read (mem q) (?b + 1) (length (put64 n @ ?d @ [stamp ?t])) = put64 n @ ?d @ [stamp ?t]"
    using assms(4) by (simp add: ps1 mem_read_write_same add.commute del: put_le.simps)
  have dat: "mem_read (mem q) (?b + 8 + 1) (unat n) = ?d"
    using mem_read_sub [OF r, of 8 "unat n"] by (simp add: add.assoc)
  have "mem q (?b + RFP_reply_size False n - 1) = RFP_time c"
    using mem_byte_at [OF r, of "8 + unat n"] assms(13,14)
    by (auto simp: RFP_reply_size_def stamp_def nth_append ac_simps)
  then show ?thesis
    using RFP_finish [OF assms(11,12)] ps1(2) assms(4,13) dat by (simp add: memcpy_def mem_read_write_same)
qed

lemma RFP_read_end_to_end_witness:
  "fst (amper_RFP_work_handler ext_ok 0 0x48 0x600 2 False 0x50000 (Wait_second 0x99)
          (RFP_fetched (RFP_served False))) = Finished"
proof (rule RFP_sample_run [of False])
  fix tk w
  assume a: "amper_RFP_work_handler ext_ok 0 0x48 0x600 2 False 0x50000 Start RFP_client = (Wait_task None tk, RFP_sent False)"
    "sq (RFP_sent False) = sq RFP_client @ [(0, w)]"
    "delivered (mem (RFP_sent False)) w (mem (deliver_last (RFP_sent False) RFP_server))"
    "server (deliver_last (RFP_sent False) RFP_server) = Some (set_node 0 RFP_node_rec server0)"
  show ?thesis
    using RFP_read_end_to_end [OF RFP_sample_simps(1) a(1,2) _ a(4) _ a(3) _ _ refl RFP_fetched_simps(1) [of "RFP_served False"]
        RFP_fetched_simps(2) [of "RFP_served False" "0x99"], where i = 0]
    by (auto simp: disj_def node_ok_def)
qed

end
