(* ===== verification/RPC_FaRM.thy ===== *)
theory RPC_FaRM
  imports Server_Mem
begin

text \<open>
  The FaRM protocol and its relatives with request slots: \<open>model_FaRM\<close>, \<open>model_herd\<close>,
  \<open>amper_pRDMA_write_senderactive\<close> and \<open>check_request\<close> (\<open>dhmp_client.c\<close>),
  \<open>amper_FaRM_work_handler\<close> and \<open>FaRM_run_client\<close> (\<open>dhmp_work.c\<close>), \<open>FaRM_run\<close> and \<open>herd_run\<close>
  (\<open>dhmp_server.c\<close>), \<open>amper_herd_response_handler\<close> (\<open>dhmp_transport.c\<close>).

  A call takes a slot, the worker writes the request into the slot's buffer on the server, the
  server's poll thread serves it and writes a reply into the client's buffer, and the client's own
  poll thread finds the reply and gives the slot back.
\<close>

section \<open>Slots\<close>

text \<open>
  The critical section of the calls: take slot \<open>Scur\<close> if it is available.  \<open>model_FaRM\<close> moves on to
  the next slot only under \<open>WFLUSH\<close>, the others always.
\<close>

definition slot_take :: "nat \<Rightarrow> bool \<Rightarrow> ring_slots \<Rightarrow> (nat \<times> ring_slots) option" where
  "slot_take n advance s =
     (if rs_available s (rs_Scur s) = 0 then None
      else Some (rs_Scur s, s\<lparr>rs_available := (rs_available s)(rs_Scur s := 0),
        rs_Scur := (if advance then (rs_Scur s + 1) mod n else rs_Scur s)\<rparr>))"

definition slot_give :: "nat \<Rightarrow> bool \<Rightarrow> ring_slots \<Rightarrow> ring_slots" where
  "slot_give n advance s = s\<lparr>rs_available := (rs_available s)(rs_Ccur s := 1),
     rs_Ccur := (if advance then (rs_Ccur s + 1) mod n else rs_Ccur s)\<rparr>"

section \<open>The calls\<close>

text \<open>
  The calls start as \<open>begin_call\<close> says.  One turn of the loop that waits for a slot; \<open>None\<close> while
  the slot is taken.
\<close>

definition model_FaRM_turn ::
  "build \<Rightarrow> addr \<Rightarrow> addr \<Rightarrow> u64 \<Rightarrow> addr \<Rightarrow> byte \<Rightarrow> byte \<Rightarrow> proc \<Rightarrow> proc option" where
  "model_FaRM_turn b wp globle_addr len local_addr flag_write batch p =
     (case client p of
        None \<Rightarrow> Some (raise Null_deref p)
      | Some c \<Rightarrow> map_option (\<lambda>(cur, s). p\<lparr>client := Some (list_add_tail
          \<lparr>work_type = AMPER_WORK_FaRM, work_ptr = wp,
           work_data = DaRPC_work globle_addr len local_addr flag_write batch (int cur)\<rparr>
          (c\<lparr>FaRM := s\<rparr>))\<rparr>) (slot_take (FaRM_buffer_NUM b) (WFLUSH b) (FaRM c)))"

definition model_herd_turn ::
  "build \<Rightarrow> addr \<Rightarrow> addr \<Rightarrow> u64 \<Rightarrow> addr \<Rightarrow> byte \<Rightarrow> proc \<Rightarrow> proc option" where
  "model_herd_turn b wp local_buf count globle_addr flag_write p =
     (case client p of
        None \<Rightarrow> Some (raise Null_deref p)
      | Some c \<Rightarrow> map_option (\<lambda>(cur, s). p\<lparr>client := Some (list_add_tail
          \<lparr>work_type = AMPER_WORK_Herd, work_ptr = wp,
           work_data = L5_work local_buf count flag_write globle_addr (int cur)\<rparr>
          (c\<lparr>herd := s\<rparr>))\<rparr>) (slot_take (FaRM_buffer_NUM b) True (herd c)))"

definition amper_pRDMA_write_senderactive_turn ::
  "build \<Rightarrow> addr \<Rightarrow> addr \<Rightarrow> addr \<Rightarrow> u64 \<Rightarrow> addr \<Rightarrow> byte \<Rightarrow> proc \<Rightarrow> proc option" where
  "amper_pRDMA_write_senderactive_turn b wp w local_buf count globle_addr flag_write p =
     (case client p of
        None \<Rightarrow> Some (raise Null_deref p)
      | Some c \<Rightarrow> map_option (\<lambda>(cur, s). p\<lparr>client := Some (list_add_tail
          \<lparr>work_type = AMPER_WORK_pRDMA_WS, work_ptr = wp,
           work_data = L5_work local_buf count flag_write globle_addr (int cur)\<rparr>
          (c\<lparr>pRDMA := s, pRDMA_work := (pRDMA_work c)(cur := w)\<rparr>))\<rparr>)
          (slot_take (FaRM_buffer_NUM b) True (pRDMA c)))"

text \<open>\<open>check_request\<close>, pass \<open>i\<close> of its loop: may it go on to the next?\<close>

definition check_request_pass :: "build \<Rightarrow> int \<Rightarrow> nat \<Rightarrow> dhmp_client \<Rightarrow> bool" where
  "check_request_pass b model i c =
     (if model = 1 then rs_available (FaRM c) i \<noteq> 0
      else if model = 2 then rs_available (pRDMA c) i \<noteq> 0
      else if model = 3 then para_request_num c = int (FaRM_buffer_NUM b)
      else True)"

section \<open>The worker\<close>

definition FaRM_buffer_size :: "u64 \<Rightarrow> byte \<Rightarrow> u64" where
  "FaRM_buffer_size len batch = (16 + 8 + len) * size_of_char batch + 2"

text \<open>Pass \<open>i\<close> of the loop that gathers the batch; \<open>t\<close> is \<open>temp_head\<close>.\<close>

definition FaRM_put_entry :: "addr \<Rightarrow> u64 \<Rightarrow> addr \<Rightarrow> byte \<Rightarrow> nat \<Rightarrow> addr \<times> mem \<Rightarrow> addr \<times> mem" where
  "FaRM_put_entry globle_addr len local_addr flag_write i = (\<lambda>(t, m).
     let (t, m) = (if flag_write = 1 then (t + len, memcpy m t (load64 m (local_addr + 8 * of_nat i)) len)
                   else (t, m));
         m = store64 m t (load64 m (globle_addr + 8 * of_nat i));
         m = store64 m (t + 8) (load64 m (local_addr + 8 * of_nat i));
         m = store64 m (t + 16) len
     in (t + 16 + 8, m))"

definition FaRM_build :: "addr \<Rightarrow> addr \<Rightarrow> u64 \<Rightarrow> addr \<Rightarrow> byte \<Rightarrow> byte \<Rightarrow> mem \<Rightarrow> mem" where
  "FaRM_build t globle_addr len local_addr flag_write batch m =
     (let (t, m) = fold (FaRM_put_entry globle_addr len local_addr flag_write) [0..<nat (sint batch)] (t, m);
          m = store8 m t flag_write
      in store8 m (t + 1) 1)"

text \<open>
  The handler reads the item through a pointer to \<open>struct amper_L5_work\<close>, which lacks fields it
  uses; the item is the \<open>struct amper_DaRPC_work\<close> that \<open>model_FaRM\<close> filled in, with the slot in \<open>cur\<close>.
\<close>

definition amper_FaRM_work_handler ::
  "build \<Rightarrow> ext \<Rightarrow> nat \<Rightarrow> addr \<Rightarrow> addr \<Rightarrow> u64 \<Rightarrow> addr \<Rightarrow> byte \<Rightarrow> byte \<Rightarrow> int \<Rightarrow> pc \<Rightarrow> proc \<Rightarrow> pc \<times> proc" where
  "amper_FaRM_work_handler b x h wp globle_addr len local_addr flag_write batch cur pc p =
     (case client p of
        None \<Rightarrow> (Finished, raise Null_deref p)
      | Some c \<Rightarrow>
     (case pc of
        Start \<Rightarrow>
          let n = size_of_char batch;
              buffer_size = FaRM_buffer_size len batch;
              head_size = (if flag_write = 1 then n * (16 + 8 + len) + 2 else n * (16 + 8) + 2);
              lmr = rs_local_mr (FaRM c) (nat cur);
              p = p\<lparr>mem := FaRM_build (mr_addr lmr) globle_addr len local_addr flag_write batch (mem p)\<rparr>
          in (case dhmp_write_task_create x None 0 p of
                (None, p) \<Rightarrow> (Finished, p)
              | (Some tk, p) \<Rightarrow>
                  let p = post_or_exit x h (rdma_wr IBV_WR_RDMA_WRITE (tk_ptr tk)
                            (mr_addr (rs_S_mr (FaRM c)) + of_int cur * buffer_size
                              + (if flag_write = 0 then len * n else 0))
                            (mr_rkey (rs_S_mr (FaRM c))) (mr_addr lmr) (ucast head_size) (mr_lkey lmr)) p
                  in if \<not> WFLUSH b then (Wait_task None (tk_ptr tk), p)
                     else (case dhmp_read_task_create x None 0 p of
                             (None, p) \<Rightarrow> (Finished, p)
                           | (Some tk2, p) \<Rightarrow>
                               (Wait_flush (tk_ptr tk2) (tk_ptr tk),
                                post_unchecked x h (rdma_wr IBV_WR_RDMA_READ (tk_ptr tk2)
                                  (mr_addr (rs_S_mr (FaRM c)) + (of_int cur + 1) * buffer_size - 1)
                                  (mr_rkey (rs_S_mr (FaRM c))) (mr_addr (rs_read_mr (FaRM c))) 1
                                  (mr_lkey (rs_read_mr (FaRM c)))) p)))
      | Wait_flush tk2 tk \<Rightarrow>
          if \<not> task_done p tk2 then (pc, p) else (Wait_task None tk, release (R_heap tk2) p)
      | Wait_task _ tk \<Rightarrow>
          if \<not> task_done p tk then (pc, p) else (Finished, set_done wp (release (R_heap tk) p))
      | _ \<Rightarrow> (pc, p)))"

text \<open>The bodies of these two handlers are empty: no flag is ever set.\<close>

definition amper_herd_work_handler :: "proc \<Rightarrow> proc" where
  "amper_herd_work_handler p = p"

definition amper_pRDMA_WS_work_handler :: "proc \<Rightarrow> proc" where
  "amper_pRDMA_WS_work_handler p = p"

section \<open>The client's poll thread\<close>

definition FaRM_run_client_start :: "build \<Rightarrow> dhmp_client \<Rightarrow> addr" where
  "FaRM_run_client_start b c =
     (let reply = mr_addr (rs_C_mr (FaRM c)) + rs_size (FaRM c) * BATCH
      in if WFLUSH b \<or> RFLUSH b then mr_addr (rs_C_mr (FaRM c))
         else reply + ((16 + 8) * BATCH + 1))"

text \<open>
  One turn of its loop; the local variables are \<open>valid\<close> and the \<open>size\<close> read when the thread
  started.  \<open>None\<close>: the thread ends.
\<close>

definition FaRM_run_client_turn :: "build \<Rightarrow> u64 \<Rightarrow> addr \<Rightarrow> proc \<Rightarrow> addr option \<times> proc" where
  "FaRM_run_client_turn b sz valid p =
     (case client p of
        None \<Rightarrow> (None, raise Null_deref p)
      | Some c \<Rightarrow>
          let cmr = mr_addr (rs_C_mr (FaRM c)); reply = cmr + sz * BATCH;
              buffer_size = (16 + 8 + sz) * BATCH + 2; flush = (WFLUSH b \<or> RFLUSH b)
          in if sz = 0 then (None, p)
             else if mem p valid = 0 then (Some valid, p)
             else
               let m = store8 (mem p) valid 0;
                   m = (if \<not> flush \<and> m (reply + 16 + 8) = 0
                        then memcpy m (load64 m (reply + 8)) (cmr + buffer_size * of_nat (rs_Ccur (FaRM c))) sz
                        else m);
                   s = slot_give (FaRM_buffer_NUM b) (WFLUSH b) (FaRM c);
                   s = (if RFLUSH b then s\<lparr>rs_Ccur := (rs_Ccur s + 1) mod FaRM_buffer_NUM b\<rparr> else s)
               in (Some (if flush then cmr + of_nat (rs_Ccur s) * buffer_size else valid),
                   p\<lparr>mem := m, client := Some (c\<lparr>FaRM := s\<rparr>)\<rparr>))"

section \<open>The server's poll threads\<close>

text \<open>
  What \<open>FaRM_run\<close> puts into memory for the request of slot buffer \<open>sbuf\<close> with header at \<open>reply\<close>,
  and the flag and size of its answer.
\<close>

definition FaRM_serve :: "build \<Rightarrow> u64 \<Rightarrow> addr \<Rightarrow> addr \<Rightarrow> addr \<Rightarrow> mem \<Rightarrow> mem \<times> byte \<times> u64" where
  "FaRM_serve b sz sbuf reply temp m =
     (let m = store8 m temp 1
      in if WFLUSH b \<or> RFLUSH b then (m, 0, 1)
         else
           let server_addr = load64 m reply;
               local_addr = load64 m (reply + 8);
               write_flag = m (reply + 16 + 8);
               reply_size = 16 + 8 + 2 + (if write_flag = 0 then sz else 0);
               (t, m) = (if write_flag = 1 then (temp, memcpy m server_addr sbuf sz)
                         else (temp + sz, memcpy m temp server_addr sz));
               m = store64 m t server_addr;
               m = store64 m (t + 8) local_addr;
               m = store64 m (t + 16) sz;
               m = store8 m (t + 16 + 8) write_flag;
               m = store8 m (t + 16 + 8 + 1) 1
           in (m, write_flag, reply_size))"

definition FaRM_run_start :: "ext \<Rightarrow> int \<Rightarrow> proc \<Rightarrow> proc" where
  "FaRM_run_start x node p =
     with_node node p (\<lambda>s n.
       let (t, p) = ask (ext_malloc x) p;
           p = (if t = 0 then p else acquire (R_heap t) p);
           (smr, p) = dhmp_create_smr_per_ops x t ((16 + 8 + Fa_size n) * BATCH + 2) p
       in case smr of
            None \<Rightarrow> raise Null_deref p
          | Some (sp, r) \<Rightarrow> p\<lparr>server := Some (set_node node (n\<lparr>Fa_local_mr := r\<rparr>) s)\<rparr>)"

text \<open>The addresses it looks at for slot \<open>i\<close>.\<close>

definition FaRM_reply_at :: "u64 \<Rightarrow> server_node \<Rightarrow> nat \<Rightarrow> addr" where
  "FaRM_reply_at sz n i = mr_addr (Fa_S_mr n) + sz * BATCH + of_nat i * ((16 + 8 + sz) * BATCH + 2)"

text \<open>
  One turn of \<open>FaRM_run\<close>, with the slot \<open>i\<close> and the \<open>size\<close> read when the thread started; a thread that
  ends gives its region back.
\<close>

definition FaRM_run ::
  "build \<Rightarrow> ext \<Rightarrow> int \<Rightarrow> u64 \<Rightarrow> nat \<times> pc \<Rightarrow> proc \<Rightarrow> (nat \<times> pc) \<times> proc" where
  "FaRM_run b x node sz st p =
     (case (server p, st) of
        (None, i, _) \<Rightarrow> ((i, Finished), raise Null_deref p)
      | (Some s, i, Start) \<Rightarrow>
          if \<not> node_ok node then ((i, Finished), raise Out_of_bounds p)
          else
            let n = nodes s node; reply = FaRM_reply_at sz n i;
                valid = reply + ((16 + 8) * BATCH + 1)
            in if Fa_size n = 0 then ((i, Finished), release (R_mr (Fa_local_mr n)) p)
               else if mem p valid = 0 then (st, p)
               else
                 let buffer_size = (16 + 8 + sz) * BATCH + 2;
                     (m, write_flag, reply_size) =
                       FaRM_serve b sz (mr_addr (Fa_S_mr n) + of_nat i * buffer_size) reply
                         (mr_addr (Fa_local_mr n)) (store8 (mem p) valid 0)
                 in (case dhmp_write_task_create x None 0 (p\<lparr>mem := m\<rparr>) of
                       (None, p) \<Rightarrow> ((i, Finished), p)
                     | (Some tk, p) \<Rightarrow>
                         (case node_trans n of
                            None \<Rightarrow> ((i, Finished), raise Null_deref p)
                          | Some h \<Rightarrow>
                              ((i, Wait_task None (tk_ptr tk)),
                               post_or_exit x h (rdma_wr IBV_WR_RDMA_WRITE (tk_ptr tk)
                                 (mr_addr (Fa_C_mr n) + of_nat i * buffer_size
                                   + (if \<not> (WFLUSH b \<or> RFLUSH b) \<and> write_flag = 1 then sz * BATCH else 0))
                                 (mr_rkey (Fa_C_mr n)) (mr_addr (Fa_local_mr n)) (ucast reply_size)
                                 (mr_lkey (Fa_local_mr n))) p)))
      | (Some s, i, Wait_task _ tk) \<Rightarrow>
          if \<not> task_done p tk then (st, p)
          else ((if WFLUSH b \<or> RFLUSH b then (i + 1) mod FaRM_buffer_NUM b else i, Start),
                release (R_heap tk) p)
      | _ \<Rightarrow> (st, p))"

text \<open>One turn of \<open>herd_run\<close>.  The answer is built and then dropped: the call that would send it is commented out.\<close>

definition herd_serve :: "u64 \<Rightarrow> nat \<Rightarrow> addr \<Rightarrow> addr \<Rightarrow> addr \<Rightarrow> mem \<Rightarrow> mem" where
  "herd_serve sz i sbuf reply respond m =
     (let server_addr = load64 m reply;
          local_addr = load64 m (reply + 8);
          write_flag = m (reply + 16 + 8);
          m = store8 m respond write_flag;
          m = store8 m (respond + 1) (of_nat i);
          m = store64 m (respond + 2) server_addr;
          m = store64 m (respond + 2 + 8) local_addr;
          m = store64 m (respond + 2 + 16) sz
      in if write_flag = 1 then memcpy m server_addr sbuf sz
         else memcpy m (respond + (2 + 16 + 8)) server_addr sz)"

definition herd_run :: "build \<Rightarrow> ext \<Rightarrow> int \<Rightarrow> u64 \<Rightarrow> nat \<Rightarrow> proc \<Rightarrow> nat \<times> proc" where
  "herd_run b x node sz i p =
     (case server p of
        None \<Rightarrow> (i, raise Null_deref p)
      | Some s \<Rightarrow>
          if \<not> node_ok node then (i, raise Out_of_bounds p)
          else
            let n = nodes s node; buffer_size = 16 + 8 + 2 + sz;
                reply = mr_addr (He_S_mr n) + sz + of_nat i * buffer_size;
                valid = reply + (16 + 8 + 1)
            in if mem p valid = 0 then (i, p)
               else
                 let p = p\<lparr>mem := store8 (mem p) valid 0\<rparr>;
                     (respond, p) = ask (ext_malloc x) p
                 in if respond = 0 then (i, raise Null_deref p)
                    else ((i + 1) mod FaRM_buffer_NUM b,
                      (acquire (R_heap respond) p)\<lparr>mem := herd_serve sz i
                        (mr_addr (He_S_mr n) + of_nat i * buffer_size) reply respond (mem p)\<rparr>))"

text \<open>
  The answer's handler, should one arrive.  The size is read as one (signed) byte, and the slot comes
  from the message.
\<close>

definition amper_herd_response_handler :: "build \<Rightarrow> addr \<Rightarrow> proc \<Rightarrow> proc" where
  "amper_herd_response_handler b response p = with_client p (\<lambda>c.
     let m = mem p; cur = sint (m (response + 1));
         m = (if m response = 0
              then memcpy m (load64 m (response + 2 + 8)) (response + 2 + 16 + 8)
                     (size_of_char (m (response + 2 + 16)))
              else m);
         p = p\<lparr>mem := m\<rparr>
     in if cur < 0 \<or> int (FaRM_buffer_NUM b) \<le> cur then raise Out_of_bounds p
        else p\<lparr>client := Some (c\<lparr>herd := (herd c)\<lparr>rs_available :=
               (rs_available (herd c))(nat cur := 1)\<rparr>\<rparr>)\<rparr>)"

section \<open>The bytes of a request and of a reply\<close>

text \<open>The header: object, client address, size and flag; the valid byte follows it.\<close>

definition FaRM_header :: "addr \<Rightarrow> addr \<Rightarrow> u64 \<Rightarrow> byte \<Rightarrow> byte list" where
  "FaRM_header da la n f = put64 da @ put64 la @ put64 n @ [f]"

lemma length_FaRM_header [simp]: "length (FaRM_header da la n f) = 25"
  by (simp add: FaRM_header_def)

lemma FaRM_header_stores:
  "store8 (store8 (store64 (store64 (store64 m t da) (t + 8) la) (t + 16) n) (t + 16 + 8) f) (t + 16 + 8 + 1) 1
   = mem_write m t (FaRM_header da la n f @ [1])"
  by (simp add: mem_write_append FaRM_header_def add.assoc del: put_le.simps)

lemma FaRM_header_fields:
  assumes "mem_read m a 25 = FaRM_header da la n f"
  shows "load64 m a = da" "load64 m (a + 8) = la" "m (a + 16 + 8) = f"
proof -
  have r: "mem_read m (a + of_nat k) l = take l (drop k (FaRM_header da la n f))" if "k + l \<le> 25" for k l
    using assms that by (intro mem_read_sub) auto
  show "load64 m a = da" "load64 m (a + 8) = la" "m (a + 16 + 8) = f"
    using r [of 0 8] r [of 8 8] r [of 24 1] by (simp_all add: FaRM_header_def add.assoc del: put_le.simps)
qed

text \<open>What a batch of one leaves in the slot's local buffer.\<close>

lemma FaRM_build_eq:
  assumes "f \<in> {0, 1}" "unat n < 2 ^ 62" "disj t (unat n + 26) ga 8" "disj t (unat n + 26) la 8"
  shows "FaRM_build t ga n la f 1 m = mem_write m t
    ((if f = 1 then mem_read m (load64 m la) (unat n) else []) @ FaRM_header (load64 m ga) (load64 m la) n f @ [1])"
proof (cases "f = 1")
  case True
  let ?d = "mem_read m (load64 m la) (unat n)" and ?m = "mem_write m t (mem_read m (load64 m la) (unat n))"
  have l: "load64 (mem_write m t bs) la = load64 m la" and g: "load64 (mem_write m t bs) ga = load64 m ga"
    if "length bs \<le> unat n + 26" for bs
    using assms(3,4) that disj_sub [of t "unat n + 26" _ 8 0 "length bs"] by (simp_all add: mem_read_write_disj)
  have s: "mem_write ?m (t + n) bs = mem_write m t (?d @ bs)" if "length bs \<le> 30" for bs
    using that assms(2) by (intro mem_write_append) simp_all
  have h: "mem_write (mem_write ?m (t + n) xs) (t + n + of_nat (length xs)) ys = mem_write m t (?d @ xs @ ys)"
    if "length xs + length ys \<le> 30" for xs ys
    using that mem_write_append [OF refl, of xs ys ?m "t + n"] s by simp
  have "FaRM_build t ga n la 1 1 m = mem_write ?m (t + n) (FaRM_header (load64 m ga) (load64 m la) n 1 @ [1])"
    using l [of ?d] g [of ?d] l [of "?d @ put64 (load64 m ga)"] s [of "put64 (load64 m ga)"]
      FaRM_header_stores [of ?m "t + n" "load64 m ga" "load64 m la" n 1]
    by (simp add: FaRM_build_def FaRM_put_entry_def memcpy_def del: put_le.simps)
  then show ?thesis using s True by simp
next
  case False
  then have "f = 0" using assms(1) by simp
  moreover have "load64 (store64 m t w) la = load64 m la" for w
    using assms(4) disj_sub [of t "unat n + 26" la 8 0 8] by (simp add: mem_read_write_disj del: put_le.simps)
  ultimately show ?thesis
    using FaRM_header_stores [of m t "load64 m ga" "load64 m la" n 0]
    by (simp add: FaRM_build_def FaRM_put_entry_def del: put_le.simps)
qed

text \<open>Serving, in the default build.\<close>

lemma FaRM_serve_write:
  assumes "mem_read m reply 25 = FaRM_header da la n 1" "mem_read m sbuf (unat n) = d"
    and "disj temp 1 reply 25" "disj temp 1 sbuf (unat n)"
  shows "FaRM_serve (default_build k) n sbuf reply temp m
    = (mem_write (mem_write (store8 m temp 1) da d) temp (FaRM_header da la n 1 @ [1]), 1, 26)"
proof -
  have h: "mem_read (store8 m temp 1) reply 25 = FaRM_header da la n 1"
    and d: "mem_read (store8 m temp 1) sbuf (unat n) = d"
    using assms by (simp_all add: mem_read_write_disj)
  show ?thesis
    using FaRM_header_fields [OF h] d FaRM_header_stores [of "mem_write (store8 m temp 1) da d" temp da la n 1]
    by (simp add: FaRM_serve_def memcpy_def Let_def del: put_le.simps)
qed

lemma FaRM_serve_read:
  assumes "mem_read m reply 25 = FaRM_header da la n 0" "mem_read m da (unat n) = d"
    and "disj temp 1 reply 25" "disj temp 1 da (unat n)" "unat n < 2 ^ 62"
  shows "FaRM_serve (default_build k) n sbuf reply temp m
    = (mem_write (store8 m temp 1) temp (d @ FaRM_header da la n 0 @ [1]), 0, 26 + n)"
proof -
  have h: "mem_read (store8 m temp 1) reply 25 = FaRM_header da la n 0"
    and d: "mem_read (store8 m temp 1) da (unat n) = d"
    using assms by (simp_all add: mem_read_write_disj)
  have "mem_write (mem_write m' temp d) (temp + n) (FaRM_header da la n 0 @ [1])
      = mem_write m' temp (d @ FaRM_header da la n 0 @ [1])" for m'
    using assms(2,5) by (intro mem_write_append) auto
  then show ?thesis
    using FaRM_header_fields [OF h] d FaRM_header_stores [of "mem_write (store8 m temp 1) temp d" "temp + n" da la n 0]
    by (simp add: FaRM_serve_def memcpy_def Let_def del: put_le.simps)
qed

section \<open>The window of outstanding slots\<close>

text \<open>
  Calls and the client's poll thread share the slots.  Under \<open>WFLUSH\<close> both cursors move; the poll
  thread gives a slot back when the reply of a request that was sent has arrived, so only when
  the slot at \<open>Ccur\<close> is taken.
\<close>

inductive slot_step :: "nat \<Rightarrow> ring_slots \<Rightarrow> ring_slots \<Rightarrow> bool" for n where
  take: "slot_take n True s = Some (cur, t) \<Longrightarrow> slot_step n s t"
| give: "rs_available s (rs_Ccur s) = 0 \<Longrightarrow> slot_step n s (slot_give n True s)"

inductive slot_reach :: "nat \<Rightarrow> ring_slots \<Rightarrow> ring_slots \<Rightarrow> bool" for n where
  none: "slot_reach n s s"
| more: "slot_reach n s t \<Longrightarrow> slot_step n t u \<Longrightarrow> slot_reach n s u"

inductive_cases slot_stepE: "slot_step n s t"

text \<open>The state after the malloc response of FaRM.\<close>

definition slots_ready :: "nat \<Rightarrow> ring_slots \<Rightarrow> bool" where
  "slots_ready n s \<longleftrightarrow> rs_Scur s = 0 \<and> rs_Ccur s = 0 \<and> (\<forall>i < n. rs_available s i = 1)"

definition slot_window :: "nat \<Rightarrow> nat \<Rightarrow> ring_slots \<Rightarrow> bool" where
  "slot_window n k s \<longleftrightarrow> k \<le> n \<and> rs_Ccur s < n \<and> rs_Scur s = (rs_Ccur s + k) mod n
     \<and> (\<forall>j < n. rs_available s ((rs_Ccur s + j) mod n) = (if j < k then 0 else 1))"

lemma mod_shift_inj:
  fixes c :: nat
  assumes "j < n" "k < n" "(c + j) mod n = (c + k) mod n"
  shows "j = k"
proof -
  have e: "i = l" if "i \<le> l" "l < n" "(c + i) mod n = (c + l) mod n" for i l
  proof -
    have "n dvd l - i"
      using that mod_eq_dvd_iff_nat [of "c + i" "c + l" n] by simp
    then show "i = l" using that dvd_imp_le [of n "l - i"] by (cases "l = i") auto
  qed
  show ?thesis using e [of j k] e [of k j] assms by (cases "j \<le> k") auto
qed

lemma slot_take_window:
  assumes "slot_window n k s" "slot_take n True s = Some (cur, t)"
  shows "k < n" "cur = (rs_Ccur s + k) mod n" "slot_window n (Suc k) t"
proof -
  have w: "k \<le> n" "rs_Ccur s < n" "rs_Scur s = (rs_Ccur s + k) mod n"
    "\<And>j. j < n \<Longrightarrow> rs_available s ((rs_Ccur s + j) mod n) = (if j < k then 0 else 1)"
    using assms(1) by (auto simp: slot_window_def)
  have t: "rs_available s (rs_Scur s) \<noteq> 0" "cur = rs_Scur s"
    "t = s\<lparr>rs_available := (rs_available s)(cur := 0), rs_Scur := (rs_Scur s + 1) mod n\<rparr>"
    using assms(2) by (auto simp: slot_take_def split: if_splits)
  show k: "k < n"
  proof (rule ccontr)
    assume "\<not> k < n"
    then have "k = n" using w(1) by simp
    then show False using w(2,3) w(4) [of 0] t(1) by simp
  qed
  show "cur = (rs_Ccur s + k) mod n" using t w by simp
  show "slot_window n (Suc k) t"
    using k w t mod_shift_inj [of _ n k "rs_Ccur s"]
    by (fastforce simp: slot_window_def mod_Suc_eq less_Suc_eq)
qed

lemma slot_give_window:
  assumes "slot_window n k s" "rs_available s (rs_Ccur s) = 0"
  shows "slot_window n (k - 1) (slot_give n True s)"
proof -
  have w: "k \<le> n" "rs_Ccur s < n" "rs_Scur s = (rs_Ccur s + k) mod n"
    "\<And>j. j < n \<Longrightarrow> rs_available s ((rs_Ccur s + j) mod n) = (if j < k then 0 else 1)"
    using assms(1) by (auto simp: slot_window_def)
  have k: "0 < k" using w(4) [of 0] w(2) assms(2) by (cases k) auto
  have "rs_available (slot_give n True s) ((Suc (rs_Ccur s) mod n + j) mod n) = (if j < k - 1 then 0 else 1)" if "j < n" for j
  proof (cases "Suc j = n")
    case True
    then have "(Suc (rs_Ccur s) mod n + j) mod n = rs_Ccur s"
      using w(2) by (metis add_Suc add_Suc_right mod_add_left_eq mod_add_self2 mod_less)
    then show ?thesis using True w(1) k by (simp add: slot_give_def)
  next
    case False
    then have j: "Suc j < n" using that by simp
    have e: "(Suc (rs_Ccur s) mod n + j) mod n = (rs_Ccur s + Suc j) mod n"
      by (metis add_Suc add_Suc_right mod_add_left_eq)
    have "(rs_Ccur s + Suc j) mod n \<noteq> rs_Ccur s"
      using mod_shift_inj [OF j, of 0 "rs_Ccur s"] j w(2) by auto
    then show ?thesis using w(4) [OF j] k by (simp add: slot_give_def e) linarith
  qed
  moreover have "(rs_Ccur s + k) mod n = (Suc (rs_Ccur s) mod n + (k - 1)) mod n"
    using k by (metis Suc_diff_1 add_Suc add_Suc_right mod_add_left_eq)
  ultimately show ?thesis
    using w k by (auto simp: slot_window_def slot_give_def)
qed

lemma slot_reach_window:
  assumes "slot_reach n s t" "slots_ready n s" "0 < n"
  shows "\<exists>k. slot_window n k t"
  using assms
proof (induction rule: slot_reach.induct)
  case (none s)
  then have "slot_window n 0 s" by (simp add: slots_ready_def slot_window_def)
  then show ?case ..
next
  case (more s t u)
  then obtain k where k: "slot_window n k t" by auto
  from more.hyps(2) show ?case
    by (rule slot_stepE) (use k slot_take_window(3) slot_give_window in blast)+
qed

text \<open>
  C21: a FaRM call never gets a slot whose request is still outstanding, and replies free the slots in
  the order the calls took them.  Under \<open>WFLUSH\<close>, in every reachable state the outstanding slots are
  the \<open>k\<close> ones from \<open>Ccur\<close> on, and the slot the next call takes is the one behind them, of \<open>n\<close>
  with at most \<open>n - 1\<close> outstanding.
\<close>

lemma FaRM_slots_distinct:
  assumes "slot_reach n s t" "slots_ready n s" "0 < n" "slot_take n True t = Some (cur, u)"
  shows "\<exists>k < n. cur = (rs_Ccur t + k) mod n
    \<and> {i. i < n \<and> rs_available t i = 0} = (\<lambda>j. (rs_Ccur t + j) mod n) ` {..<k} \<and> rs_available t cur = 1
    \<and> {i. i < n \<and> rs_available u i = 0} = (\<lambda>j. (rs_Ccur t + j) mod n) ` {..<Suc k}"
proof -
  obtain k where k: "slot_window n k t" using slot_reach_window [OF assms(1-3)] ..
  have win: "{i. i < n \<and> rs_available v i = 0} = (\<lambda>j. (rs_Ccur v + j) mod n) ` {..<l}"
    if "slot_window n l v" for l v
  proof (intro equalityI subsetI)
    fix i assume i: "i \<in> {i. i < n \<and> rs_available v i = 0}"
    let ?j = "(i + n - rs_Ccur v) mod n"
    have c: "rs_Ccur v < n" using that by (simp add: slot_window_def)
    then have e: "(rs_Ccur v + ?j) mod n = i"
      using i by (simp add: mod_add_right_eq)
    moreover have "?j < n" using assms(3) by simp
    ultimately have "?j < l" using that i unfolding slot_window_def by (metis (mono_tags, lifting) mem_Collect_eq zero_neq_one)
    then show "i \<in> (\<lambda>j. (rs_Ccur v + j) mod n) ` {..<l}" using e by (metis imageI lessThan_iff)
  qed (use that assms(3) in \<open>auto simp: slot_window_def\<close>)
  have "rs_Ccur u = rs_Ccur t" using assms(4) by (auto simp: slot_take_def split: if_splits)
  then show ?thesis
    using slot_take_window [OF k assms(4)] win [OF k] win [of "Suc k" u] k
    by (auto simp: slot_window_def intro!: exI [of _ k])
qed

lemma FaRM_slots_distinct_witness:
  "\<exists>t u. slot_reach 2 slots0 t \<and> slot_take 2 True t = Some (1, u) \<and> {i. i < 2 \<and> rs_available t i = 0} \<noteq> {}
    \<and> (\<exists>k < 2. (1::nat) = (rs_Ccur t + k) mod 2 \<and> rs_available t 1 = 1)"
proof -
  have r: "slots_ready 2 slots0" by (simp add: slots_ready_def slots0_def)
  obtain t where t: "slot_take 2 True slots0 = Some (0, t)" by (simp add: slot_take_def slots0_def)
  then have st: "slot_reach 2 slots0 t" by (meson slot_reach.intros slot_step.take)
  have av: "rs_available t 0 = 0" "rs_available t 1 = 1" "rs_Scur t = 1"
    using t by (auto simp: slot_take_def slots0_def)
  then obtain u where u: "slot_take 2 True t = Some (1, u)" by (simp add: slot_take_def)
  show ?thesis
    using FaRM_slots_distinct [OF st r _ u] st u av(1) by (intro exI [of _ t] exI [of _ u]) auto
qed

section \<open>A call, end to end\<close>

text \<open>A batch of one in the default build: the request the worker posts.\<close>

lemma FaRM_start_posts:
  assumes "client p = Some c"
    and "amper_FaRM_work_handler (default_build k) x h wp ga n la f 1 0 Start p = (Wait_task u tk, p1)"
    and "sq p1 = sq p @ [(h, w)]" "f \<in> {0, 1}" "26 + unat n < 2 ^ 32"
    and "disj (mr_addr (rs_local_mr (FaRM c) 0)) (unat n + 26) ga 8"
    and "disj (mr_addr (rs_local_mr (FaRM c) 0)) (unat n + 26) la 8"
  shows "wr_remote_addr w = mr_addr (rs_S_mr (FaRM c)) + (if f = 0 then n else 0)"
    and "wr_payload (mem p1) w = (if f = 1 then mem_read (mem p) (load64 (mem p) la) (unat n) else [])
           @ FaRM_header (load64 (mem p) ga) (load64 (mem p) la) n f @ [1]"
proof -
  let ?t = "mr_addr (rs_local_mr (FaRM c) 0)"
  let ?r = "(if f = 1 then mem_read (mem p) (load64 (mem p) la) (unat n) else [])
     @ FaRM_header (load64 (mem p) ga) (load64 (mem p) la) n f @ [1]"
  have w: "wr_remote_addr w = mr_addr (rs_S_mr (FaRM c)) + (if f = 0 then n else 0)"
    "wr_sg_list w = [\<lparr>sge_addr = ?t, sge_length = ucast (if f = 1 then 26 + n else 26),
        sge_lkey = mr_lkey (rs_local_mr (FaRM c) 0)\<rparr>]"
    and m: "mem p1 = FaRM_build ?t ga n la f 1 (mem p)"
    using assms(1-4)
    by (auto simp: amper_FaRM_work_handler_def dhmp_read_task_create_def ask_def Let_def post_or_exit_def
        split: if_splits)
  have l: "unat (ucast (if f = 1 then 26 + n else 26) :: u32) = length ?r"
    using assms(5) by (auto simp: unat_ucast_u32 unat_word_ariths)
  show "wr_remote_addr w = mr_addr (rs_S_mr (FaRM c)) + (if f = 0 then n else 0)" by (fact w)
  have "mem p1 = mem_write (mem p) ?t ?r"
    using m assms(4-7) FaRM_build_eq [of f n ?t ga la "mem p"] by simp
  moreover have "length ?r \<le> 2 ^ 64" using assms(5) by simp
  ultimately show "wr_payload (mem p1) w = ?r"
    using w(2) l by (simp add: mem_read_write_same)
qed

text \<open>What \<open>FaRM_run\<close> does when it finds a request in slot 0.\<close>

lemma FaRM_run_serves:
  assumes "server ps = Some s" "node_ok i" "nd = nodes s i" "Fa_size nd \<noteq> 0"
    and "FaRM_run (default_build k) x i n (0, Start) ps = ((0, Wait_task v tk), ps1)" "sq ps1 = sq ps @ [(hs, w)]"
    and "reply = mr_addr (Fa_S_mr nd) + n" "mem ps (reply + 25) \<noteq> 0"
    and "FaRM_serve (default_build k) n (mr_addr (Fa_S_mr nd)) reply (mr_addr (Fa_local_mr nd))
           (store8 (mem ps) (reply + 25) 0) = (m, f, sz)"
  shows "mem ps1 = m" "wr_remote_addr w = mr_addr (Fa_C_mr nd) + (if f = 1 then n else 0)"
    and "wr_payload m' w = mem_read m' (mr_addr (Fa_local_mr nd)) (unat (ucast sz :: u32))"
  using assms
  by (auto simp: FaRM_run_def FaRM_reply_at_def dhmp_read_task_create_def ask_def Let_def
      post_or_exit_def case_prod_unfold split: if_splits option.splits)

text \<open>The buffers on the server: the request's slot, the object and the reply do not overlap.\<close>

definition FaRM_layout :: "addr \<Rightarrow> u64 \<Rightarrow> addr \<Rightarrow> addr \<Rightarrow> bool" where
  "FaRM_layout da n sbuf temp \<longleftrightarrow> disj temp (unat n + 26) sbuf (unat n + 26)
     \<and> disj temp (unat n + 26) da (unat n) \<and> disj sbuf (unat n + 26) da (unat n)"

lemma FaRM_layoutD:
  assumes "FaRM_layout da n sbuf temp"
  shows "disj temp 1 (sbuf + n) 25" "disj temp 1 sbuf (unat n)" "disj temp 1 da (unat n)"
    and "disj (sbuf + n + 25) 1 da (unat n)" "disj temp (unat n + 26) da (unat n)"
  using assms disj_sub [of temp "unat n + 26" sbuf "unat n + 26" 0 1]
    disj_sub_right [of temp 1 sbuf "unat n + 26" "unat n" 25] disj_sub_right [of temp 1 sbuf "unat n + 26" 0 "unat n"]
    disj_sub [of temp "unat n + 26" da "unat n" 0 1] disj_sub [of sbuf "unat n + 26" da "unat n" "unat n + 25" 1]
  by (simp_all add: FaRM_layout_def ac_simps)

text \<open>A turn of the client's poll thread when a reply with header \<open>h\<close> has arrived.\<close>

lemma FaRM_client_turn:
  assumes "client q = Some c" "n \<noteq> 0" "unat n < 2 ^ 62" "rs_Ccur (FaRM c) = 0"
    and "mem_read (mem q) (mr_addr (rs_C_mr (FaRM c)) + n) 26 = FaRM_header da la n f @ [1]"
    and "f = 0 \<Longrightarrow> mem_read (mem q) (mr_addr (rs_C_mr (FaRM c))) (unat n) = d" "f \<in> {0, 1}"
    and "rs_size (FaRM c) = n"
  shows "\<exists>q' c'. FaRM_run_client_turn (default_build k) n (FaRM_run_client_start (default_build k) c) q
      = (Some (FaRM_run_client_start (default_build k) c), q') \<and> client q' = Some c'
    \<and> rs_available (FaRM c') 0 = 1 \<and> (f = 0 \<longrightarrow> mem_read (mem q') la (unat n) = d)"
proof -
  let ?b = "mr_addr (rs_C_mr (FaRM c))"
  let ?m = "store8 (mem q) (?b + n + 25) 0"
  have v: "FaRM_run_client_start (default_build k) c = ?b + n + 25"
    using assms(8) by (simp add: FaRM_run_client_start_def)
  have "mem q (?b + n + of_nat 25) = (FaRM_header da la n f @ [1]) ! 25"
    using assms(5) by (intro mem_byte_at) simp_all
  then have one: "mem q (?b + n + 25) = 1" by (simp add: nth_append)
  have "mem_read (mem q) (?b + n + of_nat 0) 25 = take 25 (drop 0 (FaRM_header da la n f @ [1]))"
    using assms(5) by (intro mem_read_sub) simp_all
  then have "mem_read ?m (?b + n) 25 = FaRM_header da la n f"
    using mem_read_write_offset [of 25 "[0]" 0 25 "mem q" "?b + n"] by simp
  note h = FaRM_header_fields [OF this]
  have d: "mem_read ?m ?b (unat n) = d" if "f = 0"
    using assms(3) assms(6) [OF that]
      mem_read_write_offset [where i = "unat n + 25" and bs = "[0]" and j = 0 and n = "unat n" and m = "mem q" and a = ?b]
    by (simp add: ac_simps)
  have "FaRM_run_client_turn (default_build k) n (?b + n + 25) q = (Some (?b + n + 25),
      q\<lparr>mem := (if f = 0 then memcpy ?m la ?b n else ?m), client := Some (c\<lparr>FaRM := slot_give k False (FaRM c)\<rparr>)\<rparr>)"
    using assms(1,2,4,7) one h by (auto simp: FaRM_run_client_turn_def Let_def)
  then show ?thesis
    using assms(3,4) d length_mem_read [of ?m ?b "unat n"]
    by (auto simp: v slot_give_def memcpy_def mem_read_write_same simp del: length_mem_read)
qed


text \<open>
  The two sides of the witnesses: objects of 2 bytes, at 0x600 on the client and at 0x50000 on the
  server; the arrays of addresses at 0x800 and 0x900.
\<close>

definition FaRM_client_rec :: dhmp_client where
  "FaRM_client_rec = client0\<lparr>FaRM := slots0\<lparr>rs_S_mr := mr_at 0x20000 64, rs_C_mr := mr_at 0x30000 64,
     rs_size := 2, rs_available := (\<lambda>_. 0), rs_local_mr := (\<lambda>_. mr_at 0x10000 64)\<rparr>\<rparr>"

definition FaRM_client :: proc where
  "FaRM_client = client_proc\<lparr>mem := mem_write (mem_write (mem_write (\<lambda>_. 0) 0x600 [0xAA, 0xBB])
     0x800 (put64 0x50000)) 0x900 (put64 0x600), client := Some FaRM_client_rec\<rparr>"

definition FaRM_node_rec :: server_node where
  "FaRM_node_rec = node0\<lparr>Fa_S_mr := mr_at 0x20000 64, Fa_C_mr := mr_at 0x30000 64,
     Fa_local_mr := mr_at 0x60000 64, Fa_size := 2, node_trans := Some 1\<rparr>"

definition FaRM_server :: proc where
  "FaRM_server = server_proc\<lparr>mem := mem_write (\<lambda>_. 0) 0x50000 [0x11, 0x22],
     server := Some (set_node 0 FaRM_node_rec server0)\<rparr>"

lemma FaRM_sample_simps [simp]:
  "client FaRM_client = Some FaRM_client_rec" "server FaRM_server = Some (set_node 0 FaRM_node_rec server0)"
  "rs_S_mr (FaRM FaRM_client_rec) = mr_at 0x20000 64" "rs_C_mr (FaRM FaRM_client_rec) = mr_at 0x30000 64"
  "rs_size (FaRM FaRM_client_rec) = 2" "rs_local_mr (FaRM FaRM_client_rec) 0 = mr_at 0x10000 64"
  "rs_Ccur (FaRM FaRM_client_rec) = 0" "Fa_S_mr FaRM_node_rec = mr_at 0x20000 64"
  "Fa_C_mr FaRM_node_rec = mr_at 0x30000 64" "Fa_local_mr FaRM_node_rec = mr_at 0x60000 64"
  "Fa_size FaRM_node_rec = 2" "node_trans FaRM_node_rec = Some 1" "tick FaRM_client = 0" "sq FaRM_client = []"
  "tick FaRM_server = 0" "sq FaRM_server = []"
  by (simp_all add: FaRM_client_def FaRM_client_rec_def FaRM_server_def FaRM_node_rec_def slots0_def)

lemma FaRM_sample_mem [simp]:
  "load64 (mem FaRM_client) 0x800 = 0x50000" "load64 (mem FaRM_client) 0x900 = 0x600"
proof -
  show "load64 (mem FaRM_client) 0x900 = 0x600"
    unfolding FaRM_client_def by (simp add: mem_read_write_same del: put_le.simps)
  show "load64 (mem FaRM_client) 0x800 = 0x50000"
    unfolding FaRM_client_def by (simp add: mem_read_write_disj disj_def mem_read_write_same del: put_le.simps)
qed

abbreviation FaRM_sent :: "byte \<Rightarrow> proc" where
  "FaRM_sent f \<equiv> snd (amper_FaRM_work_handler (default_build 4) ext_ok 0 0x50 0x800 2 0x900 f 1 0 Start FaRM_client)"

abbreviation FaRM_arrived :: "byte \<Rightarrow> proc" where
  "FaRM_arrived f \<equiv> deliver_last (FaRM_sent f) FaRM_server"

abbreviation FaRM_served :: "byte \<Rightarrow> proc" where
  "FaRM_served f \<equiv> snd (FaRM_run (default_build 4) ext_ok 0 2 (0, Start) (FaRM_arrived f))"

lemma FaRM_sample_run:
  assumes f: "f \<in> {0, 1}"
  obtains tk w tk' w' where
    "amper_FaRM_work_handler (default_build 4) ext_ok 0 0x50 0x800 2 0x900 f 1 0 Start FaRM_client
       = (Wait_task None tk, FaRM_sent f)"
    "sq (FaRM_sent f) = sq FaRM_client @ [(0, w)]" "delivered (mem (FaRM_sent f)) w (mem (FaRM_arrived f))"
    "server (FaRM_arrived f) = Some (set_node 0 FaRM_node_rec server0)"
    "FaRM_run (default_build 4) ext_ok 0 2 (0, Start) (FaRM_arrived f) = ((0, Wait_task None tk'), FaRM_served f)"
    "sq (FaRM_served f) = sq (FaRM_arrived f) @ [(1, w')]"
    "delivered (mem (FaRM_served f)) w' (mem (deliver_last (FaRM_served f) FaRM_client))"
    "client (deliver_last (FaRM_served f) FaRM_client) = Some FaRM_client_rec"
proof -
  obtain tk w where st: "amper_FaRM_work_handler (default_build 4) ext_ok 0 0x50 0x800 2 0x900 f 1 0 Start FaRM_client
      = (Wait_task None tk, FaRM_sent f)" "sq (FaRM_sent f) = sq FaRM_client @ [(0, w)]"
    by (simp add: amper_FaRM_work_handler_def dhmp_read_task_create_def ask_def Let_def)
  note posts = FaRM_start_posts [OF FaRM_sample_simps(1) st f]
  have pay: "length (wr_payload (mem (FaRM_sent f)) w) \<le> 2 ^ 64"
    "wr_remote_addr w = 0x20000 + (if f = 0 then 2 else 0)"
    "wr_payload (mem (FaRM_sent f)) w = (if f = 1 then mem_read (mem FaRM_client) 0x600 2 else [])
        @ FaRM_header 0x50000 0x600 2 f @ [1]"
    using posts by (simp_all add: disj_def)
  note dv = deliver_last_ok [OF st(2) pay(1), of FaRM_server]
  have "mem_read (mem (FaRM_arrived f)) (wr_remote_addr w + of_nat (length (wr_payload (mem (FaRM_sent f)) w) - 1)) 1 = [1]"
    using dv(1) pay(2,3) f mem_read_sub [of "mem (FaRM_arrived f)" "wr_remote_addr w" "wr_payload (mem (FaRM_sent f)) w"
      "length (wr_payload (mem (FaRM_sent f)) w) - 1" 1] unfolding delivered_def by auto
  then have one: "mem (FaRM_arrived f) (0x2001B) = 1" using pay(2,3) f by auto
  obtain tk' w' where hs: "FaRM_run (default_build 4) ext_ok 0 2 (0, Start) (FaRM_arrived f) = ((0, Wait_task None tk'), FaRM_served f)"
    "sq (FaRM_served f) = sq (FaRM_arrived f) @ [(1, w')]"
    using dv one
    by (simp add: FaRM_run_def FaRM_reply_at_def node_ok_def dhmp_read_task_create_def ask_def Let_def case_prod_unfold)
  obtain m g sz where sv: "FaRM_serve (default_build 4) 2 0x20000 0x20002 0x60000
      (store8 (mem (FaRM_arrived f)) 0x2001B 0) = (m, g, sz)" by (metis prod_cases3)
  have "length (wr_payload (mem (FaRM_served f)) w') \<le> 2 ^ 64"
    using FaRM_run_serves(3) [OF dv(2)[unfolded FaRM_sample_simps] _ refl _ hs refl] sv one
    by (simp add: node_ok_def less_imp_le [OF less_trans [OF unsigned_less]])
  note dv' = deliver_last_ok [OF hs(2) this, of FaRM_client]
  show thesis
    using that [OF st dv(1) _ hs dv'(1)] dv(2) dv'(3) by simp
qed




end
