(* ===== verification/RPC_Octopus.thy ===== *)
theory RPC_Octopus
  imports Server_Mem
begin

text \<open>
  The Octopus protocol: \<open>dhmp_Octopus_work_handler\<close> (\<open>dhmp_work.c\<close>), which handles what
  \<open>dhmp_write_imm2\<close> queues, \<open>dhmp_octo_request_handler\<close> and \<open>dhmp_octo_response_handler\<close>
  (\<open>dhmp_transport.c\<close>).  Request and answer are RDMA writes with immediate data into one buffer per
  client on either side; the immediate value tells the receiver which handler to run.
\<close>

section \<open>The client\<close>

definition NUM_octo_req :: u32 where "NUM_octo_req = - 4"
definition NUM_octo_res :: u32 where "NUM_octo_res = - 5"

definition octo_build :: "addr \<Rightarrow> addr \<Rightarrow> addr \<Rightarrow> u64 \<Rightarrow> byte \<Rightarrow> addr \<Rightarrow> mem \<Rightarrow> mem" where
  "octo_build t wp local_addr len flag dhmp_addr m =
     (let m = mem_write m t (put_octo_request \<lparr>oc_req_size = len, oc_server_addr = dhmp_addr,
                oc_client_addr = local_addr, oc_task = wp, oc_flag_write = flag\<rparr>)
      in if flag = 1 then memcpy m (t + 40) local_addr len else m)"

text \<open>The handler neither waits nor sets \<open>done_flag\<close>: the answer's handler is to do that.\<close>

definition dhmp_Octopus_work_handler ::
  "ext \<Rightarrow> nat \<Rightarrow> addr \<Rightarrow> addr \<Rightarrow> u64 \<Rightarrow> byte \<Rightarrow> addr \<Rightarrow> proc \<Rightarrow> proc" where
  "dhmp_Octopus_work_handler x h wp local_addr len flag dhmp_addr p = with_client p (\<lambda>c.
     let t = mr_addr (octo_local_mr c);
         p = p\<lparr>mem := octo_build t wp local_addr len flag dhmp_addr (mem p)\<rparr>;
         n = 40 + (if flag = 1 then len else 0)
     in case dhmp_write_task_create x None 0 p of
          (None, p) \<Rightarrow> p
        | (Some tk, p) \<Rightarrow>
            post_unchecked x h ((rdma_wr IBV_WR_RDMA_WRITE_WITH_IMM (tk_ptr tk) (mr_addr (octo_S_mr c))
              (mr_rkey (octo_S_mr c)) t (ucast n) (mr_lkey (octo_local_mr c)))\<lparr>wr_imm_data := NUM_octo_req\<rparr>) p)"

section \<open>The server\<close>

text \<open>
  The header of the answer is copied from \<open>server->octo[node].S_mr\<close>, the memory region's descriptor,
  and not from the buffer that descriptor is about.
\<close>

definition octo_serve :: "ibv_mr \<Rightarrow> addr \<Rightarrow> mem \<Rightarrow> mem \<times> u64" where
  "octo_serve S_mr response m =
     (let request = get_octo_request (mem_read m (mr_addr S_mr) 40);
          context_ptr = mr_addr S_mr + 40;
          reply_size = 40 + (if oc_flag_write request = 0 then oc_req_size request else 0);
          m = mem_write m response (take 40 (put_mr S_mr));
          m = (if oc_flag_write request = 1
               then memcpy m (oc_server_addr request) context_ptr (oc_req_size request)
               else memcpy m (response + 40) (oc_server_addr request) (oc_req_size request))
      in (m, reply_size))"

definition dhmp_octo_request_handler :: "ext \<Rightarrow> nat \<Rightarrow> pc \<Rightarrow> proc \<Rightarrow> pc \<times> proc" where
  "dhmp_octo_request_handler x h pc p =
     (let node = node_id (trans p h) in
      case (server p, pc) of
        (None, _) \<Rightarrow> (Finished, raise Null_deref p)
      | (Some s, Start) \<Rightarrow>
          if \<not> node_ok node then (Finished, raise Out_of_bounds p)
          else
            let n = nodes s node;
                (m, reply_size) = octo_serve (Oc_S_mr n) (mr_addr (Oc_local_mr n)) (mem p)
            in (case dhmp_write_task_create x None 0 (p\<lparr>mem := m\<rparr>) of
                  (None, p) \<Rightarrow> (Finished, p)
                | (Some tk, p) \<Rightarrow>
                    (Wait_task None (tk_ptr tk),
                     post_unchecked x h ((rdma_wr IBV_WR_RDMA_WRITE_WITH_IMM (tk_ptr tk) (mr_addr (Oc_C_mr n))
                       (mr_rkey (Oc_C_mr n)) (mr_addr (Oc_local_mr n)) (ucast reply_size)
                       (mr_lkey (Oc_local_mr n)))\<lparr>wr_imm_data := NUM_octo_res\<rparr>) p))
      | (Some s, Wait_task _ tk) \<Rightarrow> if \<not> task_done p tk then (pc, p) else (Finished, p)
      | _ \<Rightarrow> (pc, p))"

section \<open>The answer\<close>

definition dhmp_octo_response_handler :: "proc \<Rightarrow> proc" where
  "dhmp_octo_response_handler p = with_client p (\<lambda>c.
     let request = get_octo_request (mem_read (mem p) (mr_addr (octo_C_mr c)) 40);
         context_ptr = mr_addr (octo_C_mr c) + 40;
         p = (if oc_flag_write request = 0
              then p\<lparr>mem := memcpy (mem p) (oc_client_addr request) context_ptr (oc_req_size request)\<rparr>
              else p)
     in set_done (oc_task request) p)"

section \<open>Properties\<close>

lemma octo_build_eq:
  assumes "flag = 1 \<Longrightarrow> disj t 40 la (unat n)" "unat n < 2 ^ 62"
  shows "octo_build t wp la n flag da m = mem_write m t (put_octo_request \<lparr>oc_req_size = n, oc_server_addr = da,
      oc_client_addr = la, oc_task = wp, oc_flag_write = flag\<rparr> @ (if flag = 1 then mem_read m la (unat n) else []))"
  using assms mem_write_append [of "t + 40" t "put_octo_request \<lparr>oc_req_size = n, oc_server_addr = da,
      oc_client_addr = la, oc_task = wp, oc_flag_write = flag\<rparr>" "mem_read m la (unat n)" m]
  by (auto simp: octo_build_def memcpy_def mem_read_write_disj)

lemma octo_sent:
  assumes "client p = Some c" "p1 = dhmp_Octopus_work_handler x h wp la n f da p" "sq p1 = sq p @ [(h, w)]"
    and "40 + unat n < 2 ^ 32" "f = 1 \<Longrightarrow> disj (mr_addr (octo_local_mr c)) 40 la (unat n)"
  shows "wr_remote_addr w = mr_addr (octo_S_mr c)" "wr_imm_data w = NUM_octo_req"
    and "wr_payload (mem p1) w = put_octo_request \<lparr>oc_req_size = n, oc_server_addr = da,
      oc_client_addr = la, oc_task = wp, oc_flag_write = f\<rparr> @ (if f = 1 then mem_read (mem p) la (unat n) else [])"
proof -
  let ?t = "mr_addr (octo_local_mr c)"
  let ?r = "put_octo_request \<lparr>oc_req_size = n, oc_server_addr = da, oc_client_addr = la, oc_task = wp, oc_flag_write = f\<rparr>
    @ (if f = 1 then mem_read (mem p) la (unat n) else [])"
  have w: "wr_remote_addr w = mr_addr (octo_S_mr c)" "wr_imm_data w = NUM_octo_req"
    "wr_sg_list w = [\<lparr>sge_addr = ?t, sge_length = ucast (40 + (if f = 1 then n else 0)), sge_lkey = mr_lkey (octo_local_mr c)\<rparr>]"
    and m: "mem p1 = octo_build ?t wp la n f da (mem p)"
    using assms(1-3)
    by (auto simp: dhmp_Octopus_work_handler_def dhmp_read_task_create_def ask_def Let_def post_unchecked_def
        split: if_splits)
  have l: "unat (ucast (40 + (if f = 1 then n else 0)) :: u32) = length ?r"
    using assms(4) by (auto simp: unat_ucast_u32 unat_word_ariths)
  show "wr_remote_addr w = mr_addr (octo_S_mr c)" "wr_imm_data w = NUM_octo_req" by (fact w)+
  have "mem p1 = mem_write (mem p) ?t ?r" using m assms(4,5) octo_build_eq [of f ?t la n wp da "mem p"] by simp
  moreover have "length ?r \<le> 2 ^ 64" using assms(4) by simp
  ultimately show "wr_payload (mem p1) w = ?r" using w(3) l by (simp add: mem_read_write_same)
qed

text \<open>The struct the client reads where the server copied the descriptor.\<close>

definition octo_garbage :: "ibv_mr \<Rightarrow> dhmp_octo_request" where
  "octo_garbage r = \<lparr>oc_req_size = mr_context r, oc_server_addr = mr_pd r, oc_client_addr = mr_addr r,
     oc_task = mr_length r, oc_flag_write = ucast (mr_handle r)\<rparr>"

lemma get_octo_garbage: "get_octo_request (take 40 (put_mr r)) = octo_garbage r"
  by (simp add: get_octo_request_def octo_garbage_def put_mr_def w64_at_def nth_append nth_put_le del: put_le.simps)

text \<open>What \<open>dhmp_octo_request_handler\<close> posts.\<close>

lemma octo_handler_start:
  assumes "server ps = Some s" "node_ok (node_id (trans ps g))" "nd = nodes s (node_id (trans ps g))"
    and "dhmp_octo_request_handler y g Start ps = (Wait_task v tk, pt)" "sq pt = sq ps @ [(g, w)]"
    and "octo_serve (Oc_S_mr nd) (mr_addr (Oc_local_mr nd)) (mem ps) = (m, sz)"
  shows "mem pt = m" "wr_remote_addr w = mr_addr (Oc_C_mr nd)" "wr_imm_data w = NUM_octo_res"
    and "wr_payload k w = mem_read k (mr_addr (Oc_local_mr nd)) (unat (ucast sz :: u32))"
  using assms
  by (auto simp: dhmp_octo_request_handler_def dhmp_read_task_create_def ask_def Let_def post_unchecked_def
      case_prod_unfold split: if_splits option.splits)

lemma octo_serve_request:
  assumes "mem_read m (mr_addr r) (40 + length bs) = put_octo_request q @ bs" "resp = mr_addr lr"
    and "oc_flag_write q = 1 \<Longrightarrow> length bs = unat (oc_req_size q)"
    and "disj resp 40 (mr_addr r) (40 + length bs)"
  shows "octo_serve r resp m = (if oc_flag_write q = 1
      then (mem_write (mem_write m resp (take 40 (put_mr r))) (oc_server_addr q) bs, 40)
      else (memcpy (mem_write m resp (take 40 (put_mr r))) (resp + 40) (oc_server_addr q) (oc_req_size q),
            40 + (if oc_flag_write q = 0 then oc_req_size q else 0)))"
proof -
  have rd: "mem_read m (mr_addr r + of_nat k) l = take l (drop k (put_octo_request q @ bs))" if "k + l \<le> 40 + length bs" for k l
    using assms(1) that by (intro mem_read_sub) auto
  have g: "get_octo_request (mem_read m (mr_addr r) 40) = q" using rd [of 0 40] by simp
  have "mem_read (mem_write m resp (take 40 (put_mr r))) (mr_addr r + 40) (length bs) = bs"
    using rd [of 40 "length bs"] disj_sub_right [OF assms(4), of 40 "length bs"] by (simp add: mem_read_write_disj)
  then show ?thesis using g assms(3) by (cases "oc_flag_write q = 1") (simp_all add: octo_serve_def Let_def memcpy_def)
qed

text \<open>
  C24: an Octopus write takes effect on the server: when the request has been delivered into the
  client's buffer there, the handler that its immediate value selects leaves the client's bytes in
  the object.
\<close>

lemma octo_write_served:
  assumes "client p = Some c" "p1 = dhmp_Octopus_work_handler x h wp la n 1 da p" "sq p1 = sq p @ [(h, w)]"
    and "40 + unat n < 2 ^ 32" "disj (mr_addr (octo_local_mr c)) 40 la (unat n)"
    and "server ps = Some s" "node_ok (node_id (trans ps g))" "nd = nodes s (node_id (trans ps g))"
    and "delivered (mem p1) w (mem ps)" "mr_addr (octo_S_mr c) = mr_addr (Oc_S_mr nd)"
    and "disj (mr_addr (Oc_local_mr nd)) 40 (mr_addr (Oc_S_mr nd)) (40 + unat n)"
    and "dhmp_octo_request_handler y g Start ps = (Wait_task v tk, pt)" "sq pt = sq ps @ [(g, w')]"
  shows "wr_imm_data w = NUM_octo_req \<and> mem_read (mem pt) da (unat n) = mem_read (mem p) la (unat n)"
proof -
  let ?q = "\<lparr>oc_req_size = n, oc_server_addr = da, oc_client_addr = la, oc_task = wp, oc_flag_write = 1\<rparr>"
  note st = octo_sent [OF assms(1-4)]
  have "mem_read (mem ps) (mr_addr (Oc_S_mr nd)) (40 + unat n) = put_octo_request ?q @ mem_read (mem p) la (unat n)"
    using assms(5,9,10) st by (simp add: delivered_def)
  then have "octo_serve (Oc_S_mr nd) (mr_addr (Oc_local_mr nd)) (mem ps)
      = (mem_write (mem_write (mem ps) (mr_addr (Oc_local_mr nd)) (take 40 (put_mr (Oc_S_mr nd)))) da (mem_read (mem p) la (unat n)), 40)"
    using octo_serve_request [of "mem ps" "Oc_S_mr nd" "mem_read (mem p) la (unat n)" ?q _ "Oc_local_mr nd"] assms(11) by simp
  then show ?thesis
    using octo_handler_start(1) [OF assms(6-8,12,13)] st(2) assms(4,5) by (simp add: mem_read_write_same)
qed

text \<open>
  The answer to an Octopus request does not reach its caller.  The server answers a write with the
  bytes of its memory region descriptor; the client takes the region's length for the address of the
  work item, so the flag the caller waits for stays as it was unless the two happen to be equal.
\<close>

lemma octo_answer_misses_caller:
  assumes "server ps = Some s" "node_ok (node_id (trans ps g))" "nd = nodes s (node_id (trans ps g))"
    and "mem_read (mem ps) (mr_addr (Oc_S_mr nd)) (40 + length bs) = put_octo_request r @ bs"
    and "oc_flag_write r = 1" "length bs = unat (oc_req_size r)"
    and "disj (mr_addr (Oc_local_mr nd)) 40 (mr_addr (Oc_S_mr nd)) (40 + length bs)"
    and "disj (oc_server_addr r) (length bs) (mr_addr (Oc_local_mr nd)) 40"
    and "dhmp_octo_request_handler y g Start ps = (Wait_task v tk, pt)" "sq pt = sq ps @ [(g, w)]"
    and "client q = Some c" "delivered (mem pt) w (mem q)" "mr_addr (Oc_C_mr nd) = mr_addr (octo_C_mr c)"
  shows "wr_imm_data w = NUM_octo_res
    \<and> done_flag (dhmp_octo_response_handler q) = (done_flag q)(mr_length (Oc_S_mr nd) := True)
    \<and> (oc_task r \<noteq> mr_length (Oc_S_mr nd) \<longrightarrow> done_flag (dhmp_octo_response_handler q) (oc_task r) = done_flag q (oc_task r))"
proof -
  let ?S = "Oc_S_mr nd" and ?l = "mr_addr (Oc_local_mr nd)"
  have sv: "octo_serve ?S ?l (mem ps) = (mem_write (mem_write (mem ps) ?l (take 40 (put_mr ?S))) (oc_server_addr r) bs, 40)"
    using octo_serve_request [OF assms(4) refl _ assms(7)] assms(5,6) by simp
  note hs = octo_handler_start [OF assms(1-3,9,10) sv]
  have "mem_read (mem pt) ?l 40 = take 40 (put_mr ?S)"
    using hs(1) assms(8) by (simp add: mem_read_write_disj mem_read_write_same put_mr_def)
  then have "mem_read (mem q) (mr_addr (octo_C_mr c)) 40 = take 40 (put_mr ?S)"
    using hs(2,4) assms(12,13) by (simp add: delivered_def)
  then show ?thesis
    using hs(3) assms(11) by (simp add: dhmp_octo_response_handler_def get_octo_garbage octo_garbage_def set_done_def Let_def)
qed


definition octo_client_rec :: dhmp_client where
  "octo_client_rec = client0\<lparr>octo_local_mr := mr_at 0x10000 64, octo_S_mr := mr_at 0x20000 64, octo_C_mr := mr_at 0x30000 64\<rparr>"

definition octo_client :: proc where
  "octo_client = client_proc\<lparr>mem := mem_write (\<lambda>_. 0) 0x600 [0xAA, 0xBB], client := Some octo_client_rec\<rparr>"

definition octo_node_rec :: server_node where
  "octo_node_rec = node0\<lparr>Oc_S_mr := mr_at 0x20000 64, Oc_C_mr := mr_at 0x30000 64, Oc_local_mr := mr_at 0x60000 64\<rparr>"

definition octo_server :: proc where
  "octo_server = server_proc\<lparr>server := Some (set_node 0 octo_node_rec server0)\<rparr>"

lemma octo_sample_simps [simp]:
  "client octo_client = Some octo_client_rec" "server octo_server = Some (set_node 0 octo_node_rec server0)"
  "octo_local_mr octo_client_rec = mr_at 0x10000 64" "octo_S_mr octo_client_rec = mr_at 0x20000 64"
  "octo_C_mr octo_client_rec = mr_at 0x30000 64" "Oc_S_mr octo_node_rec = mr_at 0x20000 64"
  "Oc_C_mr octo_node_rec = mr_at 0x30000 64" "Oc_local_mr octo_node_rec = mr_at 0x60000 64"
  "trans octo_server = (\<lambda>_. trans0)" "tick octo_client = 0" "sq octo_client = []" "tick octo_server = 0" "sq octo_server = []"
  "node_id trans0 = 0" "node_ok 0" "done_flag octo_client = (\<lambda>_. False)"
  by (simp_all add: octo_client_def octo_client_rec_def octo_server_def octo_node_rec_def trans0_def node_ok_def
      client_proc_def proc0_def)

abbreviation octo_sent_proc :: proc where
  "octo_sent_proc \<equiv> dhmp_Octopus_work_handler ext_ok 0 0x58 0x600 2 1 0x50000 octo_client"

abbreviation octo_arrived :: proc where
  "octo_arrived \<equiv> octo_server\<lparr>mem := mem (deliver_last octo_sent_proc octo_server)\<rparr>"

abbreviation octo_served :: proc where
  "octo_served \<equiv> snd (dhmp_octo_request_handler ext_ok 0 Start octo_arrived)"

lemma octo_sample_run:
  obtains w tk w' where "sq octo_sent_proc = sq octo_client @ [(0, w)]"
    "delivered (mem octo_sent_proc) w (mem octo_arrived)"
    "dhmp_octo_request_handler ext_ok 0 Start octo_arrived = (Wait_task None tk, octo_served)"
    "sq octo_served = sq octo_arrived @ [(0, w')]"
proof -
  obtain w where w: "sq octo_sent_proc = sq octo_client @ [(0, w)]"
    by (simp add: dhmp_Octopus_work_handler_def dhmp_read_task_create_def ask_def Let_def)
  note st = octo_sent [OF octo_sample_simps(1) refl w]
  have "length (wr_payload (mem octo_sent_proc) w) \<le> 2 ^ 64" using st(3) by (simp add: disj_def)
  note dv = deliver_last_ok(1) [OF w this, of octo_server]
  obtain tk w' where "dhmp_octo_request_handler ext_ok 0 Start octo_arrived = (Wait_task None tk, octo_served)"
    "sq octo_served = sq octo_arrived @ [(0, w')]"
    by (simp add: dhmp_octo_request_handler_def dhmp_read_task_create_def ask_def Let_def case_prod_unfold)
  then show thesis using that w dv by simp
qed

lemma octo_write_served_witness:
  "mem_read (mem octo_served) 0x50000 2 = mem_read (mem octo_client) 0x600 2"
proof (rule octo_sample_run)
  fix w tk w'
  assume a: "sq octo_sent_proc = sq octo_client @ [(0, w)]" "delivered (mem octo_sent_proc) w (mem octo_arrived)"
    "dhmp_octo_request_handler ext_ok 0 Start octo_arrived = (Wait_task None tk, octo_served)"
    "sq octo_served = sq octo_arrived @ [(0, w')]"
  show ?thesis
    using octo_write_served [OF octo_sample_simps(1) refl a(1) _ _ _ _ refl a(2) _ _ a(3,4)] by (simp add: disj_def)
qed

definition octo_write_request :: dhmp_octo_request where
  "octo_write_request = \<lparr>oc_req_size = 2, oc_server_addr = 0x50000, oc_client_addr = 0x600, oc_task = 0x58, oc_flag_write = 1\<rparr>"

abbreviation octo_requested :: proc where
  "octo_requested \<equiv> octo_server\<lparr>mem := mem_write (\<lambda>_. 0) 0x20000 (put_octo_request octo_write_request @ [0xAA, 0xBB])\<rparr>"

abbreviation octo_answered :: proc where
  "octo_answered \<equiv> snd (dhmp_octo_request_handler ext_ok 0 Start octo_requested)"

lemma octo_answer_misses_caller_witness:
  "\<not> done_flag (dhmp_octo_response_handler (deliver_last octo_answered octo_client)) 0x58"
proof -
  have m: "mem_read (mem octo_requested) 0x20000 (40 + length [0xAA, 0xBB :: byte])
      = put_octo_request octo_write_request @ [0xAA, 0xBB]"
    by (simp add: mem_read_write_same)
  obtain tk w where a: "dhmp_octo_request_handler ext_ok 0 Start octo_requested = (Wait_task None tk, octo_answered)"
    "sq octo_answered = sq octo_requested @ [(0, w)]" "wr_sg_list w \<noteq> []" "length (wr_sg_list w) = 1"
    by (simp add: dhmp_octo_request_handler_def dhmp_read_task_create_def ask_def Let_def case_prod_unfold)
  have "length (wr_payload (mem octo_answered) w) \<le> 2 ^ 64"
    using a(4) by (cases "wr_sg_list w") (auto simp: wr_payload_def less_imp_le [OF less_trans [OF unsigned_less]])
  note dv = deliver_last_ok [OF a(2) this, of octo_client]
  have d: "done_flag (deliver_last octo_answered octo_client) = (\<lambda>_. False)" by (simp add: deliver_last_def Let_def)
  have "client (deliver_last octo_answered octo_client) = Some octo_client_rec" using dv(3) by simp
  note res = octo_answer_misses_caller [OF _ _ refl _ _ _ _ _ a(1,2) this dv(1), of "set_node 0 octo_node_rec server0" "[0xAA, 0xBB]" octo_write_request]
  show ?thesis
    using res m d by (simp add: octo_write_request_def disj_def)
qed

end
