(* ===== verification/RPC_Tailwind.thy ===== *)
theory RPC_Tailwind
  imports Server_Mem
begin

text \<open>
  The Tailwind protocol: a log of \<open>Tailwind_log_size\<close> records of one size on the server, written by
  one-sided writes (\<open>amper_Tailwind_work_handler\<close>, \<open>dhmp_work.c\<close>) between two messages
  (\<open>amper_Tailwind_RPC_work_handler\<close>, and \<open>amper_tailwindRPC_request_handler\<close> and
  \<open>amper_tailwindRPC_response_handler\<close> in \<open>dhmp_transport.c\<close>), and the sequence of calls that
  \<open>model_6_Tailwind\<close> (\<open>dhmp_client.c\<close>) makes.
\<close>

section \<open>The client\<close>

definition Tailwind_slot :: "dhmp_client \<Rightarrow> u64 \<Rightarrow> u64 \<Rightarrow> u64 \<Rightarrow> addr" where
  "Tailwind_slot c offset len head_size = mr_addr (Tailwind_mr c) + offset * (len + head_size)"

text \<open>
  The message is built in a fresh block: the request, the head and the data.
\<close>

definition amper_Tailwind_RPC_work_handler ::
  "ext \<Rightarrow> nat \<Rightarrow> addr \<Rightarrow> u64 \<Rightarrow> ibv_mr \<Rightarrow> u64 \<Rightarrow> addr \<Rightarrow> u64 \<Rightarrow> pc \<Rightarrow> proc \<Rightarrow> pc \<times> proc" where
  "amper_Tailwind_RPC_work_handler x h wp offset head_mr head_size local_addr len pc p =
     (case pc of
        Start \<Rightarrow>
          (Wait_recv, with_client p (\<lambda>c.
             let m = mem p;
                 bs = put_three_words \<lparr>tw_req_size = len + head_size, tw_addr = Tailwind_slot c offset len head_size,
                        tw_task = wp\<rparr> @ mem_read m (mr_addr head_mr) (unat head_size) @ mem_read m local_addr (unat len);
                 (t, p) = ask (ext_malloc x) p
             in if t = 0 then raise Null_deref p
                else let p = acquire (R_heap t) (p\<lparr>mem := mem_write m t bs\<rparr>)
                     in snd (dhmp_post_send x h DHMP_MSG_Tailwind_RPC_requeset
                          (mem_read (mem p) t (unat (24 + len + head_size))) p)))
      | Wait_recv \<Rightarrow> if \<not> recv_flag p wp then (pc, p) else (Finished, set_done wp p)
      | _ \<Rightarrow> (pc, p))"

text \<open>One request with two gather elements: the head and the data.\<close>

definition Tailwind_wr :: "u64 \<Rightarrow> addr \<Rightarrow> u32 \<Rightarrow> ibv_mr \<Rightarrow> u64 \<Rightarrow> dhmp_task \<Rightarrow> ibv_send_wr" where
  "Tailwind_wr task remote rkey head_mr head_size tk = zero_wr\<lparr>wr_id := task, wr_opcode := IBV_WR_RDMA_WRITE,
     wr_sg_list := [\<lparr>sge_addr = mr_addr head_mr, sge_length = ucast head_size, sge_lkey = mr_lkey head_mr\<rparr>,
       \<lparr>sge_addr = tk_addr tk, sge_length = ucast (tk_length tk), sge_lkey = tk_lkey tk\<rparr>],
     wr_send_flags := [IBV_SEND_SIGNALED], wr_remote_addr := remote, wr_rkey := rkey\<rparr>"

definition amper_Tailwind_work_handler ::
  "ext \<Rightarrow> nat \<Rightarrow> addr \<Rightarrow> u64 \<Rightarrow> ibv_mr \<Rightarrow> u64 \<Rightarrow> addr \<Rightarrow> u64 \<Rightarrow> pc \<Rightarrow> proc \<Rightarrow> pc \<times> proc" where
  "amper_Tailwind_work_handler x h wp offset head_mr head_size local_addr len pc p =
     (case (client p, pc) of
        (None, _) \<Rightarrow> (Finished, raise Null_deref p)
      | (Some c, Start) \<Rightarrow>
          let (smr, p) = dhmp_create_smr_per_ops x local_addr len p
          in (case dhmp_write_task_create x (map_option snd smr) len p of
                (None, p) \<Rightarrow> (Finished, p)
              | (Some tk, p) \<Rightarrow>
                  (Wait_task smr (tk_ptr tk),
                   post_unchecked x h (Tailwind_wr (tk_ptr tk) (Tailwind_slot c offset len head_size)
                     (mr_rkey (Tailwind_mr c)) head_mr head_size tk) p))
      | (Some c, Wait_task smr tk) \<Rightarrow>
          if \<not> task_done p tk then (pc, p)
          else (case smr of
                  None \<Rightarrow> (Finished, raise Null_deref (release (R_heap tk) p))
                | Some (s, r) \<Rightarrow>
                    (Finished, set_done wp (release (R_heap s) (release (R_mr r) (release (R_heap tk) p)))))
      | _ \<Rightarrow> (pc, p))"

section \<open>The server and the answer\<close>

definition amper_tailwindRPC_request_handler :: "ext \<Rightarrow> nat \<Rightarrow> addr \<Rightarrow> proc \<Rightarrow> proc" where
  "amper_tailwindRPC_request_handler x h data p =
     (let req = get_three_words (mem_read (mem p) data 24);
          context_ptr = data + 24;
          len = load64 (mem p) context_ptr;
          p = p\<lparr>mem := memcpy (mem p) (tw_addr req) (context_ptr + 8 + 4 + 4) len\<rparr>
      in snd (dhmp_post_send x h DHMP_MSG_Tailwind_RPC_response (put_three_words req) p))"

definition amper_tailwindRPC_response_handler :: "addr \<Rightarrow> proc \<Rightarrow> proc" where
  "amper_tailwindRPC_response_handler data p =
     set_recv (tw_task (get_three_words (mem_read (mem p) data 24))) p"

section \<open>The calls of a run\<close>

text \<open>
  \<open>model_6_Tailwind(accessnum, ...)\<close> as the list of the calls it makes; the arguments are the record
  numbers.  \<open>Tailwind_log_size\<close> is 100.
\<close>

datatype tailwind_call =
    Log_alloc           \<comment> \<open>\<open>dhmp_malloc(length + count, 4)\<close>\<close>
  | Log_rpc nat         \<comment> \<open>\<open>amper_sendRPC_Tailwind(j, ...)\<close>\<close>
  | Log_write nat       \<comment> \<open>\<open>amper_write_Tailwind(j, ...)\<close>\<close>

abbreviation Tailwind_log_size :: nat where "Tailwind_log_size \<equiv> 100"

definition model_6_Tailwind :: "nat \<Rightarrow> tailwind_call list" where
  "model_6_Tailwind accessnum = [Log_alloc, Log_rpc 0] @
     concat (map (\<lambda>j. (if j mod Tailwind_log_size = 0 then [Log_alloc] else []) @ [Log_write (j mod Tailwind_log_size)])
       [1..<accessnum - 1]) @
     [Log_rpc (max 1 (accessnum - 1) mod Tailwind_log_size)]"

text \<open>
  Does a sequence of calls write a record that it has written since the log was last allocated?  And the
  records written since then.
\<close>

fun overwrites :: "nat set \<Rightarrow> tailwind_call list \<Rightarrow> bool" where
  "overwrites used [] = False"
| "overwrites used (Log_alloc # cs) = overwrites {} cs"
| "overwrites used (Log_rpc j # cs) = (j \<in> used \<or> overwrites (insert j used) cs)"
| "overwrites used (Log_write j # cs) = (j \<in> used \<or> overwrites (insert j used) cs)"

fun log_used :: "nat set \<Rightarrow> tailwind_call list \<Rightarrow> nat set" where
  "log_used used [] = used"
| "log_used used (Log_alloc # cs) = log_used {} cs"
| "log_used used (Log_rpc j # cs) = log_used (insert j used) cs"
| "log_used used (Log_write j # cs) = log_used (insert j used) cs"

lemma overwrites_append:
  "overwrites u (xs @ ys) = (overwrites u xs \<or> overwrites (log_used u xs) ys)"
  "log_used u (xs @ ys) = log_used (log_used u xs) ys"
  by (induction u xs rule: overwrites.induct) auto

section \<open>Properties\<close>

text \<open>
  C23: a one-sided Tailwind write lays its record down in its slot of the log: once the posted request
  has been delivered, the slot holds the head followed by the data, and when the adapter reports
  completion the call is done and the process holds what it held before.
\<close>

lemma Tailwind_write_record:
  assumes "client p = Some c" "reg_keeps_addr x" "unat len < 2 ^ 31" "unat head_size < 2 ^ 32"
    and "amper_Tailwind_work_handler x h wp off hm head_size la len Start p = (Wait_task (Some smr) tk, p1)"
    and "sq p1 = sq p @ [(h, w)]" "delivered (mem p1) w rm"
    and "client q = Some c'" "task_done q tk" "held q = held p1"
  shows "mem_read rm (Tailwind_slot c off len head_size) (unat head_size + unat len)
      = mem_read (mem p) (mr_addr hm) (unat head_size) @ mem_read (mem p) la (unat len)
    \<and> (\<exists>q'. amper_Tailwind_work_handler x h wp off hm head_size la len (Wait_task (Some smr) tk) q = (Finished, q')
         \<and> done_flag q' wp \<and> held q' = held p)"
proof -
  obtain sp r where sr: "smr = (sp, r)" by force
  have ti: "through_int len = len" using assms(3) by (rule through_int_small)
  let ?w = "zero_wr\<lparr>wr_id := tk, wr_opcode := IBV_WR_RDMA_WRITE,
     wr_sg_list := [\<lparr>sge_addr = mr_addr hm, sge_length = ucast head_size, sge_lkey = mr_lkey hm\<rparr>,
       \<lparr>sge_addr = mr_addr r, sge_length = ucast len, sge_lkey = mr_lkey r\<rparr>],
     wr_send_flags := [IBV_SEND_SIGNALED], wr_remote_addr := Tailwind_slot c off len head_size, wr_rkey := mr_rkey (Tailwind_mr c)\<rparr>"
  have st: "mem p1 = mem p" "w = ?w" "mr_addr r = la" "held p1 = R_heap tk # R_mr r # R_heap sp # held p"
    using assms(1,2,5,6) sr ti
    by (auto simp: amper_Tailwind_work_handler_def dhmp_create_smr_per_ops_def dhmp_read_task_create_def ask_def
        Let_def Tailwind_wr_def reg_keeps_addr_def split: if_splits option.splits)
  have "unat (ucast head_size :: u32) = unat head_size" "unat (ucast len :: u32) = unat len"
    using assms(3,4) by (simp_all add: unat_ucast_u32)
  then have "wr_payload (mem p1) w = mem_read (mem p) (mr_addr hm) (unat head_size) @ mem_read (mem p) la (unat len)"
    by (simp add: wr_payload_def st)
  then have "mem_read rm (Tailwind_slot c off len head_size) (unat head_size + unat len)
      = mem_read (mem p) (mr_addr hm) (unat head_size) @ mem_read (mem p) la (unat len)"
    using assms(7) by (simp add: delivered_def st)
  then show ?thesis
    using assms(8-10) st(4) by (simp add: amper_Tailwind_work_handler_def sr)
qed


definition Tailwind_client :: proc where
  "Tailwind_client = client_proc\<lparr>mem := mem_write (\<lambda>_. 0) 0x600 [0xAA, 0xBB],
     client := Some (client0\<lparr>Tailwind_mr := mr_at 0x20000 4096\<rparr>)\<rparr>"

lemma Tailwind_write_record_witness:
  "let p1 = snd (amper_Tailwind_work_handler ext_ok 0 0x58 3 (mr_at 0x700 16) 16 0x600 2 Start Tailwind_client)
   in mem_read (mem (deliver_last p1 server_proc)) 0x20036 18
        = mem_read (mem Tailwind_client) 0x700 16 @ mem_read (mem Tailwind_client) 0x600 2"
proof -
  let ?c = "client0\<lparr>Tailwind_mr := mr_at 0x20000 4096\<rparr>"
  let ?p1 = "snd (amper_Tailwind_work_handler ext_ok 0 0x58 3 (mr_at 0x700 16) 16 0x600 2 Start Tailwind_client)"
  have c: "client Tailwind_client = Some ?c" "sq Tailwind_client = []" "tick Tailwind_client = 0"
    by (simp_all add: Tailwind_client_def)
  obtain smr tk w where st: "amper_Tailwind_work_handler ext_ok 0 0x58 3 (mr_at 0x700 16) 16 0x600 2 Start Tailwind_client
      = (Wait_task (Some smr) tk, ?p1)" "sq ?p1 = sq Tailwind_client @ [(0, w)]" "wr_payload (mem ?p1) w
        = mem_read (mem ?p1) 0x700 16 @ mem_read (mem ?p1) 0x600 2"
    using c by (simp add: amper_Tailwind_work_handler_def dhmp_create_smr_per_ops_def dhmp_read_task_create_def ask_def
        Let_def Tailwind_wr_def through_int_def wr_payload_def)
  have "length (wr_payload (mem ?p1) w) \<le> 2 ^ 64" by (simp add: st(3))
  note dv = deliver_last_ok(1) [OF st(2) this, of server_proc]
  let ?q = "?p1\<lparr>client := Some ?c, task_done := (\<lambda>_. True)\<rparr>"
  have "Tailwind_slot ?c 3 2 16 = 0x20036" by (simp add: Tailwind_slot_def)
  then show ?thesis
    using Tailwind_write_record [OF c(1) ext_ok_reg _ _ st(1,2) dv, of ?q ?c] by (simp add: Let_def)
qed

lemma Tailwind_rpc_sent:
  assumes "client p = Some c" "ext_malloc x (tick p) \<noteq> 0" "36 + unat head_size + unat len < 2 ^ 32"
    and "amper_Tailwind_RPC_work_handler x h wp off hm head_size la len Start p = (pc, p1)" "sq p1 = sq p @ [(h, w)]"
  shows "wr_payload (mem p1) w = frame DHMP_MSG_Tailwind_RPC_requeset
    (put_three_words \<lparr>tw_req_size = len + head_size, tw_addr = Tailwind_slot c off len head_size, tw_task = wp\<rparr>
     @ mem_read (mem p) (mr_addr hm) (unat head_size) @ mem_read (mem p) la (unat len))"
proof -
  let ?bs = "put_three_words \<lparr>tw_req_size = len + head_size, tw_addr = Tailwind_slot c off len head_size, tw_task = wp\<rparr>
     @ mem_read (mem p) (mr_addr hm) (unat head_size) @ mem_read (mem p) la (unat len)"
  have "24 + len + head_size = of_nat (length ?bs)" by (simp add: ac_simps)
  moreover have "unat (of_nat (length ?bs) :: u64) = length ?bs"
    using assms(3) by (intro unat_of_nat_u64) simp
  ultimately have u: "unat (24 + len + head_size) = length ?bs" by metis
  have m: "mem_read (mem_write k a ?bs) a (length ?bs) = ?bs" for k a
    using assms(3) by (intro mem_read_write_same) simp_all
  let ?q = "acquire (R_heap (ext_malloc x (tick p))) (p\<lparr>tick := Suc (tick p), mem := mem_write (mem p) (ext_malloc x (tick p)) ?bs\<rparr>)"
  have "p1 = snd (dhmp_post_send x h DHMP_MSG_Tailwind_RPC_requeset ?bs ?q)"
    using assms(1,2,4) m [of "mem p" "ext_malloc x (tick p)"] u
    by (simp add: amper_Tailwind_RPC_work_handler_def ask_def Let_def)
  then show ?thesis using post_send_payload [of p1 x h _ ?bs ?q w] assms(3,5) by simp
qed

text \<open>
  A Tailwind message leaves its data at the start of its log slot, without the head that a
  one-sided write puts there, and is answered.  With the head that \<open>model_6_Tailwind\<close> builds (the length,
  in 16 bytes), once the message has arrived and been handled the slot starts with the client's bytes,
  and once the answer has arrived the worker's wait is over.
\<close>

lemma Tailwind_rpc_record:
  assumes "client p = Some c" "ext_malloc x (tick p) \<noteq> 0" "52 + unat len < 2 ^ 32" "load64 (mem p) (mr_addr hm) = len"
    and "amper_Tailwind_RPC_work_handler x h wp off hm 16 la len Start p = (pc, p1)" "sq p1 = sq p @ [(h, w)]"
    and "mem_read (mem ps) cxt (length (wr_payload (mem p1) w)) = wr_payload (mem p1) w"
    and "ring_ok (trans ps g)" "slot = Tailwind_slot c off len 16"
    and "disj (dmr_addr (send_mr (trans ps g))) (2 ^ 29) slot (unat len)"
    and "pt = amper_tailwindRPC_request_handler y g (msg_data (recv_msg (mem ps) cxt)) ps" "sq pt = sq ps @ [(g, w')]"
    and "mem_read (mem q) cxt' (length (wr_payload (mem pt) w')) = wr_payload (mem pt) w'"
  shows "msg_type (recv_msg (mem ps) cxt) = Some DHMP_MSG_Tailwind_RPC_requeset
    \<and> mem_read (mem pt) slot (unat len) = mem_read (mem p) la (unat len)
    \<and> msg_type (recv_msg (mem q) cxt') = Some DHMP_MSG_Tailwind_RPC_response
    \<and> recv_flag (amper_tailwindRPC_response_handler (msg_data (recv_msg (mem q) cxt')) q) wp"
proof -
  let ?r = "\<lparr>tw_req_size = len + 16, tw_addr = slot, tw_task = wp\<rparr>"
  let ?h = "mem_read (mem p) (mr_addr hm) 16" and ?d = "mem_read (mem p) la (unat len)"
  let ?bs = "put_three_words ?r @ ?h @ ?d"
  have sent: "wr_payload (mem p1) w = frame DHMP_MSG_Tailwind_RPC_requeset ?bs"
    using Tailwind_rpc_sent [OF assms(1,2) _ assms(5,6)] assms(3,9) by simp
  have req: "recv_msg (mem ps) cxt = \<lparr>msg_type = Some DHMP_MSG_Tailwind_RPC_requeset, data_size = of_nat (length ?bs),
      msg_data = cxt + 12\<rparr>" "mem_read (mem ps) (cxt + 12) (length ?bs) = ?bs"
    using recv_msg_frame [of "mem ps" cxt DHMP_MSG_Tailwind_RPC_requeset ?bs] assms(3,7) sent by simp_all
  have rd: "mem_read (mem ps) (cxt + 12 + of_nat k) l = take l (drop k ?bs)" if "k + l \<le> 40 + unat len" for k l
    using req(2) that by (intro mem_read_sub) simp_all
  have "take 8 ?h = mem_read (mem p) (mr_addr hm) 8"
    using mem_read_sub [of "mem p" "mr_addr hm" ?h 0 8] by simp
  then have f: "mem_read (mem ps) (cxt + 12) 24 = put_three_words ?r" "load64 (mem ps) (cxt + 12 + 24) = len"
    "mem_read (mem ps) (cxt + 12 + 24 + 8 + 4 + 4) (unat len) = ?d"
    using rd [of 0 24] rd [of 24 8] rd [of 40 "unat len"] assms(4) by (simp_all add: add.assoc)
  let ?q = "ps\<lparr>mem := mem_write (mem ps) slot ?d\<rparr>"
  have pt: "pt = snd (dhmp_post_send y g DHMP_MSG_Tailwind_RPC_response (put_three_words ?r) ?q)"
    using f assms(11) req(1) by (simp add: amper_tailwindRPC_request_handler_def memcpy_def Let_def)
  have "mem_read (mem pt) slot (unat len) = mem_read (mem ?q) slot (unat len)"
    unfolding pt using assms(8,10) by (intro post_send_outside) simp_all
  also have "\<dots> = ?d" using assms(3) by (simp add: mem_read_write_same)
  finally have slot: "mem_read (mem pt) slot (unat len) = ?d" .
  have "wr_payload (mem pt) w' = frame DHMP_MSG_Tailwind_RPC_response (put_three_words ?r)"
    using post_send_payload [OF pt, of w'] assms(12) by simp
  then have "recv_msg (mem q) cxt' = \<lparr>msg_type = Some DHMP_MSG_Tailwind_RPC_response, data_size = 24, msg_data = cxt' + 12\<rparr>"
    "mem_read (mem q) (cxt' + 12) 24 = put_three_words ?r"
    using recv_msg_frame [of "mem q" cxt' DHMP_MSG_Tailwind_RPC_response "put_three_words ?r"] assms(13) by simp_all
  then show ?thesis using slot req(1) by (simp add: amper_tailwindRPC_response_handler_def)
qed

definition Tailwind_rpc_client :: proc where
  "Tailwind_rpc_client = Tailwind_client\<lparr>mem := mem_write (mem Tailwind_client) 0x700 (put64 2)\<rparr>"

lemma Tailwind_rpc_record_witness:
  "let p1 = snd (amper_Tailwind_RPC_work_handler ext_ok 0 0x58 3 (mr_at 0x700 16) 16 0x600 2 Start Tailwind_rpc_client);
       ps = received p1 server_proc;
       pt = amper_tailwindRPC_request_handler ext_ok 0 (msg_data (recv_msg (mem ps) 0x40000000)) ps
   in mem_read (mem pt) 0x20036 2 = mem_read (mem Tailwind_rpc_client) 0x600 2"
proof -
  let ?c = "client0\<lparr>Tailwind_mr := mr_at 0x20000 4096\<rparr>" and ?p = Tailwind_rpc_client
  let ?r = "amper_Tailwind_RPC_work_handler ext_ok 0 0x58 3 (mr_at 0x700 16) 16 0x600 2 Start ?p"
  have c: "client ?p = Some ?c" "sq ?p = []" "tick ?p = 0" "trans ?p = (\<lambda>_. trans0)" "load64 (mem ?p) 0x700 = 2"
    by (simp_all add: Tailwind_rpc_client_def Tailwind_client_def mem_read_write_same del: put_le.simps)
  obtain pc w where st: "?r = (pc, snd ?r)" "sq (snd ?r) = sq ?p @ [(0, w)]"
    using c by (simp add: amper_Tailwind_RPC_work_handler_def dhmp_post_send_def dhmp_send_task_create_def ask_def Let_def)
  have len: "length (wr_payload (mem (snd ?r)) w) \<le> 2 ^ 64"
    using Tailwind_rpc_sent [OF c(1) _ _ st] c(3) by simp
  let ?ps = "received (snd ?r) server_proc"
  let ?pt = "amper_tailwindRPC_request_handler ext_ok 0 (msg_data (recv_msg (mem ?ps) 0x40000000)) ?ps"
  obtain w' where sd: "sq ?pt = sq ?ps @ [(0, w')]"
    by (simp add: amper_tailwindRPC_request_handler_def dhmp_post_send_def dhmp_send_task_create_def ask_def Let_def with_client_def)
  have len': "length (wr_payload (mem ?pt) w') \<le> 2 ^ 64"
    using sd post_send_length unfolding amper_tailwindRPC_request_handler_def Let_def by fastforce
  note r = received_ok [OF st(2) len, of server_proc] received_ok [OF sd len', of ?p]
  have lay: "ring_ok trans0" "Tailwind_slot ?c 3 2 16 = 0x20036" "disj (dmr_addr (send_mr trans0)) (2 ^ 29) 0x20036 2"
    by (simp_all add: ring_ok_def Tailwind_slot_def trans0_def disj_def)
  have "mem_read (mem ?pt) 0x20036 (unat (2 :: u64)) = mem_read (mem ?p) 0x600 (unat (2 :: u64))"
    by (rule conjunct1 [OF conjunct2 [OF Tailwind_rpc_record [OF c(1) _ _ _ st r(1) _ _ _ refl sd r(2)]]])
      (use c lay in simp_all)
  then show ?thesis by (simp add: Let_def)
qed

text \<open>
  A run of Tailwind accesses never writes a log record twice between two allocations of the log,
  except when the number of accesses is one more than a positive multiple of \<open>Tailwind_log_size\<close>:
  then the final message, sent without a new allocation, overwrites record 0.
\<close>

lemma Tailwind_log_overwritten:
  "overwrites {} (model_6_Tailwind n) \<longleftrightarrow> 1 < n \<and> Tailwind_log_size dvd n - 1"
proof -
  let ?body = "\<lambda>j. (if j mod Tailwind_log_size = 0 then [Log_alloc] else []) @ [Log_write (j mod Tailwind_log_size)]"
  have loop: "\<not> overwrites {0} (concat (map ?body [1..<Suc m])) \<and> log_used {0} (concat (map ?body [1..<Suc m])) = {..m mod Tailwind_log_size}"
    for m
  proof (induction m)
    case (Suc m)
    have split: "[1..<Suc (Suc m)] = [1..<Suc m] @ [Suc m]" by simp
    show ?case
    proof (cases "Suc m mod Tailwind_log_size = 0")
      case True
      then show ?thesis using Suc unfolding split by (simp add: overwrites_append del: upt_Suc)
    next
      case False
      then have "Suc m mod Tailwind_log_size = Suc (m mod Tailwind_log_size)" by (simp add: mod_Suc split: if_splits)
      then show ?thesis
        using Suc unfolding split by (auto simp: overwrites_append atMost_Suc simp del: upt_Suc)
    qed
  qed (simp add: atMost_0)
  show ?thesis
  proof (cases "n \<le> 1")
    case True
    then show ?thesis by (auto simp: model_6_Tailwind_def max_def)
  next
    case False
    then obtain m where n: "n = Suc (Suc m)" by (metis Suc_leI Suc_pred gr0I le_zero_eq less_imp_Suc_add not_less_eq_eq One_nat_def)
    have "overwrites {} (model_6_Tailwind n) \<longleftrightarrow> Suc m mod Tailwind_log_size \<le> m mod Tailwind_log_size"
      using loop [of m] by (simp add: n model_6_Tailwind_def overwrites_append del: upt_Suc)
    also have "\<dots> \<longleftrightarrow> Tailwind_log_size dvd Suc m"
      by (auto simp: mod_Suc dvd_eq_mod_eq_0 split: if_splits)
    finally show ?thesis by (simp add: n)
  qed
qed

end
