(* ===== verification/RPC_DaRPC.thy ===== *)
theory RPC_DaRPC
  imports Server_Mem
begin

text \<open>
  The batched two-sided protocols: DaRPC (\<open>amper_sendRPC_DaRPC\<close> in \<open>dhmp_client.c\<close>,
  \<open>amper_DaRPC_work_handler\<close> in \<open>dhmp_work.c\<close>, \<open>amper_DaRPC_request_handler\<close> and
  \<open>amper_DaRPC_response_handler\<close> in \<open>dhmp_transport.c\<close>) and its datagram variant (\<open>send_UD\<close>,
  \<open>amper_FaSST_work_handler\<close>, \<open>amper_UD_request_handler\<close>, \<open>amper_UD_response_handler\<close>).

  A request is a header, the batch size, the flag and one record per object: its address, its size
  and, for a write, its bytes.  The handlers build messages in blocks from \<open>malloc\<close>; such a block is
  fresh, so what is put into it is computed from the memory before.
\<close>

section \<open>The client\<close>

definition batch_entry :: "addr \<Rightarrow> u64 \<Rightarrow> addr \<Rightarrow> byte \<Rightarrow> mem \<Rightarrow> nat \<Rightarrow> byte list" where
  "batch_entry globle_addr len local_addr flag_write m i =
     put64 (load64 m (globle_addr + 8 * of_nat i)) @ put64 len @
     (if flag_write = 1 then mem_read m (load64 m (local_addr + 8 * of_nat i)) (unat len) else [])"

definition batch_request :: "addr \<Rightarrow> addr \<Rightarrow> u64 \<Rightarrow> addr \<Rightarrow> byte \<Rightarrow> byte \<Rightarrow> mem \<Rightarrow> byte list" where
  "batch_request wp globle_addr len local_addr flag_write batch m =
     put_three_words \<lparr>tw_req_size = len, tw_addr = local_addr, tw_task = wp\<rparr> @ [batch, flag_write] @
     concat (map (batch_entry globle_addr len local_addr flag_write m) [0..<nat (sint batch)])"

text \<open>\<open>msg.data_size\<close>: 26 bytes and \<open>batch\<close> records.\<close>

definition batch_data_size :: "u64 \<Rightarrow> byte \<Rightarrow> byte \<Rightarrow> u64" where
  "batch_data_size len flag_write batch =
     24 + 2 + (8 + 8 + (if flag_write = 1 then len else 0)) * size_of_char batch"

text \<open>The block the request is built in.  A failed allocation is a write through NULL.\<close>

definition build_batch :: "ext \<Rightarrow> byte list \<Rightarrow> u64 \<Rightarrow> proc \<Rightarrow> byte list \<times> proc" where
  "build_batch x bs sz p =
     (let (d, p) = ask (ext_malloc x) p;
          p = (if d = 0 then raise Null_deref p else acquire (R_heap d) (p\<lparr>mem := mem_write (mem p) d bs\<rparr>))
      in (mem_read (mem p) d (unat sz), p))"

text \<open>
  \<open>dhmp_post_send\<close> hands back the task whose \<open>done_flag\<close> the handler waits for; no one has
  initialised that flag.  Without a task the wait is an access through a NULL pointer.
\<close>

definition amper_DaRPC_work_handler ::
  "build \<Rightarrow> ext \<Rightarrow> nat \<Rightarrow> addr \<Rightarrow> addr \<Rightarrow> u64 \<Rightarrow> addr \<Rightarrow> byte \<Rightarrow> byte \<Rightarrow> pc \<Rightarrow> proc \<Rightarrow> pc \<times> proc" where
  "amper_DaRPC_work_handler b x h wp globle_addr len local_addr flag_write batch pc p =
     (case pc of
        Start \<Rightarrow>
          let (payload, p) = build_batch x
                (batch_request wp globle_addr len local_addr flag_write batch (mem p))
                (batch_data_size len flag_write batch) p;
              (task, p) = dhmp_post_send x h DHMP_MSG_DaRPC_requeset payload p
          in if \<not> SFLUSH b then
               (case task of None \<Rightarrow> (Finished, raise Null_deref p) | Some tk \<Rightarrow> (Wait_task None tk, p))
             else
               (case (dhmp_read_task_create x None 0 p, client p) of
                  ((None, p), _) \<Rightarrow> (Finished, p)
                | ((Some tk2, p), None) \<Rightarrow> (Finished, raise Null_deref p)
                | ((Some tk2, p), Some c) \<Rightarrow>
                    (Wait_flush (tk_ptr tk2) (case task of None \<Rightarrow> 0 | Some tk \<Rightarrow> tk),
                     post_unchecked x h (rdma_wr IBV_WR_RDMA_READ (tk_ptr tk2)
                       (mr_addr (read_mr_for_SFlush c)
                         + of_int (count_post_send_for_SFlush c + 1) * SINGLE_NORM_RECV_REGION - 1)
                       (mr_rkey (read_mr_for_SFlush c)) (mr_addr (rs_read_mr (pRDMA c))) 1
                       (mr_lkey (rs_read_mr (pRDMA c)))) p))
      | Wait_flush tk2 tk \<Rightarrow>
          if \<not> task_done p tk2 then (pc, p)
          else if tk = 0 then (Finished, raise Null_deref (release (R_heap tk2) p))
          else (Wait_task None tk, release (R_heap tk2) p)
      | Wait_task _ tk \<Rightarrow>
          if \<not> task_done p tk then (pc, p)
          else if SFLUSH b then (Finished, set_done wp p) else (Wait_recv, p)
      | Wait_recv \<Rightarrow> if \<not> recv_flag p wp then (pc, p) else (Finished, set_done wp p)
      | _ \<Rightarrow> (pc, p))"

definition amper_FaSST_work_handler ::
  "ext \<Rightarrow> addr \<Rightarrow> addr \<Rightarrow> u64 \<Rightarrow> addr \<Rightarrow> byte \<Rightarrow> byte \<Rightarrow> pc \<Rightarrow> proc \<Rightarrow> pc \<times> proc" where
  "amper_FaSST_work_handler x wp globle_addr len local_addr flag_write batch pc p =
     (case pc of
        Start \<Rightarrow>
          let (payload, p) = build_batch x
                (batch_request wp globle_addr len local_addr flag_write batch (mem p))
                (24 + 2 + size_of_char batch * (8 + 8) + (if flag_write = 1 then size_of_char batch * len else 0)) p
          in (Wait_recv,
              (case client p of
                 None \<Rightarrow> raise Null_deref p
               | Some c \<Rightarrow>
                   (case connect_trans c of
                      None \<Rightarrow> raise Null_deref p
                    | Some h \<Rightarrow> amper_ud_post_send x h DHMP_MSG_UD_REQUEST payload p)))
      | Wait_recv \<Rightarrow> if \<not> recv_flag p wp then (pc, p) else (Finished, set_done wp p)
      | _ \<Rightarrow> (pc, p))"

section \<open>The calls\<close>

text \<open>
  Under \<open>SFLUSH\<close> \<open>amper_sendRPC_DaRPC\<close> first takes one of the \<open>para_request_num\<close> permits: one turn of
  that loop, \<open>None\<close> while there is none.
\<close>

definition amper_sendRPC_DaRPC ::
  "build \<Rightarrow> addr \<Rightarrow> addr \<Rightarrow> u64 \<Rightarrow> addr \<Rightarrow> byte \<Rightarrow> byte \<Rightarrow> proc \<Rightarrow> proc option" where
  "amper_sendRPC_DaRPC b wp globle_addr len local_addr flag_write batch p =
     (case client p of
        None \<Rightarrow> Some (raise Null_deref p)
      | Some c \<Rightarrow>
          if SFLUSH b \<and> para_request_num c = 0 then None
          else Some (p\<lparr>client := Some (list_add_tail
             \<lparr>work_type = AMPER_WORK_DaRPC, work_ptr = wp,
              work_data = DaRPC_work globle_addr len local_addr flag_write batch 0\<rparr>
             (if SFLUSH b then c\<lparr>para_request_num := para_request_num c - 1\<rparr> else c))\<rparr>))"

definition send_UD ::
  "ext \<Rightarrow> addr \<Rightarrow> addr \<Rightarrow> u64 \<Rightarrow> addr \<Rightarrow> byte \<Rightarrow> byte \<Rightarrow> proc \<Rightarrow> unit call \<times> proc" where
  "send_UD x wp globle_addr len local_addr flag_write batch p =
     (case client p of
        None \<Rightarrow> (Returned (), raise Null_deref p)
      | Some c \<Rightarrow>
          if connect_trans c = None then (Returned (), p)
          else enqueue x () AMPER_WORK_UD wp True (UD_work globle_addr len local_addr flag_write batch) c p)"

section \<open>The server\<close>

text \<open>
  One pass of the loop over the batch: \<open>context_ptr\<close>, \<open>cur_addr\<close> and memory.  The data of a write
  follow their record; those of a read are gathered behind the response's header.
\<close>

definition batch_serve_entry :: "byte \<Rightarrow> addr \<times> addr \<times> mem \<Rightarrow> addr \<times> addr \<times> mem" where
  "batch_serve_entry flag = (\<lambda>(context_ptr, cur_addr, m).
     let server_addr = load64 m context_ptr;
         sz = load64 m (context_ptr + 8);
         context_ptr = context_ptr + 8 + 8
     in if flag = 1 then (context_ptr + sz, cur_addr, memcpy m server_addr context_ptr sz)
        else (context_ptr, cur_addr + sz, memcpy m cur_addr server_addr sz))"

definition batch_serve :: "addr \<Rightarrow> addr \<Rightarrow> byte \<Rightarrow> byte \<Rightarrow> mem \<Rightarrow> mem" where
  "batch_serve context_ptr response batch flag m =
     (let m = mem_write m (response + 28) (put32 (scast batch));
          m = mem_write m (response + 24) (put32 (scast flag))
      in snd (snd ((batch_serve_entry flag ^^ nat (sint batch)) (context_ptr, response + 32, m))))"

text \<open>
  The answer: a block of \<open>reply_size\<close> bytes, \<open>None\<close> where the first access to it faults.  With
  \<open>flush\<close> the request is not served and only the header goes back.
\<close>

definition batch_reply :: "bool \<Rightarrow> ext \<Rightarrow> addr \<Rightarrow> proc \<Rightarrow> byte list option \<times> proc" where
  "batch_reply flush x data p =
     (let m = mem p; batch = m (data + 24); f = m (data + 24 + 1);
          context_ptr = data + 24 + 2; sz = load64 m (context_ptr + 8);
          reply_size = 32 + (if f = 0 then size_of_char batch * sz else 0);
          (response, p) = ask (ext_malloc x) p
      in if response = 0 then (None, raise Null_deref p)
         else
           let m = memcpy m response data 24;
               m = (if flush then m else batch_serve context_ptr response batch f m);
               reply_size = (if flush then 32 else reply_size)
           in (Some (mem_read m response (unat reply_size)), acquire (R_heap response) (p\<lparr>mem := m\<rparr>)))"

definition amper_DaRPC_request_handler :: "build \<Rightarrow> ext \<Rightarrow> nat \<Rightarrow> addr \<Rightarrow> proc \<Rightarrow> proc" where
  "amper_DaRPC_request_handler b x h data p =
     (case batch_reply (SFLUSH b \<or> RFLUSH b) x data p of
        (None, p) \<Rightarrow> p
      | (Some payload, p) \<Rightarrow> snd (dhmp_post_send x h DHMP_MSG_DaRPC_response payload p))"

definition amper_UD_request_handler :: "ext \<Rightarrow> nat \<Rightarrow> addr \<Rightarrow> proc \<Rightarrow> proc" where
  "amper_UD_request_handler x h data p =
     (case batch_reply False x data p of
        (None, p) \<Rightarrow> p
      | (Some payload, p) \<Rightarrow> amper_ud_post_send x h DHMP_MSG_UD_RESPONSE payload p)"

section \<open>The answers\<close>

text \<open>
  The data of a read are looked for at \<open>response_msg + sizeof(struct)\<close>, which C scales: 32 times 32
  bytes behind the start of the message, not 32.
\<close>

definition response_data :: "addr \<Rightarrow> addr" where
  "response_data data = data + 32 * 32"

definition batch_take_entry :: "addr \<Rightarrow> nat \<Rightarrow> addr \<times> mem \<Rightarrow> addr \<times> mem" where
  "batch_take_entry data i = (\<lambda>(t, m).
     let local_addr = load64 m (data + 8); req_size = load64 m data
     in (t + req_size, memcpy m (load64 m (local_addr + 8 * of_nat i)) t req_size))"

definition batch_take :: "addr \<Rightarrow> u32 \<Rightarrow> mem \<Rightarrow> mem" where
  "batch_take data batch m = snd (fold (batch_take_entry data) [0..<nat (sint batch)] (response_data data, m))"

definition amper_DaRPC_response_handler :: "build \<Rightarrow> addr \<Rightarrow> proc \<Rightarrow> proc" where
  "amper_DaRPC_response_handler b data p =
     (let r = get_DaRPC_response (mem_read (mem p) data 32);
          p = (if \<not> (SFLUSH b \<or> RFLUSH b) \<and> da_write_flag r = 0
               then p\<lparr>mem := batch_take data (da_batch r) (mem p)\<rparr> else p)
      in if SFLUSH b
         then with_client p (\<lambda>c. p\<lparr>client := Some (c\<lparr>para_request_num := para_request_num c + 1\<rparr>)\<rparr>)
         else set_recv (tw_task (da_req_info r)) p)"

definition amper_UD_response_handler :: "addr \<Rightarrow> proc \<Rightarrow> proc" where
  "amper_UD_response_handler data p =
     (let r = get_DaRPC_response (mem_read (mem p) data 32)
      in set_recv (tw_task (da_req_info r))
           (if da_write_flag r = 0 then p\<lparr>mem := batch_take data (da_batch r) (mem p)\<rparr> else p))"


section \<open>The bytes of a batch\<close>

text \<open>A batch of writes, as pairs of an object's address and its new bytes, and its effect.\<close>

definition batch_body :: "u64 \<Rightarrow> (addr \<times> byte list) list \<Rightarrow> byte list" where
  "batch_body n es = concat (map (\<lambda>(a, bs). put64 a @ put64 n @ bs) es)"

definition batch_writes :: "(addr \<times> byte list) list \<Rightarrow> mem \<Rightarrow> mem" where
  "batch_writes es m = fold (\<lambda>(a, bs) m. mem_write m a bs) es m"

definition batch_objects :: "addr \<Rightarrow> u64 \<Rightarrow> addr \<Rightarrow> byte \<Rightarrow> mem \<Rightarrow> (addr \<times> byte list) list" where
  "batch_objects globle_addr n local_addr batch m =
     map (\<lambda>i. (load64 m (globle_addr + 8 * of_nat i), mem_read m (load64 m (local_addr + 8 * of_nat i)) (unat n)))
       [0..<nat (sint batch)]"

lemma length_batch_objects [simp]: "length (batch_objects ga n la b m) = nat (sint b)"
  by (simp add: batch_objects_def)

lemma batch_body_simps [simp]:
  "batch_body n [] = []"
  "batch_body n ((a, bs) # es) = put64 a @ put64 n @ bs @ batch_body n es"
  by (simp_all add: batch_body_def)

lemma batch_writes_simps [simp]:
  "batch_writes [] m = m"
  "batch_writes ((a, bs) # es) m = batch_writes es (mem_write m a bs)"
  by (simp_all add: batch_writes_def)

lemma length_batch_body:
  "\<forall>(a, bs) \<in> set es. length bs = unat n \<Longrightarrow> length (batch_body n es) = length es * (16 + unat n)"
  by (induction es) auto

lemma batch_request_write:
  "batch_request wp ga n la 1 batch m = put_three_words \<lparr>tw_req_size = n, tw_addr = la, tw_task = wp\<rparr>
     @ [batch, 1] @ batch_body n (batch_objects ga n la batch m)"
proof -
  have "batch_entry ga n la 1 m = (\<lambda>(a, bs). put64 a @ put64 n @ bs) \<circ>
      (\<lambda>i. (load64 m (ga + 8 * of_nat i), mem_read m (load64 m (la + 8 * of_nat i)) (unat n)))"
    by (simp add: batch_entry_def fun_eq_iff)
  then show ?thesis by (simp add: batch_request_def batch_body_def batch_objects_def)
qed

lemma batch_writes_other:
  "\<forall>(a, bs) \<in> set es. disj a (length bs) d k \<Longrightarrow> mem_read (batch_writes es m) d k = mem_read m d k"
  by (induction es arbitrary: m) (auto simp: mem_read_write_disj)

text \<open>Serving a batch of writes applies them in order.\<close>

lemma batch_serve_writes:
  assumes "mem_read m ctx (length (batch_body n es)) = batch_body n es" "unat n < 2 ^ 63"
    and "\<forall>(a, bs) \<in> set es. length bs = unat n \<and> disj a (unat n) ctx (length (batch_body n es))"
  shows "(batch_serve_entry 1 ^^ length es) (ctx, cur, m)
    = (ctx + of_nat (length (batch_body n es)), cur, batch_writes es m)"
  using assms
proof (induction es arbitrary: ctx m)
  case (Cons e es)
  obtain a bs where e: "e = (a, bs)" by force
  let ?r = "batch_body n (e # es)"
  have bs: "length bs = unat n" "disj a (unat n) ctx (length ?r)" using Cons.prems(3) e by auto
  have r: "mem_read m (ctx + of_nat k) l = take l (drop k ?r)" if "k + l \<le> length ?r" for k l
    using Cons.prems(1) that by (intro mem_read_sub) auto
  have st: "batch_serve_entry 1 (ctx, cur, m) = (ctx + 16 + n, cur, mem_write m a bs)"
    using r [of 0 8] r [of 8 8] r [of 16 "unat n"] bs(1)
    by (simp add: batch_serve_entry_def memcpy_def e add.assoc del: put_le.simps)
  have "mem_read (mem_write m a bs) (ctx + 16 + n) (length (batch_body n es))
      = mem_read m (ctx + of_nat (16 + unat n)) (length (batch_body n es))"
    using bs disj_sub_right [OF bs(2), of "16 + unat n" "length (batch_body n es)"] e
    by (simp add: mem_read_write_disj add.assoc)
  also have "\<dots> = batch_body n es" using r [of "16 + unat n" "length (batch_body n es)"] bs(1) e by simp
  finally have "(batch_serve_entry 1 ^^ length es) (ctx + 16 + n, cur, mem_write m a bs)
      = (ctx + 16 + n + of_nat (length (batch_body n es)), cur, batch_writes es (mem_write m a bs))"
  proof (rule Cons.IH)
    show "\<forall>(b, cs) \<in> set es. length cs = unat n \<and> disj b (unat n) (ctx + 16 + n) (length (batch_body n es))"
    proof safe
      fix b cs assume "(b, cs) \<in> set es"
      then have c: "length cs = unat n" "disj b (unat n) ctx (length ?r)" using Cons.prems(3) by auto
      then show "length cs = unat n" by simp
      show "disj b (unat n) (ctx + 16 + n) (length (batch_body n es))"
        using disj_sub_right [OF c(2), of "16 + unat n" "length (batch_body n es)"] bs(1) e by (simp add: add.assoc)
    qed
  qed (use Cons.prems in simp)
  then show ?case
    using st bs(1) by (simp add: e funpow_swap1 add.assoc)
qed simp


lemma batch_writes_nth:
  assumes "i < length es" "length (snd (es ! i)) \<le> 2 ^ 64"
    and "\<forall>j < length es. j \<noteq> i \<longrightarrow> disj (fst (es ! j)) (length (snd (es ! j))) (fst (es ! i)) (length (snd (es ! i)))"
  shows "mem_read (batch_writes es m) (fst (es ! i)) (length (snd (es ! i))) = snd (es ! i)"
  using assms
proof (induction es arbitrary: i m)
  case (Cons e es)
  obtain a bs where e: "e = (a, bs)" by force
  show ?case
  proof (cases i)
    case 0
    have "\<forall>(b, cs) \<in> set es. disj b (length cs) a (length bs)"
      using Cons.prems(3) by (fastforce simp: 0 e in_set_conv_nth)
    then show ?thesis using Cons.prems(2) by (simp add: 0 e batch_writes_other mem_read_write_same)
  next
    case (Suc j)
    have "\<forall>k < length es. k \<noteq> j \<longrightarrow> disj (fst (es ! k)) (length (snd (es ! k))) (fst (es ! j)) (length (snd (es ! j)))"
      using Cons.prems(3) Suc by (metis Suc_less_eq length_Cons nat.inject nth_Cons_Suc)
    then show ?thesis using Cons.IH [of j] Cons.prems(1,2) by (simp add: Suc e)
  qed
qed simp

lemma mem_write_prepend:
  assumes "b = a + of_nat (length xs)" "length xs + length ys \<le> 2 ^ 64"
  shows "mem_write (mem_write m b ys) a xs = mem_write m a (xs @ ys)"
proof -
  have "disj a (length xs) b (length ys)"
    unfolding assms(1) using assms(2) disj_offset [of 0 "length xs" "length xs" "length ys" a] by simp
  then have y: "mem_write m a xs (b + of_nat i) = m (b + of_nat i)" if "i < length ys" for i
    using that by (rule mem_write_disj)
  have "mem_write (mem_write m b ys) a xs = mem_write (mem_write (mem_write m a xs) b ys) a xs"
    by (auto simp: mem_write_def Let_def fun_eq_iff)
  also have "\<dots> = mem_write (mem_write m a (xs @ ys)) a xs" using assms by (simp add: mem_write_append)
  also have "\<dots> = mem_write m a (xs @ ys)"
    by (auto simp: mem_write_def Let_def fun_eq_iff nth_append)
  finally show ?thesis .
qed

text \<open>The response's header, as the handler puts it together.\<close>

lemma response_stores:
  assumes "mem_read m data 24 = put_three_words r"
  shows "mem_write (mem_write (memcpy m resp data 24) (resp + 28) (put32 bt)) (resp + 24) (put32 fl)
    = mem_write m resp (put_DaRPC_response \<lparr>da_req_info = r, da_write_flag = fl, da_batch = bt\<rparr>)"
  using assms mem_write_prepend [of "resp + 28" "resp + 24" "put32 fl" "put32 bt" "memcpy m resp data 24"]
  by (simp add: memcpy_def mem_write_append put_DaRPC_response_def add.assoc del: put_le.simps)

lemma batch_serve_write_batch:
  assumes "mem_read m data (26 + length (batch_body n es)) = put_three_words r @ [batch, 1] @ batch_body n es"
    and "length es = nat (sint batch)" "unat n < 2 ^ 63" "disj resp 32 data (26 + length (batch_body n es))"
    and "\<forall>(a, bs) \<in> set es. length bs = unat n \<and> disj a (unat n) data (26 + length (batch_body n es))"
  shows "batch_serve (data + 26) resp batch 1 (memcpy m resp data 24)
    = batch_writes es (mem_write m resp (put_DaRPC_response
        \<lparr>da_req_info = r, da_write_flag = 1, da_batch = scast batch\<rparr>))"
proof -
  let ?h = "put_DaRPC_response \<lparr>da_req_info = r, da_write_flag = 1, da_batch = scast batch\<rparr>"
  have r: "mem_read m (data + of_nat k) l = take l (drop k (put_three_words r @ [batch, 1] @ batch_body n es))"
    if "k + l \<le> 26 + length (batch_body n es)" for k l
    using assms(1) that by (intro mem_read_sub) auto
  have "mem_read m data 24 = put_three_words r" using r [of 0 24] by simp
  then have h: "mem_write (mem_write (memcpy m resp data 24) (resp + 28) (put32 (scast batch))) (resp + 24) (put32 1)
      = mem_write m resp ?h" by (simp add: response_stores del: put_le.simps)
  have "mem_read (mem_write m resp ?h) (data + 26) (length (batch_body n es)) = batch_body n es"
    using r [of 26 "length (batch_body n es)"] disj_sub_right [OF assms(4), of 26 "length (batch_body n es)"]
    by (simp add: mem_read_write_disj)
  moreover have "\<forall>(a, bs) \<in> set es. length bs = unat n \<and> disj a (unat n) (data + 26) (length (batch_body n es))"
    using assms(5) disj_sub_right [of _ "unat n" data "26 + length (batch_body n es)" 26 "length (batch_body n es)"]
    by fastforce
  ultimately show ?thesis
    using batch_serve_writes [of "mem_write m resp ?h" "data + 26" n es "resp + 32"] assms(2,3)
    by (simp add: batch_serve_def h del: put_le.simps)
qed

section \<open>A call, end to end\<close>

lemma unat_batch_data_size:
  assumes "0 \<le> sint batch" "26 + nat (sint batch) * (16 + unat n) < 2 ^ 64"
  shows "unat (batch_data_size n 1 batch) = 26 + nat (sint batch) * (16 + unat n)"
proof -
  let ?k = "nat (sint batch)"
  have "batch_data_size n 1 batch = 26 + (16 + n) * of_nat ?k"
    using assms(1) by (simp add: batch_data_size_def size_of_char_nat)
  also have "\<dots> = of_nat (26 + ?k * (16 + unat n))"
    by (simp add: mult.commute)
  finally have "batch_data_size n 1 batch = of_nat (26 + ?k * (16 + unat n))" .
  then show ?thesis using unat_of_nat_u64 [OF assms(2)] by (rule ssubst)
qed

lemma length_write_request:
  "length (batch_request wp ga n la 1 batch m) = 26 + nat (sint batch) * (16 + unat n)"
proof -
  have "\<forall>(a, bs) \<in> set (batch_objects ga n la batch m). length bs = unat n"
    by (auto simp: batch_objects_def)
  then show ?thesis by (simp add: batch_request_write length_batch_body)
qed

lemma DaRPC_write_sent:
  assumes "\<not> SFLUSH b" "ext_malloc x (tick p) \<noteq> 0" "0 \<le> sint batch" "38 + nat (sint batch) * (16 + unat n) < 2 ^ 32"
    and "amper_DaRPC_work_handler b x h wp ga n la 1 batch Start p = (Wait_task v tk, p1)" "sq p1 = sq p @ [(h, w)]"
  shows "wr_payload (mem p1) w = frame DHMP_MSG_DaRPC_requeset (batch_request wp ga n la 1 batch (mem p))"
proof -
  let ?bs = "batch_request wp ga n la 1 batch (mem p)"
  have len: "length ?bs = unat (batch_data_size n 1 batch)" "length ?bs < 2 ^ 32 - 12"
    using assms(3,4) by (simp_all add: length_write_request unat_batch_data_size)
  obtain q where q: "build_batch x ?bs (batch_data_size n 1 batch) p = (?bs, q)" "sq q = sq p"
    using assms(2) len by (simp add: build_batch_def ask_def mem_read_write_same)
  have "p1 = snd (dhmp_post_send x h DHMP_MSG_DaRPC_requeset ?bs q)"
    using assms(1,5) q by (auto simp: amper_DaRPC_work_handler_def split: prod.splits option.splits)
  then show ?thesis using post_send_payload [of p1 x h _ ?bs q w] assms(6) q(2) len(2) by simp
qed


text \<open>The server's side: a batch of writes that has arrived as the message at \<open>data\<close>.\<close>

lemma DaRPC_writes_served:
  fixes es data n
  defines "L \<equiv> 26 + length (batch_body n es)"
  assumes "\<not> SFLUSH b" "\<not> RFLUSH b" "mem_read (mem ps) data L = put_three_words r @ [batch, 1] @ batch_body n es"
    and "length es = nat (sint batch)" "unat n < 2 ^ 62" "resp = ext_malloc y (tick ps)" "resp \<noteq> 0"
    and "disj resp 32 data L" "\<forall>(a, bs) \<in> set es. length bs = unat n \<and> disj a (unat n) data L \<and> disj a (unat n) resp 32"
    and "pt = amper_DaRPC_request_handler b y g data ps" "ring_ok (trans ps g)"
  shows "sq pt = sq ps @ [(g, w)] \<Longrightarrow> wr_payload (mem pt) w = frame DHMP_MSG_DaRPC_response
      (put_DaRPC_response \<lparr>da_req_info = r, da_write_flag = 1, da_batch = scast batch\<rparr>)"
    and "disj (dmr_addr (send_mr (trans ps g))) (2 ^ 29) a k \<Longrightarrow> disj resp 32 a k \<Longrightarrow>
      mem_read (mem pt) a k = mem_read (batch_writes es (mem_write (mem ps) resp (put_DaRPC_response
        \<lparr>da_req_info = r, da_write_flag = 1, da_batch = scast batch\<rparr>))) a k"
proof -
  let ?h = "put_DaRPC_response \<lparr>da_req_info = r, da_write_flag = 1, da_batch = scast batch\<rparr>"
  let ?m = "batch_writes es (mem_write (mem ps) resp ?h)"
  have rd: "mem_read (mem ps) (data + of_nat k) l = take l (drop k (put_three_words r @ [batch, 1] @ batch_body n es))"
    if "k + l \<le> L" for k l
    using assms(4) that unfolding L_def by (intro mem_read_sub) auto
  have f: "mem ps (data + 24) = batch" "mem ps (data + 24 + 1) = 1"
    using rd [of 24 1] rd [of 25 1] by (simp_all add: L_def add.assoc)
  have m: "batch_serve (data + 24 + 2) resp batch 1 (memcpy (mem ps) resp data 24) = ?m"
    using batch_serve_write_batch [of "mem ps" data n es r batch resp] assms(4-6,9,10)
    by (force simp: L_def add.assoc)
  have h: "mem_read ?m resp 32 = ?h"
    using assms(10) by (subst batch_writes_other) (auto simp: mem_read_write_same)
  define q where "q = acquire (R_heap resp) (ps\<lparr>tick := Suc (tick ps), mem := ?m\<rparr>)"
  have pt: "pt = snd (dhmp_post_send y g DHMP_MSG_DaRPC_response ?h q)"
    using assms(2,3,7,8,11) f m h by (simp add: amper_DaRPC_request_handler_def batch_reply_def ask_def q_def Let_def)
  have q: "trans q = trans ps" "sq q = sq ps" "mem q = ?m" by (simp_all add: q_def)
  show "wr_payload (mem pt) w = frame DHMP_MSG_DaRPC_response ?h" if "sq pt = sq ps @ [(g, w)]"
    using post_send_payload [OF pt, of w] that q by simp
  show "mem_read (mem pt) a k = mem_read ?m a k" if "disj (dmr_addr (send_mr (trans ps g))) (2 ^ 29) a k"
    unfolding pt using post_send_outside [of q g ?h a k] that assms(12) q by simp
qed

text \<open>
  C5: a batch of DaRPC writes takes effect and is answered.  If the request of the client's worker
  arrives in a receive buffer of the server, the completion handler finds a DaRPC request there,
  its handler leaves the client's bytes in every object of the batch, and once the answer has
  arrived at the client, its handler sets the flag the worker waits for.
\<close>

lemma DaRPC_write_end_to_end:
  assumes "\<not> SFLUSH b" "\<not> RFLUSH b" "ext_malloc x (tick p) \<noteq> 0" "0 \<le> sint batch"
    and "k = nat (sint batch)" "38 + k * (16 + unat n) < 2 ^ 32"
    and "amper_DaRPC_work_handler b x h wp ga n la 1 batch Start p = (Wait_task v tk, p1)" "sq p1 = sq p @ [(h, w)]"
    and "mem_read (mem ps) cxt (length (wr_payload (mem p1) w)) = wr_payload (mem p1) w"
    and "resp = ext_malloc y (tick ps)" "resp \<noteq> 0" "ring_ok (trans ps g)"
    and "disj resp 32 (cxt + 12) (26 + k * (16 + unat n))"
    and "\<And>i. obj i = load64 (mem p) (ga + 8 * of_nat i)" "\<And>i. src i = load64 (mem p) (la + 8 * of_nat i)"
    and "\<forall>i < k. disj (obj i) (unat n) (cxt + 12) (26 + k * (16 + unat n)) \<and> disj (obj i) (unat n) resp 32
           \<and> disj (dmr_addr (send_mr (trans ps g))) (2 ^ 29) (obj i) (unat n)"
    and "\<forall>i < k. \<forall>j < k. i \<noteq> j \<longrightarrow> disj (obj i) (unat n) (obj j) (unat n)"
    and "ps1 = amper_DaRPC_request_handler b y g (msg_data (recv_msg (mem ps) cxt)) ps" "sq ps1 = sq ps @ [(g, w')]"
    and "mem_read (mem q) cxt' (length (wr_payload (mem ps1) w')) = wr_payload (mem ps1) w'"
  shows "msg_type (recv_msg (mem ps) cxt) = Some DHMP_MSG_DaRPC_requeset
    \<and> (\<forall>i < k. mem_read (mem ps1) (obj i) (unat n) = mem_read (mem p) (src i) (unat n))
    \<and> msg_type (recv_msg (mem q) cxt') = Some DHMP_MSG_DaRPC_response
    \<and> recv_flag (amper_DaRPC_response_handler b (msg_data (recv_msg (mem q) cxt')) q) wp"
proof -
  let ?es = "batch_objects ga n la batch (mem p)" and ?bs = "batch_request wp ga n la 1 batch (mem p)"
  let ?r = "\<lparr>tw_req_size = n, tw_addr = la, tw_task = wp\<rparr>"
  let ?h = "put_DaRPC_response \<lparr>da_req_info = ?r, da_write_flag = 1, da_batch = scast batch\<rparr>"
  let ?m = "batch_writes ?es (mem_write (mem ps) resp ?h)"
  note sent = DaRPC_write_sent [OF assms(1,3,4) _ assms(7,8)]
  have len: "length ?bs = 26 + k * (16 + unat n)" "length (batch_body n ?es) = k * (16 + unat n)"
    using length_write_request [of wp ga n la batch "mem p"] assms(5) by (simp_all add: batch_request_write)
  note arr = recv_msg_frame [of "mem ps" cxt DHMP_MSG_DaRPC_requeset ?bs]
  have req: "recv_msg (mem ps) cxt = \<lparr>msg_type = Some DHMP_MSG_DaRPC_requeset,
      data_size = of_nat (length ?bs), msg_data = cxt + 12\<rparr>" "mem_read (mem ps) (cxt + 12) (length ?bs) = ?bs"
    using arr assms(5,6,9) sent len(1) by simp_all
  have es: "?es ! i = (obj i, mem_read (mem p) (src i) (unat n))" if "i < k" for i
    using that assms(5,14,15) by (simp add: batch_objects_def)
  have sets: "\<forall>(a, bs) \<in> set ?es. length bs = unat n \<and> disj a (unat n) (cxt + 12) (26 + k * (16 + unat n))
      \<and> disj a (unat n) resp 32"
    using assms(5,16) es by (fastforce simp: in_set_conv_nth)
  have n: "unat n < 2 ^ 62" if "k \<noteq> 0" using assms(6) that by (cases k) auto
  consider (none) "k = 0" | (some) "k \<noteq> 0" "unat n < 2 ^ 62" using n by blast
  then have served: "wr_payload (mem ps1) w' = frame DHMP_MSG_DaRPC_response ?h
      \<and> (\<forall>i < k. mem_read (mem ps1) (obj i) (unat n) = mem_read ?m (obj i) (unat n))"
  proof cases
    case none
    then have "?es = []" using assms(5) by (simp add: batch_objects_def)
    then show ?thesis
      using DaRPC_writes_served(1) [OF assms(1,2), of ps "cxt + 12" 0 "[]" ?r batch resp y ps1 g w']
        req(2) none assms(5,10-13,18,19) req(1)
      by (simp add: batch_request_write)
  next
    case some
    note sv = DaRPC_writes_served [OF assms(1,2), where es = ?es and n = n and data = "cxt + 12" and r = ?r
        and batch = batch and ps = ps and resp = resp and y = y and pt = ps1 and g = g]
    show ?thesis
      using sv(1) [of w'] sv(2) req len some assms(5,10-13,16,18,19) sets disj_sym
      by (simp add: batch_request_write)
  qed
  have "mem_read ?m (obj i) (unat n) = mem_read (mem p) (src i) (unat n)" if "i < k" for i
    using batch_writes_nth [of i ?es "mem_write (mem ps) resp ?h"] es that assms(5,17) unat_u64_less [of n]
    by fastforce
  moreover have "recv_msg (mem q) cxt' = \<lparr>msg_type = Some DHMP_MSG_DaRPC_response, data_size = 32, msg_data = cxt' + 12\<rparr>"
    "mem_read (mem q) (cxt' + 12) 32 = ?h"
    using recv_msg_frame [of "mem q" cxt' DHMP_MSG_DaRPC_response ?h] assms(20) served by simp_all
  moreover from this have "recv_flag (amper_DaRPC_response_handler b (cxt' + 12) q) wp"
    using assms(1,2) by (simp add: amper_DaRPC_response_handler_def)
  ultimately show ?thesis using served req(1) by simp
qed


text \<open>The witnesses' client: 2 bytes at 0x600, the arrays of addresses at 0x800 and 0x900.\<close>

definition DaRPC_client :: proc where
  "DaRPC_client = client_proc\<lparr>mem := mem_write (mem_write (mem_write (\<lambda>_. 0) 0x600 [0xAA, 0xBB])
     0x800 (put64 0x50000)) 0x900 (put64 0x600)\<rparr>"

lemma DaRPC_client_simps [simp]:
  "client DaRPC_client = Some client0" "trans DaRPC_client = (\<lambda>_. trans0)" "tick DaRPC_client = 0"
  "sq DaRPC_client = []" "load64 (mem DaRPC_client) 0x800 = 0x50000" "load64 (mem DaRPC_client) 0x900 = 0x600"
proof -
  show "load64 (mem DaRPC_client) 0x900 = 0x600"
    unfolding DaRPC_client_def by (simp add: mem_read_write_same del: put_le.simps)
  show "load64 (mem DaRPC_client) 0x800 = 0x50000"
    unfolding DaRPC_client_def by (simp add: mem_read_write_disj disj_def mem_read_write_same del: put_le.simps)
qed (simp_all add: DaRPC_client_def)

abbreviation DaRPC_sent :: proc where
  "DaRPC_sent \<equiv> snd (amper_DaRPC_work_handler (default_build 1) ext_ok 0 0x58 0x800 2 0x900 1 1 Start DaRPC_client)"

lemma DaRPC_request_length:
  assumes "ext_malloc y (tick ps) \<noteq> 0" "sq (amper_DaRPC_request_handler b y g data ps) = sq ps @ [(k, w)]"
  shows "length (wr_payload m w) \<le> 2 ^ 64"
  using assms post_send_length
  by (auto simp: amper_DaRPC_request_handler_def batch_reply_def ask_def Let_def split: prod.splits option.splits)

lemma DaRPC_write_end_to_end_witness:
  "let ps = received DaRPC_sent server_proc;
       ps1 = amper_DaRPC_request_handler (default_build 1) ext_ok 0 (msg_data (recv_msg (mem ps) 0x40000000)) ps;
       q = received ps1 DaRPC_client
   in mem_read (mem ps1) 0x50000 2 = mem_read (mem DaRPC_client) 0x600 2
      \<and> recv_flag (amper_DaRPC_response_handler (default_build 1) (msg_data (recv_msg (mem q) 0x40000000)) q) 0x58"
proof -
  let ?b = "default_build 1" and ?ps = "received DaRPC_sent server_proc"
  obtain tk w where st: "amper_DaRPC_work_handler ?b ext_ok 0 0x58 0x800 2 0x900 1 1 Start DaRPC_client
      = (Wait_task None tk, DaRPC_sent)" "sq DaRPC_sent = sq DaRPC_client @ [(0, w)]"
    by (simp add: amper_DaRPC_work_handler_def build_batch_def dhmp_post_send_def dhmp_send_task_create_def
        ask_def Let_def case_prod_unfold)
  have pl: "length (wr_payload (mem DaRPC_sent) w) \<le> 2 ^ 64"
    using DaRPC_write_sent [OF _ _ _ _ st] length_write_request [of "0x58" "0x800" 2 "0x900" 1 "mem DaRPC_client"] by simp
  let ?ps1 = "amper_DaRPC_request_handler ?b ext_ok 0 (msg_data (recv_msg (mem ?ps) 0x40000000)) ?ps"
  let ?q = "received ?ps1 DaRPC_client"
  obtain w' where sd: "sq ?ps1 = sq ?ps @ [(0, w')]"
    by (simp add: amper_DaRPC_request_handler_def batch_reply_def dhmp_post_send_def dhmp_send_task_create_def ask_def Let_def
        with_client_def case_prod_unfold)
  have pl': "length (wr_payload (mem ?ps1) w') \<le> 2 ^ 64"
    by (rule DaRPC_request_length [OF _ sd]) simp
  have lay: "ring_ok trans0" "disj 0x1000 32 0x4000000C 44" "disj 0x50000 2 0x4000000C 44" "disj 0x50000 2 0x1000 32"
    "disj (dmr_addr (send_mr trans0)) (2 ^ 29) 0x50000 2"
    by (simp_all add: ring_ok_def trans0_def disj_def)
  note r = received_ok [OF st(2) pl, of server_proc] received_ok [OF sd pl', of DaRPC_client]
  let ?obj = "\<lambda>i. load64 (mem DaRPC_client) (0x800 + 8 * of_nat i)"
    and ?src = "\<lambda>i. load64 (mem DaRPC_client) (0x900 + 8 * of_nat i)"
  have "msg_type (recv_msg (mem ?ps) 0x40000000) = Some DHMP_MSG_DaRPC_requeset
    \<and> (\<forall>i < 1. mem_read (mem ?ps1) (?obj i) (unat (2 :: u64)) = mem_read (mem DaRPC_client) (?src i) (unat (2 :: u64)))
    \<and> msg_type (recv_msg (mem ?q) 0x40000000) = Some DHMP_MSG_DaRPC_response
    \<and> recv_flag (amper_DaRPC_response_handler ?b (msg_data (recv_msg (mem ?q) 0x40000000)) ?q) 0x58"
    by (rule DaRPC_write_end_to_end [OF _ _ _ _ _ _ st r(1) refl _ _ _ _ _ _ _ refl sd r(2)])
      (use lay in \<open>simp_all\<close>)
  then show ?thesis by (simp add: Let_def)
qed

text \<open>
  C35: a DaRPC read does not get the object's bytes.  The answer carries them 32 bytes behind its start,
  but the handler copies what lies 1024 bytes behind it, whatever the receive buffer has there, into
  the client's buffer, and reports success.
\<close>

lemma DaRPC_read_takes_wrong_bytes:
  assumes "\<not> SFLUSH b" "\<not> RFLUSH b"
    and "mem_read (mem q) data (32 + unat n) = put_DaRPC_response \<lparr>da_req_info = \<lparr>tw_req_size = n, tw_addr = la, tw_task = wp\<rparr>,
           da_write_flag = 0, da_batch = 1\<rparr> @ bs"
    and "q1 = amper_DaRPC_response_handler b data q"
  shows "mem_read (mem q1) (load64 (mem q) la) (unat n) = mem_read (mem q) (data + 1024) (unat n)
    \<and> bs = mem_read (mem q) (data + 32) (unat n) \<and> recv_flag q1 wp"
proof -
  let ?r = "\<lparr>tw_req_size = n, tw_addr = la, tw_task = wp\<rparr>"
  let ?h = "put_DaRPC_response \<lparr>da_req_info = ?r, da_write_flag = 0, da_batch = 1\<rparr>"
  have len: "length bs = unat n" using arg_cong [OF assms(3), of length] by simp
  have rd: "mem_read (mem q) (data + of_nat k) l = take l (drop k (?h @ bs))" if "k + l \<le> 32 + unat n" for k l
    using assms(3) that len by (intro mem_read_sub) auto
  have h: "mem_read (mem q) data 32 = ?h" "mem_read (mem q) (data + 32) (unat n) = bs"
    using rd [of 0 32] rd [of 32 "unat n"] len by simp_all
  have "load64 (mem q) data = n" "load64 (mem q) (data + 8) = la"
    using rd [of 0 8] rd [of 8 8] by (simp_all add: put_DaRPC_response_def put_three_words_def del: put_le.simps)
  then have "mem q1 = memcpy (mem q) (load64 (mem q) la) (data + 1024) n" "recv_flag q1 wp"
    using assms(1,2,4) h(1)
    by (simp_all add: amper_DaRPC_response_handler_def batch_take_def batch_take_entry_def response_data_def Let_def)
  then show ?thesis using h(2) unat_u64_less [of n] by (simp add: memcpy_def mem_read_write_same)
qed

lemma DaRPC_read_takes_wrong_bytes_witness:
  "let q = DaRPC_client\<lparr>mem := mem_write (mem DaRPC_client) 0x40000000 (put_DaRPC_response
       \<lparr>da_req_info = \<lparr>tw_req_size = 2, tw_addr = 0x900, tw_task = 0x58\<rparr>, da_write_flag = 0, da_batch = 1\<rparr> @ [0x11, 0x22])\<rparr>
   in recv_flag (amper_DaRPC_response_handler (default_build 1) 0x40000000 q) 0x58"
  unfolding Let_def
  by (rule conjunct2 [OF conjunct2 [OF DaRPC_read_takes_wrong_bytes [OF _ _ _ refl, where n = 2 and la = "0x900"
      and bs = "[0x11, 0x22]"]]])
    (simp_all add: mem_read_write_same)

end
