(* ===== verification/RPC_Scale.thy ===== *)
theory RPC_Scale
  imports RPC_DaRPC
begin

text \<open>
  ScaleRPC: \<open>model_7_scalable\<close> (\<open>dhmp_client.c\<close>), \<open>amper_scalable_work_handler\<close> (\<open>dhmp_work.c\<close>),
  \<open>amper_scalable_request_handler\<close> and \<open>scalable_run\<close> (\<open>dhmp_server.c\<close>).  The client lays a batch of
  requests into its request buffer, closed by four bytes the server polls, and the worker writes
  it into the server's buffer.  Every \<open>Sca1e_Swith_Time\<close> calls the batch stays on the client
  instead, and the request carries a region the server fetches it from.  The server performs the batch
  and writes a reply, closed by a valid byte the client polls.
\<close>

abbreviation Sca1e_Swith_Time :: byte where "Sca1e_Swith_Time \<equiv> 100"

section \<open>Building a request\<close>

text \<open>Pass \<open>i\<close> of the loops that lay down the batch; \<open>t\<close> is the moving pointer.\<close>

definition scale_put_entry :: "addr \<Rightarrow> u64 \<Rightarrow> addr \<Rightarrow> byte \<Rightarrow> nat \<Rightarrow> addr \<times> mem \<Rightarrow> addr \<times> mem" where
  "scale_put_entry globle_addr len local_addr flag_write i = (\<lambda>(t, m).
     let m = memcpy m t (globle_addr + 8 * of_nat i) 8;
         m = memcpy m (t + 8) (local_addr + 8 * of_nat i) 8;
         m = store64 m (t + 8 * 2) len;
         t = t + 8 * 2 + 8
     in if flag_write = 1 then (t + len, memcpy m t (load64 m (local_addr + 8 * of_nat i)) len) else (t, m))"

definition scale_put :: "addr \<Rightarrow> u64 \<Rightarrow> addr \<Rightarrow> byte \<Rightarrow> byte \<Rightarrow> addr \<Rightarrow> mem \<Rightarrow> addr \<times> mem" where
  "scale_put globle_addr len local_addr flag_write batch t m =
     fold (scale_put_entry globle_addr len local_addr flag_write) [0..<nat (sint batch)] (t, m)"

text \<open>The closing bytes: type, batch, flag and valid.\<close>

definition scale_close :: "byte \<Rightarrow> byte \<Rightarrow> byte \<Rightarrow> addr \<Rightarrow> mem \<Rightarrow> mem" where
  "scale_close ty batch flag_write t m =
     store8 (store8 (store8 (store8 m t ty) (t + 1) batch) (t + 2) flag_write) (t + 3) 1"

text \<open>The usual request: the offset and length of what the worker has to write, and the memory.\<close>

definition scale_direct ::
  "dhmp_client \<Rightarrow> addr \<Rightarrow> u64 \<Rightarrow> addr \<Rightarrow> byte \<Rightarrow> byte \<Rightarrow> mem \<Rightarrow> u64 \<times> u64 \<times> mem" where
  "scale_direct c globle_addr len local_addr flag_write batch m =
     (let n = size_of_char batch;
          local_length = 4 + n * (if flag_write = 1 then len + 8 * 2 + 8 else 8 * 2 + 8);
          offset = (if flag_write = 0 then n * len else 0);
          (t, m) = scale_put globle_addr len local_addr flag_write batch (mr_addr (scale_Creq_mr c) + offset) m
      in (offset, local_length, scale_close 2 batch flag_write t m))"

text \<open>The request of a context switch, for a batch that lies in the region \<open>r\<close> of \<open>local_length\<close> bytes.\<close>

definition scale_switch ::
  "dhmp_client \<Rightarrow> u64 \<Rightarrow> byte \<Rightarrow> byte \<Rightarrow> u64 \<Rightarrow> ibv_mr \<Rightarrow> mem \<Rightarrow> u64 \<times> u64 \<times> mem" where
  "scale_switch c len flag_write batch local_length r m =
     (let offset = size_of_char batch * (len + 8 * 2 + 8) - 8 - 48;
          t = mr_addr (scale_Creq_mr c) + offset;
          m = store64 m t local_length;
          m = mem_write m (t + 8) (put_mr r)
      in (offset, 4 + 8 + 48, scale_close 1 batch flag_write (t + (8 + 48)) m))"

text \<open>
  \<open>model_7_scalable\<close>: up to the wait of the call it makes, with the \<open>smr\<close> to give back after it, and
  from there to its end.  Neither \<open>malloc\<close> nor \<open>dhmp_create_smr_per_ops\<close> is checked.
\<close>

definition model_7_scalable ::
  "ext \<Rightarrow> addr \<Rightarrow> addr \<Rightarrow> u64 \<Rightarrow> addr \<Rightarrow> byte \<Rightarrow> byte \<Rightarrow> proc \<Rightarrow> int call \<times> (addr \<times> ibv_mr) option \<times> proc" where
  "model_7_scalable x wp globle_addr len local_addr flag_write batch p =
     (case client p of
        None \<Rightarrow> (Returned 0, None, raise Null_deref p)
      | Some c \<Rightarrow>
          if scale_context_swith c = Sca1e_Swith_Time then
            let n = size_of_char batch;
                local_length = n * (if flag_write = 1 then len + 8 * 2 + 8 else 8 * 2 + 8);
                (local_data, p) = ask (ext_malloc x) p;
                p = (if local_data = 0 then p else acquire (R_heap local_data) p)
            in (case (connect_trans c, dhmp_create_smr_per_ops x local_data local_length p) of
                  (None, _) \<Rightarrow> (Returned 0, None, raise Null_deref p)
                | (_, None, p) \<Rightarrow> (Returned 0, None, raise Null_deref p)
                | (_, Some (sp, r), p) \<Rightarrow>
                    let p = (if local_data = 0 \<and> 0 < sint batch then raise Null_deref p else p);
                        (t, m) = scale_put globle_addr len local_addr flag_write batch local_data (mem p);
                        (offset, scalable_write_length, m) = scale_switch c len flag_write batch local_length r m;
                        (res, p) = amper_scalable x wp offset scalable_write_length 1 len flag_write batch
                          (p\<lparr>mem := m, client := Some (c\<lparr>scale_context_swith := 0\<rparr>)\<rparr>)
                    in (res, Some (sp, r), p))
          else
            let (offset, local_length, m) = scale_direct c globle_addr len local_addr flag_write batch (mem p);
                (res, p) = amper_scalable x wp offset local_length 2 len flag_write batch (p\<lparr>mem := m\<rparr>)
            in (res, None, p))"

definition model_7_scalable_end :: "(addr \<times> ibv_mr) option \<Rightarrow> proc \<Rightarrow> proc" where
  "model_7_scalable_end smr p =
     (let p = (case smr of None \<Rightarrow> p | Some (sp, r) \<Rightarrow> release (R_heap sp) (release (R_mr r) p))
      in with_client p (\<lambda>c. p\<lparr>client := Some (c\<lparr>scale_context_swith := scale_context_swith c + 1\<rparr>)\<rparr>))"

section \<open>The worker\<close>

definition scale_valid :: "dhmp_client \<Rightarrow> u64 \<Rightarrow> byte \<Rightarrow> addr" where
  "scale_valid c sz batch =
     mr_addr (scale_Cdata_mr c) + size_of_char batch * (8 * 2 + 8) + size_of_char batch * sz"

text \<open>One pass of the loop that hands the data of a reply out.\<close>

definition scale_take_entry :: "addr \<times> mem \<Rightarrow> addr \<times> mem" where
  "scale_take_entry = (\<lambda>(t, m).
     let client_addr = load64 m (t + 8); sz = load64 m (t + 8 * 2); t = t + 8 * 2 + 8
     in (t + sz, memcpy m client_addr t sz))"

definition amper_scalable_work_handler ::
  "ext \<Rightarrow> nat \<Rightarrow> addr \<Rightarrow> u64 \<Rightarrow> u64 \<Rightarrow> u64 \<Rightarrow> byte \<Rightarrow> byte \<Rightarrow> pc \<Rightarrow> proc \<Rightarrow> pc \<times> proc" where
  "amper_scalable_work_handler x h wp offset len sz flag_write batch pc p =
     (case client p of
        None \<Rightarrow> (Finished, raise Null_deref p)
      | Some c \<Rightarrow>
     (case pc of
        Start \<Rightarrow>
          (case dhmp_write_task_create x None 0 p of
             (None, p) \<Rightarrow> (Finished, p)
           | (Some tk, p) \<Rightarrow>
               (Wait_task None (tk_ptr tk),
                post_or_exit x h (rdma_wr IBV_WR_RDMA_WRITE (tk_ptr tk)
                  (mr_addr (scale_Sreq_mr c) + offset) (mr_rkey (scale_Sreq_mr c))
                  (mr_addr (scale_Creq_mr c) + offset) (ucast len) (mr_lkey (scale_Creq_mr c))) p))
      | Wait_task _ tk \<Rightarrow>
          if \<not> task_done p tk then (pc, p)
          else (Wait_byte (scale_valid c sz batch), release (R_heap tk) p)
      | Wait_byte valid \<Rightarrow>
          if mem p valid = 0 then (pc, p)
          else
            let m = (if flag_write = 0
                     then snd ((scale_take_entry ^^ nat (sint batch)) (mr_addr (scale_Cdata_mr c), mem p))
                     else mem p)
            in (Finished, set_done wp (p\<lparr>mem := store8 m valid 0\<rparr>))
      | _ \<Rightarrow> (pc, p)))"

section \<open>The server\<close>

text \<open>One pass of the loop over a batch at \<open>a\<close> that builds the reply at \<open>t\<close>.\<close>

definition scale_serve_entry :: "byte \<Rightarrow> u64 \<Rightarrow> addr \<times> addr \<times> mem \<Rightarrow> addr \<times> addr \<times> mem" where
  "scale_serve_entry wflag sz = (\<lambda>(a, t, m).
     let server_addr = load64 m a;
         client_addr = load64 m (a + 8);
         a = a + 8 * 2 + 8;
         (a, m) = (if wflag = 1 then (a + sz, memcpy m server_addr a sz) else (a, m));
         m = store64 m t server_addr;
         m = store64 m (t + 8) client_addr;
         m = store64 m (t + 8 * 2) sz;
         t = t + 8 * 2 + 8;
         (t, m) = (if wflag = 0 then (t + sz, memcpy m t server_addr sz) else (t, m))
     in (a, t, m))"

text \<open>The rest of the handler, from the loop over the batch at \<open>a\<close>.  The task of its write is never freed.\<close>

definition scale_reply ::
  "ext \<Rightarrow> server_node \<Rightarrow> byte \<Rightarrow> byte \<Rightarrow> u64 \<Rightarrow> addr \<Rightarrow> proc \<Rightarrow> pc \<times> proc" where
  "scale_reply x n batch wflag sz a p =
     (let k = size_of_char batch;
          offset = (if wflag = 1 then k * sz else 0);
          (_, t, m) = (scale_serve_entry wflag sz ^^ nat (sint batch))
                        (a, mr_addr (Sc_Sdata_mr n) + offset, mem p);
          write_size = 1 + k * (8 * 2 + 8) + (if wflag = 0 then k * sz else 0);
          p = p\<lparr>mem := store8 m t 1\<rparr>
      in (case dhmp_write_task_create x None 0 p of
            (None, p) \<Rightarrow> (Finished, p)
          | (Some tk, p) \<Rightarrow>
              (case node_trans n of
                 None \<Rightarrow> (Finished, raise Null_deref p)
               | Some h \<Rightarrow>
                   (Wait_second (tk_ptr tk),
                    post_or_exit x h (rdma_wr IBV_WR_RDMA_WRITE (tk_ptr tk)
                      (mr_addr (Sc_Cdata_mr n) + offset) (mr_rkey (Sc_Cdata_mr n))
                      (mr_addr (Sc_Sdata_mr n) + offset) (ucast write_size) (mr_lkey (Sc_Sdata_mr n))) p))))"

definition amper_scalable_request_handler ::
  "ext \<Rightarrow> int \<Rightarrow> byte \<Rightarrow> byte \<Rightarrow> byte \<Rightarrow> u64 \<Rightarrow> pc \<Rightarrow> proc \<Rightarrow> pc \<times> proc" where
  "amper_scalable_request_handler x node batch write_type wflag sz pc p =
     (case server p of
        None \<Rightarrow> (Finished, raise Null_deref p)
      | Some s \<Rightarrow>
     (let n = nodes s node; k = size_of_char batch; a = mr_addr (Sc_Sreq_mr n) in
      if \<not> node_ok node then (Finished, raise Out_of_bounds p)
      else case pc of
        Start \<Rightarrow>
          if write_type = 1 then
            let head_size = k * (8 * 2 + 8 + sz);
                read_size = load64 (mem p) (a + head_size - 8 - 48);
                temp_mr = get_mr (mem_read (mem p) (a + head_size - 48) 48)
            in (case dhmp_read_task_create x None 0 p of
                  (None, p) \<Rightarrow> (Finished, p)
                | (Some tk, p) \<Rightarrow>
                    (case (node_trans n, Sc_Slocal_mr n) of
                       (Some h, Some r) \<Rightarrow>
                         (Wait_task None (tk_ptr tk),
                          amper_post_read x h (tk_ptr tk) temp_mr (mr_addr r) (ucast read_size) (mr_lkey r) False p)
                     | _ \<Rightarrow> (Finished, raise Null_deref p)))
          else scale_reply x n batch wflag sz (a + (if wflag = 0 then k * sz else 0)) p
      | Wait_task _ tk \<Rightarrow>
          if \<not> task_done p tk then (pc, p)
          else (case Sc_Slocal_mr n of
                  None \<Rightarrow> (Finished, raise Null_deref p)
                | Some r \<Rightarrow> scale_reply x n batch wflag sz (mr_addr r) (release (R_heap tk) p))
      | Wait_second tk \<Rightarrow> if \<not> task_done p tk then (pc, p) else (Finished, p)
      | _ \<Rightarrow> (pc, p)))"

text \<open>
  One turn of \<open>scalable_run\<close>, with the \<open>size\<close> read when the thread started.  The second component of
  the state is the request in progress: its type, its flag and where its handler is.  \<open>None\<close>: the
  thread has ended.
\<close>

definition scalable_run ::
  "ext \<Rightarrow> int \<Rightarrow> u64 \<Rightarrow> byte \<times> byte \<times> pc \<Rightarrow> proc \<Rightarrow> (byte \<times> byte \<times> pc) option \<times> proc" where
  "scalable_run x node sz st p =
     (case (server p, st) of
        (None, _) \<Rightarrow> (None, raise Null_deref p)
      | (Some s, _, _, Finished) \<Rightarrow>
          (let n = nodes s node; a = mr_addr (Sc_Sreq_mr n) + BATCH * (8 * 2 + 8 + sz) in
           if \<not> node_ok node then (None, raise Out_of_bounds p)
           else if Sc_Slocal_mr n = None then (None, p)
           else if mem p (a + 3) = 0 then (Some st, p)
           else
             let p = p\<lparr>mem := store8 (mem p) (a + 3) 0\<rparr>;
                 ty = mem p a; f = mem p (a + 2);
                 (pc, p) = amper_scalable_request_handler x node 1 ty f sz Start p
             in (Some (ty, f, pc), p))
      | (Some s, ty, f, pc) \<Rightarrow>
          (let (pc, p) = amper_scalable_request_handler x node 1 ty f sz pc p in (Some (ty, f, pc), p)))"

section \<open>The bytes of a batch\<close>

text \<open>A batch: for each entry the server's address, the client's address and the data.\<close>

definition scale_entries :: "addr \<Rightarrow> u64 \<Rightarrow> addr \<Rightarrow> nat \<Rightarrow> mem \<Rightarrow> (addr \<times> addr \<times> byte list) list" where
  "scale_entries ga n la k m = map (\<lambda>i. (load64 m (ga + 8 * of_nat i), load64 m (la + 8 * of_nat i),
     mem_read m (load64 m (la + 8 * of_nat i)) (unat n))) [0..<k]"

definition scale_body :: "u64 \<Rightarrow> bool \<Rightarrow> (addr \<times> addr \<times> byte list) list \<Rightarrow> byte list" where
  "scale_body n d es = concat (map (\<lambda>(a, c, bs). put64 a @ put64 c @ put64 n @ (if d then bs else [])) es)"

lemma scale_body_simps [simp]:
  "scale_body n d [] = []"
  "scale_body n d ((a, c, bs) # es) = put64 a @ put64 c @ put64 n @ (if d then bs else []) @ scale_body n d es"
  "scale_body n d (es @ fs) = scale_body n d es @ scale_body n d fs"
  by (simp_all add: scale_body_def)

lemma length_scale_body [simp]: "length (scale_body n False es) = 24 * length es"
  by (induction es) auto

lemma length_scale_body_data:
  "\<forall>(a, c, bs) \<in> set es. length bs = unat n \<Longrightarrow> length (scale_body n True es) = (24 + unat n) * length es"
  by (induction es) auto

lemma scale_entries_simps [simp]:
  "scale_entries ga n la 0 m = []"
  "length (scale_entries ga n la k m) = k"
  "(a, c, bs) \<in> set (scale_entries ga n la k m) \<Longrightarrow> length bs = unat n"
  by (auto simp: scale_entries_def)

lemma scale_entries_Suc: "scale_entries ga n la (Suc k) m = scale_entries ga n la k m
    @ [(load64 m (ga + 8 * of_nat k), load64 m (la + 8 * of_nat k), mem_read m (load64 m (la + 8 * of_nat k)) (unat n))]"
  by (simp add: scale_entries_def)

lemma length_scale_body_entries [simp]:
  "length (scale_body n d (scale_entries ga n la k m)) = (24 + (if d then unat n else 0)) * k"
proof -
  have "\<forall>(a, c, bs) \<in> set (scale_entries ga n la k m). length bs = unat n" by (auto simp: scale_entries_def)
  from length_scale_body_data [OF this] show ?thesis by (cases d) auto
qed

lemma scale_header_stores:
  "store64 (store64 (store64 m t a) (t + 8) c) (t + 8 * 2) n = mem_write m t (put64 a @ put64 c @ put64 n)"
  by (simp add: mem_write_append add.assoc del: put_le.simps)

lemma store64_load64: "mem_write m a (mem_read m' b 8) = store64 m a (load64 m' b)"
  by (simp add: put64_get64 del: put_le.simps)

text \<open>Writes at other places do not disturb a byte.\<close>

lemma batch_writes_cong: "m y = m' y \<Longrightarrow> batch_writes es m y = batch_writes es m' y"
proof (induction es arbitrary: m m')
  case (Cons e es)
  have "mem_write m (fst e) (snd e) y = mem_write m' (fst e) (snd e) y"
    using Cons.prems by (simp add: mem_write_def Let_def)
  then have "batch_writes es (mem_write m (fst e) (snd e)) y = batch_writes es (mem_write m' (fst e) (snd e)) y"
    by (rule Cons.IH)
  then show ?case by (cases e) simp
qed simp

text \<open>What the loop over a batch lays down.\<close>

definition scale_sources_apart :: "addr \<Rightarrow> nat \<Rightarrow> addr \<Rightarrow> u64 \<Rightarrow> addr \<Rightarrow> nat \<Rightarrow> mem \<Rightarrow> bool" where
  "scale_sources_apart t l ga n la k m \<longleftrightarrow>
     (\<forall>i < k. disj t l (ga + 8 * of_nat i) 8 \<and> disj t l (la + 8 * of_nat i) 8
        \<and> disj t l (load64 m (la + 8 * of_nat i)) (unat n))"

lemma scale_put_entry_at:
  assumes ap: "disj t l (ga + 8 * of_nat k) 8" "disj t l (la + 8 * of_nat k) 8"
      "disj t l (load64 m (la + 8 * of_nat k)) (unat n)"
    and le: "length b + 24 + (if f = 1 then unat n else 0) \<le> l" "l < 2 ^ 63"
  shows "scale_put_entry ga n la f k (t + of_nat (length b), mem_write m t b)
    = (t + of_nat (length b) + 24 + (if f = 1 then n else 0),
       mem_write m t (b @ put64 (load64 m (ga + 8 * of_nat k)) @ put64 (load64 m (la + 8 * of_nat k)) @ put64 n
         @ (if f = 1 then mem_read m (load64 m (la + 8 * of_nat k)) (unat n) else [])))"
proof -
  let ?A = "load64 m (ga + 8 * of_nat k)" and ?C = "load64 m (la + 8 * of_nat k)"
  let ?h = "put64 ?A @ put64 ?C @ put64 n"
  define u where "u = t + of_nat (length b)"
  have keep: "mem_read (mem_write m t (b @ xs)) d j = mem_read m d j"
    if "disj t l d j" "length b + length xs \<le> l" for xs d j
    using that disj_sub [of t l d j 0 "length (b @ xs)"] by (simp add: mem_read_write_disj)
  have app: "mem_write (mem_write m t (b @ xs)) (u + of_nat (length xs)) ys = mem_write m t (b @ xs @ ys)"
    if "length b + length xs + length ys \<le> l" for xs ys
    using that le(2) mem_write_append [of "u + of_nat (length xs)" t "b @ xs" ys m] by (simp add: u_def add.assoc)
  have s1: "memcpy (mem_write m t b) u (ga + 8 * of_nat k) 8 = mem_write m t (b @ put64 ?A)"
    using keep [of "ga + 8 * of_nat k" 8 "[]"] ap(1) le app [of "[]" "put64 ?A"]
    by (simp add: memcpy_def store64_load64 del: put_le.simps)
  have s2: "memcpy (mem_write m t (b @ put64 ?A)) (u + 8) (la + 8 * of_nat k) 8
      = mem_write m t (b @ put64 ?A @ put64 ?C)"
    using keep [of "la + 8 * of_nat k" 8 "put64 ?A"] ap(2) le app [of "put64 ?A" "put64 ?C"]
    by (simp add: memcpy_def store64_load64 del: put_le.simps)
  have s3: "store64 (mem_write m t (b @ put64 ?A @ put64 ?C)) (u + 16) n = mem_write m t (b @ ?h)"
    using le app [of "put64 ?A @ put64 ?C" "put64 n"] by (simp del: put_le.simps)
  have s4: "load64 (mem_write m t (b @ ?h)) (la + 8 * of_nat k) = ?C"
    using keep [of "la + 8 * of_nat k" 8 ?h] ap(2) le by (simp del: put_le.simps)
  have s5: "memcpy (mem_write m t (b @ ?h)) (u + 24) ?C n = mem_write m t (b @ ?h @ mem_read m ?C (unat n))" if "f = 1"
    using that keep [of ?C "unat n" ?h] ap(3) le app [of ?h "mem_read m ?C (unat n)"] by (simp add: memcpy_def del: put_le.simps)
  show ?thesis
    unfolding u_def [symmetric] scale_put_entry_def Let_def
    using s1 s2 s3 s4 s5 by (cases "f = 1") (simp_all add: add.assoc del: put_le.simps)
qed

lemma scale_put_entries:
  assumes "scale_sources_apart t l ga n la k m" "(24 + (if f = 1 then unat n else 0)) * k \<le> l" "l < 2 ^ 63"
  shows "fold (scale_put_entry ga n la f) [0..<k] (t, m)
    = (t + of_nat (length (scale_body n (f = 1) (scale_entries ga n la k m))),
       mem_write m t (scale_body n (f = 1) (scale_entries ga n la k m)))"
  using assms(1,2)
proof (induction k)
  case (Suc k)
  let ?b = "scale_body n (f = 1) (scale_entries ga n la k m)"
  have "length ?b = (24 + (if f = 1 then unat n else 0)) * k" by simp
  then have le: "length ?b + 24 + (if f = 1 then unat n else 0) \<le> l" using Suc.prems(2) by (auto simp: algebra_simps)
  have 1: "fold (scale_put_entry ga n la f) [0..<k] (t, m) = (t + of_nat (length ?b), mem_write m t ?b)"
    using Suc by (auto simp: scale_sources_apart_def)
  have 2: "scale_put_entry ga n la f k (t + of_nat (length ?b), mem_write m t ?b)
      = (t + of_nat (length ?b) + 24 + (if f = 1 then n else 0),
         mem_write m t (?b @ put64 (load64 m (ga + 8 * of_nat k)) @ put64 (load64 m (la + 8 * of_nat k)) @ put64 n
           @ (if f = 1 then mem_read m (load64 m (la + 8 * of_nat k)) (unat n) else [])))"
    using Suc.prems(1) le assms(3) by (intro scale_put_entry_at [where l = l]) (auto simp: scale_sources_apart_def)
  have "of_nat (length (scale_body n (f = 1) (scale_entries ga n la (Suc k) m)))
      = of_nat (length ?b) + 24 + (if f = 1 then n else 0)"
    by (simp add: algebra_simps)
  then show ?case
    using 1 2 by (simp add: scale_entries_Suc add.assoc del: put_le.simps length_scale_body_entries)
qed simp

section \<open>Serving a batch\<close>

text \<open>
  Where the objects of a batch may lie: each apart from the source region (\<open>l\<close> bytes at \<open>a\<close>) and the
  reply region (\<open>k\<close> bytes at \<open>t\<close>).
\<close>

definition scale_objects_apart ::
  "addr \<Rightarrow> nat \<Rightarrow> addr \<Rightarrow> nat \<Rightarrow> (addr \<times> addr \<times> byte list) list \<Rightarrow> bool" where
  "scale_objects_apart a l t k es \<longleftrightarrow>
     disj t k a l \<and> (\<forall>(d, c, bs) \<in> set es. disj d (length bs) a l \<and> disj d (length bs) t k)"

abbreviation objects :: "(addr \<times> addr \<times> byte list) list \<Rightarrow> (addr \<times> byte list) list" where
  "objects es \<equiv> map (\<lambda>(d, c, bs). (d, bs)) es"

lemma scale_objects_apart_sub:
  assumes "scale_objects_apart a l t k (e # es)" "i + l' \<le> l" "j + k' \<le> k"
  shows "scale_objects_apart (a + of_nat i) l' (t + of_nat j) k' es"
  using assms disj_sub [of t k a l j k'] disj_sub_right
  unfolding scale_objects_apart_def by (fastforce intro: disj_sub_right disj_sub)

text \<open>A batch of writes: the headers are echoed, and apart from that the objects are written in order.\<close>

lemma scale_serve_writes:
  assumes "mem_read m a (length (scale_body n True es)) = scale_body n True es" "unat n < 2 ^ 62"
    and "\<forall>(d, c, bs) \<in> set es. length bs = unat n" "24 * length es < 2 ^ 63"
    and "scale_objects_apart a (length (scale_body n True es)) t (24 * length es) es"
  shows "\<exists>m'. (scale_serve_entry 1 n ^^ length es) (a, t, m)
        = (a + of_nat (length (scale_body n True es)), t + of_nat (24 * length es), m')
      \<and> mem_read m' t (24 * length es) = scale_body n False es
      \<and> (\<forall>y. 24 * length es \<le> unat (y - t) \<longrightarrow> m' y = batch_writes (objects es) m y)"
  using assms
proof (induction es arbitrary: a t m)
  case (Cons e es)
  obtain d c bs where e: "e = (d, c, bs)" by (cases e)
  let ?r = "scale_body n True (e # es)" and ?h = "put64 d @ put64 c @ put64 n"
  let ?m = "mem_write (mem_write m d bs) t ?h" and ?s = "scale_body n True es"
  have bs: "length bs = unat n" using Cons.prems(3) e by simp
  have lr: "length ?r = 24 + unat n + length ?s" using bs e by simp
  have ap: "disj t (24 * length (e # es)) a (length ?r)" "disj d (unat n) a (length ?r)"
      "disj d (unat n) t (24 * length (e # es))"
    using Cons.prems(5) bs e by (auto simp: scale_objects_apart_def)
  have r: "mem_read m (a + of_nat k) l = take l (drop k ?r)" if "k + l \<le> length ?r" for k l
    using Cons.prems(1) that by (intro mem_read_sub) auto
  have st: "scale_serve_entry 1 n (a, t, m) = (a + of_nat (24 + unat n), t + of_nat 24, ?m)"
    using r [of 0 8] r [of 8 8] r [of 24 "unat n"] bs e scale_header_stores [of "mem_write m d bs" t d c n]
    by (simp add: scale_serve_entry_def memcpy_def Let_def add.assoc del: put_le.simps)
  have "disj t 24 (a + of_nat (24 + unat n)) (length ?s)" "disj d (unat n) (a + of_nat (24 + unat n)) (length ?s)"
    using disj_sub [OF disj_sub_right [OF ap(1), of "24 + unat n" "length ?s"], of 0 24]
      disj_sub_right [OF ap(2), of "24 + unat n" "length ?s"] lr by simp_all
  then have rest: "mem_read ?m (a + of_nat (24 + unat n)) (length ?s) = ?s"
    using r [of "24 + unat n" "length ?s"] bs e lr by (simp add: mem_read_write_disj del: put_le.simps of_nat_add)
  have "scale_objects_apart (a + of_nat (24 + unat n)) (length ?s) (t + of_nat 24) (24 * length es) es"
    using Cons.prems(5) lr by (intro scale_objects_apart_sub [where l = "length ?r" and k = "24 * length (e # es)"]) auto
  then have "\<exists>m'. (scale_serve_entry 1 n ^^ length es) (a + of_nat (24 + unat n), t + of_nat 24, ?m)
        = (a + of_nat (24 + unat n) + of_nat (length ?s), t + of_nat 24 + of_nat (24 * length es), m')
      \<and> mem_read m' (t + of_nat 24) (24 * length es) = scale_body n False es
      \<and> (\<forall>y. 24 * length es \<le> unat (y - (t + of_nat 24)) \<longrightarrow> m' y = batch_writes (objects es) ?m y)"
    by (intro Cons.IH [OF rest]) (use Cons.prems(2-4) in auto)
  then obtain m' where m': "(scale_serve_entry 1 n ^^ length es) (a + of_nat (24 + unat n), t + of_nat 24, ?m)
        = (a + of_nat (24 + unat n) + of_nat (length ?s), t + of_nat 24 + of_nat (24 * length es), m')"
      "mem_read m' (t + of_nat 24) (24 * length es) = scale_body n False es"
      "\<And>y. 24 * length es \<le> unat (y - (t + of_nat 24)) \<Longrightarrow> m' y = batch_writes (objects es) ?m y"
    by blast
  have run: "(scale_serve_entry 1 n ^^ length (e # es)) (a, t, m)
      = (a + of_nat (length ?r), t + of_nat (24 * length (e # es)), m')"
    using m'(1) st by (simp add: funpow_swap1 e bs add.assoc del: length_scale_body)
  have "mem_read m' t 24 = mem_read (batch_writes (objects es) ?m) t 24"
  proof (rule nth_equalityI)
    fix i assume "i < length (mem_read m' t 24)"
    then have i: "i < 24" by simp
    have "(t + of_nat i) - (t + of_nat 24) = (of_nat i - of_nat 24 :: u64)" by simp
    moreover have "unat (of_nat i :: u64) = i" "unat (of_nat 24 :: u64) = 24"
      using i by (simp_all add: unat_of_nat_u64 del: of_nat_numeral)
    ultimately have "unat ((t + of_nat i) - (t + of_nat 24)) = i + 2 ^ 64 - 24"
      using i by (simp only: unat_diff_u64) simp
    then have "24 * length es \<le> unat ((t + of_nat i) - (t + of_nat 24))" using Cons.prems(4) i by simp
    then show "mem_read m' t 24 ! i = mem_read (batch_writes (objects es) ?m) t 24 ! i" using i m'(3) by simp
  qed simp
  also have "\<dots> = mem_read ?m t 24"
  proof (rule batch_writes_other)
    show "\<forall>(d, bs) \<in> set (objects es). disj d (length bs) t 24"
      using Cons.prems(5) disj_sub_right [of _ _ t "24 * length (e # es)" 0 24]
      by (fastforce simp: scale_objects_apart_def)
  qed
  also have "\<dots> = ?h" by (rule mem_read_write_same) simp_all
  finally have "mem_read m' t (24 * length (e # es)) = scale_body n False (e # es)"
    using m'(2) mem_read_split [of m' t 24 "24 * length es"] e by (simp del: put_le.simps)
  moreover have "m' y = batch_writes (objects (e # es)) m y" if y: "24 * length (e # es) \<le> unat (y - t)" for y
  proof -
    have "y - (t + of_nat 24) = (y - t) - of_nat 24" by simp
    then have "unat (y - (t + of_nat 24)) = unat (y - t) - 24" using y by (simp only: unat_diff_u64) simp
    then have "m' y = batch_writes (objects es) ?m y" using y m'(3) by simp
    also have "\<dots> = batch_writes (objects es) (mem_write m d bs) y"
      using y by (intro batch_writes_cong) (simp add: mem_write_def [of _ t] Let_def)
    finally show ?thesis by (simp add: e)
  qed
  ultimately show ?case using run by blast
qed simp

text \<open>A batch of reads: the reply holds the objects.\<close>

lemma scale_serve_reads:
  assumes "mem_read m a (24 * length es) = scale_body n False es" "unat n < 2 ^ 62"
    and "\<forall>(d, c, bs) \<in> set es. bs = mem_read m d (unat n)" "length (scale_body n True es) < 2 ^ 63"
    and "scale_objects_apart a (24 * length es) t (length (scale_body n True es)) es"
  shows "(scale_serve_entry 0 n ^^ length es) (a, t, m)
    = (a + of_nat (24 * length es), t + of_nat (length (scale_body n True es)), mem_write m t (scale_body n True es))"
  using assms
proof (induction es arbitrary: a t m)
  case (Cons e es)
  obtain d c bs where e: "e = (d, c, bs)" by (cases e)
  let ?r = "scale_body n True (e # es)" and ?h = "put64 d @ put64 c @ put64 n @ bs"
  let ?m = "mem_write m t ?h" and ?s = "scale_body n True es"
  have bs: "bs = mem_read m d (unat n)" "length bs = unat n" using Cons.prems(3) e by auto
  have lr: "length ?r = 24 + unat n + length ?s" using bs e by simp
  have ap: "disj t (length ?r) a (24 * length (e # es))" "disj d (unat n) t (length ?r)"
    using Cons.prems(5) bs(2) e by (auto simp: scale_objects_apart_def)
  have r: "mem_read m (a + of_nat k) l = take l (drop k (scale_body n False (e # es)))" if "k + l \<le> 24 * length (e # es)" for k l
    using Cons.prems(1) that mem_read_sub [of m a "scale_body n False (e # es)" k l] by (simp del: scale_body_simps)
  have "mem_read (mem_write m t (put64 d @ put64 c @ put64 n)) d (unat n) = bs"
    using bs disj_sym [OF disj_sub_right [OF ap(2), of 0 24]] lr by (simp add: mem_read_write_disj del: put_le.simps)
  moreover have "mem_write (mem_write m t (put64 d @ put64 c @ put64 n)) (t + 24) bs = ?m"
    using Cons.prems(2) bs(2) by (simp add: mem_write_append)
  ultimately have st: "scale_serve_entry 0 n (a, t, m) = (a + of_nat 24, t + of_nat (24 + unat n), ?m)"
    using r [of 0 8] r [of 8 8] e scale_header_stores [of m t d c n]
    by (simp add: scale_serve_entry_def memcpy_def Let_def add.assoc del: put_le.simps)
  have "disj t (24 + unat n) (a + of_nat 24) (24 * length es)"
    using disj_sub [OF disj_sub_right [OF ap(1), of 24 "24 * length es"], of 0 "24 + unat n"] lr by simp
  then have "mem_read ?m (a + of_nat 24) (24 * length es) = mem_read m (a + of_nat 24) (24 * length es)"
    using bs(2) by (intro mem_read_write_disj) simp
  then have rest: "mem_read ?m (a + of_nat 24) (24 * length es) = scale_body n False es"
    using r [of 24 "24 * length es"] e by simp
  have obj: "\<forall>(d', c', bs') \<in> set es. bs' = mem_read ?m d' (unat n)"
  proof safe
    fix d' c' bs' assume i: "(d', c', bs') \<in> set es"
    then have "bs' = mem_read m d' (unat n)" "disj d' (length bs') t (length ?r)"
      using Cons.prems(3,5) unfolding scale_objects_apart_def by (fastforce, fastforce)
    then have b: "bs' = mem_read m d' (unat n)" "disj d' (unat n) t (length ?r)" by simp_all
    then show "bs' = mem_read ?m d' (unat n)"
      using disj_sym [OF disj_sub_right [OF b(2), of 0 "24 + unat n"]] lr bs(2) by (simp add: mem_read_write_disj del: put_le.simps)
  qed
  have "scale_objects_apart (a + of_nat 24) (24 * length es) (t + of_nat (24 + unat n)) (length ?s) es"
    using Cons.prems(5) lr by (intro scale_objects_apart_sub [where l = "24 * length (e # es)" and k = "length ?r"]) auto
  then have "(scale_serve_entry 0 n ^^ length es) (a + of_nat 24, t + of_nat (24 + unat n), ?m)
      = (a + of_nat 24 + of_nat (24 * length es), t + of_nat (24 + unat n) + of_nat (length ?s),
         mem_write ?m (t + of_nat (24 + unat n)) ?s)"
    using Cons.IH [OF rest Cons.prems(2) obj] Cons.prems(4) lr by simp
  moreover have "mem_write ?m (t + of_nat (24 + unat n)) ?s = mem_write m t ?r"
    using Cons.prems(4) bs(2) lr e by (subst mem_write_append) (simp_all del: put_le.simps)
  ultimately show ?case
    using st e bs(2) by (simp add: funpow_swap1 add.assoc del: put_le.simps)
qed simp

text \<open>Handing the data of a reply out.\<close>

lemma scale_take_entries:
  assumes "mem_read m t (length (scale_body n True es)) = scale_body n True es" "unat n < 2 ^ 62"
    and "\<forall>(d, c, bs) \<in> set es. length bs = unat n \<and> disj c (unat n) t (length (scale_body n True es))"
  shows "(scale_take_entry ^^ length es) (t, m)
    = (t + of_nat (length (scale_body n True es)), batch_writes (map (\<lambda>(d, c, bs). (c, bs)) es) m)"
  using assms
proof (induction es arbitrary: t m)
  case (Cons e es)
  obtain d c bs where e: "e = (d, c, bs)" by (cases e)
  let ?r = "scale_body n True (e # es)" and ?s = "scale_body n True es"
  have bs: "length bs = unat n" "disj c (unat n) t (length ?r)" using Cons.prems(3) e by auto
  have lr: "length ?r = 24 + unat n + length ?s" using bs e by simp
  have r: "mem_read m (t + of_nat k) l = take l (drop k ?r)" if "k + l \<le> length ?r" for k l
    using Cons.prems(1) that by (intro mem_read_sub) auto
  have st: "scale_take_entry (t, m) = (t + of_nat (24 + unat n), mem_write m c bs)"
    using r [of 8 8] r [of 16 8] r [of 24 "unat n"] bs(1) e
    by (simp add: scale_take_entry_def memcpy_def Let_def add.assoc del: put_le.simps)
  have "mem_read (mem_write m c bs) (t + of_nat (24 + unat n)) (length ?s) = mem_read m (t + of_nat (24 + unat n)) (length ?s)"
    using disj_sub_right [OF bs(2), of "24 + unat n" "length ?s"] bs(1) lr by (intro mem_read_write_disj) simp
  then have rest: "mem_read (mem_write m c bs) (t + of_nat (24 + unat n)) (length ?s) = ?s"
    using r [of "24 + unat n" "length ?s"] bs(1) e lr by simp
  have "\<forall>(d', c', bs') \<in> set es. length bs' = unat n \<and> disj c' (unat n) (t + of_nat (24 + unat n)) (length ?s)"
    using Cons.prems(3) disj_sub_right [of _ _ t "length ?r" "24 + unat n" "length ?s"] lr by fastforce
  with Cons.IH [OF rest Cons.prems(2)] show ?case
    using st e bs(1) by (simp add: funpow_swap1 add.assoc)
qed simp

section \<open>A call\<close>

lemma scale_put_eq:
  assumes "k = nat (sint batch)" "scale_sources_apart t ((24 + (if f = 1 then unat n else 0)) * k) ga n la k m"
    and "(24 + (if f = 1 then unat n else 0)) * k < 2 ^ 63"
  shows "scale_close ty batch f (fst (scale_put ga n la f batch t m)) (snd (scale_put ga n la f batch t m))
    = mem_write m t (scale_body n (f = 1) (scale_entries ga n la k m) @ [ty, batch, f, 1])"
proof -
  let ?b = "scale_body n (f = 1) (scale_entries ga n la k m)"
  have "scale_put ga n la f batch t m = (t + of_nat (length ?b), mem_write m t ?b)"
    using scale_put_entries [OF assms(2) order_refl assms(3)] assms(1) by (simp only: scale_put_def)
  moreover have "scale_close ty batch f u m' = mem_write m' u [ty, batch, f, 1]" for u m'
    by (simp add: scale_close_def mem_write_append add.assoc)
  moreover have "mem_write (mem_write m t ?b) (t + of_nat (length ?b)) [ty, batch, f, 1]
      = mem_write m t (?b @ [ty, batch, f, 1])"
    using assms(3) by (intro mem_write_append) auto
  ultimately show ?thesis by simp
qed

text \<open>The call leaves the request in its buffer and queues the item the worker will find.\<close>

lemma model_7_direct:
  assumes "client p = Some c" "scale_context_swith c \<noteq> Sca1e_Swith_Time"
    and "model_7_scalable x wp ga n la f batch p = (Waiting wk, smr, p0)"
    and "scale_direct c ga n la f batch (mem p) = (off, len, m)"
  shows "smr = None" "mem p0 = m" "sq p0 = sq p"
    and "client p0 = Some (list_add_tail \<lparr>work_type = AMPER_WORK_scalable, work_ptr = wp,
           work_data = Scalable_work off len 2 n f batch\<rparr> c)"
  using assms by (auto simp: model_7_scalable_def amper_scalable_def submit_def enqueue_def ask_def
      split: option.splits if_splits)

lemma list_add_tail_scale [simp]:
  "scale_Creq_mr (list_add_tail w c) = scale_Creq_mr c" "scale_Sreq_mr (list_add_tail w c) = scale_Sreq_mr c"
  "work_list (list_add_tail w c) = work_list c @ [w]"
  "scale_context_swith (list_add_tail w c) = scale_context_swith c"
  by (simp_all add: list_add_tail_def)

lemma scale_worker_start:
  assumes "client p = Some c" "amper_scalable_work_handler x h wp off len n f b Start p = (Wait_task u tk, p1)"
    and "sq p1 = sq p @ [(h, w)]"
  shows "mem p1 = mem p" "wr_remote_addr w = mr_addr (scale_Sreq_mr c) + off"
    and "wr_sg_list w = [\<lparr>sge_addr = mr_addr (scale_Creq_mr c) + off, sge_length = ucast len,
           sge_lkey = mr_lkey (scale_Creq_mr c)\<rparr>]"
  using assms
  by (auto simp: amper_scalable_work_handler_def dhmp_read_task_create_def ask_def Let_def post_or_exit_def
      split: if_splits)

lemma scale_call_posts:
  fixes x wp ga n la f batch p c p0 k
  defines "B \<equiv> scale_body n (f = 1) (scale_entries ga n la k (mem p)) @ [2, batch, f, 1]"
    and "off \<equiv> (if f = 0 then of_nat k * n else 0)"
  assumes "client p = Some c" "scale_context_swith c \<noteq> Sca1e_Swith_Time" "0 \<le> sint batch" "k = nat (sint batch)"
    and "(24 + unat n) * k + 4 < 2 ^ 32"
    and "scale_sources_apart (mr_addr (scale_Creq_mr c) + off) ((24 + (if f = 1 then unat n else 0)) * k) ga n la k (mem p)"
    and "model_7_scalable x wp ga n la f batch p = (Waiting wk, smr, p0)" "client p0 = Some c0"
    and "last (work_list c0) = \<lparr>work_type = ty, work_ptr = wp', work_data = Scalable_work off' len wt sz f' b\<rparr>"
    and "amper_scalable_work_handler x h wp' off' len sz f' b Start p0 = (Wait_task u tk, p1)" "sq p1 = sq p @ [(h, w)]"
  shows "wp' = wp" "sz = n" "f' = f" "b = batch" "wr_remote_addr w = mr_addr (scale_Sreq_mr c) + off"
    and "wr_payload (mem p1) w = B"
proof -
  let ?t = "mr_addr (scale_Creq_mr c) + off"
  let ?L = "(24 + (if f = 1 then unat n else 0)) * k"
  have L: "?L + 4 < 2 ^ 32" "length B = ?L + 4"
    using assms(7) by (auto simp: B_def algebra_simps intro: le_less_trans [OF add_le_mono1])
  have nb: "size_of_char batch = of_nat k" using assms(5,6) by (simp only: size_of_char_nat)
  have l: "4 + of_nat k * (if f = 1 then n + 24 else 24) = (of_nat (?L + 4) :: u64)"
    by (auto simp: algebra_simps)
  let ?P = "scale_put ga n la f batch ?t (mem p)"
  have "scale_direct c ga n la f batch (mem p)
      = (off, 4 + of_nat k * (if f = 1 then n + 24 else 24), scale_close 2 batch f (fst ?P) (snd ?P))"
    by (simp add: scale_direct_def off_def nb Let_def case_prod_beta add.assoc)
  moreover have "scale_close 2 batch f (fst ?P) (snd ?P) = mem_write (mem p) ?t B"
    unfolding B_def using L(1) by (intro scale_put_eq [OF assms(6) assms(8)]) simp
  ultimately have "scale_direct c ga n la f batch (mem p) = (off, of_nat (?L + 4), mem_write (mem p) ?t B)"
    by (simp only: l)
  note d = model_7_direct [OF assms(3,4,9) this]
  have eq: "ty = AMPER_WORK_scalable" "wp' = wp" "off' = off" "len = of_nat (?L + 4)" "sz = n" "f' = f" "b = batch"
    using assms(10,11) d(4) by auto
  have w: "wr_remote_addr w = mr_addr (scale_Sreq_mr c) + off" "mem p1 = mem_write (mem p) ?t B"
    "wr_sg_list w = [\<lparr>sge_addr = ?t, sge_length = ucast len, sge_lkey = mr_lkey (scale_Creq_mr c)\<rparr>]"
    using scale_worker_start [OF d(4) assms(12)] assms(13) d(2,3) eq by auto
  have "unat len = ?L + 4" unfolding eq(4) using less_trans [OF L(1), of "2 ^ 64"] by (intro unat_of_nat_u64) simp
  then have "unat (ucast len :: u32) = length B" using L by (simp add: unat_ucast_u32)
  then have "wr_payload (mem p1) w = B" using w(2,3) L by (simp add: mem_read_write_same)
  then show "wr_payload (mem p1) w = B" "wr_remote_addr w = mr_addr (scale_Sreq_mr c) + off"
    "wp' = wp" "sz = n" "f' = f" "b = batch" using w(1) eq by simp_all
qed

text \<open>The reply: what the server posts for a served batch.\<close>

lemma scale_reply_post:
  fixes ps nd batch f n a
  defines "t \<equiv> mr_addr (Sc_Sdata_mr nd) + (if f = 1 then size_of_char batch * n else 0)"
  assumes "scale_reply y nd batch f n a ps = (pc, ps1)" "sq ps1 = sq ps @ [(g, w)]"
    and "(scale_serve_entry f n ^^ nat (sint batch)) (a, t, mem ps) = (a', t + of_nat l, m')"
    and "1 + size_of_char batch * 24 + (if f = 0 then size_of_char batch * n else 0) = of_nat (l + 1)"
    and "l + 1 < 2 ^ 32"
  shows "mem ps1 = store8 m' (t + of_nat l) 1"
    and "wr_remote_addr w = mr_addr (Sc_Cdata_mr nd) + (if f = 1 then size_of_char batch * n else 0)"
    and "wr_payload (mem ps1) w = mem_read m' t l @ [1]"
proof -
  have m: "mem ps1 = store8 m' (t + of_nat l) 1"
    and "wr_remote_addr w = mr_addr (Sc_Cdata_mr nd) + (if f = 1 then size_of_char batch * n else 0)"
    and s: "wr_sg_list w = [\<lparr>sge_addr = t, sge_length = ucast (of_nat (l + 1) :: u64), sge_lkey = mr_lkey (Sc_Sdata_mr nd)\<rparr>]"
    using assms(2-4) unfolding t_def assms(5) [symmetric]
    by (auto simp: scale_reply_def dhmp_read_task_create_def ask_def Let_def post_or_exit_def
        split: if_splits option.splits)
  then show "wr_remote_addr w = mr_addr (Sc_Cdata_mr nd) + (if f = 1 then size_of_char batch * n else 0)"
    "mem ps1 = store8 m' (t + of_nat l) 1" by simp_all
  have "unat (of_nat (l + 1) :: u64) = l + 1" using less_trans [OF assms(6), of "2 ^ 64"] by (intro unat_of_nat_u64) simp
  then have "unat (ucast (of_nat (l + 1) :: u64) :: u32) = l + 1" using assms(6) by (simp only: unat_ucast_u32) simp
  then have "wr_payload (mem ps1) w = mem_read (mem ps1) t (l + 1)" using s by simp
  also have "\<dots> = mem_read (mem ps1) t l @ mem_read (mem ps1) (t + of_nat l) 1" by (rule mem_read_split)
  also have "mem_read (mem ps1) t l = mem_read m' t l"
    unfolding m using assms(6) disj_offset [of 0 l l 1 t] disj_sym by (intro mem_read_write_disj) simp
  also have "mem_read (mem ps1) (t + of_nat l) 1 = [1]" by (simp add: m mem_write_def)
  finally show "wr_payload (mem ps1) w = mem_read m' t l @ [1]" .
qed

text \<open>A request that has arrived is what \<open>scalable_run\<close> finds.\<close>

lemma scalable_run_dispatch:
  fixes n :: u64
  defines "H \<equiv> of_nat (24 + unat n)"
  assumes "server ps = Some s" "node_ok i" "Sc_Slocal_mr (nodes s i) = Some lr" "a = mr_addr (Sc_Sreq_mr (nodes s i))"
    and "mem_read (mem ps) (a + (if f = 1 then 0 else n)) (length (b @ [2, 1, f, 1])) = b @ [2, 1, f, 1]"
    and "length b = 24 + (if f = 1 then unat n else 0)" "unat n < 2 ^ 62" "f \<in> {0, 1}"
    and "scalable_run y i n (ty, f', Finished) ps = (st, ps1)"
  shows "\<exists>pc. scale_reply y (nodes s i) 1 f n (a + (if f = 1 then 0 else n)) (ps\<lparr>mem := store8 (mem ps) (a + H + 3) 0\<rparr>) = (pc, ps1)
      \<and> st = Some (2, f, pc)"
proof -
  let ?u = "a + (if f = 1 then 0 else n)"
  have u: "?u + of_nat (length b) = a + H" using assms(7) by (auto simp: H_def)
  have r: "mem ps (?u + of_nat j) = (b @ [2, 1, f, 1]) ! j" if "j < length b + 4" for j
    using mem_byte_at [OF assms(6)] that by simp
  have "mem ps (a + H + of_nat j) = [2, 1, f, 1] ! j" if "j < 4" for j
    using r [of "length b + j"] that u by (simp add: nth_append add.assoc [symmetric])
  from this [of 0] this [of 2] this [of 3]
  have f: "mem ps (a + H) = 2" "mem ps (a + H + 2) = f" "mem ps (a + H + 3) = 1" by (simp_all add: numeral_3_eq_3 numeral_2_eq_2)
  have ne: "mem (ps\<lparr>mem := store8 (mem ps) (a + H + 3) 0\<rparr>) (a + H) = 2"
    "mem (ps\<lparr>mem := store8 (mem ps) (a + H + 3) 0\<rparr>) (a + H + 2) = f"
    using f by (simp_all add: mem_write_def Let_def unat_eq_0 eq_neg_iff_add_eq_0)
  have h: "a + (24 + n) = a + H" "24 + n = H" by (simp_all add: H_def)
  have "scalable_run y i n (ty, f', Finished) ps
      = (let p = ps\<lparr>mem := store8 (mem ps) (a + H + 3) 0\<rparr>;
             (pc, p) = amper_scalable_request_handler y i 1 2 f n Start p in (Some (2, f, pc), p))"
    using assms(2-5) f ne by (simp add: scalable_run_def Let_def h(2))
  then show ?thesis
    using assms(2,3,5,9,10) by (auto simp: amper_scalable_request_handler_def Let_def split: prod.splits)
qed

section \<open>Properties\<close>

text \<open>The regions of a call with a batch of one: request, arrays and source on the client.\<close>

definition scale_client_apart :: "dhmp_client \<Rightarrow> u64 \<Rightarrow> u64 \<Rightarrow> addr \<Rightarrow> addr \<Rightarrow> mem \<Rightarrow> bool" where
  "scale_client_apart c off n ga la m \<longleftrightarrow>
     (let t = mr_addr (scale_Creq_mr c) + off; l = 24 + unat n
      in disj t l ga 8 \<and> disj t l la 8 \<and> disj t l (load64 m la) (unat n))"

text \<open>Request, reply (\<open>l\<close> bytes) and object on the server.\<close>

definition scale_server_apart :: "server_node \<Rightarrow> u64 \<Rightarrow> u64 \<Rightarrow> nat \<Rightarrow> addr \<Rightarrow> bool" where
  "scale_server_apart nd n off l obj \<longleftrightarrow>
     (let sr = mr_addr (Sc_Sreq_mr nd); sd = mr_addr (Sc_Sdata_mr nd) + off
      in disj sd l sr (28 + unat n) \<and> disj obj (unat n) sr (28 + unat n) \<and> disj obj (unat n) sd l)"

lemma scale_entries_1 [simp]:
  "scale_entries ga n la (Suc 0) m = [(load64 m ga, load64 m la, mem_read m (load64 m la) (unat n))]"
  by (simp add: scale_entries_def)

lemma scale_sources_apart_1:
  assumes "scale_client_apart c off n ga la m"
  shows "scale_sources_apart (mr_addr (scale_Creq_mr c) + off) ((24 + (if f then unat n else 0)) * 1) ga n la 1 m"
  using assms disj_sub [of _ "24 + unat n" _ _ 0 24]
  by (auto simp: scale_client_apart_def scale_sources_apart_def Let_def)

text \<open>
  The two sides of the witnesses: objects of 2 bytes, at 0x600 on the client and at 0x50000 on the
  server; the arrays of addresses at 0x800 and 0x900.
\<close>

definition scale_client_rec :: dhmp_client where
  "scale_client_rec = client0\<lparr>scale_Creq_mr := mr_at 0x10000 64, scale_Sreq_mr := mr_at 0x20000 64,
     scale_Cdata_mr := mr_at 0x40000 64\<rparr>"

definition scale_client :: proc where
  "scale_client = DaRPC_client\<lparr>client := Some scale_client_rec\<rparr>"

definition scale_node_rec :: server_node where
  "scale_node_rec = node0\<lparr>Sc_Sreq_mr := mr_at 0x20000 64, Sc_Sdata_mr := mr_at 0x30000 64,
     Sc_Cdata_mr := mr_at 0x40000 64, Sc_Slocal_mr := Some (mr_at 0x70000 64), node_trans := Some 1\<rparr>"

definition scale_server :: proc where
  "scale_server = server_proc\<lparr>mem := mem_write (\<lambda>_. 0) 0x50000 [0x11, 0x22],
     server := Some (set_node 0 scale_node_rec server0)\<rparr>"

lemma scale_sample_simps [simp]:
  "client scale_client = Some scale_client_rec" "server scale_server = Some (set_node 0 scale_node_rec server0)"
  "scale_context_swith scale_client_rec = 0" "connect_trans scale_client_rec = Some 0" "work_list scale_client_rec = []"
  "scale_Creq_mr scale_client_rec = mr_at 0x10000 64" "scale_Sreq_mr scale_client_rec = mr_at 0x20000 64"
  "scale_Cdata_mr scale_client_rec = mr_at 0x40000 64" "Sc_Sreq_mr scale_node_rec = mr_at 0x20000 64"
  "Sc_Sdata_mr scale_node_rec = mr_at 0x30000 64" "Sc_Cdata_mr scale_node_rec = mr_at 0x40000 64"
  "Sc_Slocal_mr scale_node_rec = Some (mr_at 0x70000 64)" "node_trans scale_node_rec = Some 1"
  "mem scale_client = mem DaRPC_client" "sq scale_client = []" "trans scale_client = (\<lambda>_. trans0)" "tick scale_client = 0"
  "sq scale_server = []" "nodes (set_node 0 scale_node_rec server0) 0 = scale_node_rec" "node_ok 0"
  by (simp_all add: scale_client_def scale_client_rec_def scale_server_def scale_node_rec_def set_node_def node_ok_def client0_def)

abbreviation scale_called :: "byte \<Rightarrow> proc" where
  "scale_called f \<equiv> snd (snd (model_7_scalable ext_ok 0x58 0x800 2 0x900 f 1 scale_client))"

abbreviation scale_off :: "byte \<Rightarrow> u64" where "scale_off f \<equiv> (if f = 0 then 2 else 0)"
abbreviation scale_len :: "byte \<Rightarrow> u64" where "scale_len f \<equiv> (if f = 1 then 30 else 28)"

abbreviation scale_sent :: "byte \<Rightarrow> proc" where
  "scale_sent f \<equiv> snd (amper_scalable_work_handler ext_ok 0 0x58 (scale_off f) (scale_len f) 2 f 1 Start (scale_called f))"

abbreviation scale_arrived :: "byte \<Rightarrow> proc" where
  "scale_arrived f \<equiv> deliver_last (scale_sent f) scale_server"

abbreviation scale_served :: "byte \<Rightarrow> proc" where
  "scale_served f \<equiv> snd (scalable_run ext_ok 0 2 (0, 0, Finished) (scale_arrived f))"

lemma scale_sample_call:
  assumes f: "f \<in> {0, 1}"
  obtains wk c0 u tk w where
    "model_7_scalable ext_ok 0x58 0x800 2 0x900 f 1 scale_client = (Waiting wk, None, scale_called f)"
    "client (scale_called f) = Some c0"
    "last (work_list c0) = \<lparr>work_type = AMPER_WORK_scalable, work_ptr = 0x58,
       work_data = Scalable_work (scale_off f) (scale_len f) 2 2 f 1\<rparr>"
    "amper_scalable_work_handler ext_ok 0 0x58 (scale_off f) (scale_len f) 2 f 1 Start (scale_called f)
       = (Wait_task u tk, scale_sent f)"
    "sq (scale_sent f) = sq scale_client @ [(0, w)]"
    "wr_remote_addr w = 0x20000 + scale_off f"
    "length (wr_payload (mem (scale_sent f)) w) = 28 + (if f = 1 then 2 else 0)"
    "delivered (mem (scale_sent f)) w (mem (scale_arrived f))"
    "server (scale_arrived f) = Some (set_node 0 scale_node_rec server0)"
proof -
  obtain m where d: "scale_direct scale_client_rec 0x800 2 0x900 f 1 (mem scale_client) = (scale_off f, scale_len f, m)"
    using f by (auto simp: scale_direct_def Let_def case_prod_unfold)
  obtain wk where c: "model_7_scalable ext_ok 0x58 0x800 2 0x900 f 1 scale_client = (Waiting wk, None, scale_called f)"
    using d by (simp add: model_7_scalable_def amper_scalable_def submit_def enqueue_def connected_trans_def ask_def)
  have t: "tick (scale_called f) = Suc 0"
    using d by (simp add: model_7_scalable_def amper_scalable_def submit_def enqueue_def connected_trans_def ask_def)
  note q = model_7_direct [OF scale_sample_simps(1) _ c d]
  obtain u tk w where s: "amper_scalable_work_handler ext_ok 0 0x58 (scale_off f) (scale_len f) 2 f 1 Start (scale_called f)
       = (Wait_task u tk, scale_sent f)" "sq (scale_sent f) = sq (scale_called f) @ [(0, w)]"
    using q(4) t by (simp add: amper_scalable_work_handler_def dhmp_read_task_create_def ask_def Let_def)
  note w = scale_worker_start [OF q(4) s]
  have pl: "length (wr_payload (mem (scale_sent f)) w) = 28 + (if f = 1 then 2 else 0)"
    using w(3) f by auto
  note dv = deliver_last_ok [OF s(2), of scale_server]
  show thesis
    using that [OF c q(4) _ s(1) _ _ pl] s(2) q(3) w(2) dv pl by (auto simp: list_add_tail_def split: if_splits)
qed

lemma scale_sample_apart:
  "scale_client_apart scale_client_rec (scale_off f) 2 0x800 0x900 (mem scale_client)"
  "scale_server_apart scale_node_rec 2 2 25 0x50000" "scale_server_apart scale_node_rec 2 0 27 0x50000"
  by (simp_all add: scale_client_apart_def scale_server_apart_def disj_def)

lemma scale_reply_sends:
  assumes "scale_reply x nd b f n a p = (pc, p')"
    and "node_trans nd = Some g" "ext_malloc x (tick p) \<noteq> 0" "\<And>t w. ext_post x t w"
  obtains w where "sq p' = sq p @ [(g, w)]" "\<And>m. length (wr_payload m w) \<le> 2 ^ 64"
proof -
  obtain a' t m where e: "(scale_serve_entry f n ^^ nat (sint b)) (a, mr_addr (Sc_Sdata_mr nd)
      + (if f = 1 then size_of_char b * n else 0), mem p) = (a', t, m)" by (metis prod_cases3)
  show thesis
    using that assms e
    by (auto simp: scale_reply_def dhmp_read_task_create_def ask_def Let_def post_or_exit_def
        less_imp_le [OF less_trans [OF unsigned_less]])
qed

lemma scale_sample_serve:
  assumes f: "f \<in> {0, 1}"
  obtains st w where
    "scalable_run ext_ok 0 2 (0, 0, Finished) (scale_arrived f) = (st, scale_served f)"
    "sq (scale_served f) = sq (scale_arrived f) @ [(1, w)]"
    "delivered (mem (scale_served f)) w (mem (deliver_last (scale_served f) scale_client))"
    "client (deliver_last (scale_served f) scale_client) = Some scale_client_rec"
proof (rule scale_sample_call [OF f])
  fix wk c0 u tk w
  assume a: "model_7_scalable ext_ok 0x58 0x800 2 0x900 f 1 scale_client = (Waiting wk, None, scale_called f)"
    "client (scale_called f) = Some c0"
    "last (work_list c0) = \<lparr>work_type = AMPER_WORK_scalable, work_ptr = 0x58,
       work_data = Scalable_work (scale_off f) (scale_len f) 2 2 f 1\<rparr>"
    "amper_scalable_work_handler ext_ok 0 0x58 (scale_off f) (scale_len f) 2 f 1 Start (scale_called f) = (Wait_task u tk, scale_sent f)"
    "sq (scale_sent f) = sq scale_client @ [(0, w)]" "wr_remote_addr w = 0x20000 + scale_off f"
    "delivered (mem (scale_sent f)) w (mem (scale_arrived f))"
    "server (scale_arrived f) = Some (set_node 0 scale_node_rec server0)"
  let ?b = "scale_body 2 (f = 1) [(0x50000, 0x600, mem_read (mem DaRPC_client) 0x600 2)]"
  have off: "(if f = 0 then of_nat 1 * 2 else 0) = scale_off f" by simp
  have "wr_payload (mem (scale_sent f)) w = ?b @ [2, 1, f, 1]"
    using scale_call_posts(6) [OF scale_sample_simps(1) _ _ refl _ _ a(1-5)] scale_sources_apart_1 [OF scale_sample_apart(1), of f "f = 1"]
    by (cases "f = 0") simp_all
  then have "mem_read (mem (scale_arrived f)) (0x20000 + scale_off f) (length (?b @ [2, 1, f, 1])) = ?b @ [2, 1, f, 1]"
    using a(6,7) by (simp only: delivered_def)
  moreover have "scale_off f = (if f = 1 then 0 else 2)" using f by auto
  ultimately have arr: "mem_read (mem (scale_arrived f)) (0x20000 + (if f = 1 then 0 else 2)) (length (?b @ [2, 1, f, 1]))
      = ?b @ [2, 1, f, 1]" by (simp only:)
  have "mr_addr (Sc_Sreq_mr (nodes (set_node 0 scale_node_rec server0) 0)) = 0x20000" by simp
  from scalable_run_dispatch [OF a(8) _ _ this [symmetric] arr] f
  obtain pc where r: "scale_reply ext_ok scale_node_rec 1 f 2 (0x20000 + (if f = 1 then 0 else 2))
      ((scale_arrived f)\<lparr>mem := store8 (mem (scale_arrived f)) (0x20000 + of_nat (24 + unat (2 :: u64)) + 3) 0\<rparr>) = (pc, scale_served f)"
    "fst (scalable_run ext_ok 0 2 (0, 0, Finished) (scale_arrived f)) = Some (2, f, pc)"
    by (cases "scalable_run ext_ok 0 2 (0, 0, Finished) (scale_arrived f)") fastforce
  have tk: "tick (scale_arrived f) = 0" by (simp add: deliver_last_def Let_def scale_server_def)
  obtain w' where w': "sq (scale_served f) = sq (scale_arrived f) @ [(1, w')]" "\<And>m. length (wr_payload m w') \<le> 2 ^ 64"
    by (rule scale_reply_sends [OF r(1), of 1]) (simp_all add: tk)
  note dv = deliver_last_ok [OF w'(1,2), of scale_client]
  show thesis
    using that [of "fst (scalable_run ext_ok 0 2 (0, 0, Finished) (scale_arrived f))" w'] w' dv by simp
qed





text \<open>The counter over a sequence of calls.\<close>

definition scale_counter :: "proc \<Rightarrow> byte option" where
  "scale_counter p = map_option scale_context_swith (client p)"

lemma scale_call_counter:
  assumes "model_7_scalable x wp ga n la f b p = (Waiting wk, smr, q)" "scale_counter p = Some v"
  shows "scale_counter q = Some (if v = Sca1e_Swith_Time then 0 else v)"
    and "\<exists>c off len. client q = Some c \<and> last (work_list c) = \<lparr>work_type = AMPER_WORK_scalable, work_ptr = wp,
          work_data = Scalable_work off len (if v = Sca1e_Swith_Time then 1 else 2) n f b\<rparr>"
  using assms
  by (auto simp: scale_counter_def model_7_scalable_def amper_scalable_def submit_def enqueue_def ask_def Let_def
      split: option.splits if_splits prod.splits)

lemma scale_end_counter: "scale_counter (model_7_scalable_end smr q) = map_option (\<lambda>v. v + 1) (scale_counter q)"
  by (cases "client q") (auto simp: scale_counter_def model_7_scalable_end_def Let_def split: option.splits)

text \<open>
  A context switch comes round every 100 calls.  If the counter starts at 0 and nothing but
  the calls touches it, the item that call number \<open>k\<close> queues is a context switch (type 1) exactly if
  \<open>k\<close> is a positive multiple of 100; every other call queues a direct request (type 2).
\<close>

lemma scale_switch_every_100:
  assumes "\<And>k. model_7_scalable (x k) (wp k) (ga k) (n k) (la k) (f k) (b k) (ps k) = (Waiting (wk k), smr k, q k)"
    and "\<And>k. scale_counter (q' k) = scale_counter (q k)"
    and "\<And>k. ps (Suc k) = model_7_scalable_end (smr k) (q' k)" "scale_counter (ps 0) = Some 0"
  shows "\<exists>c off len. client (q k) = Some c \<and> last (work_list c) = \<lparr>work_type = AMPER_WORK_scalable,
    work_ptr = wp k, work_data = Scalable_work off len (if 0 < k \<and> k mod 100 = 0 then 1 else 2) (n k) (f k) (b k)\<rparr>"
proof -
  define v :: "nat \<Rightarrow> nat" where "v k = (if k = 0 then 0 else (k - 1) mod 100 + 1)" for k
  have full: "(of_nat (v k) = (100 :: byte)) = (v k = 100)" for k
  proof -
    have "(k - 1) mod 100 < 100" by simp
    then have "v k < 256" unfolding v_def by (auto split: if_splits)
    then have "unat (of_nat (v k) :: byte) = v k" "unat (100 :: byte) = 100" by (simp_all add: unat_of_nat)
    then show ?thesis by (metis of_nat_numeral)
  qed
  have step: "v (Suc k) = (if v k = 100 then 0 else v k) + 1" for k
    using mod_Suc [of "k - 1" 100] by (cases k) (auto simp: v_def)
  have v: "scale_counter (ps k) = Some (of_nat (v k))" for k
  proof (induction k)
    case 0
    then show ?case using assms(4) by (simp add: v_def)
  next
    case (Suc k)
    have "scale_counter (ps (Suc k)) = Some ((if v k = 100 then 0 else of_nat (v k)) + 1)"
      using scale_call_counter(1) [OF assms(1) Suc] full assms(2,3) by (simp add: scale_end_counter)
    then show ?case using step [of k] by (cases "v k = 100") (simp_all add: add.commute)
  qed
  have "(v k = 100) = (0 < k \<and> k mod 100 = 0)"
    using mod_Suc [of "k - 1" 100] by (cases k) (auto simp: v_def)
  then show ?thesis using scale_call_counter(2) [OF assms(1) v, of k] full [of k] by simp
qed

text \<open>An endless run of the same call, in an environment in which every call succeeds.\<close>

abbreviation scale_call :: "proc \<Rightarrow> int call \<times> (addr \<times> ibv_mr) option \<times> proc" where
  "scale_call \<equiv> model_7_scalable (ext_ok\<lparr>ext_malloc := (\<lambda>_. 0x1000)\<rparr>) 0x58 0x800 2 0x900 1 1"

primrec scale_calls :: "nat \<Rightarrow> proc" where
  "scale_calls 0 = scale_client"
| "scale_calls (Suc k) = (let (r, smr, q) = scale_call (scale_calls k) in model_7_scalable_end smr q)"

lemma scale_call_waits:
  assumes "client p = Some c" "connect_trans c = Some 0" "trans p = (\<lambda>_. trans0)"
  obtains smr q d where "scale_call p = (Waiting 0x1000, smr, q)" "client q = Some d" "connect_trans d = Some 0"
    "trans q = (\<lambda>_. trans0)"
proof -
  obtain r smr q where e: "scale_call p = (r, smr, q)" by (metis prod_cases3)
  then have "r = Waiting 0x1000 \<and> trans q = (\<lambda>_. trans0) \<and> (\<exists>d. client q = Some d \<and> connect_trans d = Some 0)"
    using assms
    by (auto simp: model_7_scalable_def amper_scalable_def submit_def enqueue_def connected_trans_def list_add_tail_def
        dhmp_create_smr_per_ops_def ask_def Let_def split: prod.splits if_splits)
  then show thesis using that e by auto
qed

lemma scale_calls_ready:
  "\<exists>c. client (scale_calls k) = Some c \<and> connect_trans c = Some 0 \<and> trans (scale_calls k) = (\<lambda>_. trans0)"
proof (induction k)
  case (Suc k)
  then obtain c where "client (scale_calls k) = Some c" "connect_trans c = Some 0" "trans (scale_calls k) = (\<lambda>_. trans0)"
    by blast
  then obtain smr q d where "scale_call (scale_calls k) = (Waiting 0x1000, smr, q)" "client q = Some d"
    "connect_trans d = Some 0" "trans q = (\<lambda>_. trans0)" by (rule scale_call_waits)
  then show ?case by (simp add: model_7_scalable_end_def Let_def split: option.splits)
qed simp

lemma scale_switch_every_100_witness:
  "\<exists>c off len. client (snd (snd (scale_call (scale_calls 200)))) = Some c \<and> last (work_list c)
     = \<lparr>work_type = AMPER_WORK_scalable, work_ptr = 0x58, work_data = Scalable_work off len 1 2 1 1\<rparr>"
proof -
  let ?smr = "\<lambda>k. fst (snd (scale_call (scale_calls k)))" and ?q = "\<lambda>k. snd (snd (scale_call (scale_calls k)))"
  have c: "scale_call (scale_calls k) = (Waiting 0x1000, ?smr k, ?q k)" for k
  proof -
    obtain c where "client (scale_calls k) = Some c" "connect_trans c = Some 0" "trans (scale_calls k) = (\<lambda>_. trans0)"
      using scale_calls_ready by blast
    then obtain smr q d where "scale_call (scale_calls k) = (Waiting 0x1000, smr, q)" by (rule scale_call_waits)
    then show ?thesis by simp
  qed
  have "scale_calls (Suc k) = model_7_scalable_end (?smr k) (?q k)" for k
    by (simp add: case_prod_unfold Let_def)
  with scale_switch_every_100 [where x = "\<lambda>_. ext_ok\<lparr>ext_malloc := (\<lambda>_. 0x1000)\<rparr>" and wp = "\<lambda>_. 0x58"
      and ga = "\<lambda>_. 0x800" and n = "\<lambda>_. 2" and la = "\<lambda>_. 0x900" and f = "\<lambda>_. 1" and b = "\<lambda>_. 1"
      and wk = "\<lambda>_. 0x1000" and ps = scale_calls and smr = ?smr and q = ?q and q' = ?q and k = 200] c
  show ?thesis by (simp add: scale_counter_def del: scale_calls.simps(2))
qed

end
