(* ===== verification/RPC_Models.thy ===== *)
theory RPC_Models
  imports RPC_DaRPC
begin

text \<open>
  The calls of the earlier designs (models A to D): plain and two-phase messages (\<open>dhmp_send\<close>,
  \<open>dhmp_send2\<close>), writes with an immediate (\<open>dhmp_write_imm\<close> and its variants), the polled ring buffer
  (\<open>dhmp_write2\<close>) and the read the server performs (\<open>dhmp_Sread\<close>): their work handlers
  (\<open>dhmp_work.c\<close>), posting functions and request and response handlers (\<open>dhmp_transport.c\<close>), the
  poll threads (\<open>dhmp_server.c\<close>) and the \<open>model_*\<close> wrappers (\<open>dhmp_client.c\<close>).
\<close>

definition NUM_writeImm2 :: u32 where "NUM_writeImm2 = - 2"
definition NUM_writeImm3 :: u32 where "NUM_writeImm3 = - 3"

section \<open>Posting from the client's buffer\<close>

text \<open>
  The posting functions fill the client's buffer and post it; the wait that ends each of them is a
  step of the handler that called it.  They return -1 (here \<open>Finished\<close>) when there is no task, and no
  caller looks at that.
\<close>

definition post_per_ops ::
  "ext \<Rightarrow> nat \<Rightarrow> ibv_wr_opcode \<Rightarrow> u32 \<Rightarrow> ibv_mr \<Rightarrow> u64 \<Rightarrow> dhmp_client \<Rightarrow> proc \<Rightarrow> pc \<times> proc" where
  "post_per_ops x h opc imm r len c p =
     (case dhmp_write_task_create x (Some (per_ops_mr c)) (through_int len) p of
        (None, p) \<Rightarrow> (Finished, p)
      | (Some tk, p) \<Rightarrow>
          (Wait_task None (tk_ptr tk),
           post_or_exit x h ((rdma_wr opc (tk_ptr tk) (mr_addr r) (mr_rkey r) (tk_addr tk)
             (ucast (tk_length tk)) (tk_lkey tk))\<lparr>wr_imm_data := imm\<rparr>) p))"

definition dhmp_rdma_write2 :: "ext \<Rightarrow> nat \<Rightarrow> ibv_mr \<Rightarrow> addr \<Rightarrow> u64 \<Rightarrow> dhmp_client \<Rightarrow> proc \<Rightarrow> pc \<times> proc" where
  "dhmp_rdma_write2 x h r local_addr len c p =
     (let len = through_int len; p = p\<lparr>mem := memcpy (mem p) (per_ops_mr_addr c) local_addr len\<rparr>
      in case dhmp_write_task_create x (Some (per_ops_mr c)) len p of
           (None, p) \<Rightarrow> (Finished, p)
         | (Some tk, p) \<Rightarrow>
             (Wait_task None (tk_ptr tk),
              amper_post_write x h (tk_ptr tk) r (tk_addr tk) (ucast (tk_length tk)) (tk_lkey tk) False p))"

definition dhmp_post_writeImm ::
  "ext \<Rightarrow> nat \<Rightarrow> ibv_mr \<Rightarrow> addr \<Rightarrow> u64 \<Rightarrow> u32 \<Rightarrow> dhmp_client \<Rightarrow> proc \<Rightarrow> pc \<times> proc" where
  "dhmp_post_writeImm x h r local_addr len task_offset c p =
     post_per_ops x h IBV_WR_RDMA_WRITE_WITH_IMM task_offset r (through_int len) c
       (p\<lparr>mem := memcpy (mem p) (per_ops_mr_addr c) local_addr (through_int len)\<rparr>)"

definition dhmp_post_writeImm2 ::
  "ext \<Rightarrow> nat \<Rightarrow> dhmp_WriteImm2_request \<Rightarrow> ibv_mr \<Rightarrow> dhmp_client \<Rightarrow> proc \<Rightarrow> pc \<times> proc" where
  "dhmp_post_writeImm2 x h req r c p =
     post_per_ops x h IBV_WR_RDMA_WRITE_WITH_IMM NUM_writeImm2 r 40 c
       (p\<lparr>mem := mem_write (mem p) (per_ops_mr_addr c) (put_WriteImm2_request req)\<rparr>)"

definition dhmp_post_writeImm3 ::
  "ext \<Rightarrow> nat \<Rightarrow> dhmp_WriteImm3_request \<Rightarrow> ibv_mr \<Rightarrow> addr \<Rightarrow> dhmp_client \<Rightarrow> proc \<Rightarrow> pc \<times> proc" where
  "dhmp_post_writeImm3 x h req r local_addr c p =
     (let t = per_ops_mr_addr c; m = mem_write (mem p) t (put_WriteImm3_request req)
      in post_per_ops x h IBV_WR_RDMA_WRITE_WITH_IMM NUM_writeImm3 r (wi3_req_size req + 32) c
           (p\<lparr>mem := memcpy m (t + 32) local_addr (wi3_req_size req)\<rparr>))"

definition dhmp_post_write2 ::
  "ext \<Rightarrow> nat \<Rightarrow> dhmp_Write2_request \<Rightarrow> ibv_mr \<Rightarrow> addr \<Rightarrow> dhmp_client \<Rightarrow> proc \<Rightarrow> pc \<times> proc" where
  "dhmp_post_write2 x h req r local_addr c p =
     (let t = per_ops_mr_addr c; m = mem_write (mem p) t (put_Write2_request req)
      in post_per_ops x h IBV_WR_RDMA_WRITE 0 r (w2_req_size req + 32) c
           (p\<lparr>mem := memcpy m (t + 32) local_addr (w2_req_size req)\<rparr>))"

section \<open>The work handlers\<close>

text \<open>The end that most of them share: wait for the answer, then set \<open>done_flag\<close>.\<close>

definition wait_answer :: "addr \<Rightarrow> pc \<Rightarrow> proc \<Rightarrow> pc \<times> proc" where
  "wait_answer wp pc p = (if recv_flag p wp then (Finished, set_done wp p) else (pc, p))"

text \<open>A posting function that has returned, or failed, is followed by the wait for the answer.\<close>

definition then_answer :: "pc \<times> proc \<Rightarrow> pc \<times> proc" where
  "then_answer r = (case r of (Finished, p) \<Rightarrow> (Wait_recv, p) | _ \<Rightarrow> r)"

definition dhmp_write2_work_handler ::
  "ext \<Rightarrow> nat \<Rightarrow> addr \<Rightarrow> addr \<Rightarrow> addr \<Rightarrow> u64 \<Rightarrow> pc \<Rightarrow> proc \<Rightarrow> pc \<times> proc" where
  "dhmp_write2_work_handler x h wp dhmp_addr local_addr len pc p =
     (case pc of
        Start \<Rightarrow>
          (case client p of
             None \<Rightarrow> (Finished, raise Null_deref p)
           | Some c \<Rightarrow> then_answer (dhmp_post_write2 x h
               \<lparr>w2_is_new = 1, w2_req_size = len, w2_dhmp_addr = dhmp_addr, w2_task = wp\<rparr>
               (ringbuffer_mr c) local_addr c p))
      | Wait_task _ tk \<Rightarrow> if task_done p tk then (Wait_recv, p) else (pc, p)
      | Wait_recv \<Rightarrow> wait_answer wp pc p
      | _ \<Rightarrow> (pc, p))"

text \<open>The message is built in a block from \<open>malloc\<close> that is never freed.\<close>

definition dhmp_send_work_handler ::
  "ext \<Rightarrow> nat \<Rightarrow> addr \<Rightarrow> addr \<Rightarrow> addr \<Rightarrow> u64 \<Rightarrow> bool \<Rightarrow> pc \<Rightarrow> proc \<Rightarrow> pc \<times> proc" where
  "dhmp_send_work_handler x h wp dhmp_addr local_addr len is_write pc p =
     (case pc of
        Start \<Rightarrow>
          let req = \<lparr>sd_req_size = len, sd_dhmp_addr = dhmp_addr, sd_task = wp, sd_local_addr = local_addr,
                     sd_is_write = put_bool is_write\<rparr>;
              (payload, p) = build_batch x (put_Send_request req @ mem_read (mem p) local_addr (unat len)) (40 + len) p
          in (Wait_recv, snd (dhmp_post_send x h DHMP_MSG_SEND_REQUEST payload p))
      | Wait_recv \<Rightarrow> wait_answer wp pc p
      | _ \<Rightarrow> (pc, p))"

text \<open>
  The handlers that write to a known object first find its entry, wait for its \<open>write_flag\<close> and set
  it.  \<open>f\<close> is what they do with the entry's region.
\<close>

definition take_write_flag :: "addr \<Rightarrow> (ibv_mr \<Rightarrow> dhmp_client \<Rightarrow> proc \<Rightarrow> pc \<times> proc) \<Rightarrow> pc \<Rightarrow> proc \<Rightarrow> pc \<times> proc" where
  "take_write_flag e f pc p =
     (case (addr_infos p e, client p) of
        (Some i, Some c) \<Rightarrow>
          if write_flag i then (pc, p)
          else f (nvm_mr i) c (p\<lparr>addr_infos := (addr_infos p)(e \<mapsto> i\<lparr>write_flag := True, write_cnt := write_cnt i + 1\<rparr>)\<rparr>)
      | _ \<Rightarrow> (pc, raise Dangling p))"

definition send2_message :: "ext \<Rightarrow> nat \<Rightarrow> addr \<Rightarrow> addr \<Rightarrow> u64 \<Rightarrow> proc \<Rightarrow> proc" where
  "send2_message x h wp server_addr len p = snd (dhmp_post_send x h DHMP_MSG_SEND2_REQUEST
     (put_three_words \<lparr>tw_req_size = len, tw_addr = server_addr, tw_task = wp\<rparr>) p)"

definition dhmp_send2_work_handler ::
  "ext \<Rightarrow> nat \<Rightarrow> addr \<Rightarrow> addr \<Rightarrow> addr \<Rightarrow> addr \<Rightarrow> u64 \<Rightarrow> pc \<Rightarrow> proc \<Rightarrow> pc \<times> proc" where
  "dhmp_send2_work_handler x h wp server_addr dhmp_addr local_addr len pc p =
     (case pc of
        Start \<Rightarrow> rw_begin wp dhmp_addr p
      | Spin_flag e \<Rightarrow>
          (case take_write_flag e (\<lambda>r. dhmp_rdma_write2 x h r local_addr len) pc p of
             (Finished, p) \<Rightarrow> (Wait_recv, send2_message x h wp server_addr len p)
           | st \<Rightarrow> st)
      | Wait_task _ tk \<Rightarrow>
          if task_done p tk then (Wait_recv, send2_message x h wp server_addr len p) else (pc, p)
      | Wait_recv \<Rightarrow> wait_answer wp pc p
      | _ \<Rightarrow> (pc, p))"

text \<open>\<open>req_msg\<close> is on the stack; its other fields keep what was there (\<open>junk\<close>).\<close>

definition dhmp_ReqAddr1_work_handler ::
  "build \<Rightarrow> ext \<Rightarrow> dhmp_ReqAddr1_request \<Rightarrow> nat \<Rightarrow> addr \<Rightarrow> u64 \<Rightarrow> pc \<Rightarrow> proc \<Rightarrow> pc \<times> proc" where
  "dhmp_ReqAddr1_work_handler b x junk h wp len pc p =
     (case pc of
        Start \<Rightarrow> (Wait_recv, post_msg b x h DHMP_MSG_REQADDR1_REQUEST
                   (put_ReqAddr1_request (junk\<lparr>ra_req_size := len, ra_task := wp\<rparr>)) p)
      | Wait_recv \<Rightarrow> wait_answer wp pc p
      | _ \<Rightarrow> (pc, p))"

definition dhmp_WriteImm_work_handler ::
  "ext \<Rightarrow> nat \<Rightarrow> addr \<Rightarrow> addr \<Rightarrow> addr \<Rightarrow> u64 \<Rightarrow> u32 \<Rightarrow> pc \<Rightarrow> proc \<Rightarrow> pc \<times> proc" where
  "dhmp_WriteImm_work_handler x h wp dhmp_addr local_addr len task_offset pc p =
     (case pc of
        Start \<Rightarrow> rw_begin wp dhmp_addr p
      | Spin_flag e \<Rightarrow>
          out_if_failed wp (take_write_flag e (\<lambda>r. dhmp_post_writeImm x h r local_addr len task_offset) pc p)
      | Wait_task _ tk \<Rightarrow> if task_done p tk then (Finished, set_done wp p) else (pc, p)
      | _ \<Rightarrow> (pc, p))"

text \<open>Between its two posts this handler is in \<open>Wait_task\<close>, after the second in \<open>Wait_second\<close>.\<close>

definition writeImm2_message ::
  "ext \<Rightarrow> dhmp_WriteImm2_request \<Rightarrow> nat \<Rightarrow> addr \<Rightarrow> addr \<Rightarrow> u64 \<Rightarrow> proc \<Rightarrow> pc \<times> proc" where
  "writeImm2_message x junk h wp server_addr len p =
     (case client p of
        None \<Rightarrow> (Finished, raise Null_deref p)
      | Some c \<Rightarrow>
          (case dhmp_post_writeImm2 x h (junk\<lparr>wi2_msg_type := msg_code DHMP_MSG_WriteImm2_REQUEST,
                  wi2_req_size := len, wi2_server_addr := server_addr, wi2_task := wp\<rparr>) (ringbuffer_mr c) c p of
             (Wait_task _ tk, p) \<Rightarrow> (Wait_second tk, p)
           | (_, p) \<Rightarrow> (Wait_recv, p)))"

definition dhmp_WriteImm2_work_handler ::
  "ext \<Rightarrow> dhmp_WriteImm2_request \<Rightarrow> nat \<Rightarrow> addr \<Rightarrow> addr \<Rightarrow> addr \<Rightarrow> addr \<Rightarrow> u64 \<Rightarrow> pc \<Rightarrow> proc \<Rightarrow> pc \<times> proc" where
  "dhmp_WriteImm2_work_handler x junk h wp server_addr dhmp_addr local_addr len pc p =
     (case pc of
        Start \<Rightarrow> rw_begin wp dhmp_addr p
      | Spin_flag e \<Rightarrow>
          (case take_write_flag e (\<lambda>r. dhmp_rdma_write2 x h r local_addr len) pc p of
             (Finished, p) \<Rightarrow> writeImm2_message x junk h wp server_addr len p
           | st \<Rightarrow> st)
      | Wait_task _ tk \<Rightarrow> if task_done p tk then writeImm2_message x junk h wp server_addr len p else (pc, p)
      | Wait_second tk \<Rightarrow> if task_done p tk then (Wait_recv, p) else (pc, p)
      | Wait_recv \<Rightarrow> wait_answer wp pc p
      | _ \<Rightarrow> (pc, p))"

definition dhmp_WriteImm3_work_handler ::
  "ext \<Rightarrow> nat \<Rightarrow> addr \<Rightarrow> addr \<Rightarrow> addr \<Rightarrow> u64 \<Rightarrow> pc \<Rightarrow> proc \<Rightarrow> pc \<times> proc" where
  "dhmp_WriteImm3_work_handler x h wp dhmp_addr local_addr len pc p =
     (case pc of
        Start \<Rightarrow>
          (case client p of
             None \<Rightarrow> (Finished, raise Null_deref p)
           | Some c \<Rightarrow> then_answer (dhmp_post_writeImm3 x h
               \<lparr>wi3_msg_type = msg_code DHMP_MSG_WriteImm3_REQUEST, wi3_req_size = len, wi3_dhmp_addr = dhmp_addr,
                wi3_task = wp\<rparr> (ringbuffer_mr c) local_addr c p))
      | Wait_task _ tk \<Rightarrow> if task_done p tk then (Wait_recv, p) else (pc, p)
      | Wait_recv \<Rightarrow> wait_answer wp pc p
      | _ \<Rightarrow> (pc, p))"

text \<open>The entry is used without a check.\<close>

definition dhmp_sread_work_handler ::
  "ext \<Rightarrow> nat \<Rightarrow> addr \<Rightarrow> addr \<Rightarrow> addr \<Rightarrow> u64 \<Rightarrow> pc \<Rightarrow> proc \<Rightarrow> pc \<times> proc" where
  "dhmp_sread_work_handler x h wp dhmp_addr local_addr len pc p =
     (case pc of
        Start \<Rightarrow>
          (case find_info dhmp_addr p of
             (None, p) \<Rightarrow> (Finished, raise Null_deref p)
           | (Some e, p) \<Rightarrow>
               (case (client p, addr_infos p e) of
                  (Some c, Some i) \<Rightarrow>
                    (Wait_recv, snd (dhmp_post_send x h DHMP_MSG_Sread_REQUEST
                      (put_Sread_request \<lparr>sr_req_size = len, sr_task = wp, sr_client_mr = per_ops_mr c, sr_server_mr = nvm_mr i\<rparr>)
                      (p\<lparr>mem := memcpy (mem p) (per_ops_mr_addr c) local_addr len\<rparr>)))
                | _ \<Rightarrow> (Finished, raise Dangling p)))
      | Wait_recv \<Rightarrow> wait_answer wp pc p
      | _ \<Rightarrow> (pc, p))"

section \<open>The other side's handlers\<close>

text \<open>The responses to these messages carry the task; receiving one releases the work that waits.\<close>

definition dhmp_send_request_handler :: "ext \<Rightarrow> byte list \<Rightarrow> nat \<Rightarrow> addr \<Rightarrow> proc \<Rightarrow> proc" where
  "dhmp_send_request_handler x junk h data p =
     (let req = get_Send_request (mem_read (mem p) data 40)
      in if sd_is_write req = 1 then
           snd (dhmp_post_send x h DHMP_MSG_SEND_RESPONSE (put_Send_request req)
             (p\<lparr>mem := memcpy (mem p) (sd_dhmp_addr req) (data + 40) (sd_req_size req)\<rparr>))
         else snd (dhmp_post_send x h DHMP_MSG_SEND_RESPONSE junk p))"

definition dhmp_send_response_handler :: "addr \<Rightarrow> proc \<Rightarrow> proc" where
  "dhmp_send_response_handler data p =
     (let req = get_Send_request (mem_read (mem p) data 40)
      in set_recv (sd_task req)
           (if sd_is_write req = 0
            then p\<lparr>mem := memcpy (mem p) (sd_local_addr req) (data + 40) (sd_req_size req)\<rparr> else p))"

definition dhmp_send2_request_handler :: "ext \<Rightarrow> nat \<Rightarrow> addr \<Rightarrow> proc \<Rightarrow> proc" where
  "dhmp_send2_request_handler x h data p = snd (dhmp_post_send x h DHMP_MSG_SEND2_RESPONSE
     (put_three_words (get_three_words (mem_read (mem p) data 24))) p)"

definition dhmp_send2_response_handler :: "addr \<Rightarrow> proc \<Rightarrow> proc" where
  "dhmp_send2_response_handler data p = set_recv (tw_task (get_three_words (mem_read (mem p) data 24))) p"

text \<open>The answer has a field of its own, \<open>task_offset\<close>, that no one sets.\<close>

definition dhmp_ReqAddr1_request_handler :: "build \<Rightarrow> ext \<Rightarrow> u32 \<Rightarrow> nat \<Rightarrow> addr \<Rightarrow> proc \<Rightarrow> proc" where
  "dhmp_ReqAddr1_request_handler b x junk h data p = post_msg b x h DHMP_MSG_REQADDR1_RESPONSE
     (put_ReqAddr1_request (get_ReqAddr1_request (mem_read (mem p) data 32)) @ put32 junk @ pad 4) p"

definition dhmp_ReqAddr1_response_handler :: "addr \<Rightarrow> proc \<Rightarrow> proc" where
  "dhmp_ReqAddr1_response_handler data p =
     set_recv (ra_task (get_ReqAddr1_request (mem_read (mem p) data 32))) p"

text \<open>\<open>server->tasklist\<close> has 30 entries; the index comes from the immediate.\<close>

definition dhmp_WriteImm_request_handler :: "ext \<Rightarrow> u32 \<Rightarrow> proc \<Rightarrow> proc" where
  "dhmp_WriteImm_request_handler x task_offset p = with_server p (\<lambda>s.
     let index = sint task_offset; t = tasklist s index
     in if index < 0 \<or> 30 \<le> index then raise Out_of_bounds p
        else (case tl_rdma_trans t of
                None \<Rightarrow> raise Null_deref p
              | Some h \<Rightarrow> snd (dhmp_post_send x h DHMP_MSG_WriteImm_RESPONSE (put64 (tl_cmpflag t)) p)))"

definition dhmp_WriteImm_response_handler :: "addr \<Rightarrow> proc \<Rightarrow> proc" where
  "dhmp_WriteImm_response_handler data p = p\<lparr>mem := store8 (mem p) (load64 (mem p) data) 1\<rparr>"

text \<open>The handlers that find their request in the ring buffer; without one they read through NULL.\<close>

definition with_ring :: "proc \<Rightarrow> (dhmp_server \<Rightarrow> addr \<Rightarrow> proc) \<Rightarrow> proc" where
  "with_ring p f = with_server p (\<lambda>s.
     if ringbufferAddr s = 0 then raise Null_deref p else f s (ringbufferAddr s + cur_addr s))"

definition dhmp_WriteImm2_request_handler :: "ext \<Rightarrow> nat \<Rightarrow> proc \<Rightarrow> proc" where
  "dhmp_WriteImm2_request_handler x h p = with_ring p (\<lambda>s a.
     snd (dhmp_post_send x h DHMP_MSG_WriteImm2_RESPONSE
       (put_WriteImm2_request (get_WriteImm2_request (mem_read (mem p) a 40))) p))"

definition dhmp_WriteImm2_response_handler :: "addr \<Rightarrow> proc \<Rightarrow> proc" where
  "dhmp_WriteImm2_response_handler data p =
     set_recv (wi2_task (get_WriteImm2_request (mem_read (mem p) data 40))) p"

definition dhmp_WriteImm3_request_handler :: "ext \<Rightarrow> nat \<Rightarrow> proc \<Rightarrow> proc" where
  "dhmp_WriteImm3_request_handler x h p = with_ring p (\<lambda>s a.
     let req = get_WriteImm3_request (mem_read (mem p) a 32)
     in snd (dhmp_post_send x h DHMP_MSG_WriteImm3_RESPONSE (put_WriteImm3_request req)
          (p\<lparr>mem := memcpy (mem p) (wi3_dhmp_addr req) (a + 32) (wi3_req_size req)\<rparr>)))"

definition dhmp_WriteImm3_response_handler :: "addr \<Rightarrow> proc \<Rightarrow> proc" where
  "dhmp_WriteImm3_response_handler data p =
     set_recv (wi3_task (get_WriteImm3_request (mem_read (mem p) data 32))) p"

definition dhmp_Write2_request_handler :: "ext \<Rightarrow> proc \<Rightarrow> proc" where
  "dhmp_Write2_request_handler x p = with_ring p (\<lambda>s a.
     let req = get_Write2_request (mem_read (mem p) a 32)
     in snd (dhmp_post_send x (srv_rdma_trans s) DHMP_MSG_Write2_RESPONSE (put_Write2_request req)
          (p\<lparr>mem := memcpy (mem p) (w2_dhmp_addr req) (a + 32) (w2_req_size req)\<rparr>)))"

definition dhmp_Write2_response_handler :: "addr \<Rightarrow> proc \<Rightarrow> proc" where
  "dhmp_Write2_response_handler data p =
     set_recv (w2_task (get_Write2_request (mem_read (mem p) data 32))) p"

text \<open>One turn of \<open>model_B_write_run\<close>; it looks for the \<open>is_new\<close> flag of a request.\<close>

definition model_B_write_run :: "ext \<Rightarrow> proc \<Rightarrow> proc" where
  "model_B_write_run x p = with_server p (\<lambda>s.
     if ringbufferAddr s = 0 then p
     else if mem p (ringbufferAddr s) = 1 then
       let p = dhmp_Write2_request_handler x p in p\<lparr>mem := store8 (mem p) (ringbufferAddr s) 0\<rparr>
     else p)"

text \<open>
  The read from the client's buffer into the object, up to its wait; \<open>malloc\<close> is not checked.
  Without a posted read (\<open>Finished\<close>) the caller goes on.
\<close>

definition dhmp_Sread_read :: "ext \<Rightarrow> nat \<Rightarrow> ibv_mr \<Rightarrow> ibv_mr \<Rightarrow> u64 \<Rightarrow> proc \<Rightarrow> pc \<times> proc" where
  "dhmp_Sread_read x h rmr lmr len p =
     (let (tk, p) = ask (ext_malloc x) p
      in if tk = 0 then (Finished, raise Null_deref p)
         else
           let p = acquire (R_heap tk) (p\<lparr>task_done := (task_done p)(tk := False)\<rparr>);
               w = rdma_wr IBV_WR_RDMA_READ tk (mr_addr rmr) (mr_rkey rmr) (mr_addr lmr) (ucast (through_int len)) (mr_lkey lmr);
               (ok, p) = ask (\<lambda>t. ext_post x t w) p
           in if ok then (Wait_task None tk, p\<lparr>sq := sq p @ [(h, w)]\<rparr>) else (Finished, p))"

definition Sread_reply :: "ext \<Rightarrow> dhmp_Sread_request \<Rightarrow> proc \<Rightarrow> proc" where
  "Sread_reply x req p = with_server p (\<lambda>s.
     snd (dhmp_post_send x (srv_rdma_trans s) DHMP_MSG_Sread_RESPONSE (put_Sread_request req) p))"

text \<open>\<open>response\<close> is on the handler's stack during the wait: the request read at the start.\<close>

definition dhmp_Sread_server ::
  "ext \<Rightarrow> dhmp_Sread_request \<times> pc \<Rightarrow> proc \<Rightarrow> (dhmp_Sread_request \<times> pc) \<times> proc" where
  "dhmp_Sread_server x st p =
     (case (server p, st) of
        (None, _) \<Rightarrow> (st, raise Null_deref p)
      | (Some s, _, Start) \<Rightarrow>
          if ringbufferAddr s = 0 then (st, raise Null_deref p)
          else
            let req = get_Sread_request (mem_read (mem p) (ringbufferAddr s + cur_addr s) 112)
            in (case dhmp_Sread_read x (srv_rdma_trans s) (sr_client_mr req) (sr_server_mr req) (sr_req_size req) p of
                  (Wait_task u tk, p) \<Rightarrow> ((req, Wait_task u tk), p)
                | (_, p) \<Rightarrow> ((req, Finished), Sread_reply x req p))
      | (Some s, req, Wait_task _ tk) \<Rightarrow>
          if task_done p tk then ((req, Finished), Sread_reply x req (release (R_heap tk) p)) else (st, p)
      | _ \<Rightarrow> (st, p))"

text \<open>One turn of \<open>model_C_Sread_run\<close>: idle (\<open>Finished\<close>), or inside \<open>dhmp_Sread_server\<close>.\<close>

definition model_C_Sread_run ::
  "ext \<Rightarrow> dhmp_Sread_request \<times> pc \<Rightarrow> proc \<Rightarrow> (dhmp_Sread_request \<times> pc) \<times> proc" where
  "model_C_Sread_run x st p =
     (let clear = (\<lambda>p. p\<lparr>server := map_option (\<lambda>s. s\<lparr>model_C_new_msg := False\<rparr>) (server p)\<rparr>);
          run = (\<lambda>st p. case dhmp_Sread_server x st p of
                          ((req, Finished), p) \<Rightarrow> ((req, Finished), clear p)
                        | r \<Rightarrow> r)
      in case (server p, st) of
           (None, _) \<Rightarrow> (st, raise Null_deref p)
         | (Some s, req, Finished) \<Rightarrow> if model_C_new_msg s then run (req, Start) p else (st, p)
         | _ \<Rightarrow> run st p)"

definition dhmp_Sread_request_handler :: "nat \<Rightarrow> addr \<Rightarrow> proc \<Rightarrow> proc" where
  "dhmp_Sread_request_handler h data p = with_server p (\<lambda>s.
     if ringbufferAddr s = 0 then raise Null_deref p
     else p\<lparr>mem := memcpy (mem p) (ringbufferAddr s) data 112,
            server := Some (s\<lparr>srv_rdma_trans := h, model_C_new_msg := True\<rparr>)\<rparr>)"

definition dhmp_Sread_response_handler :: "addr \<Rightarrow> proc \<Rightarrow> proc" where
  "dhmp_Sread_response_handler data p =
     set_recv (sr_task (get_Sread_request (mem_read (mem p) data 112))) p"

section \<open>The wrappers\<close>

text \<open>The bodies of \<open>model_A_write\<close>, \<open>model_A_writeImm\<close>, \<open>model_D_writeImm\<close> and \<open>model_3_herd\<close> are commented out.\<close>

definition model_B_write :: "ext \<Rightarrow> addr \<Rightarrow> addr \<Rightarrow> u64 \<Rightarrow> addr \<Rightarrow> proc \<Rightarrow> int call \<times> proc" where
  "model_B_write x wp globle_addr len local_addr = dhmp_write2 x wp globle_addr local_addr len"

definition model_B_writeImm :: "ext \<Rightarrow> addr \<Rightarrow> addr \<Rightarrow> u64 \<Rightarrow> addr \<Rightarrow> proc \<Rightarrow> int call \<times> proc" where
  "model_B_writeImm x wp globle_addr len local_addr = dhmp_write_imm3 x wp globle_addr local_addr len"

definition model_B_send :: "ext \<Rightarrow> addr \<Rightarrow> addr \<Rightarrow> u64 \<Rightarrow> addr \<Rightarrow> proc \<Rightarrow> int call \<times> proc" where
  "model_B_send x wp globle_addr len local_addr = dhmp_send x wp globle_addr local_addr len True"

definition model_C_sread :: "ext \<Rightarrow> addr \<Rightarrow> addr \<Rightarrow> u64 \<Rightarrow> addr \<Rightarrow> proc \<Rightarrow> int call \<times> proc" where
  "model_C_sread x wp globle_addr len local_addr = dhmp_Sread x wp globle_addr local_addr len"

definition model_D_write :: "ext \<Rightarrow> addr \<Rightarrow> addr \<Rightarrow> u64 \<Rightarrow> addr \<Rightarrow> proc \<Rightarrow> int call \<times> proc" where
  "model_D_write x wp server_addr len local_addr = dhmp_write x wp server_addr local_addr len"

definition model_D_send :: "ext \<Rightarrow> addr \<Rightarrow> addr \<Rightarrow> u64 \<Rightarrow> addr \<Rightarrow> proc \<Rightarrow> int call \<times> proc" where
  "model_D_send x wp server_addr len local_addr = dhmp_send2 x wp server_addr server_addr local_addr len"

definition model_4_RFP :: "ext \<Rightarrow> addr \<Rightarrow> u64 \<Rightarrow> addr \<Rightarrow> addr \<Rightarrow> byte \<Rightarrow> proc \<Rightarrow> int call \<times> proc" where
  "model_4_RFP x wp len local_addr globle_addr flag_write =
     amper_RFP x wp local_addr globle_addr len (flag_write = 1)"

text \<open>\<open>model_1_clover\<close>: its write, and what it does when that has returned; \<open>point\<close> is \<open>&point_addr[offset]\<close>.\<close>

definition model_1_clover :: "ext \<Rightarrow> addr \<Rightarrow> addr \<Rightarrow> u64 \<Rightarrow> addr \<Rightarrow> proc \<Rightarrow> int call \<times> proc" where
  "model_1_clover x wp space_addr len local_addr = dhmp_write x wp space_addr local_addr len"

definition model_1_clover_next :: "ext \<Rightarrow> addr \<Rightarrow> addr \<Rightarrow> addr \<Rightarrow> proc \<Rightarrow> int call \<times> proc" where
  "model_1_clover_next x wp space_addr point p =
     (if load64 (mem p) point \<noteq> 0 then amper_clover_compare_and_set x wp (load64 (mem p) point) 8 1 p
      else (Returned 0, p\<lparr>mem := store64 (mem p) point space_addr\<rparr>))"

text \<open>\<open>model_1_clover_R\<close>: the block that is read into stays allocated; \<open>len + 8\<close> bytes are asked for.\<close>

definition model_1_clover_R :: "ext \<Rightarrow> addr \<Rightarrow> u64 \<Rightarrow> addr \<Rightarrow> proc \<Rightarrow> int call \<times> proc" where
  "model_1_clover_R x wp len dhmp_addr p =
     (let (temp, p) = ask (ext_malloc x) p;
          p = (if temp = 0 then p else acquire (R_heap temp) p)
      in if dhmp_addr \<noteq> 0 then dhmp_read x wp dhmp_addr temp len p else (Returned 0, p))"

section \<open>Properties\<close>

lemma build_batch_ok:
  assumes "ext_malloc x (tick p) \<noteq> 0" "length bs = unat sz" "unat sz \<le> 2 ^ 64"
  obtains q where "build_batch x bs sz p = (bs, q)" "sq q = sq p" "trans q = trans p"
  using assms by (simp add: build_batch_def ask_def mem_read_write_same)

lemma send_work_sent:
  assumes "ext_malloc x (tick p) \<noteq> 0" "52 + unat n < 2 ^ 32"
    and "dhmp_send_work_handler x h wp da la n iw Start p = (pc, p1)" "sq p1 = sq p @ [(h, w)]"
  shows "wr_payload (mem p1) w = frame DHMP_MSG_SEND_REQUEST (put_Send_request
      \<lparr>sd_req_size = n, sd_dhmp_addr = da, sd_task = wp, sd_local_addr = la, sd_is_write = put_bool iw\<rparr>
      @ mem_read (mem p) la (unat n))"
proof -
  let ?bs = "put_Send_request \<lparr>sd_req_size = n, sd_dhmp_addr = da, sd_task = wp, sd_local_addr = la, sd_is_write = put_bool iw\<rparr>
      @ mem_read (mem p) la (unat n)"
  have l: "unat (40 + n) = 40 + unat n" using assms(2) by (simp add: unat_word_ariths)
  have "length ?bs = unat (40 + n)" "unat (40 + n) \<le> 2 ^ 64" using l assms(2) by simp_all
  with assms(1) obtain q where q: "build_batch x ?bs (40 + n) p = (?bs, q)" "sq q = sq p" by (rule build_batch_ok)
  have "p1 = snd (dhmp_post_send x h DHMP_MSG_SEND_REQUEST ?bs q)"
    using assms(3) q(1) by (simp add: dhmp_send_work_handler_def)
  then show ?thesis using post_send_payload [of p1 x h _ ?bs q w] assms(2,4) q(2) by simp
qed

text \<open>
  C25: a write by message takes effect and is answered: once the worker's message has been received,
  its handler leaves the client's bytes in the object, and once the answer has been received, its
  handler sets the flag the worker waits for, so that the worker's next step ends the call.
\<close>

lemma send_write_end_to_end:
  assumes "ext_malloc x (tick p) \<noteq> 0" "52 + unat n < 2 ^ 32"
    and "dhmp_send_work_handler x h wp da la n True Start p = (pc, p1)" "sq p1 = sq p @ [(h, w)]"
    and "mem_read (mem ps) cxt (length (wr_payload (mem p1) w)) = wr_payload (mem p1) w"
    and "ps1 = dhmp_send_request_handler y junk g (msg_data (recv_msg (mem ps) cxt)) ps" "sq ps1 = sq ps @ [(g, w')]"
    and "ring_ok (trans ps g)" "disj (dmr_addr (send_mr (trans ps g))) (2 ^ 29) da (unat n)"
    and "mem_read (mem q) cxt' (length (wr_payload (mem ps1) w')) = wr_payload (mem ps1) w'"
    and "q1 = dhmp_send_response_handler (msg_data (recv_msg (mem q) cxt')) q"
  shows "msg_type (recv_msg (mem ps) cxt) = Some DHMP_MSG_SEND_REQUEST
    \<and> mem_read (mem ps1) da (unat n) = mem_read (mem p) la (unat n)
    \<and> msg_type (recv_msg (mem q) cxt') = Some DHMP_MSG_SEND_RESPONSE
    \<and> dhmp_send_work_handler x h wp da la n True Wait_recv q1 = (Finished, set_done wp q1)"
proof -
  let ?r = "\<lparr>sd_req_size = n, sd_dhmp_addr = da, sd_task = wp, sd_local_addr = la, sd_is_write = put_bool True\<rparr>"
  let ?d = "mem_read (mem p) la (unat n)" and ?a = "cxt + 12"
  have s: "wr_payload (mem p1) w = frame DHMP_MSG_SEND_REQUEST (put_Send_request ?r @ ?d)"
    by (rule send_work_sent [OF assms(1-4)])
  have arr: "recv_msg (mem ps) cxt = \<lparr>msg_type = Some DHMP_MSG_SEND_REQUEST, data_size = of_nat (40 + unat n), msg_data = ?a\<rparr>"
    "mem_read (mem ps) ?a (40 + unat n) = put_Send_request ?r @ ?d"
    using recv_msg_frame [of "mem ps" cxt DHMP_MSG_SEND_REQUEST "put_Send_request ?r @ ?d"] assms(2,5) s by simp_all
  have rd: "mem_read (mem ps) (?a + of_nat k) l = take l (drop k (put_Send_request ?r @ ?d))" if "k + l \<le> 40 + unat n" for k l
    using arr(2) that by (intro mem_read_sub) simp_all
  have req: "get_Send_request (mem_read (mem ps) ?a 40) = ?r" "mem_read (mem ps) (?a + 40) (unat n) = ?d"
    using rd [of 0 40] rd [of 40 "unat n"] by simp_all
  let ?q = "ps\<lparr>mem := mem_write (mem ps) da ?d\<rparr>"
  have ps1: "ps1 = snd (dhmp_post_send y g DHMP_MSG_SEND_RESPONSE (put_Send_request ?r) ?q)"
    using assms(6) arr(1) req by (simp add: dhmp_send_request_handler_def Let_def memcpy_def put_bool_def)
  have "mem_read (mem ps1) da (unat n) = mem_read (mem ?q) da (unat n)"
    unfolding ps1 using assms(8,9) by (intro post_send_outside) simp_all
  also have "\<dots> = ?d" using unat_u64_less [of n] by (simp add: mem_read_write_same)
  finally have obj: "mem_read (mem ps1) da (unat n) = ?d" .
  have "wr_payload (mem ps1) w' = frame DHMP_MSG_SEND_RESPONSE (put_Send_request ?r)"
    using post_send_payload [OF ps1] assms(7) by simp
  then have res: "recv_msg (mem q) cxt' = \<lparr>msg_type = Some DHMP_MSG_SEND_RESPONSE, data_size = 40, msg_data = cxt' + 12\<rparr>"
    "mem_read (mem q) (cxt' + 12) 40 = put_Send_request ?r"
    using recv_msg_frame [of "mem q" cxt' DHMP_MSG_SEND_RESPONSE "put_Send_request ?r"] assms(10) by simp_all
  then have "recv_flag q1 wp" using assms(11) by (simp add: dhmp_send_response_handler_def)
  then show ?thesis using arr(1) obj res(1) by (simp add: dhmp_send_work_handler_def wait_answer_def)
qed

lemma post_send_sends:
  assumes "trans_state (trans p h) = DHMP_TRANSPORT_STATE_CONNECTED" "ext_malloc x (tick p) \<noteq> 0" "\<And>t w. ext_post x t w"
  shows "\<exists>w. sq (snd (dhmp_post_send x h ty bs p)) = sq p @ [(h, w)]"
  using assms by (simp add: dhmp_post_send_def dhmp_send_task_create_def ask_def Let_def with_client_def split: option.splits)

lemma send_request_answers:
  assumes "trans_state (trans p h) = DHMP_TRANSPORT_STATE_CONNECTED" "ext_malloc x (tick p) \<noteq> 0" "\<And>t w. ext_post x t w"
  shows "\<exists>w. sq (dhmp_send_request_handler x junk h data p) = sq p @ [(h, w)]"
proof -
  have "\<exists>w. sq (snd (dhmp_post_send x h ty bs (p\<lparr>mem := m\<rparr>))) = sq p @ [(h, w)]" for ty bs m
    using post_send_sends [of "p\<lparr>mem := m\<rparr>" h x ty bs] assms by simp
  moreover have "\<exists>w. sq (snd (dhmp_post_send x h ty bs p)) = sq p @ [(h, w)]" for ty bs
    using post_send_sends [of p h x ty bs] assms by simp
  ultimately show ?thesis by (simp add: dhmp_send_request_handler_def Let_def)
qed

lemma send_request_length:
  assumes "sq (dhmp_send_request_handler x junk h data p) = sq p @ [(g, w)]"
  shows "length (wr_payload m w) \<le> 2 ^ 64"
  using assms post_send_length [where xs = "sq p"] unfolding dhmp_send_request_handler_def Let_def
  by (auto split: if_splits)

abbreviation send_sent :: proc where
  "send_sent \<equiv> snd (dhmp_send_work_handler ext_ok 0 0x58 0x50000 0x600 2 True Start DaRPC_client)"

lemma send_write_end_to_end_witness:
  "let ps = received send_sent server_proc;
       ps1 = dhmp_send_request_handler ext_ok [] 0 (msg_data (recv_msg (mem ps) 0x40000000)) ps
   in mem_read (mem ps1) 0x50000 2 = mem_read (mem DaRPC_client) 0x600 2"
proof -
  let ?ps = "received send_sent server_proc"
  let ?ps1 = "dhmp_send_request_handler ext_ok [] 0 (msg_data (recv_msg (mem ?ps) 0x40000000)) ?ps"
  let ?q = "received ?ps1 DaRPC_client"
  obtain pc w where st: "dhmp_send_work_handler ext_ok 0 0x58 0x50000 0x600 2 True Start DaRPC_client = (pc, send_sent)"
    "sq send_sent = sq DaRPC_client @ [(0, w)]"
    by (simp add: dhmp_send_work_handler_def build_batch_def dhmp_post_send_def dhmp_send_task_create_def
        ask_def Let_def case_prod_unfold)
  have pl: "length (wr_payload (mem send_sent) w) \<le> 2 ^ 64" by (simp add: send_work_sent [OF _ _ st])
  obtain w' where sd: "sq ?ps1 = sq ?ps @ [(0, w')]"
    using send_request_answers [of ?ps 0 ext_ok] by auto
  have pl': "length (wr_payload (mem ?ps1) w') \<le> 2 ^ 64"
    by (rule send_request_length [OF sd])
  have lay: "ring_ok trans0" "disj (dmr_addr (send_mr trans0)) (2 ^ 29) 0x50000 2"
    by (simp_all add: ring_ok_def trans0_def disj_def)
  note r = received_ok [OF st(2) pl, of server_proc] received_ok [OF sd pl', of DaRPC_client]
  show ?thesis
    using send_write_end_to_end [OF _ _ st r(1) refl sd _ _ r(2) refl] lay by (simp add: Let_def)
qed

text \<open>
  Without a ring buffer the calls that rest on it never work.  \<open>dhmp_server_init\<close> leaves
  \<open>ringbufferAddr\<close> NULL and nothing assigns it: the poll thread of \<open>dhmp_write2\<close> passes over every
  request, and the first message of \<open>dhmp_Sread\<close> or immediate of the WriteImm variants is an access through NULL.
\<close>

lemma ring_models_without_ring:
  assumes "server p = Some s" "ringbufferAddr s = 0" "fault p = None"
  shows "model_B_write_run x p = p
    \<and> fault (dhmp_Sread_request_handler h data p) = Some Null_deref
    \<and> fault (dhmp_WriteImm2_request_handler x h p) = Some Null_deref
    \<and> fault (dhmp_WriteImm3_request_handler x h p) = Some Null_deref"
  using assms by (simp add: model_B_write_run_def dhmp_Sread_request_handler_def dhmp_WriteImm2_request_handler_def
      dhmp_WriteImm3_request_handler_def with_ring_def)

lemma ring_models_without_ring_witness:
  "model_B_write_run ext_ok server_proc = server_proc
    \<and> fault (dhmp_Sread_request_handler 0 0x500 server_proc) = Some Null_deref"
  using ring_models_without_ring [of server_proc server0 ext_ok 0 "0x500"] by (simp add: server0_def)

end
