(* ===== verification/Dispatch.thy ===== *)
theory Dispatch
  imports L5_System RPC_RFP RPC_FaRM RPC_Octopus RPC_Tailwind RPC_Scale RPC_Models
begin

text \<open>
  The two threads that run the handlers of the other theories: the client's worker
  (\<open>dhmp_work_handle_thread\<close>, \<open>dhmp_work.c\<close>), which takes one item after the other off the work list,
  and the thread that handles completions (\<open>dhmp_wc_success_handler\<close>, \<open>dhmp_wc_recv_handler\<close> and
  \<open>dhmp_comp_channel_handler\<close>, \<open>dhmp_transport.c\<close>).  There is one of each per process, and a handler
  that spins keeps its thread.
\<close>

section \<open>The worker\<close>

text \<open>What the handlers' requests on the stack hold before they are filled in.\<close>

record stack_junk =
  junk_mc :: dhmp_mc_request
  junk_free :: dhmp_free_request
  junk_ReqAddr1 :: dhmp_ReqAddr1_request
  junk_WriteImm2 :: dhmp_WriteImm2_request
  junk_mc_response :: dhmp_mc_response
  junk_bytes :: "byte list"
  junk_u32 :: u32

text \<open>
  The \<open>switch\<close> of the worker, for the item \<open>w\<close> whose handler is at \<open>pc\<close>.  No call queues
  a \<open>dhmp_writeImm2_work\<close>, so that \<open>DHMP_WORK_WRITEIMM2\<close> has no data to go with it.
\<close>

definition run_work :: "build \<Rightarrow> ext \<Rightarrow> stack_junk \<Rightarrow> nat \<Rightarrow> dhmp_work \<Rightarrow> pc \<Rightarrow> proc \<Rightarrow> pc \<times> proc" where
  "run_work b x j h w pc p =
     (let wp = work_ptr w in case work_data w of
        Malloc_work ai len sp \<Rightarrow>
          if work_type w = DHMP_WORK_MALLOC then dhmp_malloc_work_handler b x (junk_mc j) h wp ai len sp pc p else (Finished, p)
      | Free_work a \<Rightarrow>
          if work_type w = DHMP_WORK_FREE then dhmp_free_work_handler b x (junk_free j) h wp a pc p else (Finished, p)
      | Rw_work a la len \<Rightarrow>
          if work_type w = DHMP_WORK_READ then dhmp_read_work_handler x h wp a la len pc p
          else if work_type w = DHMP_WORK_WRITE then dhmp_write_work_handler x h wp a la len pc p else (Finished, p)
      | Close_work \<Rightarrow> if work_type w = DHMP_WORK_CLOSE then dhmp_close_work_handler x h wp pc p else (Finished, p)
      | Clover_work a len v \<Rightarrow>
          if work_type w = AMPER_WORK_CLOVER then amper_clover_work_handler x h wp a len v pc p else (Finished, p)
      | L5_work la len f a cur \<Rightarrow>
          if work_type w = AMPER_WORK_L5 then amper_L5_work_handler x h wp la len f a pc p
          else if work_type w = DHMP_WORK_Octopus then (Finished, dhmp_Octopus_work_handler x h wp la len f a p)
          else if work_type w = AMPER_WORK_Herd then (Finished, amper_herd_work_handler p)
          else if work_type w = AMPER_WORK_pRDMA_WS then (Finished, amper_pRDMA_WS_work_handler p)
          else (Finished, p)
      | Tailwind_work off hm hs la len \<Rightarrow>
          if work_type w = AMPER_WORK_Tailwind then amper_Tailwind_work_handler x h wp off hm hs la len pc p
          else if work_type w = AMPER_WORK_Tailwind_RPC then amper_Tailwind_RPC_work_handler x h wp off hm hs la len pc p
          else (Finished, p)
      | DaRPC_work ga len la f batch cur \<Rightarrow>
          if work_type w = AMPER_WORK_DaRPC then amper_DaRPC_work_handler b x h wp ga len la f batch pc p
          else if work_type w = AMPER_WORK_FaRM then amper_FaRM_work_handler b x h wp ga len la f batch cur pc p
          else (Finished, p)
      | Scalable_work off len wt sz f batch \<Rightarrow>
          if work_type w = AMPER_WORK_scalable then amper_scalable_work_handler x h wp off len sz f batch pc p else (Finished, p)
      | RFP_work la len iw a \<Rightarrow>
          if work_type w = AMPER_WORK_RFP then amper_RFP_work_handler x h wp la len iw a pc p else (Finished, p)
      | Rw2_work a la len \<Rightarrow>
          if work_type w = DHMP_WORK_WRITE2 then dhmp_write2_work_handler x h wp a la len pc p else (Finished, p)
      | Send_work a la len iw \<Rightarrow>
          if work_type w = DHMP_WORK_SEND then dhmp_send_work_handler x h wp a la len iw pc p else (Finished, p)
      | Send2_work sa a la len \<Rightarrow>
          if work_type w = DHMP_WORK_SEND2 then dhmp_send2_work_handler x h wp sa a la len pc p else (Finished, p)
      | ReqAddr_work \<Rightarrow>
          if work_type w = DHMP_WORK_REQADDR1
          then dhmp_ReqAddr1_work_handler b x (junk_ReqAddr1 j) h wp (ra_req_size (junk_ReqAddr1 j)) pc p else (Finished, p)
      | WriteImm_work a la len off \<Rightarrow>
          if work_type w = DHMP_WORK_WRITEIMM then dhmp_WriteImm_work_handler x h wp a la len off pc p else (Finished, p)
      | WriteImm3_work a la len \<Rightarrow>
          if work_type w = DHMP_WORK_WRITEIMM3 then dhmp_WriteImm3_work_handler x h wp a la len pc p else (Finished, p)
      | Sread_work a la len \<Rightarrow>
          if work_type w = DHMP_WORK_SREAD then dhmp_sread_work_handler x h wp a la len pc p else (Finished, p)
      | UD_work ga len la f batch \<Rightarrow>
          if work_type w = AMPER_WORK_UD then amper_FaSST_work_handler x wp ga len la f batch pc p else (Finished, p))"

text \<open>One turn of the worker: take an item, or let its handler go on.\<close>

definition dhmp_work_handle_thread ::
  "build \<Rightarrow> ext \<Rightarrow> stack_junk \<Rightarrow> (dhmp_work \<times> pc) option \<Rightarrow> proc \<Rightarrow> (dhmp_work \<times> pc) option \<times> proc" where
  "dhmp_work_handle_thread b x j st p =
     (case (client p, st) of
        (None, _) \<Rightarrow> (st, raise Null_deref p)
      | (Some c, None) \<Rightarrow>
          (case take_work c of
             (None, _) \<Rightarrow> (None, p)
           | (Some w, c) \<Rightarrow> (Some (w, Start), p\<lparr>client := Some c\<rparr>))
      | (Some c, Some (w, pc)) \<Rightarrow>
          (case connect_trans c of
             None \<Rightarrow> (st, raise Null_deref p)
           | Some h \<Rightarrow>
               let (pc, p) = run_work b x j h w pc p
               in (if pc = Finished then None else Some (w, pc), p)))"

section \<open>Completions\<close>

text \<open>
  A completion, with the fields of its task that the handlers read: the buffer, the transport and
  the table entry (set for writes only).
\<close>

record wc =
  wc_opcode :: ibv_wc_opcode
  wc_imm_data :: u32
  wc_task :: addr
  wc_task_addr :: addr
  wc_trans :: nat
  wc_addr_info :: "addr option"

definition dhmp_wc_opcode_str :: "ibv_wc_opcode \<Rightarrow> string" where
  "dhmp_wc_opcode_str opcode =
     (case opcode of
        IBV_WC_SEND \<Rightarrow> ''IBV_WC_SEND''
      | IBV_WC_RDMA_WRITE \<Rightarrow> ''IBV_WC_RDMA_WRITE''
      | IBV_WC_RDMA_READ \<Rightarrow> ''IBV_WC_RDMA_READ''
      | IBV_WC_COMP_SWAP \<Rightarrow> ''IBV_WC_COMP_SWAP''
      | IBV_WC_FETCH_ADD \<Rightarrow> ''IBV_WC_FETCH_ADD''
      | IBV_WC_BIND_MW \<Rightarrow> ''IBV_WC_BIND_MW''
      | IBV_WC_RECV \<Rightarrow> ''IBV_WC_RECV''
      | IBV_WC_RECV_RDMA_WITH_IMM \<Rightarrow> ''IBV_WC_RECV_RDMA_WITH_IMM''
      | IBV_WC_OTHER \<Rightarrow> ''IBV_WC_UNKNOWN'')"

text \<open>\<open>rdma_disconnect\<close> changes nothing here: its effect arrives as an event (theory \<open>Conn\<close>).\<close>

definition dhmp_wc_recv_handler :: "build \<Rightarrow> ext \<Rightarrow> stack_junk \<Rightarrow> nat \<Rightarrow> dhmp_msg \<Rightarrow> proc \<Rightarrow> proc" where
  "dhmp_wc_recv_handler b x j h msg p =
     (let d = msg_data msg in case msg_type msg of
        None \<Rightarrow> p
      | Some ty \<Rightarrow>
     (case ty of
        DHMP_MSG_MALLOC_REQUEST \<Rightarrow> dhmp_malloc_request_handler b x (junk_mc_response j) h d p
      | DHMP_MSG_MALLOC_RESPONSE \<Rightarrow> dhmp_malloc_response_handler b d p
      | DHMP_MSG_MALLOC_ERROR \<Rightarrow> dhmp_malloc_error_handler d p
      | DHMP_MSG_FREE_REQUEST \<Rightarrow> dhmp_free_request_handler b x h d p
      | DHMP_MSG_FREE_RESPONSE \<Rightarrow> dhmp_free_response_handler d p
      | DHMP_MSG_CLOSE_CONNECTION \<Rightarrow> p
      | DHMP_MSG_SEND_REQUEST \<Rightarrow> dhmp_send_request_handler x (junk_bytes j) h d p
      | DHMP_MSG_SEND_RESPONSE \<Rightarrow> dhmp_send_response_handler d p
      | DHMP_MSG_SEND2_REQUEST \<Rightarrow> dhmp_send2_request_handler x h d p
      | DHMP_MSG_SEND2_RESPONSE \<Rightarrow> dhmp_send2_response_handler d p
      | DHMP_MSG_REQADDR1_REQUEST \<Rightarrow> dhmp_ReqAddr1_request_handler b x (junk_u32 j) h d p
      | DHMP_MSG_REQADDR1_RESPONSE \<Rightarrow> dhmp_ReqAddr1_response_handler d p
      | DHMP_MSG_WriteImm_RESPONSE \<Rightarrow> dhmp_WriteImm_response_handler d p
      | DHMP_MSG_WriteImm2_RESPONSE \<Rightarrow> dhmp_WriteImm2_response_handler d p
      | DHMP_MSG_WriteImm3_RESPONSE \<Rightarrow> dhmp_WriteImm3_response_handler d p
      | DHMP_MSG_Write2_RESPONSE \<Rightarrow> dhmp_Write2_response_handler d p
      | DHMP_MSG_Sread_REQUEST \<Rightarrow> dhmp_Sread_request_handler h d p
      | DHMP_MSG_Sread_RESPONSE \<Rightarrow> dhmp_Sread_response_handler d p
      | DHMP_MSG_Tailwind_RPC_requeset \<Rightarrow> amper_tailwindRPC_request_handler x h d p
      | DHMP_MSG_Tailwind_RPC_response \<Rightarrow> amper_tailwindRPC_response_handler d p
      | DHMP_MSG_DaRPC_requeset \<Rightarrow> amper_DaRPC_request_handler b x h d p
      | DHMP_MSG_DaRPC_response \<Rightarrow> amper_DaRPC_response_handler b d p
      | DHMP_MSG_UD_REQUEST \<Rightarrow> amper_UD_request_handler x h d p
      | DHMP_MSG_UD_RESPONSE \<Rightarrow> amper_UD_response_handler d p
      | DHMP_MSG_herd_RESPONSE \<Rightarrow> amper_herd_response_handler b d p
      | DHMP_MSG_pRDMA_WS_RESPONSE \<Rightarrow> p
      | _ \<Rightarrow> p))"

text \<open>
  \<open>amper_create_reply_ah\<close>, in a UD build: the first message that a server gets on a transport tells where to
  answer.  (\<open>ntohl\<close> is \<open>htonl\<close>.)
\<close>

definition amper_create_reply_ah :: "ext \<Rightarrow> nat \<Rightarrow> u32 \<Rightarrow> proc \<Rightarrow> proc" where
  "amper_create_reply_ah x h imm p =
     (if server p = None \<or> tr_ah (trans p h) \<noteq> None then p
      else if device (trans p h) = None \<or> cm_id (trans p h) = None then raise Null_deref p
      else
        let (a, p) = ask (ext_obj x) p; (_, p) = ask (ext_rc x) p
        in p\<lparr>trans := (trans p)(h := (trans p h)\<lparr>tr_ah := a, tr_qp_num := htonl imm, tr_qkey := ext_qkey x h,
              trans_state := DHMP_TRANSPORT_STATE_CONNECTED\<rparr>)\<rparr>)"

lemma create_reply_ah_frames [simp]:
  "server p = None \<Longrightarrow> amper_create_reply_ah x h imm p = p"
  "task_done (amper_create_reply_ah x h imm p) = task_done p"
  "client (amper_create_reply_ah x h imm p) = client p"
  "server (amper_create_reply_ah x h imm p) = server p"
  by (simp_all add: amper_create_reply_ah_def ask_def raise_def Let_def)

definition task_finished :: "addr \<Rightarrow> proc \<Rightarrow> proc" where
  "task_finished tk p = p\<lparr>task_done := (task_done p)(tk := True)\<rparr>"

text \<open>
  The handler of one completion.  Of all handlers it calls, only \<open>dhmp_octo_request_handler\<close> waits;
  \<open>pc\<close> is where that one is.  A receive with immediate falls through to the case of a send.  In a UD
  build every buffer starts with a 40-byte header.
\<close>

definition dhmp_wc_success_handler ::
  "build \<Rightarrow> ext \<Rightarrow> stack_junk \<Rightarrow> wc \<Rightarrow> pc \<Rightarrow> proc \<Rightarrow> pc \<times> proc" where
  "dhmp_wc_success_handler b x j wc pc p =
     (let h = wc_trans wc; tk = wc_task wc; imm = wc_imm_data wc;
          cxt = wc_task_addr wc + (if UD b then sizeof_grh else 0);
          recv_again = (\<lambda>p. task_finished tk (dhmp_post_recv x h (wc_task_addr wc) p))
      in case wc_opcode wc of
           IBV_WC_RECV_RDMA_WITH_IMM \<Rightarrow>
             if imm = NUM_writeImm3 then (Finished, recv_again (dhmp_WriteImm3_request_handler x h p))
             else if imm = NUM_writeImm2 then (Finished, recv_again (dhmp_WriteImm2_request_handler x h p))
             else if imm = NUM_octo_req then
               (case dhmp_octo_request_handler x h pc p of
                  (Finished, p) \<Rightarrow> (Finished, recv_again p)
                | r \<Rightarrow> r)
             else if imm = NUM_octo_res then (Finished, recv_again (dhmp_octo_response_handler p))
             else (Finished, recv_again (dhmp_WriteImm_request_handler x imm p))
         | IBV_WC_SEND \<Rightarrow> (Finished, task_finished tk p)
         | IBV_WC_RECV \<Rightarrow>
             (Finished, dhmp_post_recv x h (wc_task_addr wc)
                (let p = (if UD b then amper_create_reply_ah x h imm p else p)
                 in dhmp_wc_recv_handler b x j h (recv_msg (mem p) cxt) p))
         | IBV_WC_RDMA_WRITE \<Rightarrow>
             let p = (if Spwrite b then
                        (case wc_addr_info wc of None \<Rightarrow> p | Some e \<Rightarrow> update_info e (\<lambda>i. i\<lparr>write_flag := False\<rparr>) p)
                      else p)
             in (Finished, task_finished tk p)
         | IBV_WC_RDMA_READ \<Rightarrow> (Finished, task_finished tk p)
         | IBV_WC_COMP_SWAP \<Rightarrow> (Finished, task_finished tk p)
         | _ \<Rightarrow> (Finished, p))"

text \<open>
  One turn of the completion thread: \<open>ws\<close> are the completions the adapter has queued (\<open>None\<close> for one
  with an error status, which is only logged), \<open>st\<close> the one being handled.
\<close>

definition dhmp_comp_channel_handler ::
  "build \<Rightarrow> ext \<Rightarrow> stack_junk \<Rightarrow> wc option list \<times> (wc \<times> pc) option \<Rightarrow> proc
     \<Rightarrow> (wc option list \<times> (wc \<times> pc) option) \<times> proc" where
  "dhmp_comp_channel_handler b x j st p =
     (case st of
        ([], None) \<Rightarrow> (st, p)
      | (None # ws, None) \<Rightarrow> ((ws, None), p)
      | (Some w # ws, None) \<Rightarrow> ((ws, Some (w, Start)), p)
      | (ws, Some (w, pc)) \<Rightarrow>
          let (pc, p) = dhmp_wc_success_handler b x j w pc p
          in ((ws, if pc = Finished then None else Some (w, pc)), p))"

section \<open>What the threads of a server keep\<close>

text \<open>
  The polling threads of a server, one turn each; where a thread is in its handler and its counters
  are arbitrary, which allows more than can happen.
\<close>

inductive server_thread :: "build \<Rightarrow> ext \<Rightarrow> proc \<Rightarrow> proc \<Rightarrow> bool" for b x p where
  L5_poll: "server_thread b x p (snd (L5_run_poll i p))"
| L5_request: "server_thread b x p (snd (amper_L5_request_handler x i pc p))"
| RFP: "server_thread b x p (snd (RFP_run_turn i p))"
| FaRM: "server_thread b x p (snd (FaRM_run b x i sz st p))"
| herd: "server_thread b x p (snd (herd_run b x i sz k p))"
| scalable: "server_thread b x p (snd (scalable_run x i sz st3 p))"
| model_B: "server_thread b x p (model_B_write_run x p)"
| model_C: "server_thread b x p (snd (model_C_Sread_run x st2 p))"

text \<open>No task is completed, and the server's state stays there.\<close>

definition completes_none :: "proc \<Rightarrow> proc \<Rightarrow> bool" where
  "completes_none p q \<longleftrightarrow> (\<forall>tk. task_done q tk \<longrightarrow> task_done p tk) \<and> (server q = None \<longleftrightarrow> server p = None)"

lemma completes_none_refl [simp]: "completes_none p p"
  by (simp add: completes_none_def)

lemma completes_none_trans: "completes_none p q \<Longrightarrow> completes_none q r \<Longrightarrow> completes_none p r"
  by (simp add: completes_none_def)

lemma task_done_frames [simp]:
  "task_done (snd (dhmp_read_task_create x r n p)) =
     (if ext_malloc x (tick p) = 0 then task_done p else (task_done p)(ext_malloc x (tick p) := False))"
  "task_done (snd (dhmp_send_task_create x h ty d p)) = task_done p"
  by (auto simp: dhmp_read_task_create_def dhmp_send_task_create_def ask_def Let_def split: option.split)

lemma post_send_frames [simp]:
  "task_done (snd (dhmp_post_send x h ty d p)) = task_done p" "server (snd (dhmp_post_send x h ty d p)) = server p"
  by (simp_all add: dhmp_post_send_def with_client_def case_prod_unfold Let_def split: option.split)

lemma upd_node_quiet [simp]:
  "task_done (upd_node i f p) = task_done p"
  "(\<exists>s. server (upd_node i f p) = Some s) \<longleftrightarrow> (\<exists>s. server p = Some s)"
  by (auto simp: upd_node_def with_node_def with_server_def split: option.split)

lemma L5_quiet:
  "completes_none p (snd (L5_run_poll i p))" "completes_none p (snd (amper_L5_request_handler x i pc p))"
  subgoal by (simp add: completes_none_def L5_run_poll_def split: option.split)
  subgoal by (cases pc; cases "server p"; simp add: completes_none_def amper_L5_request_handler_def
      amper_post_write_def case_prod_unfold Let_def split: option.split)
  done

lemma RFP_quiet: "completes_none p (snd (RFP_run_turn i p))"
  by (cases "server p"; simp add: completes_none_def RFP_run_turn_def amper_RFP_request_handler_def case_prod_unfold Let_def)

lemma FaRM_quiet: "completes_none p (snd (FaRM_run b x i sz st p))"
  by (cases "snd st"; cases "server p"; simp add: completes_none_def FaRM_run_def case_prod_unfold Let_def split: option.split)

lemma herd_quiet: "completes_none p (snd (herd_run b x i sz k p))"
  by (cases "server p"; simp add: completes_none_def herd_run_def ask_def case_prod_unfold Let_def)

lemma scale_request_quiet: "completes_none p (snd (amper_scalable_request_handler x i bt ty f sz pc p))"
  by (cases pc; cases "server p"; simp add: completes_none_def amper_scalable_request_handler_def scale_reply_def
      amper_post_read_def case_prod_unfold Let_def split: option.split)

lemma scale_quiet: "completes_none p (snd (scalable_run x i sz st p))"
proof -
  have m: "completes_none p (snd (amper_scalable_request_handler x i bt ty f sz pc (p\<lparr>mem := m\<rparr>)))" for bt ty f pc m
    using completes_none_trans [OF _ scale_request_quiet, of p "p\<lparr>mem := m\<rparr>"] by (simp add: completes_none_def)
  obtain ty f pc where [simp]: "st = (ty, f, pc)" using prod_cases3 by blast
  show ?thesis
    by (cases pc; cases "server p"; simp add: scalable_run_def scale_request_quiet m case_prod_unfold Let_def;
        simp add: completes_none_def)
qed

lemma model_B_quiet: "completes_none p (model_B_write_run x p)"
  by (simp add: completes_none_def model_B_write_run_def dhmp_Write2_request_handler_def with_ring_def
      with_server_def Let_def split: option.split)

lemma model_C_quiet: "completes_none p (snd (model_C_Sread_run x st p))"
proof -
  have r: "completes_none p (snd (dhmp_Sread_server x st p))" for st
    by (cases "snd st"; cases "server p"; simp add: completes_none_def dhmp_Sread_server_def dhmp_Sread_read_def
        Sread_reply_def with_server_def ask_def case_prod_unfold Let_def split: pc.split)
  show ?thesis
    using r [of st] r [of "(fst st, Start)"]
    by (cases "snd st"; cases "server p"; simp add: completes_none_def model_C_Sread_run_def case_prod_unfold Let_def split: pc.split)
qed

lemma server_thread_completes_none: "server_thread b x p q \<Longrightarrow> completes_none p q"
  by (induction rule: server_thread.induct)
    (rule L5_quiet RFP_quiet FaRM_quiet herd_quiet scale_quiet model_B_quiet model_C_quiet)+

section \<open>The completion thread\<close>

text \<open>
  The thread among the others: a completion arrives, with whatever the remote side has written to
  memory; the completion thread takes a turn; a polling thread takes a turn.
\<close>

type_synonym completions = "wc option list \<times> (wc \<times> pc) option"

inductive comp_step :: "build \<Rightarrow> ext \<Rightarrow> stack_junk \<Rightarrow> completions \<times> proc \<Rightarrow> completions \<times> proc \<Rightarrow> bool"
  for b x j where
  arrive: "comp_step b x j ((ws, st), p) ((ws @ [w], st), p\<lparr>mem := m\<rparr>)"
| handle: "dhmp_comp_channel_handler b x j c p = r \<Longrightarrow> comp_step b x j (c, p) r"
| poll: "server_thread b x p q \<Longrightarrow> comp_step b x j (c, p) (c, q)"

lemma handler_turn:
  "dhmp_comp_channel_handler b x j ([], None) p = (([], None), p)"
  "dhmp_comp_channel_handler b x j (None # ws, None) p = ((ws, None), p)"
  "dhmp_comp_channel_handler b x j (Some w # ws, None) p = ((ws, Some (w, Start)), p)"
  "dhmp_comp_channel_handler b x j (vs, Some (w, pc)) p = (let (pc, p) = dhmp_wc_success_handler b x j w pc p
     in ((vs, if pc = Finished then None else Some (w, pc)), p))"
  by (simp_all add: dhmp_comp_channel_handler_def) (cases vs; auto split: option.split)

definition octo_request :: "wc \<Rightarrow> bool" where
  "octo_request w \<longleftrightarrow> wc_opcode w = IBV_WC_RECV_RDMA_WITH_IMM \<and> wc_imm_data w = NUM_octo_req"

lemma octo_request_handled:
  assumes "octo_request w"
  shows "dhmp_wc_success_handler b x j w pc p = (case dhmp_octo_request_handler x (wc_trans w) pc p of
    (Finished, p) \<Rightarrow> (Finished, task_finished (wc_task w) (dhmp_post_recv x (wc_trans w) (wc_task_addr w) p)) | r \<Rightarrow> r)"
  using assms by (simp add: dhmp_wc_success_handler_def octo_request_def NUM_octo_req_def NUM_writeImm2_def NUM_writeImm3_def Let_def)

lemma other_completion_finishes:
  "\<not> octo_request w \<Longrightarrow> fst (dhmp_wc_success_handler b x j w pc p) = Finished"
  by (auto simp: dhmp_wc_success_handler_def octo_request_def Let_def split: ibv_wc_opcode.split)

text \<open>The state of the thread that spins in the handler.\<close>

definition spinning :: "wc \<Rightarrow> wc option list \<Rightarrow> addr \<Rightarrow> completions \<Rightarrow> proc \<Rightarrow> bool" where
  "spinning w ws tk c p \<longleftrightarrow> (\<exists>ws'. c = (ws @ ws', Some (w, Wait_task None tk))) \<and> \<not> task_done p tk \<and> server p \<noteq> None"

lemma octo_starts_spinning:
  assumes "server p = Some s" "node_ok (node_id (trans p (wc_trans w)))" "octo_request w" "ext_malloc x (tick p) \<noteq> 0"
  shows "\<exists>tk q. dhmp_comp_channel_handler b x j (ws, Some (w, Start)) p = ((ws, Some (w, Wait_task None tk)), q)
    \<and> spinning w ws tk (ws, Some (w, Wait_task None tk)) q"
  using assms
  by (simp add: handler_turn octo_request_handled dhmp_octo_request_handler_def spinning_def
      dhmp_read_task_create_def ask_def case_prod_unfold Let_def)

lemma spinning_turn:
  assumes "octo_request w" "spinning w ws tk c p"
  shows "dhmp_comp_channel_handler b x j c p = (c, p)"
  using assms
  by (auto simp: spinning_def handler_turn octo_request_handled dhmp_octo_request_handler_def Let_def)

lemma spinning_step:
  assumes "octo_request w" "comp_step b x j r r'" "spinning w ws tk (fst r) (snd r)"
  shows "spinning w ws tk (fst r') (snd r')"
  using assms(2,3)
proof cases
  case (handle c p)
  then show ?thesis using spinning_turn [OF assms(1), of ws tk c p b x j] assms(3) by auto
next
  case (poll p q c)
  then show ?thesis
    using server_thread_completes_none assms(3) unfolding spinning_def completes_none_def by auto
qed (use assms(3) in \<open>auto simp: spinning_def\<close>)

lemma spinning_forever:
  assumes "octo_request w" "(comp_step b x j)\<^sup>*\<^sup>* r r'" "spinning w ws tk (fst r) (snd r)"
  shows "spinning w ws tk (fst r') (snd r')"
  using assms(2,3) by (induction rule: rtranclp_induct) (use spinning_step [OF assms(1)] in blast)+

text \<open>
  C7: an Octopus request stops the server's completion thread for good.  The handler of the request
  runs in that thread and spins until its answer is marked complete, and only that thread marks
  tasks complete: whatever arrives and whatever the polling threads do afterwards, the thread is
  still in the handler, its task is not done, and no later completion has been taken off the queue.
\<close>

lemma octo_server_deadlock:
  assumes "server p = Some s" "node_ok (node_id (trans p (wc_trans w)))" "octo_request w" "ext_malloc x (tick p) \<noteq> 0"
    and "(comp_step b x j)\<^sup>*\<^sup>* (dhmp_comp_channel_handler b x j (ws, Some (w, Start)) p) (c, q)"
  shows "\<exists>tk ws'. c = (ws @ ws', Some (w, Wait_task None tk)) \<and> \<not> task_done q tk"
proof -
  obtain tk r where "dhmp_comp_channel_handler b x j (ws, Some (w, Start)) p = ((ws, Some (w, Wait_task None tk)), r)"
    and "spinning w ws tk (ws, Some (w, Wait_task None tk)) r"
    using octo_starts_spinning [OF assms(1-4)] by blast
  then have "spinning w ws tk c q"
    using spinning_forever [OF assms(3,5)] by simp
  then show ?thesis unfolding spinning_def by blast
qed

definition octo_wc :: wc where
  "octo_wc = \<lparr>wc_opcode = IBV_WC_RECV_RDMA_WITH_IMM, wc_imm_data = NUM_octo_req, wc_task = 0x90, wc_task_addr = 0x40000000,
     wc_trans = 0, wc_addr_info = None\<rparr>"

definition send_wc :: wc where
  "send_wc = octo_wc\<lparr>wc_opcode := IBV_WC_SEND, wc_imm_data := 0\<rparr>"

lemma sample_wc [simp]:
  "octo_request octo_wc" "wc_trans octo_wc = 0" "\<not> octo_request send_wc"
  by (simp_all add: octo_wc_def send_wc_def octo_request_def)

definition junk0 :: stack_junk where
  "junk0 = (let mc = \<lparr>mcq_req_size = 0, mcq_addr_info = 0, mcq_is_special = 0, mcq_mr = zero_mr, mcq_mr2 = zero_mr, mcq_task = 0\<rparr>
     in \<lparr>junk_mc = mc, junk_free = \<lparr>fq_addr_info = 0, fq_mr = zero_mr, fq_dhmp_addr = 0\<rparr>,
         junk_ReqAddr1 = \<lparr>ra_req_size = 0, ra_dhmp_addr = 0, ra_task = 0, ra_cmpflag = 0\<rparr>,
         junk_WriteImm2 = \<lparr>wi2_msg_type = 0, wi2_req_size = 0, wi2_server_addr = 0, wi2_client_addr = 0, wi2_task = 0\<rparr>,
         junk_mc_response = \<lparr>mcr_req_info = mc, mcr_mr = zero_mr, mcr_mr2 = zero_mr, mcr_read_mr = zero_mr,
           mcr_server_addr = 0, mcr_server_addr2 = 0\<rparr>,
         junk_bytes = [], junk_u32 = 0\<rparr>)"

text \<open>The thread takes the request, a send completes, and two turns later it has still not been handled.\<close>

lemma octo_server_deadlock_witness:
  "\<exists>tk q. (comp_step (default_build 1) ext_ok junk0)\<^sup>*\<^sup>* (([Some octo_wc], None), octo_server)
     (([Some send_wc], Some (octo_wc, Wait_task None tk)), q) \<and> \<not> task_done q tk"
proof -
  let ?step = "comp_step (default_build 1) ext_ok junk0"
  let ?h = "dhmp_comp_channel_handler (default_build 1) ext_ok junk0"
  define r where "r = ?h ([], Some (octo_wc, Start)) octo_server"
  obtain c q where r: "r = (c, q)" by (cases r)
  then obtain tk where c: "c = ([], Some (octo_wc, Wait_task None tk))"
    using octo_starts_spinning [of octo_server _ octo_wc ext_ok "default_build 1" junk0 "[]"] by (auto simp: r_def)
  have 1: "?step (([Some octo_wc], None), octo_server) (([], Some (octo_wc, Start)), octo_server)"
    by (rule comp_step.handle) (simp add: handler_turn)
  have 2: "?step (([], Some (octo_wc, Start)), octo_server) (c, q)"
    by (rule comp_step.handle) (simp add: r_def r [symmetric])
  have 3: "?step (c, q) (([Some send_wc], Some (octo_wc, Wait_task None tk)), q)"
    using comp_step.arrive [of "default_build 1" ext_ok junk0 "[]" "Some (octo_wc, Wait_task None tk)" q "Some send_wc" "mem q"] c
    by simp
  have "?step\<^sup>*\<^sup>* (?h ([], Some (octo_wc, Start)) octo_server) (([Some send_wc], Some (octo_wc, Wait_task None tk)), q)"
    using 3 r by (simp add: r_def r_into_rtranclp)
  from octo_server_deadlock [OF _ _ _ _ this] have "\<not> task_done q tk" by auto
  then show ?thesis using 1 2 3 by (meson converse_rtranclp_into_rtranclp r_into_rtranclp)
qed

text \<open>Alone, the thread handles any other queue to its end.\<close>

definition comp_turns :: "build \<Rightarrow> ext \<Rightarrow> stack_junk \<Rightarrow> nat \<Rightarrow> completions \<times> proc \<Rightarrow> completions \<times> proc" where
  "comp_turns b x j n = (\<lambda>(c, p). dhmp_comp_channel_handler b x j c p) ^^ n"

lemma comp_turns_simps [simp]:
  "comp_turns b x j 0 r = r"
  "comp_turns b x j (Suc n) (c, p) = comp_turns b x j n (dhmp_comp_channel_handler b x j c p)"
  by (simp_all add: comp_turns_def funpow_swap1)



end
