(* ===== verification/Client_System.thy ===== *)
theory Client_System
  imports Dispatch
begin

text \<open>
  A client process as a whole: the application's calls, the worker and the completion thread,
  interleaved.  Two properties hold over all its runs: what the items on the work list look like,
  and that a write flag, once set, stays set and stops the worker at the next access.
\<close>

section \<open>What the completion thread leaves alone\<close>

definition work_of :: "proc \<Rightarrow> dhmp_work list option" where
  "work_of p = map_option work_list (client p)"

definition flagged :: "addr \<Rightarrow> proc \<Rightarrow> bool" where
  "flagged e p \<longleftrightarrow> (\<exists>i. addr_infos p e = Some i \<and> write_flag i)"

lemma work_of_simps [simp]:
  "work_of (raise f p) = work_of p" "work_of (acquire r p) = work_of p" "work_of (release r p) = work_of p"
  "work_of (p\<lparr>mem := m\<rparr>) = work_of p" "work_of (p\<lparr>server := s\<rparr>) = work_of p" "work_of (p\<lparr>trans := t\<rparr>) = work_of p"
  "work_of (p\<lparr>tick := n\<rparr>) = work_of p" "work_of (p\<lparr>sq := q\<rparr>) = work_of p" "work_of (p\<lparr>rq := r'\<rparr>) = work_of p"
  "work_of (p\<lparr>task_done := d\<rparr>) = work_of p" "work_of (p\<lparr>addr_infos := a\<rparr>) = work_of p"
  "work_of (p\<lparr>res_addr := g\<rparr>) = work_of p" "work_of (p\<lparr>held := l\<rparr>) = work_of p"
  "work_of (p\<lparr>done_flag := fl\<rparr>) = work_of p" "work_of (p\<lparr>recv_flag := fl\<rparr>) = work_of p"
  "work_of (set_done wp p) = work_of p" "work_of (set_recv wp p) = work_of p"
  "work_of (p\<lparr>client := Some c\<rparr>) = Some (work_list c)"
  by (simp_all add: work_of_def set_done_def set_recv_def)

lemma work_of_client: "client p = Some c \<Longrightarrow> work_of p = Some (work_list c)"
  by (simp add: work_of_def)

lemma work_of_with_client [simp]:
  "(\<And>c. client p = Some c \<Longrightarrow> work_of (f c) = work_of p) \<Longrightarrow> work_of (with_client p f) = work_of p"
  by (simp add: with_client_def split: option.split)

lemma work_of_cong: "client p = client q \<Longrightarrow> work_of p = work_of q"
  by (simp add: work_of_def)

lemma client_frames [simp]:
  "client (post_or_exit x h w p) = client p" "client (post_unchecked x h w p) = client p"
  by (auto simp: post_or_exit_def post_unchecked_def ask_def)

lemma post_frames_work [simp]:
  "work_of (snd (dhmp_post_send x h ty d p)) = work_of p" "addr_infos (snd (dhmp_post_send x h ty d p)) = addr_infos p"
  "client (amper_ud_post_send x h ty d p) = client p" "addr_infos (amper_ud_post_send x h ty d p) = addr_infos p"
  "work_of (post_msg b x h ty d p) = work_of p" "addr_infos (post_msg b x h ty d p) = addr_infos p"
  "client (dhmp_post_recv x h a p) = client p" "addr_infos (dhmp_post_recv x h a p) = addr_infos p"
  subgoal by (simp add: dhmp_post_send_def with_client_def case_prod_unfold Let_def work_of_def split: option.split)
  subgoal by (simp add: dhmp_post_send_def with_client_def case_prod_unfold Let_def split: option.split)
  subgoal by (simp add: amper_ud_post_send_def case_prod_unfold split: option.split)
  subgoal by (simp add: amper_ud_post_send_def case_prod_unfold split: option.split)
  subgoal by (simp add: post_msg_def amper_ud_post_send_def dhmp_post_send_def with_client_def case_prod_unfold Let_def work_of_def split: option.split)
  subgoal by (simp add: post_msg_def amper_ud_post_send_def dhmp_post_send_def with_client_def case_prod_unfold Let_def split: option.split)
  subgoal by (simp add: dhmp_post_recv_def dhmp_recv_task_create_def ask_def case_prod_unfold Let_def split: option.split)
  subgoal by (simp add: dhmp_post_recv_def dhmp_recv_task_create_def ask_def case_prod_unfold Let_def split: option.split)
  done

text \<open>The server's memory handlers.\<close>

lemma nvm_frames [simp]:
  "client (snd (nvm_malloc x n p)) = client p" "addr_infos (snd (nvm_malloc x n p)) = addr_infos p"
  "client (nvm_free a n p) = client p" "addr_infos (nvm_free a n p) = addr_infos p"
  "client (snd (dhmp_create_smr_per_ops x a n p)) = client p" "addr_infos (snd (dhmp_create_smr_per_ops x a n p)) = addr_infos p"
  "client (upd_node i f p) = client p" "addr_infos (upd_node i f p) = addr_infos p"
  by (simp_all add: nvm_malloc_def nvm_free_def dhmp_create_smr_per_ops_def ask_def upd_node_def with_node_def with_server_def
      case_prod_unfold Let_def split: option.split)

lemma region_frames [simp]:
  "client (snd (snd (new_region x n p))) = client p" "addr_infos (snd (snd (new_region x n p))) = addr_infos p"
  "client (new_node_region x n i f p) = client p" "addr_infos (new_node_region x n i f p) = addr_infos p"
  "client (snd (dhmp_area_create x n i p)) = client p" "addr_infos (snd (dhmp_area_create x n i p)) = addr_infos p"
  "client (snd (dhmp_malloc_poll_area x n p)) = client p" "addr_infos (snd (dhmp_malloc_poll_area x n p)) = addr_infos p"
  by (simp_all add: new_node_region_def new_region_def dhmp_area_create_def dhmp_malloc_poll_area_def ask_def
      with_node_def with_server_def case_prod_unfold Let_def split: option.split)

lemma allocspace_frames [simp]:
  "client (amper_allocspace_for_server b x h k n p) = client p"
  "addr_infos (amper_allocspace_for_server b x h k n p) = addr_infos p"
proof -
  have f: "client (amper_allocspace_for_server b x h k n p) = client p
      \<and> addr_infos (amper_allocspace_for_server b x h k n p) = addr_infos p" if "k \<in> {3, 4, 5, 6, 7, 8, 9, 10}" for k
    using that
    by (elim insertE emptyE; hypsubst)
      (simp_all add: amper_allocspace_for_server_def ask_def with_node_def with_server_def case_prod_unfold Let_def
        split: option.split)
  have "client (amper_allocspace_for_server b x h k n p) = client p
      \<and> addr_infos (amper_allocspace_for_server b x h k n p) = addr_infos p" if "k \<notin> {3, 4, 5, 6, 7, 8, 9, 10}"
    using that by (simp add: amper_allocspace_for_server_def ask_def case_prod_unfold Let_def)
  with f show "client (amper_allocspace_for_server b x h k n p) = client p"
    "addr_infos (amper_allocspace_for_server b x h k n p) = addr_infos p" by blast+
qed

lemma malloc_branch_frames [simp]:
  "client (snd (snd (malloc_branch b x h r p))) = client p"
  "addr_infos (snd (snd (malloc_branch b x h r p))) = addr_infos p"
proof -
  let ?k = "mcq_is_special (mcr_req_info r)"
  have f: "client (snd (snd (malloc_branch b x h r p))) = client p
      \<and> addr_infos (snd (snd (malloc_branch b x h r p))) = addr_infos p" if "?k = k" "k \<in> {1, 2, 3, 4, 5, 6, 7, 8, 9, 10}" for k
    using that(2,1)
    by (elim insertE emptyE; hypsubst)
      (simp_all add: malloc_branch_def with_server_def case_prod_unfold Let_def split: option.split)
  have "client (snd (snd (malloc_branch b x h r p))) = client p
      \<and> addr_infos (snd (snd (malloc_branch b x h r p))) = addr_infos p" if "?k \<notin> {1, 2, 3, 4, 5, 6, 7, 8, 9, 10}"
    using that by (simp add: malloc_branch_def dhmp_malloc_area_def case_prod_unfold Let_def split: option.split)
  with f show "client (snd (snd (malloc_branch b x h r p))) = client p"
    "addr_infos (snd (snd (malloc_branch b x h r p))) = addr_infos p" by blast+
qed

text \<open>No handler of a completion adds to the work list or takes from it, and none clears a write flag.\<close>

definition keeps :: "proc \<Rightarrow> proc \<Rightarrow> bool" where
  "keeps p q \<longleftrightarrow> work_of q = work_of p \<and> (\<forall>e. flagged e p \<longrightarrow> flagged e q)"

lemma keeps_refl [simp]: "keeps p p"
  by (simp add: keeps_def)

lemma keeps_trans: "keeps p q \<Longrightarrow> keeps q r \<Longrightarrow> keeps p r"
  by (simp add: keeps_def)

lemma keepsI: "work_of q = work_of p \<Longrightarrow> addr_infos q = addr_infos p \<Longrightarrow> keeps p q"
  by (simp add: keeps_def flagged_def)

lemma update_info_keeps:
  assumes "\<And>i. write_flag (f i) = write_flag i"
  shows "keeps p (update_info e f p)"
  using assms by (auto simp: update_info_def keeps_def flagged_def split: option.split)

lemma set_recv_keeps: "keeps p q \<Longrightarrow> keeps p (set_recv wp q)"
  by (simp add: keeps_def flagged_def)

lemma work_of_frames [simp]:
  "work_of (snd (snd (malloc_branch b x h r p))) = work_of p" "work_of (dhmp_free_one_area mr h p) = work_of p"
  "work_of (dhmp_post_recv x h a p) = work_of p" "work_of (amper_ud_post_send x h ty d p) = work_of p"
  by (simp_all add: work_of_def dhmp_free_one_area_def with_node_def with_server_def Let_def split: option.split)

lemma memory_handlers_keep:
  "keeps p (dhmp_malloc_request_handler b x mcj h d p)" "keeps p (dhmp_free_request_handler b x h d p)"
  "keeps p (dhmp_malloc_response_handler b d p)" "keeps p (dhmp_malloc_error_handler d p)" "keeps p (dhmp_free_response_handler d p)"
proof -
  show "keeps p (dhmp_malloc_request_handler b x mcj h d p)"
    by (rule keepsI) (simp_all add: dhmp_malloc_request_handler_def add_used_def case_prod_unfold Let_def)
  have "addr_infos (dhmp_free_one_area r h p) = addr_infos p" for r p
    by (simp add: dhmp_free_one_area_def with_node_def with_server_def Let_def split: option.split)
  then show "keeps p (dhmp_free_request_handler b x h d p)"
    by (intro keepsI) (simp_all add: dhmp_free_request_handler_def add_used_def Let_def)
  have "work_list (take_response b r c) = work_list c" for r c
    by (simp add: take_response_def Let_def)
  then show "keeps p (dhmp_malloc_response_handler b d p)"
    by (auto simp: dhmp_malloc_response_handler_def Let_def with_client_def work_of_client split: option.split
        intro!: set_recv_keeps update_info_keeps keepsI)
  show "keeps p (dhmp_malloc_error_handler d p)" "keeps p (dhmp_free_response_handler d p)"
    by (simp_all add: dhmp_malloc_error_handler_def dhmp_free_response_handler_def Let_def update_info_keeps)
qed

lemma batch_reply_frames [simp]:
  "work_of (snd (batch_reply g x d p)) = work_of p" "addr_infos (snd (batch_reply g x d p)) = addr_infos p"
  by (simp_all add: batch_reply_def ask_def case_prod_unfold Let_def split: option.split)

lemma message_handlers_keep:
  "keeps p (dhmp_send_request_handler x bs h d p)" "keeps p (dhmp_send_response_handler d p)"
  "keeps p (dhmp_send2_request_handler x h d p)" "keeps p (dhmp_send2_response_handler d p)"
  "keeps p (dhmp_ReqAddr1_request_handler b x u h d p)" "keeps p (dhmp_ReqAddr1_response_handler d p)"
  "keeps p (dhmp_WriteImm_response_handler d p)" "keeps p (dhmp_WriteImm2_response_handler d p)"
  "keeps p (dhmp_WriteImm3_response_handler d p)" "keeps p (dhmp_Write2_response_handler d p)"
  "keeps p (dhmp_Sread_request_handler h d p)" "keeps p (dhmp_Sread_response_handler d p)"
  "keeps p (amper_tailwindRPC_request_handler x h d p)" "keeps p (amper_tailwindRPC_response_handler d p)"
  "keeps p (amper_DaRPC_request_handler b x h d p)" "keeps p (amper_UD_request_handler x h d p)"
  "keeps p (amper_UD_response_handler d p)"
  by (intro keepsI; simp add: dhmp_send_request_handler_def dhmp_send_response_handler_def dhmp_send2_request_handler_def
      dhmp_send2_response_handler_def dhmp_ReqAddr1_request_handler_def dhmp_ReqAddr1_response_handler_def
      dhmp_WriteImm_response_handler_def dhmp_WriteImm2_response_handler_def dhmp_WriteImm3_response_handler_def
      dhmp_Write2_response_handler_def dhmp_Sread_request_handler_def dhmp_Sread_response_handler_def
      amper_tailwindRPC_request_handler_def amper_tailwindRPC_response_handler_def amper_DaRPC_request_handler_def
      amper_UD_request_handler_def amper_UD_response_handler_def with_server_def Let_def case_prod_unfold split: option.split)+

lemma client_handlers_keep:
  "keeps p (amper_DaRPC_response_handler b d p)" "keeps p (amper_herd_response_handler b d p)"
  by (intro keepsI; simp add: amper_DaRPC_response_handler_def amper_herd_response_handler_def with_client_def
      work_of_client Let_def split: option.split)+

lemma immediate_handlers_keep:
  "keeps p (dhmp_WriteImm_request_handler x u p)" "keeps p (dhmp_WriteImm2_request_handler x h p)"
  "keeps p (dhmp_WriteImm3_request_handler x h p)" "keeps p (snd (dhmp_octo_request_handler x h pc p))"
  "keeps p (dhmp_octo_response_handler p)"
  subgoal by (intro keepsI; simp add: dhmp_WriteImm_request_handler_def with_server_def Let_def split: option.split)
  subgoal by (intro keepsI; simp add: dhmp_WriteImm2_request_handler_def with_ring_def with_server_def Let_def split: option.split)
  subgoal by (intro keepsI; simp add: dhmp_WriteImm3_request_handler_def with_ring_def with_server_def Let_def split: option.split)
  subgoal by (cases pc; intro keepsI; simp add: dhmp_octo_request_handler_def work_of_def case_prod_unfold Let_def split: option.split)
  subgoal by (intro keepsI; simp add: dhmp_octo_response_handler_def with_client_def Let_def split: option.split)
  done

lemma recv_handler_keeps: "keeps p (dhmp_wc_recv_handler b x j h msg p)"
  by (simp add: dhmp_wc_recv_handler_def memory_handlers_keep message_handlers_keep client_handlers_keep keepsI Let_def
      split: option.split dhmp_msg_type.split)

lemma reply_ah_recv_keeps: "keeps p (dhmp_wc_recv_handler b x j h msg (amper_create_reply_ah x h' imm p))"
  by (rule keeps_trans [OF _ recv_handler_keeps], rule keepsI)
    (simp_all add: amper_create_reply_ah_def ask_def raise_def work_of_def Let_def)

lemma task_finished_keeps: "keeps p q \<Longrightarrow> keeps p (task_finished tk q)"
  by (simp add: task_finished_def keeps_def flagged_def)

lemma post_recv_keeps: "keeps p q \<Longrightarrow> keeps p (dhmp_post_recv x h a q)"
  by (simp add: keeps_def flagged_def)

lemma completion_keeps:
  assumes "\<not> Spwrite b \<or> wc_opcode w \<noteq> IBV_WC_RDMA_WRITE"
  shows "keeps p (snd (dhmp_wc_success_handler b x j w pc p))"
proof -
  have o: "keeps p (snd (case dhmp_octo_request_handler x h pc p of
      (Finished, p) \<Rightarrow> (Finished, task_finished tk (dhmp_post_recv x h a p)) | r \<Rightarrow> r))" for h tk a
    using immediate_handlers_keep(4) [of p x h pc]
    by (cases "dhmp_octo_request_handler x h pc p") (auto simp: task_finished_keeps post_recv_keeps split: pc.split)
  show ?thesis
    using assms o
    by (auto simp: dhmp_wc_success_handler_def Let_def intro!: task_finished_keeps post_recv_keeps immediate_handlers_keep
        recv_handler_keeps reply_ah_recv_keeps split: ibv_wc_opcode.split)
qed

section \<open>What the worker leaves alone\<close>

lemma with_client_work:
  "work_of (with_client p f) = work_of p" if "\<And>c. client p = Some c \<Longrightarrow> work_of (f c) = work_of p"
  using that by (simp add: with_client_def split: option.split)

lemma worker_helper_frames [simp]:
  "client (snd (find_info a p)) = client p" "client (snd (rw_begin wp a p)) = client p"
  "work_of (update_info e f p) = work_of p" "client (update_info e f p) = client p"
  "client (amper_post_write x h t r sa sl k inl p) = client p" "client (amper_post_read x h t r sa sl k inl p) = client p"
  by (auto simp: find_info_def rw_begin_def update_info_def work_of_def amper_post_write_def amper_post_read_def case_prod_unfold
      split: option.split sum.split)

lemma work_of_helpers [simp]:
  "work_of (snd (find_info a p)) = work_of p" "work_of (snd (rw_begin wp a p)) = work_of p"
  "work_of (amper_post_write x h t r sa sl k inl p) = work_of p" "work_of (amper_post_read x h t r sa sl k inl p) = work_of p"
  "work_of (post_or_exit x h w p) = work_of p" "work_of (post_unchecked x h w p) = work_of p"
  "work_of (snd (dhmp_read_task_create x o' n p)) = work_of p" "work_of (snd (dhmp_create_smr_per_ops x a n p)) = work_of p"
  "work_of (snd (out_if_failed wp res)) = work_of (snd res)"
  "work_of (snd (dhmp_rdma_read_post x h mr a n p)) = work_of p" "work_of (snd (dhmp_rdma_write_post x h mr a n p)) = work_of p"
  "work_of (dhmp_rdma_read_end smr p) = work_of p" "work_of (dhmp_rdma_write_end smr tk p) = work_of p"
  "work_of (RFP_fetch x h c tk n p) = work_of p" "work_of (snd (build_batch x bs n p)) = work_of p"
  by (simp_all add: work_of_def RFP_fetch_def build_batch_def ask_def case_prod_unfold Let_def)

lemma memory_work_frames:
  "work_of (snd (dhmp_malloc_work_handler b x mcj h wp ai len sp pc p)) = work_of p"
  "work_of (snd (dhmp_free_work_handler b x fj h wp a pc p)) = work_of p"
  "work_of (snd (dhmp_read_work_handler x h wp a la len pc p)) = work_of p"
  "work_of (snd (dhmp_write_work_handler x h wp a la len pc p)) = work_of p"
  "work_of (snd (amper_clover_work_handler x h wp a len v pc p)) = work_of p"
  "work_of (snd (dhmp_close_work_handler x h wp pc p)) = work_of p"
  subgoal by (cases pc; simp add: dhmp_malloc_work_handler_def with_client_def work_of_client Let_def split: option.split)
  subgoal by (cases pc; simp add: dhmp_free_work_handler_def work_of_client case_prod_unfold Let_def split: option.split)
  subgoal by (cases pc; simp add: dhmp_read_work_handler_def work_of_client split: option.split)
  subgoal by (cases pc; simp add: dhmp_write_work_handler_def work_of_client split: option.split)
  subgoal by (cases pc; simp add: amper_clover_work_handler_def work_of_client case_prod_unfold split: option.split)
  subgoal by (cases pc; simp add: dhmp_close_work_handler_def)
  done

lemma amper_L5_work_frames: "work_of (snd (amper_L5_work_handler x h wp la len f a pc p)) = work_of p"
  by (cases pc; cases "client p"; simp add: amper_L5_work_handler_def work_of_client ask_def case_prod_unfold Let_def split: option.split)

lemma amper_RFP_work_frames: "work_of (snd (amper_RFP_work_handler x h wp la len iw a pc p)) = work_of p"
  by (cases pc; cases "client p"; simp add: amper_RFP_work_handler_def work_of_client ask_def case_prod_unfold Let_def split: option.split)

lemma amper_FaRM_work_frames: "work_of (snd (amper_FaRM_work_handler b x h wp ga len la f bt cur pc p)) = work_of p"
  by (cases pc; cases "client p"; simp add: amper_FaRM_work_handler_def work_of_client ask_def case_prod_unfold Let_def split: option.split)

lemma amper_DaRPC_work_frames: "work_of (snd (amper_DaRPC_work_handler b x h wp ga len la f bt pc p)) = work_of p"
  by (cases pc; cases "client p"; simp add: amper_DaRPC_work_handler_def work_of_client ask_def case_prod_unfold Let_def split: option.split)

lemma amper_FaSST_work_frames: "work_of (snd (amper_FaSST_work_handler x wp ga len la f bt pc p)) = work_of p"
  by (cases pc; cases "client p"; simp add: amper_FaSST_work_handler_def work_of_client ask_def case_prod_unfold Let_def split: option.split)

lemma dhmp_Octopus_work_frames: "work_of (dhmp_Octopus_work_handler x h wp la len f a p) = work_of p"
  by (cases "client p"; simp add: dhmp_Octopus_work_handler_def work_of_client ask_def case_prod_unfold Let_def split: option.split)

lemma amper_Tailwind_work_frames: "work_of (snd (amper_Tailwind_work_handler x h wp off hm hs la len pc p)) = work_of p"
  by (cases pc; cases "client p"; simp add: amper_Tailwind_work_handler_def work_of_client ask_def case_prod_unfold Let_def split: option.split)

lemma amper_Tailwind_RPC_work_frames: "work_of (snd (amper_Tailwind_RPC_work_handler x h wp off hm hs la len pc p)) = work_of p"
  by (cases pc; cases "client p"; simp add: amper_Tailwind_RPC_work_handler_def work_of_client ask_def case_prod_unfold Let_def split: option.split)

lemma amper_scalable_work_frames: "work_of (snd (amper_scalable_work_handler x h wp off len sz f bt pc p)) = work_of p"
  by (cases pc; cases "client p"; simp add: amper_scalable_work_handler_def work_of_client ask_def case_prod_unfold Let_def split: option.split)

lemma post_work_frames [simp]:
  "work_of (snd (post_per_ops x h opc imm r n c p)) = work_of p" "work_of (snd (dhmp_rdma_write2 x h r la n c p)) = work_of p"
  "work_of (snd (dhmp_post_writeImm x h r la n off c p)) = work_of p" "work_of (snd (dhmp_post_writeImm2 x h req2 r c p)) = work_of p"
  "work_of (snd (dhmp_post_writeImm3 x h req3 r la c p)) = work_of p" "work_of (snd (dhmp_post_write2 x h reqw r la c p)) = work_of p"
  "work_of (snd (wait_answer wp pc p)) = work_of p" "work_of (snd (then_answer res)) = work_of (snd res)"
  "work_of (send2_message x h wp a n p) = work_of p"
  by (auto simp: post_per_ops_def dhmp_rdma_write2_def dhmp_post_writeImm_def dhmp_post_writeImm2_def dhmp_post_writeImm3_def
      dhmp_post_write2_def wait_answer_def then_answer_def send2_message_def case_prod_unfold Let_def
      split: option.split pc.split prod.split)

lemma take_write_flag_frames:
  assumes "\<And>r c p. work_of (snd (f r c p)) = work_of p"
  shows "work_of (snd (take_write_flag e f pc p)) = work_of p"
  using assms by (simp add: take_write_flag_def split: option.split)

lemma model_work_frames:
  "work_of (snd (dhmp_write2_work_handler x h wp a la len pc p)) = work_of p"
  "work_of (snd (dhmp_send_work_handler x h wp a la len iw pc p)) = work_of p"
  "work_of (snd (dhmp_send2_work_handler x h wp sa a la len pc p)) = work_of p"
  "work_of (snd (dhmp_ReqAddr1_work_handler b x rj h wp len pc p)) = work_of p"
  "work_of (snd (dhmp_WriteImm_work_handler x h wp a la len off pc p)) = work_of p"
  "work_of (snd (dhmp_WriteImm3_work_handler x h wp a la len pc p)) = work_of p"
  "work_of (snd (dhmp_sread_work_handler x h wp a la len pc p)) = work_of p"
  subgoal by (cases pc; simp add: dhmp_write2_work_handler_def split: option.split)
  subgoal by (cases pc; simp add: dhmp_send_work_handler_def case_prod_unfold Let_def)
  subgoal
  proof (cases pc)
    case (Spin_flag e)
    have "work_of (snd (take_write_flag e (\<lambda>r. dhmp_rdma_write2 x h r la len) pc p)) = work_of p"
      by (simp add: take_write_flag_frames)
    with Spin_flag show ?thesis
      by (cases "take_write_flag e (\<lambda>r. dhmp_rdma_write2 x h r la len) pc p")
        (auto simp: dhmp_send2_work_handler_def split: pc.split)
  qed (simp_all add: dhmp_send2_work_handler_def)
  subgoal by (cases pc; simp add: dhmp_ReqAddr1_work_handler_def)
  subgoal by (cases pc; simp add: dhmp_WriteImm_work_handler_def take_write_flag_frames)
  subgoal by (cases pc; simp add: dhmp_WriteImm3_work_handler_def split: option.split)
  subgoal by (cases pc; simp add: dhmp_sread_work_handler_def case_prod_unfold split: option.split)
  done

lemma run_work_frames: "work_of (snd (run_work b x j h w pc p)) = work_of p"
  by (cases "work_data w"; simp add: run_work_def Let_def memory_work_frames model_work_frames amper_L5_work_frames
      amper_RFP_work_frames amper_FaRM_work_frames amper_DaRPC_work_frames amper_FaSST_work_frames dhmp_Octopus_work_frames
      amper_Tailwind_work_frames amper_Tailwind_RPC_work_frames amper_scalable_work_frames amper_herd_work_handler_def
      amper_pRDMA_WS_work_handler_def)

section \<open>The calls\<close>

text \<open>\<open>dhmp_close_connection\<close>, up to its wait.\<close>

definition dhmp_close_connection :: "ext \<Rightarrow> addr \<Rightarrow> nat option \<Rightarrow> proc \<Rightarrow> unit call \<times> proc" where
  "dhmp_close_connection x wp rdma_trans p =
     (case rdma_trans of
        None \<Rightarrow> (Returned (), p)
      | Some h \<Rightarrow>
          if trans_state (trans p h) \<noteq> DHMP_TRANSPORT_STATE_CONNECTED then (Returned (), p)
          else (case client p of
                  None \<Rightarrow> (Returned (), raise Null_deref p)
                | Some c \<Rightarrow> enqueue x () DHMP_WORK_CLOSE wp False Close_work c p))"

text \<open>
  A step of an application thread: a call up to its wait, the loop of a call that needs a slot, or
  its end; and the poll thread of FaRM, which gives slots back.
\<close>

inductive app_call :: "build \<Rightarrow> ext \<Rightarrow> proc \<Rightarrow> proc \<Rightarrow> bool" for b x p where
  malloc: "app_call b x p (snd (dhmp_malloc x wp len sp p))"
| free: "app_call b x p (snd (dhmp_free x wp a p))"
| read: "app_call b x p (snd (dhmp_read x wp a la len p))"
| write1: "app_call b x p (snd (dhmp_write x wp a la len p))"
| clover: "app_call b x p (snd (amper_clover_compare_and_set x wp a len v p))"
| L5: "app_call b x p (snd (amper_write_L5 x wp cur la len a f p))"
| octopus: "app_call b x p (snd (dhmp_write_imm2 x wp cur a la len f p))"
| scalable: "app_call b x p (snd (snd (model_7_scalable x wp a len la f bt p)))"
| scalable_end: "app_call b x p (model_7_scalable_end smr p)"
| tailwind_rpc: "app_call b x p (snd (amper_sendRPC_Tailwind x wp off hm hs la len p))"
| tailwind: "app_call b x p (snd (amper_write_Tailwind x wp off hm hs la len p))"
| RFP: "app_call b x p (snd (amper_RFP x wp la a len iw p))"
| write2: "app_call b x p (snd (dhmp_write2 x wp a la len p))"
| send: "app_call b x p (snd (dhmp_send x wp a la len iw p))"
| stress: "app_call b x p (snd (rdma_stress x wp p))"
| write_imm: "app_call b x p (snd (dhmp_write_imm x wp a la len off32 p))"
| write_imm3: "app_call b x p (snd (dhmp_write_imm3 x wp a la len p))"
| send2: "app_call b x p (snd (dhmp_send2 x wp sa a la len p))"
| sread: "app_call b x p (snd (dhmp_Sread x wp a la len p))"
| UD: "app_call b x p (snd (send_UD x wp a len la f bt p))"
| close: "app_call b x p (snd (dhmp_close_connection x wp t p))"
| slot_call: "app_call b x p (snd (begin_call x () wp False p))"
| DaRPC: "amper_sendRPC_DaRPC b wp a len la f bt p = Some q \<Longrightarrow> app_call b x p q"
| FaRM: "model_FaRM_turn b wp a len la f bt p = Some q \<Longrightarrow> app_call b x p q"
| herd: "model_herd_turn b wp la len a f p = Some q \<Longrightarrow> app_call b x p q"
| pRDMA: "amper_pRDMA_write_senderactive_turn b wp w la len a f p = Some q \<Longrightarrow> app_call b x p q"
| FaRM_poll: "app_call b x p (snd (FaRM_run_client_turn b sz valid p))"
| finish: "finish_call wp w (\<lambda>_. ()) p = Some (v, q) \<Longrightarrow> app_call b x p q"

text \<open>The types that go with each kind of data.\<close>

fun types_of :: "work_data \<Rightarrow> dhmp_work_type set" where
  "types_of (Malloc_work _ _ _) = {DHMP_WORK_MALLOC}"
| "types_of (Free_work _) = {DHMP_WORK_FREE}"
| "types_of (Rw_work _ _ _) = {DHMP_WORK_READ, DHMP_WORK_WRITE}"
| "types_of Close_work = {DHMP_WORK_CLOSE}"
| "types_of (Clover_work _ _ _) = {AMPER_WORK_CLOVER}"
| "types_of (L5_work _ _ _ _ _) = {AMPER_WORK_L5, DHMP_WORK_Octopus, AMPER_WORK_Herd, AMPER_WORK_pRDMA_WS}"
| "types_of (Tailwind_work _ _ _ _ _) = {AMPER_WORK_Tailwind, AMPER_WORK_Tailwind_RPC}"
| "types_of (DaRPC_work _ _ _ _ _ _) = {AMPER_WORK_DaRPC, AMPER_WORK_FaRM}"
| "types_of (Scalable_work _ _ _ _ _ _) = {AMPER_WORK_scalable}"
| "types_of (RFP_work _ _ _ _) = {AMPER_WORK_RFP}"
| "types_of (Rw2_work _ _ _) = {DHMP_WORK_WRITE2}"
| "types_of (Send_work _ _ _ _) = {DHMP_WORK_SEND}"
| "types_of (Send2_work _ _ _ _) = {DHMP_WORK_SEND2}"
| "types_of ReqAddr_work = {DHMP_WORK_REQADDR1}"
| "types_of (WriteImm_work _ _ _ _) = {DHMP_WORK_WRITEIMM}"
| "types_of (WriteImm3_work _ _ _) = {DHMP_WORK_WRITEIMM3}"
| "types_of (Sread_work _ _ _) = {DHMP_WORK_SREAD}"
| "types_of (UD_work _ _ _ _ _) = {AMPER_WORK_UD}"

definition well_typed :: "dhmp_work \<Rightarrow> bool" where
  "well_typed w \<longleftrightarrow> work_type w \<in> types_of (work_data w)"

definition list_typed :: "proc \<Rightarrow> bool" where
  "list_typed p \<longleftrightarrow> (\<forall>ws. work_of p = Some ws \<longrightarrow> (\<forall>w \<in> set ws. well_typed w))"

text \<open>A call adds at most one item, at the end, and its type is one that goes with its data.\<close>

definition adds_typed :: "proc \<Rightarrow> proc \<Rightarrow> bool" where
  "adds_typed p q \<longleftrightarrow> work_of q = work_of p
     \<or> (\<exists>ws w. work_of p = Some ws \<and> work_of q = Some (ws @ [w]) \<and> well_typed w)"

lemma adds_none: "work_of q = work_of p \<Longrightarrow> adds_typed p q"
  by (simp add: adds_typed_def)

lemma adds_one:
  "client p = Some c \<Longrightarrow> client q = Some (list_add_tail w c') \<Longrightarrow> work_list c' = work_list c \<Longrightarrow> well_typed w \<Longrightarrow> adds_typed p q"
  by (auto simp: adds_typed_def work_of_def list_add_tail_def)

lemma adds_typed_list: "adds_typed p q \<Longrightarrow> list_typed p \<Longrightarrow> list_typed q"
  by (auto simp: adds_typed_def list_typed_def)

lemma enqueue_adds:
  assumes "client p = Some c" "work_of q = work_of p" "client q = Some c'" "work_list c' = work_list c" "ty \<in> types_of wd"
  shows "adds_typed p (snd (enqueue x err ty wp cr wd c' q))"
  using assms by (auto simp: enqueue_def ask_def well_typed_def Let_def intro: adds_none adds_one)

lemma submit_adds:
  assumes "work_of q = work_of p" "ty \<in> types_of wd"
  shows "adds_typed p (snd (submit x ty wp cr wd q))"
proof (cases "client q")
  case (Some c)
  then obtain c' where "client p = Some c'" "work_list c' = work_list c"
    using assms(1) by (cases "client p") (auto simp: work_of_def)
  then show ?thesis
    using Some assms by (auto simp: submit_def intro: enqueue_adds adds_none split: option.split)
qed (use assms in \<open>auto simp: submit_def intro: adds_none\<close>)

lemma scalable_call_adds: "adds_typed p (snd (snd (model_7_scalable x wp a len la f bt p)))"
proof (cases "client p")
  case (Some c)
  note work_of_client [OF Some, simp]
  show ?thesis
  proof (cases "scale_context_swith c = Sca1e_Swith_Time")
    case True
    then show ?thesis
      using Some
      by (cases "connect_trans c"; cases "ext_malloc x (tick p) = 0"; cases "f = 1")
        (simp_all add: model_7_scalable_def amper_scalable_def ask_def case_prod_unfold Let_def submit_adds adds_none
          split: option.split)
  next
    case False
    then show ?thesis
      using Some by (auto simp: model_7_scalable_def amper_scalable_def case_prod_unfold Let_def intro!: submit_adds)
  qed
qed (simp add: model_7_scalable_def adds_none)

lemma app_call_adds:
  assumes "app_call b x p q"
  shows "adds_typed p q"
  using assms
proof cases
  case (malloc wp len sp)
  then show ?thesis
    by (auto simp: dhmp_malloc_def ask_def Let_def well_typed_def intro: adds_none adds_one split: option.split)
next
  case (free wp a)
  then show ?thesis by (simp add: dhmp_free_def submit_adds adds_none)
next
  case (scalable wp a len la f bt)
  then show ?thesis by (simp add: scalable_call_adds)
next
  case (scalable_end smr)
  then show ?thesis
    by (auto simp: model_7_scalable_end_def with_client_def work_of_client Let_def intro!: adds_none split: option.split)
next
  case (UD wp a len la f bt)
  then show ?thesis by (auto simp: send_UD_def intro: adds_none enqueue_adds split: option.split)
next
  case (close wp t)
  then show ?thesis by (auto simp: dhmp_close_connection_def intro: adds_none enqueue_adds split: option.split)
next
  case (slot_call wp)
  then show ?thesis by (auto simp: begin_call_def ask_def Let_def intro!: adds_none split: option.split)
next
  case (DaRPC wp a len la f bt)
  then show ?thesis
    by (auto simp: amper_sendRPC_DaRPC_def well_typed_def intro: adds_none adds_one split: option.splits if_splits)
next
  case (FaRM wp a len la f bt)
  then show ?thesis by (auto simp: model_FaRM_turn_def well_typed_def intro: adds_none adds_one split: option.splits)
next
  case (herd wp la len a f)
  then show ?thesis by (auto simp: model_herd_turn_def well_typed_def intro: adds_none adds_one split: option.splits)
next
  case (pRDMA wp w la len a f)
  then show ?thesis
    by (auto simp: amper_pRDMA_write_senderactive_turn_def well_typed_def intro: adds_none adds_one split: option.splits)
next
  case (FaRM_poll sz valid)
  then show ?thesis by (auto simp: FaRM_run_client_turn_def work_of_client Let_def intro!: adds_none split: option.split)
next
  case (finish wp w v)
  then show ?thesis by (auto simp: finish_call_def intro!: adds_none split: if_splits)
qed (simp_all add: submit_adds dhmp_read_def dhmp_write_def amper_clover_compare_and_set_def amper_write_L5_def
   dhmp_write_imm2_def amper_sendRPC_Tailwind_def amper_write_Tailwind_def amper_RFP_def dhmp_write2_def dhmp_send_def
   rdma_stress_def dhmp_write_imm_def dhmp_write_imm3_def dhmp_send2_def dhmp_Sread_def)

section \<open>The client's threads together\<close>

type_synonym worker = "(dhmp_work \<times> pc) option"

inductive client_step ::
  "build \<Rightarrow> ext \<Rightarrow> stack_junk \<Rightarrow> worker \<times> completions \<times> proc \<Rightarrow> worker \<times> completions \<times> proc \<Rightarrow> bool" for b x j where
  call: "app_call b x p q \<Longrightarrow> client_step b x j (k, c, p) (k, c, q)"
| work_turn: "dhmp_work_handle_thread b x j k p = (k', q) \<Longrightarrow> client_step b x j (k, c, p) (k', c, q)"
| arrives: "client_step b x j (k, (ws, st), p) (k, (ws @ [w], st), p\<lparr>mem := m\<rparr>)"
| completion: "dhmp_comp_channel_handler b x j c p = (c', q) \<Longrightarrow> client_step b x j (k, c, p) (k, c', q)"

lemma completion_work: "work_of (snd (dhmp_wc_success_handler b x j w pc p)) = work_of p"
proof (cases "wc_opcode w = IBV_WC_RDMA_WRITE")
  case True
  then show ?thesis by (simp add: dhmp_wc_success_handler_def task_finished_def Let_def split: option.split)
next
  case False
  then show ?thesis using completion_keeps [of b w p x j pc] by (simp add: keeps_def)
qed

lemma channel_turn:
  assumes "dhmp_comp_channel_handler b x j c p = (c', q)"
  obtains "q = p" | w pc where "q = snd (dhmp_wc_success_handler b x j w pc p)"
proof -
  obtain ws st where c: "c = (ws, st)" by (cases c)
  show thesis
  proof (cases st)
    case None
    then show thesis using assms c that(1) by (cases ws; cases "hd ws") (auto simp: handler_turn)
  next
    case (Some s)
    then show thesis using assms c that(2) [of "fst s" "snd s"] by (cases s) (auto simp: handler_turn case_prod_unfold Let_def)
  qed
qed

lemma channel_work: "dhmp_comp_channel_handler b x j c p = (c', q) \<Longrightarrow> work_of q = work_of p"
  by (erule channel_turn) (simp_all add: completion_work)

lemma channel_keeps: "\<not> Spwrite b \<Longrightarrow> dhmp_comp_channel_handler b x j c p = (c', q) \<Longrightarrow> keeps p q"
  by (erule channel_turn) (simp_all add: completion_keeps)

section \<open>Items have the type of their data\<close>

definition worker_typed :: "worker \<Rightarrow> proc \<Rightarrow> bool" where
  "worker_typed k p \<longleftrightarrow> list_typed p \<and> (\<forall>w pc. k = Some (w, pc) \<longrightarrow> well_typed w)"

lemma worker_turn_typed:
  assumes "dhmp_work_handle_thread b x j k p = (k', q)" "worker_typed k p"
  shows "worker_typed k' q"
proof (cases "client p")
  case None
  then show ?thesis
    using assms by (auto simp: dhmp_work_handle_thread_def worker_typed_def list_typed_def)
next
  case (Some c)
  note cl = Some
  show ?thesis
  proof (cases k)
    case None
    then show ?thesis
      using assms cl
      by (auto simp: dhmp_work_handle_thread_def worker_typed_def list_typed_def take_work_def work_of_client split: list.splits)
  next
    case (Some a)
    obtain w pc where "a = (w, pc)" by (cases a)
    with Some have k: "k = Some (w, pc)" by simp
    show ?thesis
    proof (cases "connect_trans c")
      case None
      then show ?thesis using assms cl k by (auto simp: dhmp_work_handle_thread_def worker_typed_def list_typed_def)
    next
      case (Some h)
      then show ?thesis
        using assms cl k run_work_frames [of b x j h w pc p]
        by (auto simp: dhmp_work_handle_thread_def worker_typed_def list_typed_def case_prod_unfold Let_def split: if_splits)
    qed
  qed
qed

lemma client_step_typed:
  "client_step b x j s s' \<Longrightarrow> worker_typed (fst s) (snd (snd s)) \<Longrightarrow> worker_typed (fst s') (snd (snd s'))"
proof (induction rule: client_step.induct)
  case (call p q k c)
  then show ?case using adds_typed_list [OF app_call_adds] by (simp add: worker_typed_def)
next
  case (work_turn k p k' q c)
  then show ?case using worker_turn_typed by simp
next
  case (arrives k ws st p w m)
  then show ?case by (simp add: worker_typed_def list_typed_def)
next
  case (completion c p c' q k)
  then show ?case using channel_work by (simp add: worker_typed_def list_typed_def)
qed



section \<open>A write flag stays set\<close>

text \<open>The handlers that start with \<open>while(addr_info->write_flag)\<close>.\<close>

definition waits_for_flag :: "dhmp_work \<Rightarrow> bool" where
  "waits_for_flag w \<longleftrightarrow> well_typed w
     \<and> work_type w \<in> {DHMP_WORK_READ, DHMP_WORK_WRITE, DHMP_WORK_SEND2, DHMP_WORK_WRITEIMM}"

lemma take_write_flag_waits:
  "flagged e p \<Longrightarrow> take_write_flag e f pc p = (pc, p) \<or> take_write_flag e f pc p = (pc, raise Dangling p)"
  by (auto simp: flagged_def take_write_flag_def split: option.split)

lemma flagged_run:
  assumes "flagged e p" "waits_for_flag w"
  shows "\<exists>q. run_work b x j h w (Spin_flag e) p = (Spin_flag e, q) \<and> addr_infos q = addr_infos p"
proof -
  obtain i where i: "addr_infos p e = Some i" "write_flag i" using assms(1) by (auto simp: flagged_def)
  consider a la n where "work_data w = Rw_work a la n" "work_type w \<in> {DHMP_WORK_READ, DHMP_WORK_WRITE}"
    | sa a la n where "work_data w = Send2_work sa a la n" "work_type w = DHMP_WORK_SEND2"
    | a la n off where "work_data w = WriteImm_work a la n off" "work_type w = DHMP_WORK_WRITEIMM"
    using assms(2) by (cases "work_data w") (auto simp: waits_for_flag_def well_typed_def)
  then show ?thesis
  proof cases
    case 1
    then show ?thesis using i by (auto simp: run_work_def dhmp_read_work_handler_def dhmp_write_work_handler_def)
  next
    case 2
    then show ?thesis
      using take_write_flag_waits [OF assms(1), of "\<lambda>r. dhmp_rdma_write2 x h r la n" "Spin_flag e"]
      by (auto simp: run_work_def dhmp_send2_work_handler_def)
  next
    case 3
    then show ?thesis
      using take_write_flag_waits [OF assms(1), of "\<lambda>r. dhmp_post_writeImm x h r la n off" "Spin_flag e"]
      by (auto simp: run_work_def dhmp_WriteImm_work_handler_def out_if_failed_def)
  qed
qed

lemma flagged_worker_turn:
  assumes "flagged e p" "waits_for_flag w" "dhmp_work_handle_thread b x j (Some (w, Spin_flag e)) p = (k', q)"
  shows "k' = Some (w, Spin_flag e) \<and> flagged e q"
proof (cases "client p")
  case None
  then show ?thesis using assms by (auto simp: dhmp_work_handle_thread_def flagged_def)
next
  case (Some c)
  show ?thesis
  proof (cases "connect_trans c")
    case None
    then show ?thesis using assms Some by (auto simp: dhmp_work_handle_thread_def flagged_def)
  next
    case (Some h)
    then show ?thesis
      using assms(1,3) \<open>client p = Some c\<close> flagged_run [OF assms(1,2), of b x j h]
      by (auto simp: dhmp_work_handle_thread_def flagged_def)
  qed
qed

lemma flagged_cong: "addr_infos q = addr_infos p \<Longrightarrow> flagged e q = flagged e p"
  by (simp add: flagged_def)

lemma submit_infos [simp]:
  "addr_infos (snd (enqueue x err ty wp cr wd c p)) = addr_infos p" "addr_infos (snd (submit x ty wp cr wd p)) = addr_infos p"
  by (simp_all add: submit_def enqueue_def ask_def Let_def split: option.split)

lemma scalable_infos: "addr_infos (snd (snd (model_7_scalable x wp a len la f bt p))) = addr_infos p"
proof (cases "client p")
  case (Some c)
  then show ?thesis
    by (cases "connect_trans c"; cases "ext_malloc x (tick p) = 0"; cases "f = 1"; cases "scale_context_swith c = Sca1e_Swith_Time")
      (simp_all add: model_7_scalable_def amper_scalable_def ask_def case_prod_unfold Let_def split: option.split)
qed (simp add: model_7_scalable_def)

lemma app_call_infos:
  assumes "app_call b x p q"
  shows "(\<exists>t i. addr_infos q = (addr_infos p)(ext_malloc x t \<mapsto> i)) \<or> addr_infos q = addr_infos p"
  using assms
proof cases
  case (malloc wp len sp)
  then show ?thesis by (auto simp: dhmp_malloc_def ask_def Let_def split: option.split)
next
  case (scalable wp a len la f bt)
  then show ?thesis by (simp add: scalable_infos)
qed (auto simp: dhmp_free_def dhmp_read_def dhmp_write_def amper_clover_compare_and_set_def amper_write_L5_def
   dhmp_write_imm2_def amper_sendRPC_Tailwind_def amper_write_Tailwind_def amper_RFP_def dhmp_write2_def dhmp_send_def
   rdma_stress_def dhmp_write_imm_def dhmp_write_imm3_def dhmp_send2_def dhmp_Sread_def send_UD_def dhmp_close_connection_def
   begin_call_def ask_def model_7_scalable_end_def with_client_def amper_sendRPC_DaRPC_def model_FaRM_turn_def model_herd_turn_def
   amper_pRDMA_write_senderactive_turn_def FaRM_run_client_turn_def finish_call_def Let_def split: option.splits if_splits)

lemma flagged_call:
  assumes "app_call b x p q" "\<forall>t. ext_malloc x t \<noteq> e" "flagged e p"
  shows "flagged e q"
  using app_call_infos [OF assms(1)] assms(2,3) by (auto simp: flagged_def)

lemma stuck_step:
  assumes "client_step b x j s s'" "\<not> Spwrite b" "\<forall>t. ext_malloc x t \<noteq> e" "waits_for_flag w"
    and "fst s = Some (w, Spin_flag e) \<and> flagged e (snd (snd s))"
  shows "fst s' = Some (w, Spin_flag e) \<and> flagged e (snd (snd s'))"
  using assms(1,5)
proof (induction rule: client_step.induct)
  case (call p q k c)
  then show ?case using flagged_call assms(3) by auto
next
  case (work_turn k p k' q c)
  then show ?case using flagged_worker_turn [OF _ assms(4)] by auto
next
  case (arrives k ws st p w m)
  then show ?case by (simp add: flagged_def)
next
  case (completion c p c' q k)
  then show ?case using channel_keeps [OF assms(2)] by (auto simp: keeps_def)
qed

text \<open>
  C8: with \<open>Spwrite\<close> undefined, as in \<open>dhmp.h\<close>, nothing ever clears the write flag of an object.  Once
  a write has set it, the worker that comes to another read or write of the object stays in
  \<open>while(addr_info->write_flag)\<close> for good, whatever the application calls and whatever completes, and
  every call after it waits behind it.  (\<open>malloc\<close> does not hand out the entry again while it is live.)
\<close>

lemma second_access_spins:
  assumes "\<not> Spwrite b" "\<forall>t. ext_malloc x t \<noteq> e" "waits_for_flag w" "flagged e p"
    and "(client_step b x j)\<^sup>*\<^sup>* (Some (w, Spin_flag e), c, p) (k, c', q)"
  shows "k = Some (w, Spin_flag e) \<and> flagged e q"
proof -
  have "fst s = Some (w, Spin_flag e) \<and> flagged e (snd (snd s))"
    if "(client_step b x j)\<^sup>*\<^sup>* (Some (w, Spin_flag e), c, p) s" for s
    using that
  proof (induction rule: rtranclp_induct)
    case base
    then show ?case using assms(4) by simp
  next
    case (step s s')
    then show ?case using stuck_step [OF step(2) assms(1-3)] by blast
  qed
  from this [OF assms(5)] show ?thesis by simp
qed

text \<open>A write that gets past the flag sets it, whether its request can be posted or not.\<close>

lemma write_sets_flag:
  assumes "addr_infos p e = Some i" "\<not> write_flag i"
  shows "flagged e (snd (dhmp_write_work_handler x h wp a la len (Spin_flag e) p))"
  using assms by (simp add: dhmp_write_work_handler_def flagged_def)

abbreviation written_proc :: proc where
  "written_proc \<equiv> snd (dhmp_write_work_handler ext_ok 0 0x200 0x5000 0x600 64 (Spin_flag 0x100) freeable_proc)"

definition read_item :: dhmp_work where
  "read_item = \<lparr>work_type = DHMP_WORK_READ, work_ptr = 0x300, work_data = Rw_work 0x5000 0x700 64\<rparr>"

lemma second_access_spins_witness:
  "fst (dhmp_work_handle_thread (default_build 1) (ext_ok\<lparr>ext_malloc := \<lambda>_. 0x1000\<rparr>) junk0 (Some (read_item, Spin_flag 0x100)) written_proc)
     = Some (read_item, Spin_flag 0x100)"
proof -
  let ?x = "ext_ok\<lparr>ext_malloc := \<lambda>_. 0x1000\<rparr>"
  have f: "flagged 0x100 written_proc"
    by (rule write_sets_flag [where i = "the (addr_infos freeable_proc 0x100)"]) (simp_all add: freeable_proc_def sample_heap_def)
  let ?r = "dhmp_work_handle_thread (default_build 1) ?x junk0 (Some (read_item, Spin_flag 0x100)) written_proc"
  have "(client_step (default_build 1) ?x junk0)\<^sup>*\<^sup>* (Some (read_item, Spin_flag 0x100), ([], None), written_proc)
      (fst ?r, ([], None), snd ?r)"
    by (intro r_into_rtranclp client_step.work_turn) simp
  from second_access_spins [OF _ _ _ f this] show ?thesis by (simp add: waits_for_flag_def well_typed_def read_item_def)
qed

end
