(* ===== verification/Inet.thy ===== *)
theory Inet
  imports DHMP_Prelude
begin

text \<open>
  Addresses as strings: what \<open>inet_ntop\<close> and \<open>inet_pton\<close> of the C library do for \<open>AF_INET\<close>, and the
  comparison of two addresses in \<open>dhmp_is_exist_connection\<close> (\<open>dhmp_transport.c\<close>).  An address is the
  32-bit word in memory order, a string its bytes without the final NUL.
\<close>

section \<open>Printing\<close>

definition digit :: "nat \<Rightarrow> byte" where
  "digit d = of_nat (48 + d)"

definition octet :: "byte \<Rightarrow> byte list" where
  "octet b = (let n = unat b in
     (if 100 \<le> n then [digit (n div 100)] else []) @ (if 10 \<le> n then [digit (n div 10 mod 10)] else []) @ [digit (n mod 10)])"

fun dotted :: "byte list \<Rightarrow> byte list" where
  "dotted [] = []"
| "dotted [b] = octet b"
| "dotted (b # bs) = octet b @ 46 # dotted bs"

definition inet_ntop :: "u32 \<Rightarrow> byte list" where
  "inet_ntop ip = dotted (put32 ip)"

section \<open>Parsing\<close>

text \<open>The parser's state: the octets before the current one, its value, and whether it has a digit.\<close>

fun pton :: "byte list \<Rightarrow> nat \<Rightarrow> bool \<Rightarrow> byte list \<Rightarrow> byte list option" where
  "pton done_octets cur saw [] =
     (if saw \<and> length done_octets = 3 then Some (done_octets @ [of_nat cur]) else None)"
| "pton done_octets cur saw (ch # s) =
     (if 48 \<le> unat ch \<and> unat ch \<le> 57 then
        let new = cur * 10 + (unat ch - 48)
        in if saw \<and> cur = 0 then None
           else if 255 < new then None
           else if \<not> saw \<and> 3 < length done_octets then None
           else pton done_octets new True s
      else if ch = 46 \<and> saw then
        if length done_octets = 3 then None else pton (done_octets @ [of_nat cur]) 0 False s
      else None)"

definition inet_pton :: "byte list \<Rightarrow> u32 option" where
  "inet_pton s = map_option get32 (pton [] 0 False s)"

section \<open>The round trip\<close>

lemma unat_digit [simp]: "d \<le> 9 \<Longrightarrow> unat (digit d) = 48 + d"
  by (simp add: digit_def unsigned_of_nat take_bit_eq_mod del: of_nat_add)

lemma digit_not_dot [simp]: "d \<le> 9 \<Longrightarrow> digit d \<noteq> 46" "d \<le> 9 \<Longrightarrow> digit d \<noteq> 0"
  using unat_digit [of d] by force+

lemma unat_byte_le: "unat (b :: byte) \<le> 255"
  using unsigned_less [of b, where ?'a = nat] by simp

lemma pton_digit:
  assumes "d \<le> 9" "\<not> (saw \<and> cur = 0)" "cur * 10 + d \<le> 255" "saw \<or> length os \<le> 3"
  shows "pton os cur saw (digit d # s) = pton os (cur * 10 + d) True s"
  using assms by (auto simp: Let_def)

lemma pton_octet:
  assumes "length os \<le> 3"
  shows "pton os 0 False (octet b @ s) = pton os (unat b) True s"
proof -
  let ?n = "unat b"
  have n: "?n \<le> 255" by (rule unat_byte_le)
  consider "?n < 10" | "10 \<le> ?n" "?n < 100" | "100 \<le> ?n" by linarith
  then show ?thesis
  proof cases
    case 1
    then show ?thesis using assms pton_digit [of ?n False 0 os s] by (simp add: octet_def Let_def del: pton.simps)
  next
    case 2
    have d: "?n div 10 mod 10 = ?n div 10" using 2 by simp
    have "pton os 0 False (octet b @ s) = pton os (?n div 10) True (digit (?n mod 10) # s)"
      using 2 assms pton_digit [of "?n div 10" False 0 os "digit (?n mod 10) # s"]
      by (simp add: octet_def Let_def d del: pton.simps)
    also have "\<dots> = pton os (?n div 10 * 10 + ?n mod 10) True s"
      using 2 by (intro pton_digit) (simp_all add: div_greater_zero_iff)
    finally show ?thesis by simp
  next
    case 3
    have "pton os 0 False (octet b @ s) = pton os (?n div 100) True (digit (?n div 10 mod 10) # digit (?n mod 10) # s)"
      using 3 n assms pton_digit [of "?n div 100" False 0 os "digit (?n div 10 mod 10) # digit (?n mod 10) # s"]
      by (simp add: octet_def Let_def del: pton.simps)
    also have "\<dots> = pton os (?n div 100 * 10 + ?n div 10 mod 10) True (digit (?n mod 10) # s)"
      using 3 n by (intro pton_digit) (auto simp: div_greater_zero_iff)
    also have "?n div 100 * 10 + ?n div 10 mod 10 = ?n div 10"
      using div_mult2_eq [of ?n 10 10] by simp
    also have "pton os (?n div 10) True (digit (?n mod 10) # s) = pton os (?n div 10 * 10 + ?n mod 10) True s"
      using 3 n by (intro pton_digit) (simp_all add: div_greater_zero_iff)
    finally show ?thesis by simp
  qed
qed

lemma pton_dot: "length os < 3 \<Longrightarrow> pton os cur True (46 # s) = pton (os @ [of_nat cur]) 0 False s"
  by simp

lemma list_of_four:
  assumes "length xs = 4"
  obtains a b c d where "xs = [a, b, c, d]"
  using assms by (auto simp: length_Suc_conv numeral_eq_Suc)

lemma pton_ntop: "inet_pton (inet_ntop ip) = Some ip"
proof -
  have l: "length (put32 ip) = 4" by (rule length_put_le)
  obtain a b c d where p: "put32 ip = [a, b, c, d]" using list_of_four [OF l] by blast
  note st = pton_octet [of "[]" a "46 # octet b @ 46 # octet c @ 46 # octet d"]
    pton_octet [of "[a]" b "46 # octet c @ 46 # octet d"] pton_octet [of "[a, b]" c "46 # octet d"] pton_octet [of "[a, b, c]" d "[]"]
  have "pton [] 0 False (octet a @ 46 # octet b @ 46 # octet c @ 46 # octet d) = Some [a, b, c, d]"
    using st by (simp add: pton_dot)
  then show ?thesis
    using get32_put32 [of ip] by (simp add: inet_ntop_def inet_pton_def p)
qed

lemma ntop_inject [simp]: "inet_ntop a = inet_ntop b \<longleftrightarrow> a = b"
  by (metis option.inject pton_ntop)

section \<open>Comparing\<close>

text \<open>
  \<open>char travers_ip[INET_ADDRSTRLEN]\<close>: the string, its NUL, and what was in the buffer before.
\<close>

definition ip_string :: "byte list \<Rightarrow> u32 \<Rightarrow> byte list" where
  "ip_string buf ip = (let s = inet_ntop ip @ [0] in s @ drop (length s) buf)"

definition same_ip :: "byte list \<Rightarrow> u32 \<Rightarrow> byte list \<Rightarrow> u32 \<Rightarrow> bool" where
  "same_ip buf a buf' b =
     (let n = max (length (inet_ntop a)) (length (inet_ntop b))
      in take n (ip_string buf a) = take n (ip_string buf' b))"

lemma octet_no_nul: "0 \<notin> set (octet b)"
  using unat_byte_le [of b] by (auto simp: octet_def Let_def dest: sym)

lemma ntop_no_nul: "0 \<notin> set (inet_ntop ip)"
proof -
  have "0 \<notin> set (dotted bs)" for bs
    by (induction bs rule: dotted.induct) (auto simp: octet_no_nul)
  then show ?thesis by (simp add: inet_ntop_def)
qed

lemma nul_at_end:
  assumes "take n (s @ 0 # u) = take n (t @ 0 # v)" "length t < n" "length t < length s"
  shows "0 \<in> set s"
proof -
  have "(s @ 0 # u) ! length t = (t @ 0 # v) ! length t"
    using assms(1,2) by (metis nth_take)
  then have "s ! length t = 0" using assms(3) by (simp add: nth_append)
  then show ?thesis using assms(3) nth_mem by metis
qed

lemma take_nul_eq:
  assumes "take (max (length s) (length t)) (s @ 0 # u) = take (max (length s) (length t)) (t @ 0 # v)"
    and "0 \<notin> set s" "0 \<notin> set t"
  shows "s = t"
proof -
  consider "length t < length s" | "length s < length t" | "length s = length t" by linarith
  then show ?thesis
  proof cases
    case 1
    then show ?thesis using nul_at_end [OF assms(1)] assms(2) by simp
  next
    case 2
    then show ?thesis using nul_at_end [OF assms(1) [symmetric]] assms(3) by simp
  next
    case 3
    then show ?thesis using assms(1) by simp
  qed
qed

lemma same_ip_iff: "same_ip buf a buf' b \<longleftrightarrow> a = b"
proof
  assume "same_ip buf a buf' b"
  then show "a = b"
    using take_nul_eq [OF _ ntop_no_nul ntop_no_nul, of a b] by (simp add: same_ip_def ip_string_def Let_def)
qed (simp add: same_ip_def ip_string_def Let_def)

end
