(* ===== verification/Conn.thy ===== *)
theory Conn
  imports Server_Mem Inet
begin

text \<open>
  Connections (\<open>dhmp_transport.c\<close>, \<open>dhmp_context.c\<close>): event descriptors, completion queues and
  queue pairs, the creation of a transport, listening and connecting, the handlers of the
  connection manager's events, and the loop of the event thread.

  What a function makes and has not given back is in \<open>held\<close>.  A \<open>cm_id\<close> names its queue pair too.
  A new transport is a block from \<open>malloc\<close>; the fields that are not assigned keep what was there
  (\<open>junk\<close>).
\<close>

definition upd_trans :: "nat \<Rightarrow> (dhmp_transport \<Rightarrow> dhmp_transport) \<Rightarrow> proc \<Rightarrow> proc" where
  "upd_trans h f p = p\<lparr>trans := (trans p)(h := f (trans p h))\<rparr>"

section \<open>Event descriptors\<close>

text \<open>The block with the event data is never freed once it has been registered.\<close>

definition dhmp_context_add_event_fd :: "ext \<Rightarrow> channel \<Rightarrow> proc \<Rightarrow> int \<times> proc" where
  "dhmp_context_add_event_fd x fd p =
     (let (event_data_ptr, p) = ask (ext_malloc x) p
      in if event_data_ptr = 0 then (-1, p)
         else
           let (retval, p) = ask (ext_rc x) p
           in if retval \<noteq> 0 then (retval, p)
              else (0, acquire (R_event_fd fd) (acquire (R_heap event_data_ptr) p)))"

definition dhmp_context_del_event_fd :: "channel \<Rightarrow> proc \<Rightarrow> proc" where
  "dhmp_context_del_event_fd fd p = release (R_event_fd fd) p"

text \<open>The two \<open>fcntl\<close> calls; \<open>-1\<close> is their failure.\<close>

definition set_nonblock :: "ext \<Rightarrow> proc \<Rightarrow> bool \<times> proc" where
  "set_nonblock x p =
     (let (flags, p) = ask (ext_rc x) p;
          (flags, p) = (if flags \<noteq> -1 then ask (ext_rc x) p else (flags, p))
      in (flags \<noteq> -1, p))"

section \<open>Queues\<close>

text \<open>Two of the three failures after the channel was made leave something behind: the completion queue.\<close>

definition dhmp_cq_get :: "ext \<Rightarrow> proc \<Rightarrow> dhmp_cq option \<times> proc" where
  "dhmp_cq_get x p =
     (let (dcq, p) = ask (ext_malloc x) p
      in if dcq = 0 then (None, p)
         else
           let p = acquire (R_heap dcq) p; (ch, p) = ask (ext_obj x) p
           in case ch of
                None \<Rightarrow> (None, release (R_heap dcq) p)
              | Some ch \<Rightarrow>
                  let clean_channel = (\<lambda>p. release (R_heap dcq) (release (R_comp_channel ch) p));
                      clean_event = (\<lambda>p. clean_channel (dhmp_context_del_event_fd (Comp_chan ch) p));
                      (ok, p) = set_nonblock x (acquire (R_comp_channel ch) p)
                  in if \<not> ok then (None, clean_channel p)
                     else
                       let (retval, p) = dhmp_context_add_event_fd x (Comp_chan ch) p
                       in if retval \<noteq> 0 then (None, clean_channel p)
                          else
                            let (cq, p) = ask (ext_obj x) p
                            in case cq of
                                 None \<Rightarrow> (None, clean_event p)
                               | Some cq \<Rightarrow>
                                   let (retval, p) = ask (ext_rc x) (acquire (R_cq cq) p)
                                   in if retval \<noteq> 0 then (None, clean_event p)
                                      else (Some \<lparr>cq_ptr = dcq, cq_cq = cq, comp_channel = ch\<rparr>, p))"

text \<open>\<open>rdma_create_qp\<close> for the transport's \<open>cm_id\<close>, then the fields; on failure only the block of the queue is freed.\<close>

definition create_qp :: "ext \<Rightarrow> nat \<Rightarrow> dhmp_cq \<Rightarrow> proc \<Rightarrow> int \<times> proc" where
  "create_qp x h q p =
     (case cm_id (trans p h) of
        None \<Rightarrow> (-1, raise Null_deref p)
      | Some cid \<Rightarrow>
          let (retval, p) = ask (ext_rc x) p
          in if retval \<noteq> 0 then (retval, release (R_heap (cq_ptr q)) p)
             else (retval, upd_trans h (\<lambda>t. t\<lparr>qp := Some cid, dcq := Some q\<rparr>) (acquire (R_qp cid) p)))"

definition amper_ud_qp_create :: "ext \<Rightarrow> nat \<Rightarrow> proc \<Rightarrow> int \<times> proc" where
  "amper_ud_qp_create x h p =
     (case dhmp_cq_get x p of
        (None, p) \<Rightarrow> (-1, p)
      | (Some q, p) \<Rightarrow> create_qp x h q p)"

text \<open>C's division rounds towards zero; \<open>DaRPC_clust_NUM\<close> is 5, the length of the arrays.\<close>

definition DaRPC_index :: "int \<Rightarrow> int" where
  "DaRPC_index node = (if node < 0 then - (- node div 5) else node div 5)"

text \<open>In a DaRPC server, clients share queues: the index comes from the transport's \<open>node_id\<close>.\<close>

definition DaRPC_queue :: "ext \<Rightarrow> nat \<Rightarrow> proc \<Rightarrow> dhmp_cq option \<times> proc" where
  "DaRPC_queue x h p =
     (let i = DaRPC_index (node_id (trans p h));
          count = (\<lambda>q p. (Some q, with_server p (\<lambda>s. p\<lparr>server := Some (s\<lparr>DaRPC_dcq := (DaRPC_dcq s)(i \<mapsto> q),
                    DaRPC_dcq_count := (DaRPC_dcq_count s)(i := DaRPC_dcq_count s i + 1)\<rparr>)\<rparr>)))
      in case server p of
           None \<Rightarrow> (None, raise Null_deref p)
         | Some s \<Rightarrow>
             if i < 0 \<or> 5 \<le> i then (None, raise Out_of_bounds p)
             else (case DaRPC_dcq s i of
                     Some q \<Rightarrow> count q p
                   | None \<Rightarrow>
                       (case dhmp_cq_get x p of
                          (None, p) \<Rightarrow> (None, p)
                        | (Some q, p) \<Rightarrow> count q p)))"

definition dhmp_qp_create :: "build \<Rightarrow> ext \<Rightarrow> nat \<Rightarrow> proc \<Rightarrow> int \<times> proc" where
  "dhmp_qp_create b x h p =
     (case if DaRPC_SERVER b then DaRPC_queue x h p else dhmp_cq_get x p of
        (None, p) \<Rightarrow> (-1, p)
      | (Some q, p) \<Rightarrow> create_qp x h q p)"

definition qp_create :: "build \<Rightarrow> ext \<Rightarrow> nat \<Rightarrow> proc \<Rightarrow> int \<times> proc" where
  "qp_create b x h p = (if UD b then amper_ud_qp_create x h p else dhmp_qp_create b x h p)"

definition dhmp_qp_release :: "nat \<Rightarrow> proc \<Rightarrow> proc" where
  "dhmp_qp_release h p =
     (case qp (trans p h) of
        None \<Rightarrow> p
      | Some q \<Rightarrow>
          (case dcq (trans p h) of
             None \<Rightarrow> raise Null_deref p
           | Some d \<Rightarrow>
               let p = release (R_cq (cq_cq d)) (release (R_qp q) p);
                   p = release (R_heap (cq_ptr d)) (dhmp_context_del_event_fd (Comp_chan (comp_channel d)) p)
               in upd_trans h (\<lambda>t. t\<lparr>dcq := None\<rparr>) p))"

section \<open>Transports\<close>

text \<open>The result of registering the event descriptor is not looked at.\<close>

definition dhmp_event_channel_create :: "ext \<Rightarrow> nat \<Rightarrow> proc \<Rightarrow> int \<times> proc" where
  "dhmp_event_channel_create x h p =
     (let (ch, p) = ask (ext_obj x) p; p = upd_trans h (\<lambda>t. t\<lparr>event_channel := ch\<rparr>) p
      in case ch of
           None \<Rightarrow> (-1, p)
         | Some ch \<Rightarrow>
             let (ok, p) = set_nonblock x (acquire (R_event_channel ch) p)
             in if \<not> ok then (-1, release (R_event_channel ch) p)
                else (0, snd (dhmp_context_add_event_fd x (Event_chan ch) p)))"

definition dhmp_memory_register :: "ext \<Rightarrow> u64 \<Rightarrow> dhmp_mr \<Rightarrow> proc \<Rightarrow> int \<times> dhmp_mr \<times> proc" where
  "dhmp_memory_register x len dmr p =
     (let (a, p) = nvm_malloc x len p; dmr = dmr\<lparr>dmr_addr := a\<rparr>
      in if a = 0 then (-1, dmr, p)
         else
           let (mr, p) = ask (\<lambda>t. ext_reg x t a len) p
           in case mr of
                None \<Rightarrow> (-1, dmr, nvm_free a len p)
              | Some r \<Rightarrow> (0, dmr\<lparr>dmr_mr := r, cur_pos := 0\<rparr>, acquire (R_mr r) p))"

text \<open>\<open>RECV_REGION_SIZE\<close> and \<open>SEND_REGION_SIZE\<close> are both 512 MiB.  The handle of the transport is its address.\<close>

definition dhmp_transport_create ::
  "ext \<Rightarrow> dhmp_transport \<Rightarrow> addr option \<Rightarrow> bool \<Rightarrow> bool \<Rightarrow> proc \<Rightarrow> nat option \<times> proc" where
  "dhmp_transport_create x junk dev is_listen is_poll p =
     (let (a, p) = ask (ext_malloc x) p; h = unat a
      in if a = 0 then (None, p)
         else
           let p = upd_trans h (\<lambda>_. junk\<lparr>trans_state := DHMP_TRANSPORT_STATE_INIT, device := dev, nvm_used_size := 0,
                       tr_ah := None\<rparr>)
                     (acquire (R_heap a) p);
               out = (\<lambda>p. (None, release (R_heap a) p));
               out_event_channel = (\<lambda>p.
                 case event_channel (trans p h) of
                   None \<Rightarrow> out (raise Null_deref p)
                 | Some ch \<Rightarrow> out (release (R_event_channel ch) (dhmp_context_del_event_fd (Event_chan ch) p)));
               (err, p) = dhmp_event_channel_create x h p
           in if err \<noteq> 0 then out p
              else if is_listen then (Some h, p)
              else if dev = None then (None, raise Null_deref p)
              else
                let (err, sm, p) = dhmp_memory_register x SEND_REGION_SIZE (send_mr (trans p h)) p;
                    p = upd_trans h (\<lambda>t. t\<lparr>send_mr := sm\<rparr>) p
                in if err \<noteq> 0 then out_event_channel p
                   else
                     let (err, rm, p) = dhmp_memory_register x RECV_REGION_SIZE (recv_mr (trans p h)) p;
                         p = upd_trans h (\<lambda>t. t\<lparr>recv_mr := rm\<rparr>) p
                     in if err \<noteq> 0 then
                          out_event_channel (nvm_free (dmr_addr sm) SEND_REGION_SIZE (release (R_mr (dmr_mr sm)) p))
                        else (Some h, upd_trans h (\<lambda>t. t\<lparr>send_recv_size := SEND_REGION_SIZE, is_poll_qp := is_poll\<rparr>) p))"

text \<open>The two listening functions differ in the port space they pass to \<open>rdma_create_id\<close>.\<close>

definition dhmp_transport_listen :: "ext \<Rightarrow> nat \<Rightarrow> proc \<Rightarrow> int \<times> proc" where
  "dhmp_transport_listen x h p =
     (let (cid, p) = ask (ext_obj x) p
      in case cid of
           None \<Rightarrow> (-1, p)
         | Some cid \<Rightarrow>
             let p = upd_trans h (\<lambda>t. t\<lparr>cm_id := Some cid\<rparr>) (acquire (R_cm_id cid) p);
                 cleanid = (\<lambda>p. upd_trans h (\<lambda>t. t\<lparr>cm_id := None\<rparr>) (release (R_cm_id cid) p));
                 (retval, p) = ask (ext_rc x) p
             in if retval \<noteq> 0 then (retval, cleanid p)
                else
                  let (retval, p) = ask (ext_rc x) p
                  in if retval \<noteq> 0 then (retval, cleanid p)
                     else (0, upd_trans h (\<lambda>t. t\<lparr>trans_state := DHMP_TRANSPORT_STATE_LISTEN\<rparr>) p))"

definition dhmp_transport_listen_UD :: "ext \<Rightarrow> nat \<Rightarrow> proc \<Rightarrow> int \<times> proc" where
  "dhmp_transport_listen_UD = dhmp_transport_listen"

text \<open>\<open>inet_pton\<close> returns 1 for an address and 0 for a string that is none; the port is not modelled.\<close>

definition dhmp_port_uri_transfer :: "nat \<Rightarrow> byte list \<Rightarrow> proc \<Rightarrow> int \<times> proc" where
  "dhmp_port_uri_transfer h url p =
     (case inet_pton url of
        None \<Rightarrow> (0, p)
      | Some ip \<Rightarrow> (1, upd_trans h (\<lambda>t. t\<lparr>peer_ip := ip\<rparr>) p))"

definition dhmp_transport_connect :: "ext \<Rightarrow> nat \<Rightarrow> byte list option \<Rightarrow> int \<Rightarrow> proc \<Rightarrow> int \<times> proc" where
  "dhmp_transport_connect x h url port p =
     (case url of
        None \<Rightarrow> (-1, p)
      | Some url \<Rightarrow>
          if port \<le> 0 then (-1, p)
          else
            let (retval, p) = dhmp_port_uri_transfer h url p
            in if retval < 0 then (retval, p)
               else
                 let (cid, p) = ask (ext_obj x) p
                 in case cid of
                      None \<Rightarrow> (-1, upd_trans h (\<lambda>t. t\<lparr>cm_id := None\<rparr>) p)
                    | Some cid \<Rightarrow>
                        let p = upd_trans h (\<lambda>t. t\<lparr>cm_id := Some cid\<rparr>) (acquire (R_cm_id cid) p);
                            (retval, p) = ask (ext_rc x) p
                        in if retval \<noteq> 0
                           then (retval, upd_trans h (\<lambda>t. t\<lparr>cm_id := None\<rparr>) (release (R_cm_id cid) p))
                           else (0, upd_trans h (\<lambda>t. t\<lparr>trans_state := DHMP_TRANSPORT_STATE_CONNECTING\<rparr>) p))"

definition dhmp_transport_connect_UD :: "ext \<Rightarrow> nat \<Rightarrow> byte list option \<Rightarrow> int \<Rightarrow> proc \<Rightarrow> int \<times> proc" where
  "dhmp_transport_connect_UD = dhmp_transport_connect"

section \<open>The connection manager's events\<close>

datatype rdma_cm_event_type =
    RDMA_CM_EVENT_ADDR_RESOLVED | RDMA_CM_EVENT_ADDR_ERROR | RDMA_CM_EVENT_ROUTE_RESOLVED
  | RDMA_CM_EVENT_ROUTE_ERROR | RDMA_CM_EVENT_CONNECT_REQUEST | RDMA_CM_EVENT_CONNECT_RESPONSE
  | RDMA_CM_EVENT_CONNECT_ERROR | RDMA_CM_EVENT_UNREACHABLE | RDMA_CM_EVENT_REJECTED
  | RDMA_CM_EVENT_ESTABLISHED | RDMA_CM_EVENT_DISCONNECTED | RDMA_CM_EVENT_DEVICE_REMOVAL
  | RDMA_CM_EVENT_MULTICAST_JOIN | RDMA_CM_EVENT_MULTICAST_ERROR | RDMA_CM_EVENT_ADDR_CHANGE
  | RDMA_CM_EVENT_TIMEWAIT_EXIT

text \<open>An event: its \<open>id\<close>, the transport in the \<open>id\<close>'s context, and the peer's address.\<close>

record cm_event =
  ev_event :: rdma_cm_event_type
  ev_id :: nat
  ev_trans :: nat
  ev_ip :: u32
  ev_qp_num :: u32
  ev_qkey :: u32

definition on_cm_addr_resolved :: "ext \<Rightarrow> proc \<Rightarrow> int \<times> proc" where
  "on_cm_addr_resolved x p = ask (ext_rc x) p"

definition on_cm_route_resolved :: "build \<Rightarrow> ext \<Rightarrow> nat \<Rightarrow> proc \<Rightarrow> int \<times> proc" where
  "on_cm_route_resolved b x h p =
     (let (retval, p) = qp_create b x h p
      in if retval \<noteq> 0 then (retval, p)
         else
           let (retval, p) = ask (ext_rc x) p
           in if retval \<noteq> 0
              then (retval, upd_trans h (\<lambda>t. t\<lparr>trans_state := DHMP_TRANSPORT_STATE_ERROR\<rparr>)
                      ((dhmp_qp_release h p)\<lparr>ctx_stop := True\<rparr>))
              else (0, dhmp_post_all_recv x h p))"

text \<open>
  \<open>dhmp_is_exist_connection\<close>: \<open>buf\<close> and \<open>buf'\<close> are the two string buffers before they are first
  written; the second is written again for every transport of the list.
\<close>

fun find_same_ip :: "byte list \<Rightarrow> u32 \<Rightarrow> byte list \<Rightarrow> (nat \<times> u32) list \<Rightarrow> nat option" where
  "find_same_ip buf ip buf' [] = None"
| "find_same_ip buf ip buf' ((h, ip') # ts) =
     (if same_ip buf ip buf' ip' then Some h else find_same_ip buf ip (ip_string buf' ip') ts)"

definition dhmp_is_exist_connection :: "byte list \<times> byte list \<Rightarrow> u32 \<Rightarrow> dhmp_server \<Rightarrow> proc \<Rightarrow> nat option" where
  "dhmp_is_exist_connection bufs ip s p =
     find_same_ip (fst bufs) ip (snd bufs) (map (\<lambda>h. (h, peer_ip (trans p h))) (client_list s))"

text \<open>The number of the new client, its entries, and the answer to its request.\<close>

definition accept_client :: "ext \<Rightarrow> nat \<Rightarrow> dhmp_server \<Rightarrow> proc \<Rightarrow> int \<times> proc" where
  "accept_client x h s p =
     (let node = cur_connections s;
          p = upd_trans h (\<lambda>t. t\<lparr>node_id := node\<rparr>) p;
          s = s\<lparr>cur_connections := cur_connections s + 1\<rparr>
      in if \<not> node_ok node then (0, raise Out_of_bounds (p\<lparr>server := Some s\<rparr>))
         else
           let s = set_node node ((nodes s node)\<lparr>node_trans := Some h\<rparr>) s;
               s = s\<lparr>client_list := client_list s @ [h]\<rparr>;
               (retval, p) = ask (ext_rc x) (p\<lparr>server := Some s\<rparr>)
           in if retval \<noteq> 0 then (-1, p)
              else
                let p = p\<lparr>server := Some (s\<lparr>client_num := client_num s + 1\<rparr>)\<rparr>;
                    p = upd_trans h (\<lambda>t. t\<lparr>trans_state := DHMP_TRANSPORT_STATE_CONNECTING\<rparr>) p
                in (0, dhmp_post_all_recv x h p))"

definition on_cm_connect_request ::
  "build \<Rightarrow> ext \<Rightarrow> dhmp_transport \<Rightarrow> byte list \<times> byte list \<Rightarrow> cm_event \<Rightarrow> proc \<Rightarrow> int \<times> proc" where
  "on_cm_connect_request b x junk bufs ev p =
     (case server p of
        None \<Rightarrow> (-1, raise Null_deref p)
      | Some s \<Rightarrow>
          let normal_trans = dhmp_is_exist_connection bufs (ev_ip ev) s p
          in (case dhmp_transport_create x junk (device (trans p (ev_trans ev))) False (normal_trans \<noteq> None) p of
                (None, p) \<Rightarrow> (-1, p)
              | (Some h, p) \<Rightarrow>
                  let (retval, p) = qp_create b x h (upd_trans h (\<lambda>t. t\<lparr>cm_id := Some (ev_id ev)\<rparr>) p)
                  in if retval \<noteq> 0 then (retval, release (R_heap (of_nat h)) p)
                     else (case server p of
                             None \<Rightarrow> (-1, raise Null_deref p)
                           | Some s \<Rightarrow> accept_client x h s p)))"

definition on_ud_get_ah :: "ext \<Rightarrow> cm_event \<Rightarrow> proc \<Rightarrow> proc" where
  "on_ud_get_ah x ev p =
     (let h = ev_trans ev;
          p = upd_trans h (\<lambda>t. t\<lparr>tr_qp_num := ev_qp_num ev, tr_qkey := ev_qkey ev\<rparr>) p
      in if device (trans p h) = None then raise Null_deref p
         else let (a, p) = ask (ext_obj x) p
              in upd_trans h (\<lambda>t. t\<lparr>tr_ah := a, trans_state := DHMP_TRANSPORT_STATE_CONNECTED\<rparr>) p)"


definition on_cm_established :: "build \<Rightarrow> ext \<Rightarrow> cm_event \<Rightarrow> proc \<Rightarrow> int \<times> proc" where
  "on_cm_established b x ev p =
     (let p = upd_trans (ev_trans ev) (\<lambda>t. t\<lparr>peer_ip := ev_ip ev\<rparr>) p;
          p = (if UD b then on_ud_get_ah x ev p else p)
      in (0, upd_trans (ev_trans ev) (\<lambda>t. t\<lparr>trans_state := DHMP_TRANSPORT_STATE_CONNECTED\<rparr>) p))"

text \<open>
  \<open>dhmp_destroy_source\<close> gives back the two regions and the queue pair; the completion queue, its
  channel, the event channel and the transport stay.
\<close>

definition drop_region :: "dhmp_mr \<Rightarrow> u64 \<Rightarrow> proc \<Rightarrow> proc" where
  "drop_region d n p = (if dmr_addr d \<noteq> 0 then nvm_free (dmr_addr d) n (release (R_mr (dmr_mr d)) p) else p)"

definition drop_comp_channel :: "build \<Rightarrow> nat \<Rightarrow> proc \<Rightarrow> proc" where
  "drop_comp_channel b h p =
     (let t = trans p h;
          del = (\<lambda>p. case dcq t of
                   None \<Rightarrow> raise Null_deref p
                 | Some d \<Rightarrow> dhmp_context_del_event_fd (Comp_chan (comp_channel d)) p);
          i = DaRPC_index (node_id t)
      in if DaRPC_SERVER b then
           with_server p (\<lambda>s.
             if i < 0 \<or> 5 \<le> i then raise Out_of_bounds p
             else
               let n = DaRPC_dcq_count s i - 1;
                   p = p\<lparr>server := Some (s\<lparr>DaRPC_dcq_count := (DaRPC_dcq_count s)(i := n)\<rparr>)\<rparr>
               in if n = 0 then del p else p)
         else del p)"

definition stop_poll_threads :: "build \<Rightarrow> int \<Rightarrow> proc \<Rightarrow> proc" where
  "stop_poll_threads b node p =
     (let on_server = (\<lambda>f p. case server p of
            None \<Rightarrow> p
          | Some s \<Rightarrow> if node_ok node then p\<lparr>server := Some (set_node node (f (nodes s node)) s)\<rparr> else raise Out_of_bounds p);
          p = (if RFP_defined b then on_server (\<lambda>n. n\<lparr>RFPs_time := 0\<rparr>) p else p);
          p = (if scaleRPC_defined b then on_server (\<lambda>n. n\<lparr>Sc_Slocal_mr := None\<rparr>) p else p)
      in if FaRM_defined b then
           let p = p\<lparr>client := map_option (\<lambda>c. c\<lparr>FaRM := (FaRM c)\<lparr>rs_size := 0\<rparr>\<rparr>) (client p)\<rparr>
           in on_server (\<lambda>n. n\<lparr>Fa_size := 0\<rparr>) p
         else p)"

definition dhmp_destroy_source :: "build \<Rightarrow> nat \<Rightarrow> proc \<Rightarrow> proc" where
  "dhmp_destroy_source b h p =
     (let t = trans p h;
          p = drop_region (recv_mr t) (send_recv_size t) (drop_region (send_mr t) (send_recv_size t) p);
          p = (case cm_id t of None \<Rightarrow> raise Null_deref p | Some cid \<Rightarrow> release (R_qp cid) p);
          p = drop_comp_channel b h p;
          p = (case event_channel t of
                 None \<Rightarrow> raise Null_deref p | Some ch \<Rightarrow> dhmp_context_del_event_fd (Event_chan ch) p)
      in stop_poll_threads b (node_id t) p)"

text \<open>
  The ends of \<open>on_cm_disconnected\<close> and \<open>on_cm_error\<close>.  \<open>list_del\<close> of an entry that is in no list goes
  through poisoned pointers.
\<close>

definition forget_client :: "nat \<Rightarrow> dhmp_transport_state \<Rightarrow> proc \<Rightarrow> proc" where
  "forget_client h st p =
     (let p = upd_trans h (\<lambda>t. t\<lparr>trans_state := st\<rparr>) p
      in case server p of
           None \<Rightarrow> p
         | Some s \<Rightarrow>
             let p = p\<lparr>server := Some (s\<lparr>cur_connections := cur_connections s - 1, client_list := remove1 h (client_list s)\<rparr>)\<rparr>
             in if h \<in> set (client_list s) then p else raise Dangling p)"

definition on_cm_disconnected :: "build \<Rightarrow> nat \<Rightarrow> proc \<Rightarrow> int \<times> proc" where
  "on_cm_disconnected b h p = (0, forget_client h DHMP_TRANSPORT_STATE_DISCONNECTED (dhmp_destroy_source b h p))"

definition on_cm_error :: "build \<Rightarrow> nat \<Rightarrow> proc \<Rightarrow> int \<times> proc" where
  "on_cm_error b h p = (0, forget_client h DHMP_TRANSPORT_STATE_ERROR (dhmp_destroy_source b h p))"

definition dhmp_handle_ec_event ::
  "build \<Rightarrow> ext \<Rightarrow> dhmp_transport \<Rightarrow> byte list \<times> byte list \<Rightarrow> cm_event \<Rightarrow> proc \<Rightarrow> int \<times> proc" where
  "dhmp_handle_ec_event b x junk bufs ev p =
     (case ev_event ev of
        RDMA_CM_EVENT_ADDR_RESOLVED \<Rightarrow> on_cm_addr_resolved x p
      | RDMA_CM_EVENT_ROUTE_RESOLVED \<Rightarrow> on_cm_route_resolved b x (ev_trans ev) p
      | RDMA_CM_EVENT_CONNECT_REQUEST \<Rightarrow> on_cm_connect_request b x junk bufs ev p
      | RDMA_CM_EVENT_ESTABLISHED \<Rightarrow> on_cm_established b x ev p
      | RDMA_CM_EVENT_DISCONNECTED \<Rightarrow> on_cm_disconnected b (ev_trans ev) p
      | RDMA_CM_EVENT_CONNECT_ERROR \<Rightarrow> on_cm_error b (ev_trans ev) p
      | _ \<Rightarrow> (-1, p))"

text \<open>The loop takes events until there is none or a handler returns non-zero; the rest stay queued.\<close>

fun dhmp_event_channel_handler ::
  "build \<Rightarrow> ext \<Rightarrow> dhmp_transport \<Rightarrow> byte list \<times> byte list \<Rightarrow> cm_event list \<Rightarrow> proc \<Rightarrow> cm_event list \<times> proc" where
  "dhmp_event_channel_handler b x junk bufs [] p = ([], p)"
| "dhmp_event_channel_handler b x junk bufs (ev # evs) p =
     (let (retval, p) = dhmp_handle_ec_event b x junk bufs ev p
      in if retval \<noteq> 0 then (evs, p) else dhmp_event_channel_handler b x junk bufs evs p)"

text \<open>
  The event thread.  A round is what one \<open>epoll_wait\<close> returns: the handlers of the descriptors that
  are ready, in turn.  After each round the thread looks whether it was told to stop; the rounds that
  are left are the first component.  \<open>stop\<close> is cleared by the thread itself, when it starts.
\<close>

fun context_loop :: "(proc \<Rightarrow> proc) list list \<Rightarrow> proc \<Rightarrow> (proc \<Rightarrow> proc) list list \<times> proc" where
  "context_loop [] p = ([], p)"
| "context_loop (events # rounds) p =
     (let p = fold (\<lambda>event_handler. event_handler) events p
      in if ctx_stop p then (rounds, p) else context_loop rounds p)"

definition dhmp_context_run :: "(proc \<Rightarrow> proc) list list \<Rightarrow> proc \<Rightarrow> (proc \<Rightarrow> proc) list list \<times> proc" where
  "dhmp_context_run rounds p = context_loop rounds (p\<lparr>ctx_stop := False\<rparr>)"

text \<open>\<open>dhmp_context_init\<close>: the descriptor of \<open>epoll\<close> is one of the library's objects; \<open>None\<close> is a negative answer.\<close>

definition dhmp_context_init :: "ext \<Rightarrow> proc \<Rightarrow> int \<times> proc" where
  "dhmp_context_init x p =
     (let (epoll_fd, p) = ask (ext_obj x) p
      in case epoll_fd of
           None \<Rightarrow> (-1, p)
         | Some fd \<Rightarrow>
             let (retval, p) = ask (ext_rc x) (acquire (R_epoll fd) p)
             in if retval \<noteq> 0 then (retval, release (R_epoll fd) p) else (retval, p))"

section \<open>What the parts leave alone\<close>

lemma upd_trans_simps [simp]:
  "server (upd_trans h f p) = server p" "fault (upd_trans h f p) = fault p" "held (upd_trans h f p) = held p"
  "rq (upd_trans h f p) = rq p" "tick (upd_trans h f p) = tick p" "client (upd_trans h f p) = client p"
  "trans (upd_trans h f p) = (trans p)(h := f (trans p h))" "ctx_stop (upd_trans h f p) = ctx_stop p"
  by (simp_all add: upd_trans_def)

lemma post_recv_frames [simp]:
  "server (dhmp_post_recv x h a p) = server p" "fault (dhmp_post_recv x h a p) = fault p" "trans (dhmp_post_recv x h a p) = trans p"
  by (simp_all add: dhmp_post_recv_def dhmp_recv_task_create_def ask_def Let_def case_prod_unfold split: option.split)

lemma post_all_recv_frames [simp]:
  "server (dhmp_post_all_recv x h p) = server p" "fault (dhmp_post_all_recv x h p) = fault p"
  "trans (dhmp_post_all_recv x h p) = trans p"
proof -
  have "server (fold (\<lambda>i p. dhmp_post_recv x h (g i p) p) is p) = server p
      \<and> fault (fold (\<lambda>i p. dhmp_post_recv x h (g i p) p) is p) = fault p
      \<and> trans (fold (\<lambda>i p. dhmp_post_recv x h (g i p) p) is p) = trans p" for g and "is" :: "nat list"
    by (induction "is" arbitrary: p) auto
  then show "server (dhmp_post_all_recv x h p) = server p" "fault (dhmp_post_all_recv x h p) = fault p"
    "trans (dhmp_post_all_recv x h p) = trans p"
    by (simp_all add: dhmp_post_all_recv_def)
qed

lemma event_fd_frames [simp]:
  "server (snd (dhmp_context_add_event_fd x c p)) = server p" "trans (snd (dhmp_context_add_event_fd x c p)) = trans p"
  "fault (snd (dhmp_context_add_event_fd x c p)) = fault p" "rq (snd (dhmp_context_add_event_fd x c p)) = rq p"
  "server (snd (set_nonblock x p)) = server p" "trans (snd (set_nonblock x p)) = trans p"
  "fault (snd (set_nonblock x p)) = fault p" "rq (snd (set_nonblock x p)) = rq p" "held (snd (set_nonblock x p)) = held p"
  "server (dhmp_context_del_event_fd c p) = server p" "trans (dhmp_context_del_event_fd c p) = trans p"
  "fault (dhmp_context_del_event_fd c p) = fault p" "rq (dhmp_context_del_event_fd c p) = rq p"
  "held (dhmp_context_del_event_fd c p) = remove1 (R_event_fd c) (held p)"
  by (simp_all add: dhmp_context_add_event_fd_def set_nonblock_def dhmp_context_del_event_fd_def ask_def Let_def)

lemma add_event_held:
  assumes "dhmp_context_add_event_fd x c p = (r, q)"
  shows "r \<noteq> 0 \<and> held q = held p \<or> r = 0 \<and> (\<exists>e. held q = R_event_fd c # R_heap e # held p)"
  using assms by (auto simp: dhmp_context_add_event_fd_def ask_def Let_def split: if_splits)

lemma cq_get_frames [simp]:
  "server (snd (dhmp_cq_get x p)) = server p" "trans (snd (dhmp_cq_get x p)) = trans p"
  "fault (snd (dhmp_cq_get x p)) = fault p" "rq (snd (dhmp_cq_get x p)) = rq p"
  by (simp_all add: dhmp_cq_get_def ask_def Let_def case_prod_unfold split: option.split)

section \<open>A known peer\<close>

text \<open>
  C36: \<open>dhmp_is_exist_connection\<close> compares printed addresses with \<open>memcmp\<close> over the longer length, in
  buffers that still hold what was in them before; it finds exactly the first transport of the
  list with the same address, whatever the buffers held.
\<close>

lemma exist_connection_iff:
  "dhmp_is_exist_connection bufs ip s p = find (\<lambda>h. peer_ip (trans p h) = ip) (client_list s)"
proof -
  have "find_same_ip buf ip buf' (map (\<lambda>h. (h, peer_ip (trans p h))) hs) = find (\<lambda>h. peer_ip (trans p h) = ip) hs"
    for buf buf' hs
    by (induction hs arbitrary: buf') (auto simp: same_ip_iff)
  then show ?thesis by (simp add: dhmp_is_exist_connection_def)
qed

section \<open>Connecting\<close>

text \<open>
  A string that is no address is not noticed: \<open>inet_pton\<close> answers 0 for it and the test is for a
  negative value, so the connection goes on to whatever address the new transport's memory held.
\<close>

lemma malformed_address_accepted:
  assumes "inet_pton url = None" "0 < port" "ext_obj x (tick p) \<noteq> None" "ext_rc x (Suc (tick p)) = 0"
    and "dhmp_transport_connect x h (Some url) port p = (r, q)"
  shows "r = 0 \<and> trans_state (trans q h) = DHMP_TRANSPORT_STATE_CONNECTING \<and> peer_ip (trans q h) = peer_ip (trans p h)"
  using assms by (auto simp: dhmp_transport_connect_def dhmp_port_uri_transfer_def ask_def Let_def)

definition bad_url :: "byte list" where
  "bad_url = [49, 48, 46, 48]"  \<comment> \<open>\<open>10.0\<close>\<close>

lemma malformed_address_accepted_witness:
  "fst (dhmp_transport_connect ext_ok 0 (Some bad_url) 5555 client_proc) = 0"
  using malformed_address_accepted [of bad_url 5555 ext_ok client_proc 0, OF _ _ _ _ prod.collapse [symmetric]]
  by (simp add: bad_url_def inet_pton_def)

lemma create_qp_ok:
  assumes "create_qp x h q p = (0, p')" "fault p' = None"
  shows "\<exists>c. qp (trans p' h) = Some c \<and> dcq (trans p' h) = Some q \<and> trans_state (trans p' h) = trans_state (trans p h)
    \<and> recv_mr (trans p' h) = recv_mr (trans p h) \<and> rq p' = rq p \<and> server p' = server p \<and> fault p = None"
  using assms by (auto simp: create_qp_def ask_def Let_def split: option.splits if_splits)

lemma qp_create_ok:
  assumes "qp_create b x h p = (0, p')" "fault p' = None" "\<not> DaRPC_SERVER b"
  shows "\<exists>c d. qp (trans p' h) = Some c \<and> dcq (trans p' h) = Some d \<and> trans_state (trans p' h) = trans_state (trans p h)
    \<and> recv_mr (trans p' h) = recv_mr (trans p h) \<and> rq p' = rq p \<and> server p' = server p \<and> fault p = None"
proof -
  obtain d p1 where g: "dhmp_cq_get x p = (d, p1)" by (cases "dhmp_cq_get x p")
  have f: "server p1 = server p" "trans p1 = trans p" "fault p1 = fault p" "rq p1 = rq p"
    using cq_get_frames [of x p] by (simp_all add: g)
  have "\<exists>q. d = Some q \<and> create_qp x h q p1 = (0, p')"
    using assms(1,3) g
    by (cases d) (auto simp: qp_create_def amper_ud_qp_create_def dhmp_qp_create_def split: if_splits)
  then show ?thesis using create_qp_ok [OF _ assms(2)] f by fastforce
qed

lemma get_ah_frames:
  "server (on_ud_get_ah x ev p) = server p" "fault (on_ud_get_ah x ev p) = None \<Longrightarrow> fault p = None"
  by (auto simp: on_ud_get_ah_def ask_def raise_def Let_def split: if_splits)

lemma established_state:
  assumes "on_cm_established b x ev p = (r, q)" "fault q = None" "ev_trans ev = h"
  shows "fault p = None" "trans_state (trans q h) = DHMP_TRANSPORT_STATE_CONNECTED" "peer_ip (trans q h) = ev_ip ev"
    "qp (trans q h) = qp (trans p h)" "dcq (trans q h) = dcq (trans p h)" "rq q = rq p"
  using assms by (auto simp: on_cm_established_def on_ud_get_ah_def ask_def raise_def Let_def split: if_splits)


abbreviation ext_steady :: ext where
  "ext_steady \<equiv> ext_ok\<lparr>ext_malloc := \<lambda>_. 0x1000, ext_obj := \<lambda>_. Some 7,
     ext_nvm := \<lambda>_ _. 0x100000000\<rparr>"

abbreviation connecting :: proc where
  "connecting \<equiv> snd (dhmp_transport_connect ext_steady 0 (Some (inet_ntop 5)) 5555 client_proc)"

abbreviation cm_ev :: "rdma_cm_event_type \<Rightarrow> cm_event" where
  "cm_ev ty \<equiv> \<lparr>ev_event = ty, ev_id = 7, ev_trans = 0, ev_ip = 5, ev_qp_num = 0, ev_qkey = 0\<rparr>"

abbreviation handshake :: "cm_event list \<times> proc" where
  "handshake \<equiv> dhmp_event_channel_handler (default_build 1) ext_steady trans0 ([], [])
     [cm_ev RDMA_CM_EVENT_ADDR_RESOLVED, cm_ev RDMA_CM_EVENT_ROUTE_RESOLVED, cm_ev RDMA_CM_EVENT_ESTABLISHED] connecting"


section \<open>The numbers of the clients\<close>

lemma raise_sticks: "fault (raise f p) = None \<longleftrightarrow> False"
  by (simp add: raise_def)

lemma register_frames:
  assumes "dhmp_memory_register x n d p = (r, d', q)"
  shows "server q = server p" "trans q = trans p" "fault q = None \<Longrightarrow> fault p = None"
  using assms by (auto simp: dhmp_memory_register_def nvm_malloc_def nvm_free_def ask_def Let_def raise_def
      split: option.splits if_splits)

lemma event_channel_frames:
  assumes "dhmp_event_channel_create x h p = (r, q)"
  shows "server q = server p" "g \<noteq> h \<Longrightarrow> trans q g = trans p g" "fault q = None \<Longrightarrow> fault p = None"
  using assms by (auto simp: dhmp_event_channel_create_def ask_def Let_def case_prod_unfold split: option.splits if_splits)

lemma transport_create_frames:
  assumes "dhmp_transport_create x junk dv l pl p = (Some h, q)"
  shows "server q = server p \<and> (\<forall>g. g \<noteq> h \<longrightarrow> trans q g = trans p g)"
  using assms
  by (auto simp: dhmp_transport_create_def ask_def Let_def event_channel_frames(1,2) register_frames(1,2)
      split: option.splits if_splits prod.splits)

lemma qp_create_other:
  assumes "qp_create b x h p = (r, q)" "g \<noteq> h" "\<not> DaRPC_SERVER b"
  shows "trans q g = trans p g"
  using assms by (auto simp: qp_create_def amper_ud_qp_create_def dhmp_qp_create_def create_qp_def ask_def Let_def case_prod_unfold
      split: option.splits if_splits)

lemma accept_client_ok:
  assumes "accept_client x h s p = (0, q)" "fault q = None"
  shows "\<exists>s'. server q = Some s' \<and> client_list s' = client_list s @ [h] \<and> cur_connections s' = cur_connections s + 1
    \<and> node_ok (cur_connections s) \<and> node_trans (nodes s' (cur_connections s)) = Some h \<and> node_id (trans q h) = cur_connections s
    \<and> (\<forall>g. g \<noteq> h \<longrightarrow> trans q g = trans p g)"
  using assms by (auto simp: accept_client_def ask_def Let_def set_node_def raise_sticks split: if_splits)

lemma connect_request_ok:
  assumes "on_cm_connect_request b x junk bufs ev p = (0, q)" "fault q = None" "server p = Some s" "\<not> DaRPC_SERVER b"
  obtains h s' where "server q = Some s'" "client_list s' = client_list s @ [h]" "cur_connections s' = cur_connections s + 1"
    "node_ok (cur_connections s)" "node_trans (nodes s' (cur_connections s)) = Some h" "node_id (trans q h) = cur_connections s"
    "\<And>g. g \<noteq> h \<Longrightarrow> trans q g = trans p g"
proof -
  obtain oh p1 where c: "dhmp_transport_create x junk (device (trans p (ev_trans ev))) False (dhmp_is_exist_connection bufs (ev_ip ev) s p \<noteq> None) p = (oh, p1)"
    by (cases "dhmp_transport_create x junk (device (trans p (ev_trans ev))) False (dhmp_is_exist_connection bufs (ev_ip ev) s p \<noteq> None) p")
  obtain h where h: "oh = Some h" using assms(1,3) c by (cases oh) (auto simp: on_cm_connect_request_def)
  let ?p1 = "upd_trans h (\<lambda>t. t\<lparr>cm_id := Some (ev_id ev)\<rparr>) p1"
  obtain r p2 where p2: "qp_create b x h ?p1 = (r, p2)" by (cases "qp_create b x h ?p1")
  have r: "r = 0" using assms(1,3) c h p2 by (auto simp: on_cm_connect_request_def Let_def split: if_splits)
  have f1: "server p1 = Some s" "\<And>g. g \<noteq> h \<Longrightarrow> trans p1 g = trans p g"
    using transport_create_frames [of x junk _ False _ p h p1] c h assms(3) by auto
  obtain s2 where s2: "server p2 = Some s2" "accept_client x h s2 p2 = (0, q)"
    using assms(1,3) c h p2 r by (auto simp: on_cm_connect_request_def Let_def split: option.splits)
  have "fault p2 = None"
    using s2(2) assms(2) by (auto simp: accept_client_def ask_def Let_def raise_def split: if_splits)
  then have "s2 = s"
    using qp_create_ok [OF p2 [unfolded r] _ assms(4)] s2(1) f1(1) by auto
  then show thesis
    using accept_client_ok [OF s2(2) assms(2)] that f1(2) qp_create_other [OF p2 _ assms(4)] by fastforce
qed

lemma stop_poll_frames:
  assumes "server p = Some s"
  shows "trans (stop_poll_threads b i p) = trans p"
    and "\<exists>s'. server (stop_poll_threads b i p) = Some s' \<and> client_list s' = client_list s \<and> cur_connections s' = cur_connections s
      \<and> (\<forall>i. node_trans (nodes s' i) = node_trans (nodes s i))"
proof -
  show "trans (stop_poll_threads b i p) = trans p"
    using assms by (cases "RFP_defined b"; cases "scaleRPC_defined b"; cases "FaRM_defined b"; cases "node_ok i")
      (simp_all add: stop_poll_threads_def Let_def)
  show "\<exists>s'. server (stop_poll_threads b i p) = Some s' \<and> client_list s' = client_list s \<and> cur_connections s' = cur_connections s
      \<and> (\<forall>i. node_trans (nodes s' i) = node_trans (nodes s i))"
    using assms by (cases "RFP_defined b"; cases "scaleRPC_defined b"; cases "FaRM_defined b"; cases "node_ok i")
      (simp_all add: stop_poll_threads_def Let_def set_node_def)
qed

lemma forget_client_server:
  assumes "server p = Some s" "\<not> DaRPC_SERVER b" "on_cm_disconnected b h p = (r, q)"
  obtains s' where "server q = Some s'" "client_list s' = remove1 h (client_list s)" "cur_connections s' = cur_connections s - 1"
    "\<And>g. node_id (trans q g) = node_id (trans p g)" "\<And>i. node_trans (nodes s' i) = node_trans (nodes s i)"
proof -
  have d: "server (drop_region m n p) = server p" "trans (drop_region m n p) = trans p" for m n p
    by (simp_all add: drop_region_def nvm_free_def)
  have c: "server (drop_comp_channel b h p) = server p" "trans (drop_comp_channel b h p) = trans p" for p
    using assms(2) by (simp_all add: drop_comp_channel_def Let_def split: option.split)
  have "\<exists>p1. dhmp_destroy_source b h p = stop_poll_threads b (node_id (trans p h)) p1 \<and> server p1 = server p \<and> trans p1 = trans p"
    unfolding dhmp_destroy_source_def Let_def
    by (intro exI conjI, rule refl) (simp_all add: c d split: option.split)
  then obtain p1 where p1: "dhmp_destroy_source b h p = stop_poll_threads b (node_id (trans p h)) p1"
    "server p1 = Some s" "trans p1 = trans p" using assms(1) by auto
  obtain s' where s': "server (dhmp_destroy_source b h p) = Some s'" "client_list s' = client_list s"
    "cur_connections s' = cur_connections s" "\<And>i. node_trans (nodes s' i) = node_trans (nodes s i)"
    using stop_poll_frames(2) [OF p1(2), of b "node_id (trans p h)"] unfolding p1(1) by blast
  have t: "trans (dhmp_destroy_source b h p) = trans p"
    using stop_poll_frames(1) [OF p1(2)] p1(3) by (simp add: p1(1))
  have q: "q = forget_client h DHMP_TRANSPORT_STATE_DISCONNECTED (dhmp_destroy_source b h p)"
    using assms(3) by (simp add: on_cm_disconnected_def)
  show thesis
    by (rule that [of "s'\<lparr>cur_connections := cur_connections s' - 1, client_list := remove1 h (client_list s')\<rparr>"])
      (simp_all add: q forget_client_def Let_def s' t)
qed

text \<open>
  C10: client numbers are reused while they are in use.  When a client leaves that is not the latest
  one and another connects, the new client gets the number of the latest one, and so the same entries
  of every per-client array; the server's transport for that number is the newcomer's, and what it
  sends to the old holder goes to the new one.
\<close>

lemma client_number_reused:
  assumes "server p = Some s" "\<not> DaRPC_SERVER b" "node_id (trans p g) = cur_connections s - 1"
    and "on_cm_disconnected b h p = (r, q)"
    and "on_cm_connect_request b x junk bufs ev q = (0, q')" "fault q' = None" "server q' = Some s'"
    and "last (client_list s') \<noteq> g"
  shows "client_list s' = remove1 h (client_list s) @ [last (client_list s')]
    \<and> node_id (trans q' g) = cur_connections s - 1 \<and> node_id (trans q' (last (client_list s'))) = cur_connections s - 1
    \<and> node_trans (nodes s' (cur_connections s - 1)) = Some (last (client_list s'))"
proof -
  obtain s1 where s1: "server q = Some s1" "client_list s1 = remove1 h (client_list s)"
    "cur_connections s1 = cur_connections s - 1" "\<And>g. node_id (trans q g) = node_id (trans p g)"
    by (rule forget_client_server [OF assms(1,2,4)]) (rule that)
  obtain k s2 where k: "server q' = Some s2" "client_list s2 = client_list s1 @ [k]"
    "node_trans (nodes s2 (cur_connections s1)) = Some k" "node_id (trans q' k) = cur_connections s1"
    "\<And>g. g \<noteq> k \<Longrightarrow> trans q' g = trans q g"
    by (rule connect_request_ok [OF assms(5,6) s1(1) assms(2)]) (rule that)
  have "s2 = s'" "last (client_list s') = k" using k(1,2) assms(7) by auto
  then show ?thesis using k s1 assms(3,8) by simp
qed

definition up_trans :: "int \<Rightarrow> dhmp_transport" where
  "up_trans n = trans0\<lparr>node_id := n, cm_id := Some 3, event_channel := Some 4, qp := Some 3,
     dcq := Some \<lparr>cq_ptr = 0x500, cq_cq = 5, comp_channel = 6\<rparr>\<rparr>"

text \<open>A server with the two clients 11 and 12, their numbers 0 and 1.\<close>

definition two_clients :: proc where
  "two_clients = server_proc\<lparr>trans := (\<lambda>_. trans0\<lparr>device := Some 0x900\<rparr>)(11 := up_trans 0, 12 := up_trans 1),
     server := Some (server0\<lparr>client_list := [11, 12], cur_connections := 2\<rparr>)\<rparr>"

abbreviation one_left :: proc where
  "one_left \<equiv> snd (on_cm_disconnected (default_build 1) 11 two_clients)"

lemma steady_cq: "\<exists>d p'. dhmp_cq_get ext_steady p = (Some d, p') \<and> server p' = server p \<and> fault p' = fault p \<and> trans p' = trans p"
  by (simp add: dhmp_cq_get_def set_nonblock_def dhmp_context_add_event_fd_def ask_def Let_def)

lemma steady_qp:
  assumes "cm_id (trans p h) = Some c"
  shows "\<exists>p'. qp_create (default_build n) ext_steady h p = (0, p') \<and> server p' = server p \<and> fault p' = fault p"
proof -
  obtain d p1 where "dhmp_cq_get ext_steady p = (Some d, p1)" "server p1 = server p" "fault p1 = fault p" "trans p1 = trans p"
    using steady_cq by blast
  then show ?thesis using assms by (simp add: qp_create_def dhmp_qp_create_def create_qp_def ask_def Let_def)
qed

lemma steady_channel: "\<exists>p'. dhmp_event_channel_create ext_steady h p = (0, p') \<and> server p' = server p \<and> fault p' = fault p"
  by (simp add: dhmp_event_channel_create_def set_nonblock_def dhmp_context_add_event_fd_def ask_def Let_def)

lemma steady_register:
  "\<exists>d' p'. dhmp_memory_register ext_steady n d p = (0, d', p') \<and> server p' = server p \<and> fault p' = fault p"
  by (simp add: dhmp_memory_register_def nvm_malloc_def ask_def Let_def)

lemma steady_create:
  "\<exists>p'. dhmp_transport_create ext_steady trans0 (Some d) False pl p = (Some 0x1000, p') \<and> server p' = server p \<and> fault p' = fault p"
proof -
  define p1 where "p1 = upd_trans 0x1000 (\<lambda>_. trans0\<lparr>trans_state := DHMP_TRANSPORT_STATE_INIT, device := Some d, nvm_used_size := 0, tr_ah := None\<rparr>)
    (acquire (R_heap 0x1000) (p\<lparr>tick := Suc (tick p)\<rparr>))"
  obtain p2 where p2: "dhmp_event_channel_create ext_steady 0x1000 p1 = (0, p2)" "server p2 = server p1" "fault p2 = fault p1"
    using steady_channel by blast
  obtain sm p3 where p3: "dhmp_memory_register ext_steady SEND_REGION_SIZE (send_mr (trans p2 0x1000)) p2 = (0, sm, p3)"
    "server p3 = server p2" "fault p3 = fault p2"
    using steady_register by blast
  define p4 where "p4 = upd_trans 0x1000 (\<lambda>t. t\<lparr>send_mr := sm\<rparr>) p3"
  obtain rm p5 where p5: "dhmp_memory_register ext_steady RECV_REGION_SIZE (recv_mr (trans p4 0x1000)) p4 = (0, rm, p5)"
    "server p5 = server p4" "fault p5 = fault p4"
    using steady_register by blast
  show ?thesis
    using p2(2,3) p3(2,3) p5(2,3) unfolding dhmp_transport_create_def
    by (simp add: ask_def Let_def p1_def [symmetric] p2(1) p3(1) p5(1) [unfolded p4_def, simplified]) (simp add: p1_def p4_def)
qed

lemma steady_request:
  assumes "device (trans p (ev_trans ev)) = Some d" "server p = Some s" "node_ok (cur_connections s)" "fault p = None"
  shows "\<exists>p' s'. on_cm_connect_request (default_build n) ext_steady trans0 bufs ev p = (0, p') \<and> fault p' = None \<and> server p' = Some s'
    \<and> client_list s' = client_list s @ [0x1000]"
proof -
  obtain p1 where p1: "dhmp_transport_create ext_steady trans0 (Some d) False (dhmp_is_exist_connection bufs (ev_ip ev) s p \<noteq> None) p = (Some 0x1000, p1)"
    "server p1 = server p" "fault p1 = fault p" using steady_create by blast
  obtain p2 where p2: "qp_create (default_build n) ext_steady 0x1000 (upd_trans 0x1000 (\<lambda>t. t\<lparr>cm_id := Some (ev_id ev)\<rparr>) p1) = (0, p2)"
    "server p2 = server p1" "fault p2 = fault p1"
    using steady_qp [of "upd_trans 0x1000 (\<lambda>t. t\<lparr>cm_id := Some (ev_id ev)\<rparr>) p1" "0x1000" "ev_id ev" n] by auto
  show ?thesis
    using assms p1(2,3) p2(2,3)
    by (simp add: on_cm_connect_request_def p1(1) [simplified] p2(1) accept_client_def set_node_def ask_def Let_def)
qed

lemma client_number_reused_witness:
  "\<exists>q' s'. on_cm_connect_request (default_build 1) ext_steady trans0 ([], []) (cm_ev RDMA_CM_EVENT_CONNECT_REQUEST) one_left = (0, q')
     \<and> server q' = Some s' \<and> client_list s' = [12, 0x1000] \<and> node_id (trans q' 12) = 1 \<and> node_id (trans q' 0x1000) = 1"
proof -
  have p: "server two_clients = Some (server0\<lparr>client_list := [11, 12], cur_connections := 2\<rparr>)"
    "node_id (trans two_clients 12) = 1" "fault two_clients = None"
    by (simp_all add: two_clients_def up_trans_def samples)
  have "fault one_left = None"
    by (simp add: on_cm_disconnected_def forget_client_def dhmp_destroy_source_def drop_region_def drop_comp_channel_def
        stop_poll_threads_def nvm_free_def dhmp_context_del_event_fd_def Let_def two_clients_def up_trans_def samples default_build_def)
  moreover have "device (trans one_left 0) = Some 0x900"
    by (simp add: on_cm_disconnected_def forget_client_def dhmp_destroy_source_def drop_region_def drop_comp_channel_def
        stop_poll_threads_def nvm_free_def dhmp_context_del_event_fd_def Let_def two_clients_def up_trans_def samples default_build_def)
  moreover obtain s where s: "server one_left = Some s" "client_list s = [12]" "cur_connections s = 1"
  proof (rule forget_client_server [OF p(1) _ prod.collapse [symmetric], of "default_build 1" 11])
    show "\<not> DaRPC_SERVER (default_build 1)" by simp
  qed (simp add: that)
  ultimately obtain q' s' where q: "on_cm_connect_request (default_build 1) ext_steady trans0 ([], []) (cm_ev RDMA_CM_EVENT_CONNECT_REQUEST) one_left = (0, q')"
    "fault q' = None" "server q' = Some s'" "client_list s' = [12, 0x1000]"
    using steady_request [OF _ s(1), of "cm_ev RDMA_CM_EVENT_CONNECT_REQUEST" "0x900" 1 "([], [])"] by (auto simp: node_ok_def)
  show ?thesis
    using client_number_reused [OF p(1) _ _ prod.collapse [symmetric] q(1,2,3), of 12] q p(2) by simp
qed

end
