(* ===== verification/Config.thy ===== *)
theory Config
  imports Samples Inet
begin

text \<open>
  The configuration (\<open>dhmp_config.c\<close>): the struct the parsed file is written into, the parsers of
  the three kinds of element, and the search for the number of the current node.

  The struct has room for one server, and the parser writes the entry of the \<open>index\<close>-th server
  without a check; so the struct is modelled as what it is, bytes at an address.  The document is the
  tree that the XML library returns; an element's text is what \<open>xmlNodeListGetString\<close> returns,
  \<open>None\<close> for NULL.
\<close>

section \<open>The struct\<close>

text \<open>Offsets: \<open>net_infos[1]\<close> of 32 bytes, \<open>simu_infos[1]\<close> of 12, then the other fields.\<close>

definition nic_name_at :: "nat \<Rightarrow> nat" where "nic_name_at index = 32 * index"
definition addr_at :: "nat \<Rightarrow> nat" where "addr_at index = 32 * index + 10"
definition port_at :: "nat \<Rightarrow> nat" where "port_at index = 32 * index + 28"
definition rdelay_at :: "nat \<Rightarrow> nat" where "rdelay_at index = 32 + 12 * index"
definition wdelay_at :: "nat \<Rightarrow> nat" where "wdelay_at index = 32 + 12 * index + 4"
definition knum_at :: "nat \<Rightarrow> nat" where "knum_at index = 32 + 12 * index + 8"
definition curnet_id_at :: nat where "curnet_id_at = 44"
definition nets_cnt_at :: nat where "nets_cnt_at = 48"
definition watcher_addr_at :: nat where "watcher_addr_at = 52"
definition watcher_port_at :: nat where "watcher_port_at = 72"

lemmas offsets = nic_name_at_def addr_at_def port_at_def rdelay_at_def wdelay_at_def knum_at_def
  curnet_id_at_def nets_cnt_at_def watcher_addr_at_def watcher_port_at_def

definition cfg_put :: "addr \<Rightarrow> nat \<Rightarrow> byte list \<Rightarrow> proc \<Rightarrow> proc" where
  "cfg_put c off bs p = p\<lparr>mem := mem_write (mem p) (c + of_nat off) bs\<rparr>"

definition cfg_get :: "addr \<Rightarrow> nat \<Rightarrow> nat \<Rightarrow> proc \<Rightarrow> byte list" where
  "cfg_get c off n p = mem_read (mem p) (c + of_nat off) n"

definition cfg_int :: "addr \<Rightarrow> nat \<Rightarrow> proc \<Rightarrow> u32" where
  "cfg_int c off p = get32 (cfg_get c off 4 p)"

section \<open>Numbers\<close>

text \<open>\<open>atoi\<close>: \<open>strtol\<close> with its limits, then a conversion to \<open>int\<close>.\<close>

definition isspace :: "byte \<Rightarrow> bool" where
  "isspace ch \<longleftrightarrow> ch = 32 \<or> (9 \<le> unat ch \<and> unat ch \<le> 13)"

definition isdigit :: "byte \<Rightarrow> bool" where
  "isdigit ch \<longleftrightarrow> 48 \<le> unat ch \<and> unat ch \<le> 57"

definition digits_value :: "byte list \<Rightarrow> int" where
  "digits_value bs = foldl (\<lambda>v ch. 10 * v + int (unat ch - 48)) 0 (takeWhile isdigit bs)"

fun signed_value :: "byte list \<Rightarrow> int" where
  "signed_value [] = 0"
| "signed_value (ch # s) =
     (if ch = 45 then - digits_value s else if ch = 43 then digits_value s else digits_value (ch # s))"

definition atoi :: "byte list \<Rightarrow> u32" where
  "atoi s = word_of_int (max (- (2 ^ 63)) (min (2 ^ 63 - 1) (signed_value (dropWhile isspace s))))"

section \<open>Elements\<close>

datatype xmlNode = XmlNode (node_name: string) (node_text: "byte list option") (xmlChildrenNode: "xmlNode list")

text \<open>\<open>memcpy\<close> of a string with its end, and an \<open>int\<close> from a string; both read through the text.\<close>

definition config_string :: "addr \<Rightarrow> nat \<Rightarrow> xmlNode \<Rightarrow> proc \<Rightarrow> proc" where
  "config_string c off n p =
     (case node_text n of None \<Rightarrow> raise Null_deref p | Some val \<Rightarrow> cfg_put c off (val @ [0]) p)"

definition config_int :: "addr \<Rightarrow> nat \<Rightarrow> xmlNode \<Rightarrow> proc \<Rightarrow> proc" where
  "config_int c off n p =
     (case node_text n of None \<Rightarrow> raise Null_deref p | Some val \<Rightarrow> cfg_put c off (put32 (atoi val)) p)"

definition dhmp_parse_watcher_node :: "addr \<Rightarrow> xmlNode \<Rightarrow> proc \<Rightarrow> proc" where
  "dhmp_parse_watcher_node c node p =
     fold (\<lambda>curnode p.
       let p = (if node_name curnode = ''addr'' then config_string c watcher_addr_at curnode p else p)
       in if node_name curnode = ''port'' then config_int c watcher_port_at curnode p else p)
     (xmlChildrenNode node) p"

definition dhmp_parse_client_node :: "xmlNode \<Rightarrow> proc \<Rightarrow> proc" where
  "dhmp_parse_client_node node p =
     fold (\<lambda>curnode p.
       if node_name curnode = ''log_level'' then
         (case node_text curnode of
            None \<Rightarrow> raise Null_deref p
          | Some val \<Rightarrow> p\<lparr>global_log_level := sint (atoi val)\<rparr>)
       else p)
     (xmlChildrenNode node) p"

definition dhmp_parse_server_node :: "addr \<Rightarrow> nat \<Rightarrow> xmlNode \<Rightarrow> proc \<Rightarrow> proc" where
  "dhmp_parse_server_node c index node p =
     fold (\<lambda>curnode p.
       let p = (if node_name curnode = ''nic_name'' then config_string c (nic_name_at index) curnode p else p);
           p = (if node_name curnode = ''addr'' then config_string c (addr_at index) curnode p else p);
           p = (if node_name curnode = ''port'' then config_int c (port_at index) curnode p else p);
           p = (if node_name curnode = ''rdelay'' then config_int c (rdelay_at index) curnode p else p);
           p = (if node_name curnode = ''wdelay'' then config_int c (wdelay_at index) curnode p else p)
       in if node_name curnode = ''knum'' then config_int c (knum_at index) curnode p else p)
     (xmlChildrenNode node) p"

text \<open>One element of the root; the counter \<open>index\<close> and \<open>nets_cnt\<close> are two variables.\<close>

definition config_element :: "addr \<Rightarrow> xmlNode \<Rightarrow> nat \<times> proc \<Rightarrow> nat \<times> proc" where
  "config_element c curnode = (\<lambda>(index, p).
     let p = (if node_name curnode = ''watcher'' then dhmp_parse_watcher_node c curnode p else p);
         p = (if node_name curnode = ''client'' then dhmp_parse_client_node curnode p else p)
     in if node_name curnode = ''server'' then
          let p = dhmp_parse_server_node c index curnode p
          in (Suc index, cfg_put c nets_cnt_at (put32 (cfg_int c nets_cnt_at p + 1)) p)
        else (index, p))"

section \<open>The current node\<close>

text \<open>
  The interfaces that \<open>ioctl\<close> reports are in a buffer of 8192 bytes, 40 for each; an index past the
  buffer faults.  The pointer \<open>ifr\<close> is not set back when the search starts again.
\<close>

record ifreq =
  ifr_name :: "byte list"
  ifr_addr :: u32
  ifr_flags :: u32

definition c_string_is :: "addr \<Rightarrow> nat \<Rightarrow> proc \<Rightarrow> byte list \<Rightarrow> bool" where
  "c_string_is c off p s \<longleftrightarrow> cfg_get c off (length s + 1) p = s @ [0]"

definition nic_matches :: "addr \<Rightarrow> nat \<Rightarrow> proc \<Rightarrow> ifreq \<Rightarrow> bool" where
  "nic_matches c k p ifr \<longleftrightarrow>
     \<not> bit (ifr_flags ifr) 3 \<and> bit (ifr_flags ifr) 0 \<and> c_string_is c (nic_name_at k) p (ifr_name ifr)"

fun scan_ifs :: "(nat \<Rightarrow> ifreq) \<Rightarrow> (ifreq \<Rightarrow> bool) \<Rightarrow> nat \<Rightarrow> nat \<Rightarrow> (u32 option \<times> nat) option" where
  "scan_ifs ifs found 0 ifr = Some (None, ifr)"
| "scan_ifs ifs found (Suc n) ifr =
     (if 204 \<le> ifr then None
      else if found (ifs ifr) then Some (Some (ifr_addr (ifs ifr)), ifr)
      else scan_ifs ifs found n (Suc ifr))"

text \<open>The search over the servers; the result is the number of the current one.\<close>

fun find_curnode :: "(nat \<Rightarrow> ifreq) \<Rightarrow> nat \<Rightarrow> addr \<Rightarrow> nat \<Rightarrow> proc \<Rightarrow> nat list \<Rightarrow> nat \<Rightarrow> nat option option" where
  "find_curnode ifs dev_num c cnt p [] ifr = Some None"
| "find_curnode ifs dev_num c cnt p (k # ks) ifr =
     (case scan_ifs ifs (nic_matches c k p) dev_num ifr of
        None \<Rightarrow> None
      | Some (None, ifr) \<Rightarrow> find_curnode ifs dev_num c cnt p ks ifr
      | Some (Some ip, ifr) \<Rightarrow>
          (case find (\<lambda>i. c_string_is c (addr_at i) p (inet_ntop ip)) [0..<cnt] of
             Some i \<Rightarrow> Some (Some i)
           | None \<Rightarrow> find_curnode ifs dev_num c cnt p ks ifr))"

text \<open>\<open>False\<close>: the process exits.\<close>

definition dhmp_set_curnode_id :: "(nat \<Rightarrow> ifreq) \<Rightarrow> nat \<Rightarrow> addr \<Rightarrow> proc \<Rightarrow> bool \<times> proc" where
  "dhmp_set_curnode_id ifs dev_num c p =
     (let cnt = nat (sint (cfg_int c nets_cnt_at p))
      in case find_curnode ifs dev_num c cnt p [0..<cnt] 0 of
           None \<Rightarrow> (False, raise Out_of_bounds p)
         | Some None \<Rightarrow> (False, p)
         | Some (Some i) \<Rightarrow> (True, cfg_put c curnet_id_at (put32 (of_nat i)) p))"

section \<open>The whole\<close>

text \<open>The document, or \<open>None\<close> when it cannot be parsed, and its root.  The result \<open>None\<close>: the process exits.\<close>

definition dhmp_config_init ::
  "addr \<Rightarrow> xmlNode option option \<Rightarrow> bool \<Rightarrow> (nat \<Rightarrow> ifreq) \<Rightarrow> nat \<Rightarrow> proc \<Rightarrow> int option \<times> proc" where
  "dhmp_config_init c config_doc is_client ifs dev_num p =
     (case config_doc of
        None \<Rightarrow> (Some (-1), p)
      | Some None \<Rightarrow> (Some (-1), p)
      | Some (Some root) \<Rightarrow>
          if node_name root \<noteq> ''dhmp_config'' then (Some (-1), p)
          else
            let p = cfg_put c nets_cnt_at (put32 0) p;
                p = cfg_put c curnet_id_at (put32 (-1)) p;
                (index, p) = fold (config_element c) (xmlChildrenNode root) (0, p)
            in if is_client then (Some 0, p)
               else let (ok, p) = dhmp_set_curnode_id ifs dev_num c p
                    in if ok then (Some 0, p) else (None, p))"

section \<open>Printing and reading numbers\<close>

fun decimal :: "nat \<Rightarrow> byte list" where
  "decimal n = (if n < 10 then [digit n] else decimal (n div 10) @ [digit (n mod 10)])"

declare decimal.simps [simp del]

lemma digits_value_append:
  assumes "list_all isdigit bs"
  shows "digits_value (bs @ [ch]) = (if isdigit ch then 10 * digits_value bs + int (unat ch - 48) else digits_value bs)"
proof -
  have "takeWhile isdigit bs = bs" using assms by (simp add: takeWhile_eq_all_conv list_all_iff)
  moreover have "takeWhile isdigit (bs @ [ch]) = bs @ (if isdigit ch then [ch] else [])"
    using assms by (simp add: list_all_iff)
  ultimately show ?thesis by (simp only: digits_value_def) simp
qed

lemma isdigit_digit [simp]: "d < 10 \<Longrightarrow> isdigit (digit d)"
  by (simp add: isdigit_def)

lemma decimal_digits: "list_all isdigit (decimal n) \<and> digits_value (decimal n) = int n \<and> decimal n \<noteq> []"
proof (induction n rule: decimal.induct)
  case (1 n)
  show ?case
  proof (cases "n < 10")
    case True
    then show ?thesis by (simp add: decimal.simps digits_value_def)
  next
    case False
    have "10 * int (n div 10) + int (n mod 10) = int n" by (simp add: zdiv_int zmod_int)
    then show ?thesis
      using 1 [OF False] False by (simp add: decimal.simps [of n] digits_value_append)
  qed
qed

lemma not_digit: "\<not> isdigit 45" "\<not> isdigit 43" "isdigit ch \<Longrightarrow> \<not> isspace ch"
  by (auto simp: isdigit_def isspace_def)

lemma atoi_decimal [simp]:
  assumes "n < 2 ^ 31"
  shows "atoi (decimal n) = of_nat n"
proof -
  obtain ch s where d: "decimal n = ch # s" using decimal_digits [of n] by (cases "decimal n") auto
  then have ch: "isdigit ch" using decimal_digits [of n] by simp
  then have "dropWhile isspace (decimal n) = decimal n" by (simp add: d not_digit)
  moreover have "signed_value (decimal n) = int n"
    using ch not_digit decimal_digits [of n] by (auto simp: d)
  ultimately show ?thesis using assms by (simp add: atoi_def)
qed

section \<open>Reading back what was written\<close>

lemma cfg_get_put_same: "n = length bs \<Longrightarrow> n \<le> 2 ^ 64 \<Longrightarrow> cfg_get c i n (cfg_put c i bs p) = bs"
  by (simp add: cfg_get_def cfg_put_def)

lemma cfg_get_put_other:
  assumes "i + length bs \<le> j \<or> j + n \<le> i" "i + length bs \<le> 2 ^ 63" "j + n \<le> 2 ^ 63"
  shows "cfg_get c j n (cfg_put c i bs p) = cfg_get c j n p"
  using mem_read_write_offset [OF assms] by (simp add: cfg_get_def cfg_put_def)

lemma cfg_int_put_same [simp]: "cfg_int c i (cfg_put c i (put32 w) p) = w"
  by (simp add: cfg_int_def cfg_get_put_same)

lemma cfg_int_put_other:
  assumes "i + length bs \<le> j \<or> j + 4 \<le> i" "i + length bs \<le> 2 ^ 63" "j + 4 \<le> 2 ^ 63"
  shows "cfg_int c j (cfg_put c i bs p) = cfg_int c j p"
  using cfg_get_put_other [OF assms] by (simp add: cfg_int_def)

lemma c_string_put_same: "length s < 2 ^ 63 \<Longrightarrow> c_string_is c i (cfg_put c i (s @ [0]) p) s"
  by (simp add: c_string_is_def cfg_get_put_same)

lemma c_string_put_other:
  assumes "i + length bs \<le> j \<or> j + length s + 1 \<le> i" "i + length bs \<le> 2 ^ 63" "j + length s + 1 \<le> 2 ^ 63"
  shows "c_string_is c j (cfg_put c i bs p) s = c_string_is c j p s"
  using cfg_get_put_other [of i bs j "length s + 1" c p] assms by (auto simp: c_string_is_def)

lemma cfg_put_frames [simp]:
  "fault (cfg_put c i bs p) = fault p" "global_log_level (cfg_put c i bs p) = global_log_level p"
  by (simp_all add: cfg_put_def)

lemma cfg_log_level [simp]:
  "cfg_put c i bs (p\<lparr>global_log_level := l\<rparr>) = (cfg_put c i bs p)\<lparr>global_log_level := l\<rparr>"
  "cfg_get c j n (p\<lparr>global_log_level := l\<rparr>) = cfg_get c j n p"
  "cfg_int c j (p\<lparr>global_log_level := l\<rparr>) = cfg_int c j p"
  "c_string_is c j (p\<lparr>global_log_level := l\<rparr>) s = c_string_is c j p s"
  by (simp_all add: cfg_put_def cfg_get_def cfg_int_def c_string_is_def)

lemmas reads_back = cfg_get_put_same cfg_get_put_other cfg_int_put_other c_string_put_same c_string_put_other

section \<open>The file\<close>

text \<open>Nodes with other names, such as the blanks between elements, are skipped.\<close>

lemma fold_filter: "(\<And>n p. \<not> P n \<Longrightarrow> f n p = p) \<Longrightarrow> fold f (filter P ns) p = fold f ns p"
  by (induction ns arbitrary: p) auto

definition of_names :: "string list \<Rightarrow> xmlNode list \<Rightarrow> xmlNode list" where
  "of_names names ns = filter (\<lambda>n. node_name n \<in> set names) ns"

abbreviation server_fields :: "xmlNode \<Rightarrow> xmlNode list" where
  "server_fields n \<equiv> of_names [''nic_name'', ''addr'', ''port'', ''rdelay'', ''wdelay'', ''knum''] (xmlChildrenNode n)"

abbreviation elements :: "xmlNode \<Rightarrow> xmlNode list" where
  "elements n \<equiv> of_names [''watcher'', ''client'', ''server''] (xmlChildrenNode n)"

abbreviation leaf :: "string \<Rightarrow> byte list \<Rightarrow> xmlNode" where
  "leaf name val \<equiv> XmlNode name (Some val) []"

text \<open>An entry: the name of the card, the address, and port, delays and \<open>knum\<close> in decimal.\<close>

definition is_server :: "xmlNode \<Rightarrow> byte list \<Rightarrow> byte list \<Rightarrow> nat \<Rightarrow> nat \<Rightarrow> nat \<Rightarrow> nat \<Rightarrow> bool" where
  "is_server n nic ad pt rd wd kn \<longleftrightarrow> node_name n = ''server'' \<and>
     server_fields n = [leaf ''nic_name'' nic, leaf ''addr'' ad, leaf ''port'' (decimal pt), leaf ''rdelay'' (decimal rd),
       leaf ''wdelay'' (decimal wd), leaf ''knum'' (decimal kn)] \<and>
     pt < 2 ^ 31 \<and> rd < 2 ^ 31 \<and> wd < 2 ^ 31 \<and> kn < 2 ^ 31"

definition is_client_element :: "xmlNode \<Rightarrow> nat \<Rightarrow> bool" where
  "is_client_element n l \<longleftrightarrow> node_name n = ''client'' \<and>
     of_names [''log_level''] (xmlChildrenNode n) = [leaf ''log_level'' (decimal l)] \<and> l < 2 ^ 31"

definition is_watcher :: "xmlNode \<Rightarrow> byte list \<Rightarrow> nat \<Rightarrow> bool" where
  "is_watcher n ad pt \<longleftrightarrow> node_name n = ''watcher'' \<and>
     of_names [''addr'', ''port''] (xmlChildrenNode n) = [leaf ''addr'' ad, leaf ''port'' (decimal pt)] \<and> pt < 2 ^ 31"

lemma parse_server:
  assumes "is_server n nic ad pt rd wd kn"
  shows "dhmp_parse_server_node c i n p =
    cfg_put c (knum_at i) (put32 (of_nat kn)) (cfg_put c (wdelay_at i) (put32 (of_nat wd)) (cfg_put c (rdelay_at i) (put32 (of_nat rd))
      (cfg_put c (port_at i) (put32 (of_nat pt)) (cfg_put c (addr_at i) (ad @ [0]) (cfg_put c (nic_name_at i) (nic @ [0]) p)))))"
  using assms unfolding dhmp_parse_server_node_def is_server_def of_names_def
  by (subst fold_filter [symmetric, where P = "\<lambda>n. node_name n \<in> set [''nic_name'', ''addr'', ''port'', ''rdelay'', ''wdelay'', ''knum'']"])
    (simp_all add: config_string_def config_int_def)

lemma parse_client:
  assumes "is_client_element n l"
  shows "dhmp_parse_client_node n p = p\<lparr>global_log_level := int l\<rparr>"
proof -
  have "sint (of_nat l :: u32) = int l"
    using assms by (simp add: is_client_element_def signed_of_nat signed_take_bit_int_eq_self)
  then show ?thesis
    using assms unfolding dhmp_parse_client_node_def is_client_element_def of_names_def
    by (subst fold_filter [symmetric, where P = "\<lambda>n. node_name n \<in> set [''log_level'']"]) simp_all
qed

lemma parse_watcher:
  assumes "is_watcher n ad pt"
  shows "dhmp_parse_watcher_node c n p = cfg_put c watcher_port_at (put32 (of_nat pt)) (cfg_put c watcher_addr_at (ad @ [0]) p)"
  using assms unfolding dhmp_parse_watcher_node_def is_watcher_def of_names_def
  by (subst fold_filter [symmetric, where P = "\<lambda>n. node_name n \<in> set [''addr'', ''port'']"])
    (simp_all add: config_string_def config_int_def)

lemma config_elements:
  assumes "node_name root = ''dhmp_config''"
  shows "dhmp_config_init c (Some (Some root)) True ifs n p =
    (Some 0, snd (fold (config_element c) (elements root)
       (0, cfg_put c curnet_id_at (put32 (-1)) (cfg_put c nets_cnt_at (put32 0) p))))"
  using assms unfolding dhmp_config_init_def of_names_def
  by (subst fold_filter) (auto simp: config_element_def split: prod.split)

text \<open>
  C14: a file with one server is read back.  With a name of at most 9 characters and addresses of at most
  17, and blanks and unknown elements anywhere, every field of the struct has the value of the file,
  the log level too; there is one server and the current one is not known.
\<close>

lemma config_reads_file:
  assumes "node_name root = ''dhmp_config''" "elements root = [cl, wt, sv]"
    and "is_client_element cl l" "is_watcher wt wa wp" "is_server sv nic ad pt rd wd kn"
    and "length nic \<le> 9" "length ad \<le> 17" "length wa \<le> 17"
    and "dhmp_config_init c (Some (Some root)) True ifs n p = (r, q)"
  shows "r = Some 0 \<and> c_string_is c (nic_name_at 0) q nic \<and> c_string_is c (addr_at 0) q ad
    \<and> cfg_int c (port_at 0) q = of_nat pt \<and> cfg_int c (rdelay_at 0) q = of_nat rd \<and> cfg_int c (wdelay_at 0) q = of_nat wd
    \<and> cfg_int c (knum_at 0) q = of_nat kn \<and> c_string_is c watcher_addr_at q wa \<and> cfg_int c watcher_port_at q = of_nat wp
    \<and> cfg_int c nets_cnt_at q = 1 \<and> cfg_int c curnet_id_at q = -1 \<and> global_log_level q = int l \<and> fault q = fault p"
proof -
  have names: "node_name cl = ''client''" "node_name wt = ''watcher''" "node_name sv = ''server''"
    using assms(3-5) by (simp_all add: is_client_element_def is_watcher_def is_server_def)
  show ?thesis
    using assms(6-9) unfolding config_elements [OF assms(1)] assms(2)
    by (auto simp: config_element_def names parse_client [OF assms(3)] parse_watcher [OF assms(4)] parse_server [OF assms(5)]
        offsets reads_back)
qed

text \<open>
  C15: a second server overwrites the count of servers: the entry for its write delay is where
  \<open>nets_cnt\<close> is, and its read delay goes to \<open>curnet_id\<close>.  So after reading two servers the
  library believes there are as many as the second one's write delay, and one.
\<close>

lemma second_server_overwrites_count:
  assumes "node_name root = ''dhmp_config''" "elements root = [sv, sv2]"
    and "is_server sv nic ad pt rd wd kn" "is_server sv2 nic2 ad2 pt2 rd2 wd2 kn2"
    and "length nic \<le> 9" "length ad \<le> 17" "length nic2 \<le> 9" "length ad2 \<le> 17"
    and "dhmp_config_init c (Some (Some root)) True ifs n p = (r, q)"
  shows "r = Some 0 \<and> cfg_int c nets_cnt_at q = of_nat wd2 + 1 \<and> cfg_int c curnet_id_at q = of_nat rd2"
proof -
  have names: "node_name sv = ''server''" "node_name sv2 = ''server''"
    using assms(3,4) by (simp_all add: is_server_def)
  show ?thesis
    using assms(5-9) unfolding config_elements [OF assms(1)] assms(2)
    by (auto simp: config_element_def names parse_server [OF assms(3)] parse_server [OF assms(4)] offsets reads_back)
qed

section \<open>The shipped file\<close>

text \<open>\<open>bin/config.xml\<close>, with the blanks between its elements.\<close>

definition blank :: xmlNode where
  "blank = XmlNode ''text'' (Some [10, 9]) []"

definition xml_element :: "string \<Rightarrow> xmlNode list \<Rightarrow> xmlNode" where
  "xml_element name ns = XmlNode name None (blank # concat (map (\<lambda>n. [n, blank]) ns))"

definition server_element :: "byte list \<Rightarrow> byte list \<Rightarrow> nat \<Rightarrow> nat \<Rightarrow> nat \<Rightarrow> nat \<Rightarrow> xmlNode" where
  "server_element nic ad pt rd wd kn = xml_element ''server'' [leaf ''nic_name'' nic, leaf ''addr'' ad, leaf ''port'' (decimal pt),
     leaf ''rdelay'' (decimal rd), leaf ''wdelay'' (decimal wd), leaf ''knum'' (decimal kn)]"

abbreviation ib0 :: "byte list" where "ib0 \<equiv> [105, 98, 48]"
abbreviation addr_10_10_10_3 :: "byte list" where "addr_10_10_10_3 \<equiv> [49, 48, 46, 49, 48, 46, 49, 48, 46, 51]"
abbreviation addr_127_0_0_1 :: "byte list" where "addr_127_0_0_1 \<equiv> [49, 50, 55, 46, 48, 46, 48, 46, 49]"
abbreviation shipped_server :: xmlNode where "shipped_server \<equiv> server_element ib0 addr_10_10_10_3 39300 780 2340 1"
abbreviation shipped_client :: xmlNode where "shipped_client \<equiv> xml_element ''client'' [leaf ''log_level'' (decimal 4)]"
abbreviation shipped_watcher :: xmlNode where
  "shipped_watcher \<equiv> xml_element ''watcher'' [leaf ''addr'' addr_127_0_0_1, leaf ''port'' (decimal 3333)]"
abbreviation shipped_config :: xmlNode where
  "shipped_config \<equiv> xml_element ''dhmp_config'' [shipped_client, shipped_watcher, shipped_server]"

lemma elements_of_xml: "blank \<notin> set ns \<Longrightarrow> ''text'' \<notin> set names \<Longrightarrow>
   of_names names (xmlChildrenNode (xml_element nm ns)) = of_names names ns"
  by (induction ns) (auto simp: xml_element_def of_names_def blank_def)

lemma shipped_elements:
  "node_name (xml_element nm ns) = nm" "is_client_element shipped_client 4" "is_watcher shipped_watcher addr_127_0_0_1 3333"
  "pt < 2 ^ 31 \<Longrightarrow> rd < 2 ^ 31 \<Longrightarrow> wd < 2 ^ 31 \<Longrightarrow> kn < 2 ^ 31 \<Longrightarrow> is_server (server_element nic ad pt rd wd kn) nic ad pt rd wd kn"
  by (simp_all add: xml_element_def is_client_element_def is_watcher_def is_server_def server_element_def of_names_def blank_def)

abbreviation no_ifs :: "nat \<Rightarrow> ifreq" where
  "no_ifs \<equiv> \<lambda>_. \<lparr>ifr_name = [], ifr_addr = 0, ifr_flags = 0\<rparr>"

lemma config_reads_file_witness:
  "cfg_int 0x1000 (port_at 0) (snd (dhmp_config_init 0x1000 (Some (Some shipped_config)) True no_ifs 0 client_proc)) = 39300"
proof -
  have "elements shipped_config = [shipped_client, shipped_watcher, shipped_server]"
    by (simp add: xml_element_def server_element_def of_names_def blank_def)
  then show ?thesis
    using config_reads_file [where root = shipped_config and c = "0x1000" and n = 0 and p = client_proc,
        OF shipped_elements(1) _ shipped_elements(2,3) shipped_elements(4) _ _ _ prod.collapse [symmetric]]
    by simp
qed

abbreviation second_server :: xmlNode where "second_server \<equiv> server_element ib0 addr_10_10_10_3 39300 780 2340 1"

lemma second_server_overwrites_count_witness:
  "cfg_int 0x1000 nets_cnt_at (snd (dhmp_config_init 0x1000
     (Some (Some (xml_element ''dhmp_config'' [shipped_server, second_server]))) True no_ifs 0 client_proc)) = 2341"
proof -
  have "elements (xml_element ''dhmp_config'' [shipped_server, second_server]) = [shipped_server, second_server]"
    by (simp add: xml_element_def server_element_def of_names_def blank_def)
  then show ?thesis
    using second_server_overwrites_count [where c = "0x1000" and n = 0 and p = client_proc,
        OF shipped_elements(1) _ shipped_elements(4) shipped_elements(4) _ _ _ _ prod.collapse [symmetric]]
    by simp
qed

section \<open>The number of the current node\<close>

lemma scan_ifs_find:
  assumes "ifr + n \<le> 204"
  shows "scan_ifs ifs found n ifr = Some (case find found (map ifs [ifr..<ifr + n]) of
     None \<Rightarrow> (None, ifr + n) | Some i \<Rightarrow> (Some (ifr_addr i), the (List.find (\<lambda>j. found (ifs j)) [ifr..<ifr + n])))"
  using assms
proof (induction n arbitrary: ifr)
  case (Suc n)
  have "[ifr..<ifr + Suc n] = ifr # [Suc ifr..<Suc ifr + n]" by (simp add: upt_conv_Cons)
  then show ?case using Suc.prems Suc.IH [of "Suc ifr"] by (simp split: option.split)
qed simp

text \<open>
  The current node of a server with one entry: the first interface that is up, is no loopback and
  has the entry's card name must have the entry's address; then the current node is number 0, and
  otherwise the process exits.
\<close>

lemma curnode_is_first_match:
  assumes "cfg_int c nets_cnt_at p = 1" "dev_num \<le> 204" "dhmp_set_curnode_id ifs dev_num c p = (ok, q)"
  shows "(ok \<longleftrightarrow> (\<exists>i. find (nic_matches c 0 p) (map ifs [0..<dev_num]) = Some i \<and> c_string_is c (addr_at 0) p (inet_ntop (ifr_addr i))))
    \<and> (ok \<longrightarrow> cfg_int c curnet_id_at q = 0) \<and> fault q = fault p"
  using assms scan_ifs_find [of 0 dev_num ifs "nic_matches c 0 p"]
  by (auto simp: dhmp_set_curnode_id_def Let_def split: option.splits if_splits)

text \<open>A loopback interface and then \<open>ib0\<close> with the shipped address.\<close>

definition two_ifs :: "nat \<Rightarrow> ifreq" where
  "two_ifs i = (if i = 0 then \<lparr>ifr_name = [108, 111], ifr_addr = 0x0100007F, ifr_flags = 9\<rparr>
     else \<lparr>ifr_name = ib0, ifr_addr = 0x030A0A0A, ifr_flags = 1\<rparr>)"

definition configured :: proc where
  "configured = cfg_put 0x1000 nets_cnt_at (put32 1) (cfg_put 0x1000 (addr_at 0) (addr_10_10_10_3 @ [0])
     (cfg_put 0x1000 (nic_name_at 0) (ib0 @ [0]) server_proc))"

lemma curnode_is_first_match_witness:
  "fst (dhmp_set_curnode_id two_ifs 2 0x1000 configured)"
proof -
  have ip: "inet_ntop 0x030A0A0A = addr_10_10_10_3" by code_simp
  have c: "cfg_int 0x1000 nets_cnt_at configured = 1" by (simp add: configured_def)
  have n: "c_string_is 0x1000 (nic_name_at 0) configured ib0" "c_string_is 0x1000 (addr_at 0) configured addr_10_10_10_3"
    unfolding configured_def offsets by (auto simp: reads_back simp del: append_Cons append_Nil)
  have "find (nic_matches 0x1000 0 configured) (map two_ifs [0..<2]) = Some (two_ifs 1)"
    using n by (simp add: two_ifs_def nic_matches_def upt_rec numeral_2_eq_2)
  then show ?thesis
    using curnode_is_first_match [OF c _ prod.collapse [symmetric], of 2 two_ifs] ip n by (simp add: two_ifs_def)
qed

end
