(* ===== verification/Startup.thy ===== *)
theory Startup
  imports "HOL-Library.Multiset" Conn Config RPC_RFP RPC_L5 RPC_Octopus RPC_FaRM RPC_Scale
begin

text \<open>
  Starting and stopping (\<open>dhmp_dev.c\<close>, \<open>dhmp_client_init\<close>, \<open>dhmp_client_destroy\<close> and
  \<open>dhmp_server_init\<close>): the list of devices, the client up to its wait for the connection and its
  buffers after it, the server until it listens, and the two threads that have to agree on the end of
  a client.  The stress threads that a client starts and first joins are in the theory Stress.
\<close>

section \<open>Devices\<close>

record dhmp_device =
  dev_ptr :: addr
  dev_pd :: nat

text \<open>\<open>None\<close>: \<open>verbs\<close> is left NULL.  \<open>ibv_query_device\<close> answers a positive number when it fails, which passes.\<close>

definition dhmp_dev_init :: "ext \<Rightarrow> proc \<Rightarrow> nat option \<times> proc" where
  "dhmp_dev_init x p =
     (let (retval, p) = ask (ext_rc x) p
      in if retval < 0 then (None, p)
         else
           let (pd, p) = ask (ext_obj x) p
           in case pd of
                None \<Rightarrow> (None, p)
              | Some pd \<Rightarrow> (Some pd, acquire (R_pd pd) p))"

text \<open>The loop over the library's array, whose NULL entries are \<open>False\<close>; a device that fails keeps its block.\<close>

fun init_devices :: "ext \<Rightarrow> bool list \<Rightarrow> dhmp_device list \<Rightarrow> proc \<Rightarrow> dhmp_device list \<times> proc" where
  "init_devices x [] devs p = (devs, p)"
| "init_devices x (ctx # ctx_list) devs p =
     (if \<not> ctx then init_devices x ctx_list devs p
      else
        let (dev, p) = ask (ext_malloc x) p
        in if dev = 0 then (devs, p)
           else
             let (pd, p) = dhmp_dev_init x (acquire (R_heap dev) p)
             in case pd of
                  None \<Rightarrow> init_devices x ctx_list devs p
                | Some pd \<Rightarrow> init_devices x ctx_list (devs @ [\<lparr>dev_ptr = dev, dev_pd = pd\<rparr>]) p)"

definition dhmp_dev_list_init :: "ext \<Rightarrow> bool list option \<Rightarrow> proc \<Rightarrow> dhmp_device list \<times> proc" where
  "dhmp_dev_list_init x ctx_list p = (case ctx_list of None \<Rightarrow> ([], p) | Some cs \<Rightarrow> init_devices x cs [] p)"

definition dhmp_dev_list_destroy :: "dhmp_device list \<Rightarrow> proc \<Rightarrow> proc" where
  "dhmp_dev_list_destroy devs p = fold (\<lambda>d p. release (R_heap (dev_ptr d)) (release (R_pd (dev_pd d)) p)) devs p"

text \<open>\<open>dhmp_get_dev_from_client\<close> and \<open>dhmp_get_dev_from_server\<close>: the first device, or NULL.\<close>

definition dhmp_get_dev :: "dhmp_device list \<Rightarrow> addr option" where
  "dhmp_get_dev devs = (case devs of [] \<Rightarrow> None | d # _ \<Rightarrow> Some (dev_ptr d))"

section \<open>The client\<close>

text \<open>\<open>config\<close> comes after \<open>ctx\<close>, which has 16 bytes.\<close>

definition config_of :: "addr \<Rightarrow> addr" where
  "config_of a = a + 16"

text \<open>
  The string that is passed as the address: \<open>inet_pton\<close> takes no string of 16 characters or more, so
  the first 16 bytes tell.
\<close>

definition config_url :: "addr \<Rightarrow> nat \<Rightarrow> proc \<Rightarrow> byte list" where
  "config_url c i p = takeWhile (\<lambda>ch. ch \<noteq> 0) (cfg_get c (addr_at i) 16 p)"

definition connect_net :: "build \<Rightarrow> ext \<Rightarrow> dhmp_transport \<Rightarrow> addr \<Rightarrow> addr option \<Rightarrow> nat \<Rightarrow> proc \<Rightarrow> proc" where
  "connect_net b x junk c dev i p =
     (let (t, p) = dhmp_transport_create x junk dev False False p;
          p = p\<lparr>client := map_option (\<lambda>cl. cl\<lparr>connect_trans := t\<rparr>) (client p)\<rparr>
      in case t of
           None \<Rightarrow> p
         | Some h \<Rightarrow>
             let p = upd_trans h (\<lambda>t. t\<lparr>node_id := int i\<rparr>) p;
                 connect = (if UD b then dhmp_transport_connect_UD else dhmp_transport_connect)
             in snd (connect x h (Some (config_url c i p)) (sint (cfg_int c (port_at i) p)) p))"

text \<open>
  \<open>dhmp_client_init\<close> up to the wait.  The new block holds what \<open>fresh\<close> says; the answers of
  \<open>dhmp_config_init\<close> and \<open>dhmp_context_init\<close> are not looked at.
\<close>

definition dhmp_client_init_start ::
  "build \<Rightarrow> ext \<Rightarrow> dhmp_client \<Rightarrow> dhmp_transport \<Rightarrow> xmlNode option option \<Rightarrow> bool list option \<Rightarrow> proc \<Rightarrow> proc" where
  "dhmp_client_init_start b x fresh junk doc ctx_list p =
     (let (a, p) = ask (ext_malloc x) p
      in if a = 0 then p\<lparr>client := None\<rparr>
         else
           let c = config_of a;
               p = acquire (R_heap a) (p\<lparr>client := Some fresh\<rparr>);
               p = snd (dhmp_config_init c doc True (\<lambda>_. \<lparr>ifr_name = [], ifr_addr = 0, ifr_flags = 0\<rparr>) 0 p);
               p = snd (dhmp_context_init x p);
               (devs, p) = dhmp_dev_list_init x ctx_list p;
               p = p\<lparr>client := map_option (\<lambda>cl. cl\<lparr>addr_info_ht := (\<lambda>_. [])\<rparr>) (client p)\<rparr>
           in fold (connect_net b x junk c (dhmp_get_dev devs)) [0..<nat (sint (cfg_int c nets_cnt_at p))] p)"

text \<open>The wait, for a connection that was made: does it go on?\<close>

definition client_waits :: "proc \<Rightarrow> bool" where
  "client_waits p = (case client p of
     None \<Rightarrow> False
   | Some c \<Rightarrow> (case connect_trans c of None \<Rightarrow> False | Some h \<Rightarrow> trans_state (trans p h) < DHMP_TRANSPORT_STATE_CONNECTED))"

text \<open>
  A buffer and its registration; the cleared ones are written before.  The library's NULL answers are
  used at once in most places; for the five fields that only keep the pointer the fault comes here,
  not at the first use.
\<close>

definition init_buffer :: "ext \<Rightarrow> bool \<Rightarrow> u64 \<Rightarrow> (addr \<Rightarrow> ibv_mr \<Rightarrow> dhmp_client \<Rightarrow> dhmp_client) \<Rightarrow> proc \<Rightarrow> proc" where
  "init_buffer x clear n f p =
     (let (temp, p) = ask (ext_malloc x) p;
          p = (if temp = 0 then p else acquire (R_heap temp) p);
          p = (if clear then
                 if temp = 0 then raise Null_deref p else p\<lparr>mem := mem_write (mem p) temp (replicate (unat n) 0)\<rparr>
               else p)
      in case client p of
           None \<Rightarrow> raise Null_deref p
         | Some c \<Rightarrow>
             if connect_trans c = None then raise Null_deref p
             else (case dhmp_create_smr_per_ops x temp n p of
                     (None, p) \<Rightarrow> raise Null_deref p
                   | (Some (_, mr), p) \<Rightarrow> p\<lparr>client := Some (f temp mr c)\<rparr>))"

definition connection_buffers :: "ext \<Rightarrow> u64 \<Rightarrow> proc \<Rightarrow> proc" where
  "connection_buffers x obj_size p =
     (let p = init_buffer x False 8 (\<lambda>_ mr c. c\<lparr>cas_mr := mr\<rparr>) p;
          p = init_buffer x True (obj_size + 1024) (\<lambda>a mr c. c\<lparr>per_ops_mr := mr, per_ops_mr_addr := a\<rparr>) p
      in init_buffer x True (obj_size + 1024) (\<lambda>_ mr c. c\<lparr>per_ops_mr2 := mr\<rparr>) p)"

definition FaRM_buffers :: "build \<Rightarrow> ext \<Rightarrow> u64 \<Rightarrow> proc \<Rightarrow> proc" where
  "FaRM_buffers b x obj_size p =
     (let n = 8 * 2 + 8 + 2 + obj_size;
          p = fold (\<lambda>i. init_buffer x False n (\<lambda>_ mr c. c\<lparr>FaRM := (FaRM c)\<lparr>rs_local_mr := (rs_local_mr (FaRM c))(i := mr)\<rparr>\<rparr>))
                [0..<FaRM_buffer_NUM b] p;
          p = init_buffer x False (n * of_nat (FaRM_buffer_NUM b)) (\<lambda>_ mr c. c\<lparr>FaRM := (FaRM c)\<lparr>rs_C_mr := mr\<rparr>\<rparr>) p
      in if WFLUSH b then init_buffer x False 1 (\<lambda>_ mr c. c\<lparr>FaRM := (FaRM c)\<lparr>rs_read_mr := mr\<rparr>\<rparr>) p else p)"

definition upd_client :: "(dhmp_client \<Rightarrow> dhmp_client) \<Rightarrow> proc \<Rightarrow> proc" where
  "upd_client f p = (case client p of None \<Rightarrow> raise Null_deref p | Some c \<Rightarrow> p\<lparr>client := Some (f c)\<rparr>)"

text \<open>
  The rest of \<open>dhmp_client_init\<close>, once the connection is there.  \<open>BATCH\<close> is 1, the struct of an Octopus
  request has 40 bytes.
\<close>

definition dhmp_client_init_end :: "build \<Rightarrow> ext \<Rightarrow> u64 \<Rightarrow> nat \<Rightarrow> proc \<Rightarrow> proc" where
  "dhmp_client_init_end b x obj_size nets_cnt p =
     (let connected = (case client p of None \<Rightarrow> False | Some c \<Rightarrow> connect_trans c \<noteq> None);
          p = (if connected then fold (\<lambda>_. connection_buffers x obj_size) [0..<nets_cnt] p else p);
          p = upd_client (\<lambda>c. c\<lparr>work_list := []\<rparr>) p;
          octo_size = 40 + obj_size;
          p = init_buffer x False octo_size (\<lambda>_ mr c. c\<lparr>octo_C_mr := mr\<rparr>) p;
          p = init_buffer x False octo_size (\<lambda>_ mr c. c\<lparr>octo_local_mr := mr\<rparr>) p;
          scale_size = 8 * 2 + 8 + 2 + obj_size + 4;
          p = init_buffer x False scale_size (\<lambda>_ mr c. c\<lparr>scale_Creq_mr := mr\<rparr>) p;
          p = init_buffer x False scale_size (\<lambda>_ mr c. c\<lparr>scale_Cdata_mr := mr\<rparr>) p;
          p = upd_client (\<lambda>c. c\<lparr>local_mr := per_ops_mr c\<rparr>) p;
          p = init_buffer x False (8 + 8 + 1 + obj_size) (\<lambda>_ mr c. c\<lparr>L5_local_smr1 := mr\<rparr>) p;
          p = init_buffer x False (8 + 8 + 2 + obj_size) (\<lambda>_ mr c. c\<lparr>RFP_local_smr := mr\<rparr>) p;
          p = upd_client (\<lambda>c. c\<lparr>local_mr := per_ops_mr c\<rparr>) p;
          p = FaRM_buffers b x obj_size p;
          p = (if SFLUSH b then
                 init_buffer x False 1 (\<lambda>_ mr c. c\<lparr>pRDMA := (pRDMA c)\<lparr>rs_read_mr := mr\<rparr>\<rparr>)
                   (upd_client (\<lambda>c. c\<lparr>count_post_send_for_SFlush := 0\<rparr>) p)
               else p)
      in upd_client (\<lambda>c. c\<lparr>para_request_num := int (FaRM_buffer_NUM b)\<rparr>) p)"

section \<open>The server\<close>

text \<open>
  \<open>dhmp_server_init\<close>; \<open>False\<close>: the process exits.  The new block holds what \<open>fresh\<close> says; the number of
  bytes of the memory node comes from \<open>numa_node_size\<close>.  The port is read at \<open>curnet_id\<close> and not
  modelled further.
\<close>

definition dhmp_server_init ::
  "build \<Rightarrow> ext \<Rightarrow> dhmp_server \<Rightarrow> dhmp_transport \<Rightarrow> xmlNode option option \<Rightarrow> (nat \<Rightarrow> ifreq) \<Rightarrow> nat
   \<Rightarrow> bool list option \<Rightarrow> u64 \<Rightarrow> proc \<Rightarrow> bool \<times> proc" where
  "dhmp_server_init b x fresh junk doc ifs dev_num ctx_list node_size p =
     (let (a, p) = ask (ext_malloc x) p
      in if a = 0 then (True, p\<lparr>server := None\<rparr>)
         else
           let p = acquire (R_heap a) (p\<lparr>server := Some fresh\<rparr>);
               (rc, p) = dhmp_config_init (config_of a) doc False ifs dev_num p
           in if rc = None then (False, p)
              else
                let p = snd (dhmp_context_init x p);
                    s = fresh\<lparr>cur_connections := 0, client_list := []\<rparr>;
                    (devs, p) = dhmp_dev_list_init x ctx_list p;
                    s = s\<lparr>nvm_total_size := node_size, ringbufferAddr := 0, cur_addr := 0, srv_nvm_used_size := 0\<rparr>;
                    (t, p) = dhmp_transport_create x junk (dhmp_get_dev devs) True False p;
                    s = s\<lparr>listen_trans := t\<rparr>
                in case t of
                     None \<Rightarrow> (False, p\<lparr>server := Some s\<rparr>)
                   | Some h \<Rightarrow>
                       let s = s\<lparr>client_num := 0\<rparr>;
                           s = (if DaRPC_SERVER b then s\<lparr>DaRPC_dcq_count := (\<lambda>_. 0), DaRPC_dcq := (\<lambda>_. None)\<rparr> else s);
                           s = s\<lparr>L5_mailbox_addr := 0\<rparr>;
                           listen = (if UD b then dhmp_transport_listen_UD else dhmp_transport_listen);
                           (err, p) = listen x h (p\<lparr>server := Some s\<rparr>)
                       in if err \<noteq> 0 then (False, p)
                          else (True, p\<lparr>server := Some (s\<lparr>nodes := (\<lambda>i. (nodes s i)\<lparr>area_list := []\<rparr>)\<rparr>)\<rparr>))"

section \<open>The end of a client\<close>

text \<open>
  \<open>dhmp_client_destroy\<close> and the event thread.  The program counters are between the statements of the
  two: the main thread waits for the end of the connection (the close itself is queued work of another
  thread), sets \<open>stop\<close>, joins; the event thread waits in \<open>epoll_wait\<close>, handles, tests \<open>stop\<close>.  An event
  can only arrive on a descriptor that is registered.
\<close>

datatype main_pc = Wait_close | Set_stop | Join_loop | Destroyed
datatype loop_pc = In_epoll_wait | Handling cm_event | Test_stop | Loop_ended

inductive destroy_step :: "build \<Rightarrow> ext \<Rightarrow> nat \<Rightarrow> main_pc \<times> loop_pc \<times> proc \<Rightarrow> main_pc \<times> loop_pc \<times> proc \<Rightarrow> bool"
  for b x h where
  closed: "trans_state (trans p h) \<noteq> DHMP_TRANSPORT_STATE_CONNECTED \<Longrightarrow> destroy_step b x h (Wait_close, l, p) (Set_stop, l, p)"
| stop: "destroy_step b x h (Set_stop, l, p) (Join_loop, l, p\<lparr>ctx_stop := True\<rparr>)"
| join: "destroy_step b x h (Join_loop, Loop_ended, p) (Destroyed, Loop_ended, p)"
| wake: "R_event_fd ch \<in> set (held p) \<Longrightarrow> destroy_step b x h (m, In_epoll_wait, p) (m, Handling ev, p)"
| handle: "destroy_step b x h (m, Handling ev, p)
    (m, Test_stop, snd (dhmp_event_channel_handler b x junk bufs [ev] p))"
| again: "\<not> ctx_stop p \<Longrightarrow> destroy_step b x h (m, Test_stop, p) (m, In_epoll_wait, p)"
| ends: "ctx_stop p \<Longrightarrow> destroy_step b x h (m, Test_stop, p) (m, Loop_ended, p)"

inductive_simps joining_step: "destroy_step b x h (Join_loop, l, p) r"

section \<open>Devices are given back\<close>

lemma init_devices_held:
  assumes "\<And>t. 0 \<le> ext_rc x t" "\<And>t. ext_obj x t \<noteq> None" "init_devices x cs devs p = (devs', q)"
  shows "\<exists>new. devs' = devs @ new \<and> mset (held q) = mset (held p)
    + mset (concat (map (\<lambda>d. [R_heap (dev_ptr d), R_pd (dev_pd d)]) new))"
  using assms(3)
proof (induction cs arbitrary: devs p)
  case (Cons c cs)
  show ?case
  proof (cases "c \<and> ext_malloc x (tick p) \<noteq> 0")
    case True
    obtain pd where pd: "ext_obj x (Suc (Suc (tick p))) = Some pd" using assms(2) by blast
    define d where "d = \<lparr>dev_ptr = ext_malloc x (tick p), dev_pd = pd\<rparr>"
    obtain p2 where p2: "init_devices x cs (devs @ [d]) p2 = (devs', q)" "held p2 = R_pd pd # R_heap (dev_ptr d) # held p"
      using Cons.prems True assms(1) pd
      by (auto simp: dhmp_dev_init_def ask_def Let_def d_def linorder_not_less [symmetric] split: if_splits)
    obtain new where "devs' = (devs @ [d]) @ new" "mset (held q) = mset (held p2)
        + mset (concat (map (\<lambda>d. [R_heap (dev_ptr d), R_pd (dev_pd d)]) new))"
      using Cons.IH [OF p2(1)] by blast
    then show ?thesis by (intro exI [of _ "d # new"]) (simp add: p2(2) d_def)
  next
    case False
    then consider "\<not> c" | "c" "ext_malloc x (tick p) = 0" by blast
    then show ?thesis
    proof cases
      case 1
      then show ?thesis using Cons by simp
    next
      case 2
      then show ?thesis using Cons.prems by (auto simp: ask_def Let_def)
    qed
  qed
qed simp

lemma destroy_devices_held:
  "mset (held (dhmp_dev_list_destroy devs p)) = mset (held p) - mset (concat (map (\<lambda>d. [R_heap (dev_ptr d), R_pd (dev_pd d)]) devs))"
proof (induction devs arbitrary: p)
  case (Cons d devs)
  then show ?case by (simp add: dhmp_dev_list_destroy_def mset_remove1 add_mset_commute)
qed (simp add: dhmp_dev_list_destroy_def)

text \<open>
  The devices are given back: when no device fails to open, initialising the list and destroying it
  leaves what was held before, blocks and protection domains alike, also when a \<open>malloc\<close> stops the loop.
\<close>

lemma dev_list_given_back:
  assumes "\<And>t. 0 \<le> ext_rc x t" "\<And>t. ext_obj x t \<noteq> None" "dhmp_dev_list_init x ctx_list p = (devs, q)"
  shows "mset (held (dhmp_dev_list_destroy devs q)) = mset (held p)"
proof (cases ctx_list)
  case (Some cs)
  then have "init_devices x cs [] p = (devs, q)" using assms(3) by (simp add: dhmp_dev_list_init_def)
  from init_devices_held [OF assms(1,2) this] show ?thesis by (auto simp: destroy_devices_held)
qed (use assms(3) in \<open>auto simp: dhmp_dev_list_init_def dhmp_dev_list_destroy_def\<close>)

lemma dev_list_given_back_witness:
  "mset (held (dhmp_dev_list_destroy (fst (dhmp_dev_list_init ext_ok (Some [True, False, True]) client_proc))
     (snd (dhmp_dev_list_init ext_ok (Some [True, False, True]) client_proc)))) = {#}"
proof -
  have "held client_proc = []" by (simp add: client_proc_def proc0_def)
  then show ?thesis using dev_list_given_back [OF _ _ prod.collapse [symmetric], of ext_ok "Some [True, False, True]" client_proc] by simp
qed

section \<open>The client's buffers\<close>

text \<open>
  What holds of the client record if nothing faulted, and how it goes back through an operation: the
  weakest preconditions of the two operations that \<open>dhmp_client_init\<close> is made of.
\<close>

definition client_has :: "(dhmp_client \<Rightarrow> bool) \<Rightarrow> proc \<Rightarrow> bool" where
  "client_has P p \<longleftrightarrow> (fault p = None \<longrightarrow> (\<exists>c. client p = Some c \<and> P c))"

text \<open>What the verbs library promises of a registered region.\<close>

definition registers_exactly :: "ext \<Rightarrow> bool" where
  "registers_exactly x \<longleftrightarrow> (\<forall>t a n r. ext_reg x t a n = Some r \<longrightarrow> mr_addr r = a \<and> mr_length r = n)"

lemma upd_client_has: "client_has (\<lambda>c. P (f c)) p \<Longrightarrow> client_has P (upd_client f p)"
  by (auto simp: client_has_def upd_client_def raise_sticks split: option.split)

lemma init_buffer_has:
  assumes "registers_exactly x" "client_has (\<lambda>c. \<forall>a mr. mr_length mr = through_int n \<longrightarrow> P (f a mr c)) p"
  shows "client_has P (init_buffer x clear n f p)"
  using assms
  by (auto simp: client_has_def init_buffer_def registers_exactly_def dhmp_create_smr_per_ops_def ask_def Let_def raise_sticks
      split: option.splits if_splits)

lemma FaRM_slots_has:
  assumes "registers_exactly x"
    and "client_has (\<lambda>c. \<forall>g. (\<forall>i<k. mr_length (g i) = through_int n) \<longrightarrow> P (c\<lparr>FaRM := (FaRM c)\<lparr>rs_local_mr := g\<rparr>\<rparr>)) p"
  shows "client_has P (fold (\<lambda>i. init_buffer x False n (\<lambda>_ mr c. c\<lparr>FaRM := (FaRM c)\<lparr>rs_local_mr := (rs_local_mr (FaRM c))(i := mr)\<rparr>\<rparr>)) [0..<k] p)"
  using assms(2)
proof (induction k arbitrary: P)
  case 0
  have "c\<lparr>FaRM := (FaRM c)\<lparr>rs_local_mr := rs_local_mr (FaRM c)\<rparr>\<rparr> = c" for c :: dhmp_client by simp
  then have "client_has P p" using 0 unfolding client_has_def by (metis less_zeroE)
  then show ?case by simp
next
  case (Suc k)
  have "client_has (\<lambda>c. \<forall>a mr. mr_length mr = through_int n \<longrightarrow> P (c\<lparr>FaRM := (FaRM c)\<lparr>rs_local_mr := (rs_local_mr (FaRM c))(k := mr)\<rparr>\<rparr>))
    (fold (\<lambda>i. init_buffer x False n (\<lambda>_ mr c. c\<lparr>FaRM := (FaRM c)\<lparr>rs_local_mr := (rs_local_mr (FaRM c))(i := mr)\<rparr>\<rparr>)) [0..<k] p)"
    using Suc.prems by (intro Suc.IH) (auto simp: client_has_def less_Suc_eq)
  then show ?case
    by (simp only: upt_Suc_append [OF zero_le] fold_append fold_simps comp_apply id_apply) (rule init_buffer_has [OF assms(1)])
qed


lemma steady_buffer [simp]:
  assumes "client p = Some c" "connect_trans c \<noteq> None"
  shows "client (init_buffer ext_steady clear n f p) = Some (f 0x1000 (mr_at 0x1000 (through_int n)) c)"
    and "fault (init_buffer ext_steady clear n f p) = fault p"
proof -
  obtain h where "connect_trans c = Some h" using assms(2) by auto
  then show "client (init_buffer ext_steady clear n f p) = Some (f 0x1000 (mr_at 0x1000 (through_int n)) c)"
    "fault (init_buffer ext_steady clear n f p) = fault p"
    using assms(1) by (simp_all add: init_buffer_def dhmp_create_smr_per_ops_def ask_def Let_def)
qed


lemma client_waits_cong: "client q = client p \<Longrightarrow> trans q = trans p \<Longrightarrow> client_waits q = client_waits p"
  by (simp add: client_waits_def cong: option.case_cong)

section \<open>A client that never gets its connection\<close>

text \<open>
  C38: a refused connection is not noticed.  The failures that the connection manager reports -- address
  or route not resolved, peer unreachable, request rejected -- change nothing, so the wait of
  \<open>dhmp_client_init\<close> never ends, whatever the number of such events and of repeated resolutions.
\<close>

lemma refused_client_waits:
  assumes "client_waits p"
    and "\<forall>ev\<in>set evs. ev_event ev \<in> {RDMA_CM_EVENT_ADDR_RESOLVED, RDMA_CM_EVENT_ADDR_ERROR, RDMA_CM_EVENT_ROUTE_ERROR,
           RDMA_CM_EVENT_UNREACHABLE, RDMA_CM_EVENT_REJECTED}"
  shows "client_waits (snd (context_loop (map (\<lambda>ev. [\<lambda>p. snd (dhmp_event_channel_handler b x junk bufs [ev] p)]) evs) p))"
  using assms
proof (induction evs arbitrary: p)
  case (Cons ev evs)
  define q where "q = snd (dhmp_event_channel_handler b x junk bufs [ev] p)"
  have "client q = client p" "trans q = trans p"
    using Cons.prems(2) by (auto simp: q_def dhmp_handle_ec_event_def on_cm_addr_resolved_def ask_def Let_def case_prod_unfold)
  then have "client_waits q" using Cons.prems(1) client_waits_cong by metis
  then show ?case using Cons.IH [of q] Cons.prems(2) by (simp add: q_def [symmetric] Let_def del: dhmp_event_channel_handler.simps)
qed simp

abbreviation refused :: "cm_event list" where
  "refused \<equiv> [cm_ev RDMA_CM_EVENT_ADDR_RESOLVED, cm_ev RDMA_CM_EVENT_REJECTED]"

lemma refused_client_waits_witness:
  "client_waits (snd (context_loop (map (\<lambda>ev. [\<lambda>p. snd (dhmp_event_channel_handler (default_build 1) ext_steady trans0 ([], []) [ev] p)])
     refused) connecting))"
proof -
  have "client_waits connecting"
    by (simp add: client_waits_def dhmp_transport_connect_def dhmp_port_uri_transfer_def pton_ntop ask_def Let_def
        client0_def less_dhmp_transport_state_def)
  then show ?thesis by (rule refused_client_waits) simp
qed

text \<open>
  A failed connect looks like a connection.  When \<open>rdma_connect\<close> fails the transport's state is
  \<open>ERROR\<close>, which is past \<open>CONNECTED\<close> in the order of the states, so the wait ends and the initialisation
  goes on, with the queues released and the event thread told to stop.
\<close>

lemma failed_connect_ends_wait:
  assumes "client p = Some c" "connect_trans c = Some h" "\<not> DaRPC_SERVER b"
    and "qp_create b x h p = (0, p1)" "fault p1 = None" "ext_rc x (tick p1) \<noteq> 0"
    and "on_cm_route_resolved b x h p = (r, q)" "client p1 = client p"
  shows "r \<noteq> 0 \<and> \<not> client_waits q \<and> trans_state (trans q h) = DHMP_TRANSPORT_STATE_ERROR \<and> dcq (trans q h) = None \<and> ctx_stop q"
proof -
  obtain k d where "qp (trans p1 h) = Some k" "dcq (trans p1 h) = Some d"
    using qp_create_ok [OF assms(4,5,3)] by blast
  then have q: "client q = client p1" "trans_state (trans q h) = DHMP_TRANSPORT_STATE_ERROR" "dcq (trans q h) = None" "ctx_stop q" "r \<noteq> 0"
    using assms(4,6,7) by (auto simp: on_cm_route_resolved_def dhmp_qp_release_def dhmp_context_del_event_fd_def ask_def Let_def)
  then show ?thesis using assms(1,2,8) by (simp add: client_waits_def less_dhmp_transport_state_def)
qed

abbreviation ext_no_connect :: ext where
  "ext_no_connect \<equiv> ext_steady\<lparr>ext_rc := \<lambda>t. if t = 9 then 1 else 0\<rparr>"

lemma failed_connect_ends_wait_witness:
  "\<not> client_waits (snd (on_cm_route_resolved (default_build 1) ext_no_connect 0 (upd_trans 0 (\<lambda>t. t\<lparr>cm_id := Some 7\<rparr>) client_proc)))"
proof -
  define p where "p = upd_trans 0 (\<lambda>t. t\<lparr>cm_id := Some 7\<rparr>) client_proc"
  define p1 where "p1 = snd (qp_create (default_build 1) ext_no_connect 0 p)"
  have p: "client p = Some client0" "connect_trans client0 = Some 0"
    by (simp_all add: p_def client0_def)
  have p1: "qp_create (default_build 1) ext_no_connect 0 p = (0, p1)" "fault p1 = None" "tick p1 = 9" "client p1 = client p"
    by (simp_all add: p1_def p_def qp_create_def dhmp_qp_create_def create_qp_def dhmp_cq_get_def set_nonblock_def
        dhmp_context_add_event_fd_def ask_def Let_def)
  have "ext_rc ext_no_connect (tick p1) \<noteq> 0" by (simp add: p1)
  from failed_connect_ends_wait [OF p _ p1(1,2) this prod.collapse [symmetric] p1(4)] show ?thesis
    by (simp add: p_def)
qed

section \<open>The clients of a server\<close>

text \<open>
  What a server that only gained clients keeps: there are at most three, they are counted, and the
  transport of number \<open>i\<close> is the \<open>i\<close>-th client's.
\<close>

definition numbered :: "dhmp_server \<Rightarrow> bool" where
  "numbered s \<longleftrightarrow> length (client_list s) \<le> 3 \<and> cur_connections s = int (length (client_list s))
     \<and> (\<forall>i<length (client_list s). node_trans (nodes s (int i)) = Some (client_list s ! i))"

lemma register_keeps:
  assumes "dhmp_memory_register x n d p = (r, d', q)"
  shows "server q = server p \<and> (fault q = None \<longrightarrow> fault p = None)"
  using register_frames [OF assms] by simp

lemma event_channel_keeps:
  assumes "dhmp_event_channel_create x h p = (r, q)"
  shows "server q = server p \<and> (fault q = None \<longrightarrow> fault p = None)"
  using event_channel_frames [OF assms] by simp

lemma transport_create_keeps:
  assumes "dhmp_transport_create x junk dv l pl p = (r, q)"
  shows "server q = server p \<and> (fault q = None \<longrightarrow> fault p = None)"
  using assms
  by (auto simp: dhmp_transport_create_def ask_def Let_def raise_sticks dhmp_context_del_event_fd_def nvm_free_def
      dest!: register_keeps event_channel_keeps split: option.splits if_splits prod.splits)

lemma qp_create_keeps:
  assumes "qp_create b x h p = (r, q)" "\<not> DaRPC_SERVER b"
  shows "server q = server p \<and> (fault q = None \<longrightarrow> fault p = None)"
proof -
  obtain d p1 where g: "dhmp_cq_get x p = (d, p1)" by (cases "dhmp_cq_get x p")
  have f: "server p1 = server p" "fault p1 = fault p"
    using cq_get_frames [of x p] by (simp_all add: g)
  have "d = None \<and> q = p1 \<or> (\<exists>e. create_qp x h e p1 = (r, q))"
    using assms g by (cases d) (auto simp: qp_create_def amper_ud_qp_create_def dhmp_qp_create_def split: if_splits)
  then show ?thesis
    using f by (auto simp: create_qp_def ask_def Let_def raise_sticks split: option.splits if_splits)
qed

lemma accept_keeps_numbered:
  assumes "accept_client x h s p = (r, q)"
  shows "fault q = None \<Longrightarrow> fault p = None"
    and "numbered s \<Longrightarrow> fault q = None \<Longrightarrow> \<exists>s'. server q = Some s' \<and> numbered s'"
  using assms
  by (auto simp: accept_client_def numbered_def set_node_def nth_append less_Suc_eq node_ok_def ask_def Let_def raise_sticks
      split: if_splits)

lemma request_cases:
  assumes "on_cm_connect_request b x junk bufs ev p = (r, q)" "\<not> DaRPC_SERVER b"
  shows "fault q = None \<Longrightarrow> fault p = None"
    and "fault q = None \<Longrightarrow> server p = Some s \<Longrightarrow>
      server q = Some s \<or> (\<exists>h p2. accept_client x h s p2 = (r, q))"
proof -
  show "fault q = None \<Longrightarrow> fault p = None"
    using assms
    by (auto simp: on_cm_connect_request_def Let_def raise_sticks dest!: transport_create_keeps qp_create_keeps accept_keeps_numbered(1)
        split: option.splits prod.splits if_splits)
  show "fault q = None \<Longrightarrow> server p = Some s \<Longrightarrow>
      server q = Some s \<or> (\<exists>h p2. accept_client x h s p2 = (r, q))"
    using assms
    by (auto simp: on_cm_connect_request_def Let_def raise_sticks dest!: transport_create_keeps qp_create_keeps
        split: option.splits prod.splits if_splits)
qed

lemma event_keeps_numbered:
  assumes "dhmp_handle_ec_event b x junk bufs ev p = (r, q)" "\<not> DaRPC_SERVER b"
    and "ev_event ev \<in> {RDMA_CM_EVENT_CONNECT_REQUEST, RDMA_CM_EVENT_ESTABLISHED}"
  shows "fault q = None \<Longrightarrow> fault p = None"
    and "fault q = None \<Longrightarrow> \<exists>s. server p = Some s \<and> numbered s \<Longrightarrow> \<exists>s. server q = Some s \<and> numbered s"
proof -
  have c: "on_cm_connect_request b x junk bufs ev p = (r, q) \<or> (server q = server p \<and> (fault q = None \<longrightarrow> fault p = None))"
    using assms(1,3) by (auto simp: dhmp_handle_ec_event_def on_cm_established_def get_ah_frames(1) Let_def dest!: get_ah_frames(2) split: if_splits)
  show "fault q = None \<Longrightarrow> fault p = None"
    using c request_cases(1) [OF _ assms(2)] by metis
  show "\<exists>s. server q = Some s \<and> numbered s" if q: "fault q = None" and p: "\<exists>s. server p = Some s \<and> numbered s"
  proof -
    obtain s where s: "server p = Some s" "numbered s" using p by auto
    from c show ?thesis
    proof
      assume "on_cm_connect_request b x junk bufs ev p = (r, q)"
      from request_cases(2) [OF this assms(2) q s(1)] show ?thesis
        using s(2) accept_keeps_numbered(2) [OF _ s(2) q] by blast
    qed (use s in simp)
  qed
qed

lemma events_keep_numbered:
  assumes "dhmp_event_channel_handler b x junk bufs evs p = (rest, q)" "fault q = None" "\<not> DaRPC_SERVER b"
    and "\<forall>ev\<in>set evs. ev_event ev \<in> {RDMA_CM_EVENT_CONNECT_REQUEST, RDMA_CM_EVENT_ESTABLISHED}"
  shows "fault p = None \<and> ((\<exists>s. server p = Some s \<and> numbered s) \<longrightarrow> (\<exists>s. server q = Some s \<and> numbered s))"
  using assms(1,4)
proof (induction evs arbitrary: p)
  case (Cons ev evs)
  obtain r p1 where e: "dhmp_handle_ec_event b x junk bufs ev p = (r, p1)" by (cases "dhmp_handle_ec_event b x junk bufs ev p")
  have "fault p1 = None \<and> ((\<exists>s. server p1 = Some s \<and> numbered s) \<longrightarrow> (\<exists>s. server q = Some s \<and> numbered s))"
    using Cons e assms(2) by (auto split: if_splits)
  then show ?case using event_keeps_numbered [OF e assms(3)] Cons.prems(2) by simp
qed (use assms(2) in simp)

text \<open>
  C11: the clients of a server have numbers of their own while none leaves.  From \<open>dhmp_server_init\<close>
  through any sequence of connection requests and established connections that does not fault, there
  are at most three clients, \<open>cur_connections\<close> is how many, and \<open>connect_trans[i]\<close> is the transport of
  the \<open>i\<close>-th one; a fourth would fault.
\<close>

lemma server_numbers_clients:
  assumes "dhmp_server_init b x fresh junk doc ifs dev_num ctx_list node_size p = (True, p1)" "server p1 \<noteq> None"
    and "dhmp_event_channel_handler b x junk' bufs evs p1 = (rest, q)" "fault q = None" "\<not> DaRPC_SERVER b"
    and "\<forall>ev\<in>set evs. ev_event ev \<in> {RDMA_CM_EVENT_CONNECT_REQUEST, RDMA_CM_EVENT_ESTABLISHED}"
  shows "\<exists>s. server q = Some s \<and> numbered s"
proof -
  have start: "\<exists>s. server p1 = Some s \<and> numbered s"
    using assms(1,2) by (auto simp: dhmp_server_init_def numbered_def ask_def Let_def split: option.splits prod.splits if_splits)
  then show ?thesis using events_keep_numbered [OF assms(3-6)] by simp
qed

abbreviation started :: "bool \<times> proc" where
  "started \<equiv> dhmp_server_init (default_build 1) ext_steady server0 trans0 None no_ifs 0 (Some [True]) 0x40000000 proc0"

abbreviation request_ev :: cm_event where
  "request_ev \<equiv> \<lparr>ev_event = RDMA_CM_EVENT_CONNECT_REQUEST, ev_id = 7, ev_trans = 0x1000, ev_ip = 5, ev_qp_num = 0, ev_qkey = 0\<rparr>"

lemma started_ok:
  "fst started" "fault (snd started) = None" "device (trans (snd started) 0x1000) = Some 0x1000"
  "\<exists>s. server (snd started) = Some s \<and> cur_connections s = 0 \<and> client_list s = []"
  by (simp_all add: dhmp_server_init_def dhmp_config_init_def dhmp_context_init_def dhmp_dev_list_init_def dhmp_dev_init_def
      dhmp_get_dev_def dhmp_transport_create_def dhmp_event_channel_create_def set_nonblock_def dhmp_context_add_event_fd_def
      dhmp_transport_listen_def ask_def Let_def proc0_def)

lemma server_numbers_clients_witness:
  "\<exists>s. server (snd (dhmp_event_channel_handler (default_build 1) ext_steady trans0 ([], []) [request_ev] (snd started))) = Some s
     \<and> numbered s \<and> cur_connections s = 1"
proof -
  define p1 where "p1 = snd started"
  have p1: "started = (True, p1)"
    by (rule prod_eqI) (simp_all only: fst_conv snd_conv p1_def started_ok(1))
  obtain s where s: "server p1 = Some s" "cur_connections s = 0" "client_list s = []" using started_ok(4) [folded p1_def] by blast
  have d: "device (trans p1 (ev_trans request_ev)) = Some 0x1000" "fault p1 = None" "node_ok (cur_connections s)"
    using started_ok(2,3) [folded p1_def] by (simp_all add: s node_ok_def)
  obtain q s' where q: "on_cm_connect_request (default_build 1) ext_steady trans0 ([], []) request_ev p1 = (0, q)"
    "fault q = None" "server q = Some s'" "client_list s' = [] @ [0x1000]"
    using steady_request [OF d(1) s(1) d(3,2), of 1 "([], [])"] unfolding s(3) by blast
  have h: "dhmp_event_channel_handler (default_build 1) ext_steady trans0 ([], []) [request_ev] p1 = ([], q)"
    using q(1) by (simp add: dhmp_handle_ec_event_def)
  from server_numbers_clients [OF p1 _ h q(2)] have "numbered s'" using s(1) q(3) by simp
  then show ?thesis using h q(3,4) unfolding p1_def [symmetric] by (simp add: numbered_def)
qed

section \<open>Who ends first\<close>

lemma drop_region_keeps:
  "trans (drop_region m n p) = trans p" "server (drop_region m n p) = server p" "ctx_stop (drop_region m n p) = ctx_stop p"
  "set (held (drop_region m n p)) \<subseteq> set (held p)" "distinct (held p) \<Longrightarrow> distinct (held (drop_region m n p))"
  by (simp_all add: drop_region_def nvm_free_def order_trans [OF set_remove1_subset set_remove1_subset])

lemma stop_poll_client:
  assumes "server p = None"
  shows "trans (stop_poll_threads b i p) = trans p" "held (stop_poll_threads b i p) = held p" "ctx_stop (stop_poll_threads b i p) = ctx_stop p"
    "server (stop_poll_threads b i p) = None"
  using assms by (simp_all add: stop_poll_threads_def Let_def)

lemma disconnected_frames:
  assumes "server p = None" "\<not> DaRPC_SERVER b" "event_channel (trans p h) = Some e" "dcq (trans p h) = Some d" "cm_id (trans p h) = Some i"
    and "q = snd (on_cm_disconnected b h p)"
  shows "trans_state (trans q h) = DHMP_TRANSPORT_STATE_DISCONNECTED \<and> ctx_stop q = ctx_stop p
    \<and> (distinct (held p) \<longrightarrow> set (held q) \<subseteq> set (held p) - {R_event_fd (Event_chan e), R_event_fd (Comp_chan (comp_channel d))})"
proof -
  define p1 where "p1 = drop_region (recv_mr (trans p h)) (send_recv_size (trans p h)) (drop_region (send_mr (trans p h)) (send_recv_size (trans p h)) p)"
  have p1: "trans p1 = trans p" "server p1 = None" "ctx_stop p1 = ctx_stop p" "set (held p1) \<subseteq> set (held p)" "distinct (held p) \<Longrightarrow> distinct (held p1)"
    using assms(1) order_trans [OF drop_region_keeps(4) drop_region_keeps(4)]
    unfolding p1_def by (simp_all add: drop_region_keeps(1-3,5))
  define p2 where "p2 = dhmp_context_del_event_fd (Event_chan e) (dhmp_context_del_event_fd (Comp_chan (comp_channel d)) (release (R_qp i) p1))"
  have "dhmp_destroy_source b h p = stop_poll_threads b (node_id (trans p h)) p2"
    using assms(2-5) by (simp add: dhmp_destroy_source_def Let_def drop_comp_channel_def p1_def [symmetric] p2_def p1(1))
  moreover have "server p2 = None" "trans p2 = trans p" "ctx_stop p2 = ctx_stop p"
    using p1 by (simp_all add: p2_def dhmp_context_del_event_fd_def)
  moreover have "held p2 = remove1 (R_event_fd (Event_chan e)) (remove1 (R_event_fd (Comp_chan (comp_channel d))) (remove1 (R_qp i) (held p1)))"
    by (simp add: p2_def)
  ultimately show ?thesis
    using p1(4,5) set_remove1_subset [of "R_qp i" "held p1"]
    by (auto simp: assms(6) on_cm_disconnected_def forget_client_def Let_def stop_poll_client)
qed

text \<open>
  C12: the end of a client is a race.  The disconnect takes the last two descriptors out of the event
  loop.  If \<open>dhmp_client_destroy\<close> sets \<open>stop\<close> only after the loop has tested it, the loop waits for
  events that cannot come any more and the join never returns; if it sets it before, both end.
\<close>

lemma destroy_may_hang:
  assumes "trans_state (trans p h) = DHMP_TRANSPORT_STATE_CONNECTED" "ctx_stop p = False" "server p = None" "\<not> DaRPC_SERVER b"
    and "event_channel (trans p h) = Some e" "dcq (trans p h) = Some d" "cm_id (trans p h) = Some i" "ev_trans ev = h"
    and "ev_event ev = RDMA_CM_EVENT_DISCONNECTED"
    and "distinct (held p)" "\<forall>ch. R_event_fd ch \<in> set (held p) \<longrightarrow> ch \<in> {Event_chan e, Comp_chan (comp_channel d)}"
  shows "(\<exists>q. (destroy_step b x h)\<^sup>*\<^sup>* (Wait_close, Handling ev, p) (Join_loop, In_epoll_wait, q)
      \<and> (\<nexists>r. destroy_step b x h (Join_loop, In_epoll_wait, q) r))
    \<and> (\<exists>q. (destroy_step b x h)\<^sup>*\<^sup>* (Wait_close, Handling ev, p) (Destroyed, Loop_ended, q))"
proof -
  define q where "q = snd (on_cm_disconnected b h p)"
  have hd: "snd (dhmp_event_channel_handler b x trans0 ([], []) [ev] p) = q"
    using assms(8,9) by (simp add: dhmp_handle_ec_event_def q_def on_cm_disconnected_def)
  have ts: "trans_state (trans q h) = DHMP_TRANSPORT_STATE_DISCONNECTED" "ctx_stop q = False"
    and held: "\<forall>ch. R_event_fd ch \<notin> set (held q)"
    using disconnected_frames [OF assms(3-7), of q] assms(2,10,11) by (auto simp: q_def)
  have s1: "destroy_step b x h (Wait_close, Handling ev, p) (Wait_close, Test_stop, q)"
    using destroy_step.handle [of b x h Wait_close ev p trans0 "([], [])"] by (simp only: hd)
  have s2: "destroy_step b x h (Wait_close, l, q) (Set_stop, l, q)" "destroy_step b x h (Set_stop, l, q) (Join_loop, l, q\<lparr>ctx_stop := True\<rparr>)" for l
    using ts by (auto intro: destroy_step.intros)
  have s3: "destroy_step b x h (Wait_close, Test_stop, q) (Wait_close, In_epoll_wait, q)"
    "destroy_step b x h (Join_loop, Test_stop, q\<lparr>ctx_stop := True\<rparr>) (Join_loop, Loop_ended, q\<lparr>ctx_stop := True\<rparr>)"
    "destroy_step b x h (Join_loop, Loop_ended, q\<lparr>ctx_stop := True\<rparr>) (Destroyed, Loop_ended, q\<lparr>ctx_stop := True\<rparr>)"
    using ts by (auto intro: destroy_step.intros)
  have "(destroy_step b x h)\<^sup>*\<^sup>* (Wait_close, Handling ev, p) (Join_loop, In_epoll_wait, q\<lparr>ctx_stop := True\<rparr>)"
    using s1 s3(1) s2 by (meson converse_rtranclp_into_rtranclp rtranclp.rtrancl_refl)
  moreover have "\<nexists>r. destroy_step b x h (Join_loop, In_epoll_wait, q\<lparr>ctx_stop := True\<rparr>) r"
    using held by (auto simp: joining_step)
  moreover have "(destroy_step b x h)\<^sup>*\<^sup>* (Wait_close, Handling ev, p) (Destroyed, Loop_ended, q\<lparr>ctx_stop := True\<rparr>)"
    using s1 s2 s3(2,3) by (meson converse_rtranclp_into_rtranclp rtranclp.rtrancl_refl)
  ultimately show ?thesis by blast
qed

text \<open>A connected client whose loop watches its two descriptors, and the event that ends it.\<close>

definition closing :: proc where
  "closing = client_proc\<lparr>trans := (\<lambda>_. up_trans 0), held := [R_event_fd (Event_chan 4), R_event_fd (Comp_chan 6)]\<rparr>"

lemma destroy_may_hang_witness:
  "\<exists>q. (destroy_step (default_build 1) ext_ok 0)\<^sup>*\<^sup>* (Wait_close, Handling (cm_ev RDMA_CM_EVENT_DISCONNECTED), closing) (Join_loop, In_epoll_wait, q)
     \<and> (\<nexists>r. destroy_step (default_build 1) ext_ok 0 (Join_loop, In_epoll_wait, q) r)"
  using destroy_may_hang [of closing 0 "default_build 1" 4 "\<lparr>cq_ptr = 0x500, cq_cq = 5, comp_channel = 6\<rparr>" 3
      "cm_ev RDMA_CM_EVENT_DISCONNECTED" ext_ok]
  by (simp add: closing_def up_trans_def client_proc_def proc0_def trans0_def)

end
