(* ===== verification/List_H.thy ===== *)
theory List_H
  imports DHMP_Prelude
begin

text \<open>
  The intrusive lists (\<open>linux/list.h\<close>): the circular list with its \<open>next\<close> and \<open>prev\<close> links, on which the
  work list, the client list, the areas and the devices are kept, and the list with a single head,
  on which the buckets of the address table are.  The other theories have lists of handles in
  their place; the lemmas here show that the links behave as those lists do.
\<close>

section \<open>Links\<close>

record links =
  nxt :: "addr \<Rightarrow> addr"
  prv :: "addr \<Rightarrow> addr"

definition set_next :: "addr \<Rightarrow> addr \<Rightarrow> links \<Rightarrow> links" where
  "set_next a b m = m\<lparr>nxt := (nxt m)(a := b)\<rparr>"

definition set_prev :: "addr \<Rightarrow> addr \<Rightarrow> links \<Rightarrow> links" where
  "set_prev a b m = m\<lparr>prv := (prv m)(a := b)\<rparr>"

definition LIST_POISON1 :: addr where "LIST_POISON1 = 0x00100100"
definition LIST_POISON2 :: addr where "LIST_POISON2 = 0x00200200"

definition INIT_LIST_HEAD :: "addr \<Rightarrow> links \<Rightarrow> links" where
  "INIT_LIST_HEAD list m = set_prev list list (set_next list list m)"

text \<open>\<open>__list_add\<close> and \<open>__list_del\<close>, store by store.\<close>

definition list_add_between :: "addr \<Rightarrow> addr \<Rightarrow> addr \<Rightarrow> links \<Rightarrow> links" where
  "list_add_between new prev next m =
     (let m = set_prev next new m;
          m = set_next new next m;
          m = set_prev new prev m
      in set_next prev new m)"

definition list_add :: "addr \<Rightarrow> addr \<Rightarrow> links \<Rightarrow> links" where
  "list_add new head m = list_add_between new head (nxt m head) m"

definition list_add_tail_links :: "addr \<Rightarrow> addr \<Rightarrow> links \<Rightarrow> links" where
  "list_add_tail_links new head m = list_add_between new (prv m head) head m"

definition list_unlink :: "addr \<Rightarrow> addr \<Rightarrow> links \<Rightarrow> links" where
  "list_unlink prev next m = set_next prev next (set_prev next prev m)"

definition list_del_entry :: "addr \<Rightarrow> links \<Rightarrow> links" where
  "list_del_entry entry m = list_unlink (prv m entry) (nxt m entry) m"

definition list_del :: "addr \<Rightarrow> links \<Rightarrow> links" where
  "list_del entry m =
     (let m = list_unlink (prv m entry) (nxt m entry) m
      in set_prev entry LIST_POISON2 (set_next entry LIST_POISON1 m))"

definition list_del_init :: "addr \<Rightarrow> links \<Rightarrow> links" where
  "list_del_init entry m = INIT_LIST_HEAD entry (list_del_entry entry m)"

definition list_move_tail :: "addr \<Rightarrow> addr \<Rightarrow> links \<Rightarrow> links" where
  "list_move_tail list head m = list_add_tail_links list head (list_del_entry list m)"

definition list_empty :: "addr \<Rightarrow> links \<Rightarrow> bool" where
  "list_empty head m \<longleftrightarrow> nxt m head = head"

definition list_rotate_left :: "addr \<Rightarrow> links \<Rightarrow> links" where
  "list_rotate_left head m = (if list_empty head m then m else list_move_tail (nxt m head) head m)"

definition list_is_singular :: "addr \<Rightarrow> links \<Rightarrow> bool" where
  "list_is_singular head m \<longleftrightarrow> \<not> list_empty head m \<and> nxt m head = prv m head"

text \<open>\<open>list_for_each\<close>: the entries it visits, \<open>None\<close> when the fuel ends before the loop.\<close>

fun visit :: "addr \<Rightarrow> links \<Rightarrow> nat \<Rightarrow> addr \<Rightarrow> addr list option" where
  "visit head m n pos =
     (if pos = head then Some []
      else case n of 0 \<Rightarrow> None | Suc n \<Rightarrow> map_option (Cons pos) (visit head m n (nxt m pos)))"

declare visit.simps [simp del]

definition list_for_each :: "addr \<Rightarrow> links \<Rightarrow> nat \<Rightarrow> addr list option" where
  "list_for_each head m n = visit head m n (nxt m head)"

section \<open>Lists with one head\<close>

text \<open>
  \<open>pprev\<close> is the address of the pointer that points to the node: the head's only field, or the first
  field of the node before.  So a cell is named by the address of its struct.
\<close>

record hlinks =
  cell :: "addr \<Rightarrow> addr"
  pprev :: "addr \<Rightarrow> addr"

definition set_cell :: "addr \<Rightarrow> addr \<Rightarrow> hlinks \<Rightarrow> hlinks" where
  "set_cell a b m = m\<lparr>cell := (cell m)(a := b)\<rparr>"

definition set_pprev :: "addr \<Rightarrow> addr \<Rightarrow> hlinks \<Rightarrow> hlinks" where
  "set_pprev a b m = m\<lparr>pprev := (pprev m)(a := b)\<rparr>"

definition INIT_HLIST_HEAD :: "addr \<Rightarrow> hlinks \<Rightarrow> hlinks" where
  "INIT_HLIST_HEAD h m = set_cell h 0 m"

definition hlist_empty :: "addr \<Rightarrow> hlinks \<Rightarrow> bool" where
  "hlist_empty h m \<longleftrightarrow> cell m h = 0"

definition hlist_unlink :: "addr \<Rightarrow> hlinks \<Rightarrow> hlinks" where
  "hlist_unlink n m =
     (let next = cell m n; pp = pprev m n; m = set_cell pp next m
      in if next \<noteq> 0 then set_pprev next pp m else m)"

definition hlist_del_node :: "addr \<Rightarrow> hlinks \<Rightarrow> hlinks" where
  "hlist_del_node n m = set_pprev n LIST_POISON2 (set_cell n LIST_POISON1 (hlist_unlink n m))"

definition hlist_add_head :: "addr \<Rightarrow> addr \<Rightarrow> hlinks \<Rightarrow> hlinks" where
  "hlist_add_head n h m =
     (let first = cell m h;
          m = set_cell n first m;
          m = (if first \<noteq> 0 then set_pprev first n m else m);
          m = set_cell h n m
      in set_pprev n h m)"

fun hvisit :: "hlinks \<Rightarrow> nat \<Rightarrow> addr \<Rightarrow> addr list option" where
  "hvisit m n pos =
     (if pos = 0 then Some []
      else case n of 0 \<Rightarrow> None | Suc n \<Rightarrow> map_option (Cons pos) (hvisit m n (cell m pos)))"

declare hvisit.simps [simp del]

definition hlist_for_each :: "addr \<Rightarrow> hlinks \<Rightarrow> nat \<Rightarrow> addr list option" where
  "hlist_for_each h m n = hvisit m n (cell m h)"

section \<open>The lists that the links are\<close>

fun path :: "links \<Rightarrow> addr \<Rightarrow> addr list \<Rightarrow> addr \<Rightarrow> bool" where
  "path m a [] b \<longleftrightarrow> nxt m a = b \<and> prv m b = a"
| "path m a (x # xs) b \<longleftrightarrow> nxt m a = x \<and> prv m x = a \<and> path m x xs b"

definition is_list :: "links \<Rightarrow> addr \<Rightarrow> addr list \<Rightarrow> bool" where
  "is_list m h xs \<longleftrightarrow> distinct (h # xs) \<and> path m h xs h"

fun hpath :: "hlinks \<Rightarrow> addr \<Rightarrow> addr list \<Rightarrow> bool" where
  "hpath m a [] \<longleftrightarrow> cell m a = 0"
| "hpath m a (x # xs) \<longleftrightarrow> cell m a = x \<and> pprev m x = a \<and> hpath m x xs"

definition is_hlist :: "hlinks \<Rightarrow> addr \<Rightarrow> addr list \<Rightarrow> bool" where
  "is_hlist m h xs \<longleftrightarrow> distinct (h # xs) \<and> 0 \<notin> set (h # xs) \<and> hpath m h xs"

text \<open>
  The interface: a representation, an empty list, an insertion and a deletion, and what they do to
  the list that is represented and to a list elsewhere.
\<close>

datatype list_op = Add addr | Del addr

fun op_on :: "(addr \<Rightarrow> 'a \<Rightarrow> 'a) \<Rightarrow> (addr \<Rightarrow> 'a \<Rightarrow> 'a) \<Rightarrow> list_op \<Rightarrow> 'a \<Rightarrow> 'a" where
  "op_on add del (Add e) = add e"
| "op_on add del (Del e) = del e"

fun ops_fit :: "(addr \<Rightarrow> addr list \<Rightarrow> addr list) \<Rightarrow> addr \<Rightarrow> addr list \<Rightarrow> list_op list \<Rightarrow> bool" where
  "ops_fit ins h xs [] \<longleftrightarrow> True"
| "ops_fit ins h xs (Add e # ops) \<longleftrightarrow> e \<notin> set (h # xs) \<and> e \<noteq> 0 \<and> ops_fit ins h (ins e xs) ops"
| "ops_fit ins h xs (Del e # ops) \<longleftrightarrow> e \<in> set xs \<and> ops_fit ins h (remove1 e xs) ops"

locale linked_list =
  fixes rep :: "'m \<Rightarrow> addr \<Rightarrow> addr list \<Rightarrow> bool"
    and init :: "addr \<Rightarrow> 'm \<Rightarrow> 'm"
    and add :: "addr \<Rightarrow> addr \<Rightarrow> 'm \<Rightarrow> 'm"
    and del :: "addr \<Rightarrow> 'm \<Rightarrow> 'm"
    and ins :: "addr \<Rightarrow> addr list \<Rightarrow> addr list"
    and walk :: "addr \<Rightarrow> 'm \<Rightarrow> nat \<Rightarrow> addr list option"
  assumes init_rep: "h \<noteq> 0 \<Longrightarrow> rep (init h m) h []"
    and add_rep: "rep m h xs \<Longrightarrow> e \<notin> set (h # xs) \<Longrightarrow> e \<noteq> 0 \<Longrightarrow> rep (add e h m) h (ins e xs)"
    and del_rep: "rep m h xs \<Longrightarrow> e \<in> set xs \<Longrightarrow> rep (del e m) h (remove1 e xs)"
    and add_other: "rep m h xs \<Longrightarrow> rep m g ys \<Longrightarrow> set (g # ys) \<inter> set (h # xs) = {} \<Longrightarrow> e \<notin> set (g # ys) \<Longrightarrow> rep (add e h m) g ys"
    and del_other: "rep m h xs \<Longrightarrow> rep m g ys \<Longrightarrow> set (g # ys) \<inter> set (h # xs) = {} \<Longrightarrow> e \<in> set xs \<Longrightarrow> rep (del e m) g ys"
    and walk_rep: "rep m h xs \<Longrightarrow> length xs \<le> n \<Longrightarrow> walk h m n = Some xs"
begin

lemma ops_rep:
  "rep m h xs \<Longrightarrow> ops_fit ins h xs ops
    \<Longrightarrow> rep (fold (op_on (\<lambda>e. add e h) del) ops m) h (fold (op_on ins remove1) ops xs)"
proof (induction ops arbitrary: m xs)
  case (Cons op ops)
  then show ?case by (cases op) (simp_all add: add_rep del_rep)
qed simp

lemma ops_walk:
  assumes "h \<noteq> 0" "ops_fit ins h [] ops" "length (fold (op_on ins remove1) ops []) \<le> n"
  shows "walk h (fold (op_on (\<lambda>e. add e h) del) ops (init h m)) n = Some (fold (op_on ins remove1) ops [])"
  using walk_rep [OF ops_rep [OF init_rep [OF assms(1)] assms(2)] assms(3)] .

end

section \<open>The circular list\<close>

lemma path_append: "path m a (xs @ x # ys) b \<longleftrightarrow> path m a xs x \<and> path m x ys b"
  by (induction xs arbitrary: a) auto

lemma path_cong:
  assumes "\<And>x. x \<in> set (a # xs) \<Longrightarrow> nxt m' x = nxt m x" "\<And>x. x \<in> set (b # xs) \<Longrightarrow> prv m' x = prv m x"
  shows "path m' a xs b = path m a xs b"
  using assms by (induction xs arbitrary: a) auto

lemma path_first: "path m a xs b \<Longrightarrow> nxt m a = hd (xs @ [b])"
  by (cases xs) auto

lemma path_last: "path m a xs b \<Longrightarrow> prv m b = last (a # xs)"
  by (induction xs arbitrary: a) auto

lemma links_simps [simp]:
  "nxt (set_next a b m) = (nxt m)(a := b)" "prv (set_next a b m) = prv m"
  "prv (set_prev a b m) = (prv m)(a := b)" "nxt (set_prev a b m) = nxt m"
  "cell (set_cell a b h) = (cell h)(a := b)" "pprev (set_cell a b h) = pprev h"
  "pprev (set_pprev a b h) = (pprev h)(a := b)" "cell (set_pprev a b h) = cell h"
  by (simp_all add: set_next_def set_prev_def set_cell_def set_pprev_def)

lemma path_insert:
  assumes "path m a (xs @ ys) b" "distinct (a # xs @ ys)" "b \<notin> set (xs @ ys)" "e \<notin> set (a # b # xs @ ys)"
  shows "path (list_add_between e (last (a # xs)) (hd (ys @ [b])) m) a (xs @ e # ys) b"
  using assms
proof (induction xs arbitrary: a)
  case Nil
  let ?m = "list_add_between e a (hd (ys @ [b])) m"
  show ?case
  proof (cases ys)
    case (Cons y ys')
    have "path ?m y ys' b = path m y ys' b"
      using Nil Cons by (intro path_cong) (auto simp: list_add_between_def Let_def)
    then show ?thesis using Nil Cons by (auto simp: list_add_between_def Let_def)
  qed (use Nil in \<open>auto simp: list_add_between_def Let_def\<close>)
next
  case (Cons x xs)
  let ?m = "list_add_between e (last (x # xs)) (hd (ys @ [b])) m"
  have "last (x # xs) \<in> set (x # xs)" "hd (ys @ [b]) \<in> set (b # ys)" by (rule last_in_set, simp) (cases ys; simp)
  then have "nxt ?m a = nxt m a" "prv ?m x = prv m x"
    using Cons.prems by (auto simp: list_add_between_def Let_def)
  then show ?case using Cons.IH [of x] Cons.prems by auto
qed

lemma path_delete:
  assumes "path m a (xs @ e # ys) b" "distinct (a # xs @ e # ys)" "b \<notin> set (xs @ e # ys)"
  shows "path (list_unlink (last (a # xs)) (hd (ys @ [b])) m) a (xs @ ys) b"
  using assms
proof (induction xs arbitrary: a)
  case Nil
  let ?m = "list_unlink a (hd (ys @ [b])) m"
  show ?case
  proof (cases ys)
    case (Cons y ys')
    have "path ?m y ys' b = path m y ys' b"
      using Nil Cons by (intro path_cong) (auto simp: list_unlink_def)
    then show ?thesis using Nil Cons by (auto simp: list_unlink_def)
  qed (use Nil in \<open>auto simp: list_unlink_def\<close>)
next
  case (Cons x xs)
  let ?m = "list_unlink (last (x # xs)) (hd (ys @ [b])) m"
  have "last (x # xs) \<in> set (x # xs)" "hd (ys @ [b]) \<in> set (b # ys)" by (rule last_in_set, simp) (cases ys; simp)
  then have "nxt ?m a = nxt m a" "prv ?m x = prv m x"
    using Cons.prems by (auto simp: list_unlink_def)
  then show ?case using Cons.IH [of x] Cons.prems by auto
qed

lemma path_neighbours:
  assumes "path m a (xs @ e # ys) b"
  shows "prv m e = last (a # xs)" "nxt m e = hd (ys @ [b])"
  using assms path_last [of m a xs e] path_first [of m e ys b] by (simp_all add: path_append)

lemma add_tail_rep:
  assumes "is_list m h xs" "e \<notin> set (h # xs)"
  shows "is_list (list_add_tail_links e h m) h (xs @ [e])"
  using assms path_insert [of m h xs "[]" h e] path_last [of m h xs h]
  by (auto simp: is_list_def list_add_tail_links_def)

lemma add_front_rep:
  assumes "is_list m h xs" "e \<notin> set (h # xs)"
  shows "is_list (list_add e h m) h (e # xs)"
  using assms path_insert [of m h "[]" xs h e] path_first [of m h xs h]
  by (auto simp: is_list_def list_add_def)

lemma del_entry_rep:
  assumes "is_list m h xs" "e \<in> set xs"
  shows "is_list (list_del_entry e m) h (remove1 e xs)"
proof -
  obtain ys zs where xs: "xs = ys @ e # zs" "e \<notin> set ys" using assms(2) split_list_first by metis
  have p: "path m h (ys @ e # zs) h" using assms(1) by (simp add: is_list_def xs)
  show ?thesis
    using path_delete [OF p] assms(1) unfolding list_del_entry_def path_neighbours [OF p]
    by (auto simp: is_list_def xs remove1_append)
qed

lemma is_list_cong:
  assumes "\<And>x. x \<in> set (h # xs) \<Longrightarrow> nxt m' x = nxt m x" "\<And>x. x \<in> set (h # xs) \<Longrightarrow> prv m' x = prv m x"
  shows "is_list m' h xs = is_list m h xs"
  using path_cong [of h xs m' m h] assms by (auto simp: is_list_def)

lemma neighbours_in:
  assumes "is_list m h xs"
  shows "prv m h \<in> set (h # xs)" "e \<in> set xs \<Longrightarrow> prv m e \<in> set (h # xs)" "e \<in> set xs \<Longrightarrow> nxt m e \<in> set (h # xs)"
proof -
  have p: "path m h xs h" using assms by (simp add: is_list_def)
  show "prv m h \<in> set (h # xs)" unfolding path_last [OF p] by (rule last_in_set) simp
  show "prv m e \<in> set (h # xs)" "nxt m e \<in> set (h # xs)" if e: "e \<in> set xs"
  proof -
    obtain ys zs where xs: "xs = ys @ e # zs" using split_list [OF e] by blast
    have "last (h # ys) \<in> set (h # ys)" "hd (zs @ [h]) \<in> set (h # zs)" by (rule last_in_set, simp) (cases zs; simp)
    then show "prv m e \<in> set (h # xs)" "nxt m e \<in> set (h # xs)"
      using path_neighbours [of m h ys e zs h] p by (auto simp: xs)
  qed
qed

lemma del_rep:
  assumes "is_list m h xs" "e \<in> set xs"
  shows "is_list (list_del e m) h (remove1 e xs)"
proof -
  have "e \<notin> set (h # remove1 e xs)" using assms by (auto simp: is_list_def)
  then have "is_list (list_del e m) h (remove1 e xs) = is_list (list_del_entry e m) h (remove1 e xs)"
    by (intro is_list_cong) (auto simp: list_del_def list_del_entry_def Let_def)
  then show ?thesis using del_entry_rep [OF assms] by simp
qed

lemma visit_path:
  assumes "path m a xs h" "h \<notin> set xs" "length xs \<le> n"
  shows "visit h m n (nxt m a) = Some xs"
  using assms
proof (induction xs arbitrary: a n)
  case (Cons x xs)
  then obtain k where "n = Suc k" by (cases n) auto
  then show ?case using Cons by (auto simp: visit.simps [of h m "Suc k"])
qed (simp add: visit.simps)

interpretation circular: linked_list is_list INIT_LIST_HEAD list_add_tail_links list_del "\<lambda>e xs. xs @ [e]" list_for_each
proof
  show "is_list (INIT_LIST_HEAD h m) h []" for h m by (simp add: is_list_def INIT_LIST_HEAD_def)
  show "is_list m h xs \<Longrightarrow> e \<notin> set (h # xs) \<Longrightarrow> is_list (list_add_tail_links e h m) h (xs @ [e])" for m h xs e
    by (rule add_tail_rep)
  show "is_list m h xs \<Longrightarrow> e \<in> set xs \<Longrightarrow> is_list (list_del e m) h (remove1 e xs)" for m h xs e by (rule del_rep)
  show "is_list (list_add_tail_links e h m) g ys"
    if "is_list m h xs" "is_list m g ys" "set (g # ys) \<inter> set (h # xs) = {}" "e \<notin> set (g # ys)" for m h xs g ys e
  proof -
    have "is_list (list_add_tail_links e h m) g ys = is_list m g ys"
      using that neighbours_in(1) [OF that(1)]
      by (intro is_list_cong) (auto simp: list_add_tail_links_def list_add_between_def Let_def)
    then show ?thesis using that(2) by simp
  qed
  show "is_list (list_del e m) g ys"
    if "is_list m h xs" "is_list m g ys" "set (g # ys) \<inter> set (h # xs) = {}" "e \<in> set xs" for m h xs g ys e
  proof -
    have "is_list (list_del e m) g ys = is_list m g ys"
      using that neighbours_in(2,3) [OF that(1,4)]
      by (intro is_list_cong) (auto simp: list_del_def list_unlink_def Let_def)
    then show ?thesis using that(2) by simp
  qed
  show "list_for_each h m n = Some xs" if "is_list m h xs" "length xs \<le> n" for m h xs n
    using that visit_path [of m h xs h n] by (auto simp: is_list_def list_for_each_def)
qed

section \<open>The list with one head\<close>

lemma hpath_cong:
  assumes "\<And>x. x \<in> set (a # xs) \<Longrightarrow> cell m' x = cell m x" "\<And>x. x \<in> set xs \<Longrightarrow> pprev m' x = pprev m x"
  shows "hpath m' a xs = hpath m a xs"
  using assms by (induction xs arbitrary: a) auto

lemma hpath_neighbours:
  assumes "hpath m a (xs @ e # ys)"
  shows "pprev m e = last (a # xs)" "cell m e = hd (ys @ [0])"
proof -
  show "pprev m e = last (a # xs)" using assms by (induction xs arbitrary: a) auto
  show "cell m e = hd (ys @ [0])" using assms by (induction xs arbitrary: a) (cases ys; auto)+
qed

definition hunlink_between :: "addr \<Rightarrow> addr \<Rightarrow> hlinks \<Rightarrow> hlinks" where
  "hunlink_between pp next m = (let m = set_cell pp next m in if next \<noteq> 0 then set_pprev next pp m else m)"

lemma hpath_delete:
  assumes "hpath m a (xs @ e # ys)" "distinct (a # xs @ e # ys)" "0 \<notin> set (xs @ e # ys)"
  shows "hpath (hunlink_between (last (a # xs)) (hd (ys @ [0])) m) a (xs @ ys)"
  using assms
proof (induction xs arbitrary: a)
  case Nil
  let ?m = "hunlink_between a (hd (ys @ [0])) m"
  show ?case
  proof (cases ys)
    case (Cons y ys')
    have "hpath ?m y ys' = hpath m y ys'"
      using Nil Cons by (intro hpath_cong) (auto simp: hunlink_between_def Let_def)
    then show ?thesis using Nil Cons by (auto simp: hunlink_between_def Let_def)
  qed (use Nil in \<open>auto simp: hunlink_between_def Let_def\<close>)
next
  case (Cons x xs)
  let ?m = "hunlink_between (last (x # xs)) (hd (ys @ [0])) m"
  have "last (x # xs) \<in> set (x # xs)" "hd (ys @ [0]) \<in> set (0 # ys)" by (rule last_in_set, simp) (cases ys; simp)
  then have "cell ?m a = cell m a" "pprev ?m x = pprev m x"
    using Cons.prems by (auto simp: hunlink_between_def Let_def)
  then show ?case using Cons.IH [of x] Cons.prems by auto
qed

lemma is_hlist_cong:
  assumes "\<And>x. x \<in> set (h # xs) \<Longrightarrow> cell m' x = cell m x" "\<And>x. x \<in> set xs \<Longrightarrow> pprev m' x = pprev m x"
  shows "is_hlist m' h xs = is_hlist m h xs"
  using hpath_cong [of h xs m' m] assms by (auto simp: is_hlist_def)

lemma hdel_rep:
  assumes "is_hlist m h xs" "e \<in> set xs"
  shows "is_hlist (hlist_del_node e m) h (remove1 e xs)"
proof -
  obtain ys zs where xs: "xs = ys @ e # zs" "e \<notin> set ys" using assms(2) split_list_first by metis
  have p: "hpath m h (ys @ e # zs)" using assms(1) by (simp add: is_hlist_def xs)
  have u: "is_hlist (hlist_unlink e m) h (remove1 e xs)"
    using hpath_delete [OF p] assms(1) unfolding hlist_unlink_def hpath_neighbours [OF p] Let_def
    by (auto simp: is_hlist_def xs remove1_append hunlink_between_def Let_def)
  have "e \<notin> set (h # remove1 e xs)" using assms by (auto simp: is_hlist_def)
  then have "is_hlist (hlist_del_node e m) h (remove1 e xs) = is_hlist (hlist_unlink e m) h (remove1 e xs)"
    by (intro is_hlist_cong) (auto simp: hlist_del_node_def)
  then show ?thesis using u by simp
qed

lemma hadd_rep:
  assumes "is_hlist m h xs" "e \<notin> set (h # xs)" "e \<noteq> 0"
  shows "is_hlist (hlist_add_head e h m) h (e # xs)"
proof (cases xs)
  case (Cons x xs')
  have "hpath (hlist_add_head e h m) x xs' = hpath m x xs'"
    using assms Cons by (intro hpath_cong) (auto simp: is_hlist_def hlist_add_head_def Let_def)
  then show ?thesis using assms Cons by (auto simp: is_hlist_def hlist_add_head_def Let_def)
qed (use assms in \<open>auto simp: is_hlist_def hlist_add_head_def Let_def\<close>)

lemma hneighbours_in:
  assumes "is_hlist m h xs" "e \<in> set xs"
  shows "pprev m e \<in> set (h # xs)" "cell m e \<in> set (0 # xs)"
proof -
  obtain ys zs where xs: "xs = ys @ e # zs" using split_list [OF assms(2)] by blast
  have p: "hpath m h (ys @ e # zs)" using assms(1) by (simp add: is_hlist_def xs)
  have "last (h # ys) \<in> set (h # ys)" "hd (zs @ [0]) \<in> set (0 # zs)" by (rule last_in_set, simp) (cases zs; simp)
  then show "pprev m e \<in> set (h # xs)" "cell m e \<in> set (0 # xs)"
    unfolding hpath_neighbours [OF p] by (auto simp: xs)
qed

lemma hvisit_path:
  assumes "hpath m a xs" "0 \<notin> set xs" "length xs \<le> n"
  shows "hvisit m n (cell m a) = Some xs"
  using assms
proof (induction xs arbitrary: a n)
  case (Cons x xs)
  then obtain k where "n = Suc k" by (cases n) auto
  then show ?case using Cons by (auto simp: hvisit.simps [of m "Suc k"])
qed (simp add: hvisit.simps)

interpretation hashed: linked_list is_hlist INIT_HLIST_HEAD hlist_add_head hlist_del_node Cons hlist_for_each
proof
  show "h \<noteq> 0 \<Longrightarrow> is_hlist (INIT_HLIST_HEAD h m) h []" for h m by (simp add: is_hlist_def INIT_HLIST_HEAD_def)
  show "is_hlist m h xs \<Longrightarrow> e \<notin> set (h # xs) \<Longrightarrow> e \<noteq> 0 \<Longrightarrow> is_hlist (hlist_add_head e h m) h (e # xs)" for m h xs e by (rule hadd_rep)
  show "is_hlist m h xs \<Longrightarrow> e \<in> set xs \<Longrightarrow> is_hlist (hlist_del_node e m) h (remove1 e xs)" for m h xs e by (rule hdel_rep)
  show "is_hlist (hlist_add_head e h m) g ys"
    if "is_hlist m h xs" "is_hlist m g ys" "set (g # ys) \<inter> set (h # xs) = {}" "e \<notin> set (g # ys)" for m h xs g ys e
  proof -
    have "cell m h \<in> set (0 # xs)" using that(1) by (cases xs) (auto simp: is_hlist_def)
    then have "is_hlist (hlist_add_head e h m) g ys = is_hlist m g ys"
      using that by (intro is_hlist_cong) (auto simp: is_hlist_def hlist_add_head_def Let_def)
    then show ?thesis using that(2) by simp
  qed
  show "is_hlist (hlist_del_node e m) g ys"
    if "is_hlist m h xs" "is_hlist m g ys" "set (g # ys) \<inter> set (h # xs) = {}" "e \<in> set xs" for m h xs g ys e
  proof -
    have "is_hlist (hlist_del_node e m) g ys = is_hlist m g ys"
      using that hneighbours_in [OF that(1,4)]
      by (intro is_hlist_cong) (auto simp: is_hlist_def hlist_del_node_def hlist_unlink_def Let_def)
    then show ?thesis using that(2) by simp
  qed
  show "hlist_for_each h m n = Some xs" if "is_hlist m h xs" "length xs \<le> n" for m h xs n
    using that hvisit_path [of m h xs n] by (auto simp: is_hlist_def hlist_for_each_def)
qed

section \<open>The rest of the operations, and any sequence of them\<close>

lemma list_empty_iff: "is_list m h xs \<Longrightarrow> list_empty h m \<longleftrightarrow> xs = []"
  by (cases xs) (auto simp: is_list_def list_empty_def)

lemma list_is_singular_iff: "is_list m h xs \<Longrightarrow> list_is_singular h m \<longleftrightarrow> length xs = 1"
proof (cases xs)
  case (Cons x ys)
  assume m: "is_list m h xs"
  then have "path m h (x # ys) h" by (simp add: is_list_def Cons)
  then have "prv m h = last (x # ys)" "nxt m h = x" using path_last by fastforce+
  then show ?thesis using m list_empty_iff [OF m] by (cases ys rule: rev_cases) (auto simp: list_is_singular_def is_list_def Cons)
qed (simp add: list_is_singular_def list_empty_iff)

lemma move_tail_rep:
  assumes "is_list m h xs" "e \<in> set xs"
  shows "is_list (list_move_tail e h m) h (remove1 e xs @ [e])"
proof -
  have "e \<notin> set (h # remove1 e xs)" using assms by (auto simp: is_list_def)
  then show ?thesis unfolding list_move_tail_def by (intro add_tail_rep del_entry_rep assms)
qed

lemma rotate_left_rep: "is_list m h xs \<Longrightarrow> is_list (list_rotate_left h m) h (rotate1 xs)"
proof (cases xs)
  case (Cons x ys)
  assume m: "is_list m h xs"
  then have "nxt m h = x" by (simp add: is_list_def Cons)
  then show ?thesis using move_tail_rep [OF m, of x] list_empty_iff [OF m] by (simp add: list_rotate_left_def Cons)
qed (simp add: list_rotate_left_def list_empty_iff)

lemma del_init_rep:
  assumes "is_list m h xs" "e \<in> set xs"
  shows "is_list (list_del_init e m) h (remove1 e xs)" "is_list (list_del_init e m) e []"
proof -
  have "e \<notin> set (h # remove1 e xs)" using assms by (auto simp: is_list_def)
  then have "is_list (list_del_init e m) h (remove1 e xs) = is_list (list_del_entry e m) h (remove1 e xs)"
    by (intro is_list_cong) (auto simp: list_del_init_def INIT_LIST_HEAD_def)
  then show "is_list (list_del_init e m) h (remove1 e xs)" using del_entry_rep [OF assms] by simp
  show "is_list (list_del_init e m) e []" unfolding list_del_init_def by (simp add: is_list_def INIT_LIST_HEAD_def)
qed

text \<open>
  C16: the circular list is a queue.  After \<open>INIT_LIST_HEAD\<close> and any sequence of \<open>list_add_tail\<close> of entries
  that are not in it and \<open>list_del\<close> of entries that are, \<open>list_for_each\<close> ends and visits exactly the
  entries of the sequence built with appending and removing, in that order.
\<close>

lemma circular_list_is_queue:
  assumes "h \<noteq> 0" "ops_fit (\<lambda>e xs. xs @ [e]) h [] ops" "length (fold (op_on (\<lambda>e xs. xs @ [e]) remove1) ops []) \<le> n"
  shows "list_for_each h (fold (op_on (\<lambda>e. list_add_tail_links e h) list_del) ops (INIT_LIST_HEAD h m)) n
    = Some (fold (op_on (\<lambda>e xs. xs @ [e]) remove1) ops [])"
  using assms by (rule circular.ops_walk)

abbreviation some_ops :: "list_op list" where
  "some_ops \<equiv> [Add 0x100, Add 0x200, Del 0x100, Add 0x300]"

lemma circular_list_is_queue_witness:
  "list_for_each 0x10 (fold (op_on (\<lambda>e. list_add_tail_links e 0x10) list_del) some_ops (INIT_LIST_HEAD 0x10 \<lparr>nxt = id, prv = id\<rparr>)) 2
    = Some [0x200, 0x300]"
  using circular_list_is_queue [of "0x10" some_ops 2 "\<lparr>nxt = id, prv = id\<rparr>"] by simp

text \<open>
  C37: a bucket of the address table is a stack with removal.  After \<open>INIT_HLIST_HEAD\<close> and any sequence of
  \<open>hlist_add_head\<close> and \<open>hlist_del\<close>, \<open>hlist_for_each\<close> visits exactly the entries of the sequence built
  by adding in front and removing.
\<close>

lemma bucket_is_stack:
  assumes "h \<noteq> 0" "ops_fit Cons h [] ops" "length (fold (op_on Cons remove1) ops []) \<le> n"
  shows "hlist_for_each h (fold (op_on (\<lambda>e. hlist_add_head e h) hlist_del_node) ops (INIT_HLIST_HEAD h m)) n
    = Some (fold (op_on Cons remove1) ops [])"
  using assms by (rule hashed.ops_walk)

lemma bucket_is_stack_witness:
  "hlist_for_each 0x10 (fold (op_on (\<lambda>e. hlist_add_head e 0x10) hlist_del_node) some_ops (INIT_HLIST_HEAD 0x10 \<lparr>cell = id, pprev = id\<rparr>)) 2
    = Some [0x300, 0x200]"
  using bucket_is_stack [of "0x10" some_ops 2 "\<lparr>cell = id, pprev = id\<rparr>"] by simp

end
