(* ===== verification/Kernel_Module.thy ===== *)
theory Kernel_Module
  imports State
begin

text \<open>
  The kernel module (\<open>src/rdma_module\<close>): the part of the server that was carried over -- the device
  list (\<open>dhmp_dev.c\<close>), transports, listening and the handler of connection events (\<open>dhmp_transport.c\<close>) and
  the callback that starts it all (\<open>dhmp_server.c\<close>).

  Its global \<open>server\<close> is a pointer that is freed while the module goes on, so a pointer may be
  dangling here.  A constructor of the kernel answers an object, NULL or an error pointer; reading
  through one of the last two faults.  The answers come from \<open>kext\<close>, numbered like those of \<open>ext\<close>.
  The records hold the fields that these functions use.
\<close>

section \<open>State\<close>

datatype kanswer = K_null | K_err | K_obj nat

datatype 'a kref = Null_ref | Live 'a | Freed

datatype kres = K_device | K_heap addr | K_pd nat | K_cq nat | K_qp nat | K_cm_id nat | K_mr kanswer

record kext =
  k_obj :: "nat \<Rightarrow> kanswer"
  k_malloc :: "nat \<Rightarrow> addr"
  k_rc :: "nat \<Rightarrow> int"

record kdevice =
  kd_ptr :: addr
  kd_pd :: kanswer

record ktransport =
  kt_node_id :: int
  kt_device :: addr
  kt_state :: dhmp_transport_state
  kt_cm_id :: kanswer
  kt_dcq :: addr
  kt_send_addr :: addr
  kt_recv_addr :: addr
  kt_is_poll_qp :: bool

text \<open>\<open>ks_client_list\<close> is \<open>None\<close> while its head has not been initialised.\<close>

record kserver =
  ks_listen_trans :: "addr option"
  ks_dev_list :: "kdevice list"
  ks_client_list :: "addr list option"
  ks_cur_connections :: int
  ks_client_num :: int
  ks_connect_trans :: "int \<Rightarrow> addr option"

record kstate =
  kserver_ref :: "kserver kref"
  ktrans :: "addr \<Rightarrow> ktransport"
  kheld :: "kres list"
  ktick :: nat
  kfault :: "fault option"

definition kask :: "(nat \<Rightarrow> 'a) \<Rightarrow> kstate \<Rightarrow> 'a \<times> kstate" where
  "kask f k = (f (ktick k), k\<lparr>ktick := Suc (ktick k)\<rparr>)"

definition kraise :: "fault \<Rightarrow> kstate \<Rightarrow> kstate" where
  "kraise f k = (if kfault k = None then k\<lparr>kfault := Some f\<rparr> else k)"

definition ktake :: "kres \<Rightarrow> kstate \<Rightarrow> kstate" where
  "ktake r k = k\<lparr>kheld := r # kheld k\<rparr>"

definition kgive :: "kres \<Rightarrow> kstate \<Rightarrow> kstate" where
  "kgive r k = k\<lparr>kheld := remove1 r (kheld k)\<rparr>"

definition upd_ktrans :: "addr \<Rightarrow> (ktransport \<Rightarrow> ktransport) \<Rightarrow> kstate \<Rightarrow> kstate" where
  "upd_ktrans h f k = k\<lparr>ktrans := (ktrans k)(h := f (ktrans k h))\<rparr>"

definition with_kserver :: "kstate \<Rightarrow> (kserver \<Rightarrow> kstate) \<Rightarrow> kstate" where
  "with_kserver k f = (case kserver_ref k of Null_ref \<Rightarrow> kraise Null_deref k | Freed \<Rightarrow> kraise Dangling k | Live s \<Rightarrow> f s)"

definition kernel_malloc :: "kext \<Rightarrow> kstate \<Rightarrow> addr \<times> kstate" where
  "kernel_malloc x k =
     (let (a, k) = kask (k_malloc x) k in (a, if a = 0 then k else ktake (K_heap a) k))"

definition kernel_free :: "addr \<Rightarrow> kstate \<Rightarrow> kstate" where
  "kernel_free a k = (if a = 0 then k else kgive (K_heap a) k)"

section \<open>Devices\<close>

text \<open>\<open>ib_alloc_pd\<close> reports a failure as an error pointer, the test is for NULL.\<close>

definition kdev_init :: "kext \<Rightarrow> kstate \<Rightarrow> kanswer \<times> kstate" where
  "kdev_init x k =
     (let (_, k) = kask (k_rc x) k;
          (pd, k) = kask (k_obj x) k
      in (pd, case pd of K_obj n \<Rightarrow> ktake (K_pd n) k | _ \<Rightarrow> k))"

definition kdev_list_init :: "kext \<Rightarrow> kstate \<Rightarrow> kdevice list \<times> kstate" where
  "kdev_list_init x k =
     (let (dev, k) = kernel_malloc x k
      in if dev = 0 then ([], kgive K_device k)
         else let (pd, k) = kdev_init x k
              in if pd = K_null then ([], k) else ([\<lparr>kd_ptr = dev, kd_pd = pd\<rparr>], k))"

section \<open>Transports\<close>

text \<open>\<open>dhmp_transport_create\<close>: \<open>ib_dma_map_single\<close> is taken as a status, and NULL buffers are not noticed.\<close>

definition ktransport_create :: "kext \<Rightarrow> ktransport \<Rightarrow> kdevice \<Rightarrow> bool \<Rightarrow> bool \<Rightarrow> kstate \<Rightarrow> addr option \<times> kstate" where
  "ktransport_create x junk dev is_listen is_poll k =
     (let (h, k) = kernel_malloc x k
      in if h = 0 then (None, k)
         else
           let k = upd_ktrans h (\<lambda>_. junk\<lparr>kt_state := DHMP_TRANSPORT_STATE_INIT, kt_device := kd_ptr dev\<rparr>) k
           in if is_listen then (Some h, k)
              else
                let (s, k) = kernel_malloc x k;
                    k = upd_ktrans h (\<lambda>t. t\<lparr>kt_send_addr := s\<rparr>) k;
                    (err, k) = kask (k_rc x) k
                in if err \<noteq> 0 then (None, kernel_free h k)
                   else
                     let (r, k) = kernel_malloc x k;
                         k = upd_ktrans h (\<lambda>t. t\<lparr>kt_recv_addr := r\<rparr>) k;
                         (err, k) = kask (k_rc x) k
                     in if err \<noteq> 0 then (None, kernel_free h (kernel_free r (kernel_free s k)))
                        else (Some h, upd_ktrans h (\<lambda>t. t\<lparr>kt_is_poll_qp := is_poll\<rparr>) k))"

definition amper_cq_get :: "kext \<Rightarrow> kstate \<Rightarrow> addr option \<times> kstate" where
  "amper_cq_get x k =
     (let (d, k) = kernel_malloc x k
      in if d = 0 then (None, k)
         else let (cq, k) = kask (k_obj x) k
              in case cq of
                   K_err \<Rightarrow> (None, kernel_free d k)
                 | K_null \<Rightarrow> (Some d, k)
                 | K_obj n \<Rightarrow> (Some d, ktake (K_cq n) k))"

definition amper_qp_create :: "kext \<Rightarrow> addr \<Rightarrow> kstate \<Rightarrow> int \<times> kstate" where
  "amper_qp_create x h k =
     (case amper_cq_get x k of
        (None, k) \<Rightarrow> (-1, k)
      | (Some d, k) \<Rightarrow>
          (case kt_cm_id (ktrans k h) of
             K_obj i \<Rightarrow>
               let (retval, k) = kask (k_rc x) k
               in if retval \<noteq> 0 then (retval, kernel_free d k)
                  else (retval, upd_ktrans h (\<lambda>t. t\<lparr>kt_dcq := d\<rparr>) (ktake (K_qp i) k))
           | _ \<Rightarrow> (-1, kraise Dangling k)))"

definition ktransport_listen :: "kext \<Rightarrow> addr option \<Rightarrow> kstate \<Rightarrow> int \<times> kstate" where
  "ktransport_listen x tr k =
     (let (cid, k) = kask (k_obj x) k
      in case tr of
           None \<Rightarrow> (0, kraise Null_deref k)
         | Some h \<Rightarrow>
             let k = upd_ktrans h (\<lambda>t. t\<lparr>kt_cm_id := cid\<rparr>) k
             in (case cid of
                   K_null \<Rightarrow> (0, k)
                 | K_err \<Rightarrow> (0, kraise Dangling k)
                 | K_obj i \<Rightarrow>
                     let k = ktake (K_cm_id i) k;
                         cleanid = (\<lambda>k. upd_ktrans h (\<lambda>t. t\<lparr>kt_cm_id := K_null\<rparr>) (kgive (K_cm_id i) k));
                         (retval, k) = kask (k_rc x) k
                     in if retval \<noteq> 0 then (retval, cleanid k)
                        else
                          let (retval, k) = kask (k_rc x) k
                          in if retval \<noteq> 0 then (retval, cleanid k)
                             else (0, upd_ktrans h (\<lambda>t. t\<lparr>kt_state := DHMP_TRANSPORT_STATE_LISTEN\<rparr>) k)))"

definition int_incr :: "int \<Rightarrow> int" where
  "int_incr n = sint (of_int (n + 1) :: 32 word)"

text \<open>The transport of a request is the listening one, the context of the id that listens.\<close>

definition kaccept :: "kext \<Rightarrow> addr \<Rightarrow> kserver \<Rightarrow> kstate \<Rightarrow> int \<times> kstate" where
  "kaccept x h s k =
     (let node = ks_cur_connections s;
          k = upd_ktrans h (\<lambda>t. t\<lparr>kt_node_id := node\<rparr>) k;
          s = s\<lparr>ks_cur_connections := int_incr node, ks_connect_trans := (ks_connect_trans s)(node := Some h)\<rparr>
      in if \<not> (0 \<le> node \<and> node < 20) then (0, kraise Out_of_bounds (k\<lparr>kserver_ref := Live s\<rparr>))
         else case ks_client_list s of
           None \<Rightarrow> (0, kraise Dangling (k\<lparr>kserver_ref := Live s\<rparr>))
         | Some cs \<Rightarrow>
             let s = s\<lparr>ks_client_list := Some (cs @ [h])\<rparr>;
                 (retval, k) = kask (k_rc x) (k\<lparr>kserver_ref := Live s\<rparr>)
             in if retval \<noteq> 0 then (-1, k)
                else (retval, upd_ktrans h (\<lambda>t. t\<lparr>kt_state := DHMP_TRANSPORT_STATE_CONNECTING\<rparr>)
                        (k\<lparr>kserver_ref := Live (s\<lparr>ks_client_num := int_incr (ks_client_num s)\<rparr>)\<rparr>)))"

definition kon_cm_connect_request :: "kext \<Rightarrow> addr \<Rightarrow> kstate \<Rightarrow> int \<times> kstate" where
  "kon_cm_connect_request x h k =
     (let (retval, k) = amper_qp_create x h k
      in if retval \<noteq> 0 then (retval, kernel_free h k)
         else (case kserver_ref k of
                 Null_ref \<Rightarrow> (0, kraise Null_deref k)
               | Freed \<Rightarrow> (0, kraise Dangling k)
               | Live s \<Rightarrow> kaccept x h s k))"

section \<open>Starting the module\<close>

text \<open>
  \<open>amper_add_one\<close>, called for a device.  What follows a fault does not matter; the block of the
  server is not cleared, and holds what \<open>fresh\<close> says.
\<close>

definition amper_add_one :: "kext \<Rightarrow> kserver \<Rightarrow> ktransport \<Rightarrow> kstate \<Rightarrow> kstate" where
  "amper_add_one x fresh junk k =
     (let (a, k) = kernel_malloc x k
      in if a = 0 then kraise Null_deref (k\<lparr>kserver_ref := Null_ref\<rparr>)
         else
           let (devs, k) = kdev_list_init x k;
               s = fresh\<lparr>ks_dev_list := devs, ks_client_list := None\<rparr>
           in case devs of
                [] \<Rightarrow> kraise Null_deref k
              | dev # _ \<Rightarrow>
                  if kd_pd dev = K_err then kraise Dangling k
                  else
                    let (mr, k) = kask (k_obj x) k;
                        (t, k) = ktransport_create x junk dev True False (ktake (K_mr mr) k);
                        (err, k) = ktransport_listen x t (k\<lparr>kserver_ref := Live (s\<lparr>ks_listen_trans := t\<rparr>)\<rparr>)
                    in kernel_free a (k\<lparr>kserver_ref := Freed\<rparr>))"

text \<open>The handler of the connection manager's events; only a request does anything.\<close>

definition amper_cm_handler :: "kext \<Rightarrow> addr \<Rightarrow> bool \<Rightarrow> kstate \<Rightarrow> int \<times> kstate" where
  "amper_cm_handler x h is_request k = (if is_request then kon_cm_connect_request x h k else (0, k))"

section \<open>No client can be accepted\<close>

lemma kstate_simps [simp]:
  "kserver_ref (ktake r k) = kserver_ref k" "kserver_ref (kgive r k) = kserver_ref k" "kserver_ref (upd_ktrans h f k) = kserver_ref k"
  "kserver_ref (kernel_free a k) = kserver_ref k" "kserver_ref (snd (kernel_malloc x k)) = kserver_ref k" "kserver_ref (kraise e k) = kserver_ref k"
  "kfault (ktake r k) = kfault k" "kfault (kgive r k) = kfault k" "kfault (upd_ktrans h f k) = kfault k"
  "kfault (kernel_free a k) = kfault k" "kfault (snd (kernel_malloc x k)) = kfault k"
  "kfault (kraise e k) = (if kfault k = None then Some e else kfault k)"
  by (simp_all add: ktake_def kgive_def upd_ktrans_def kernel_free_def kernel_malloc_def kraise_def kask_def Let_def)

lemma add_one_frees_server:
  assumes "amper_add_one x fresh junk k = q" "kfault q = None"
  shows "kserver_ref q = Freed"
  using assms by (auto simp: amper_add_one_def Let_def case_prod_unfold split: list.splits if_splits)

lemma qp_create_keeps_server:
  assumes "amper_qp_create x h k = (r, q)"
  shows "kserver_ref q = kserver_ref k" "kfault q \<noteq> None \<Longrightarrow> kfault k \<noteq> None \<or> r \<noteq> 0"
  using assms by (auto simp: amper_qp_create_def amper_cq_get_def kernel_malloc_def kask_def Let_def split: kanswer.splits if_splits)

text \<open>
  C40: the kernel module never accepts a client.  \<open>amper_add_one\<close> frees the server's state before it
  returns while the listening id stays alive; so once it has returned without a fault, a
  connection request either fails to get its queues or goes through the freed pointer.
\<close>

lemma kernel_request_uses_freed_server:
  assumes "amper_add_one x fresh junk k = k1" "kfault k1 = None" "amper_cm_handler y h True k1 = (r, q)"
  shows "r \<noteq> 0 \<or> kfault q = Some Dangling"
proof (cases "fst (amper_qp_create y h k1) = 0")
  case True
  then obtain k2 where k2: "amper_qp_create y h k1 = (0, k2)" by (cases "amper_qp_create y h k1") simp
  then have "kserver_ref k2 = Freed" "kfault k2 = None"
    using qp_create_keeps_server [OF k2] add_one_frees_server [OF assms(1,2)] assms(2) by (cases "kfault k2"; simp)+
  then show ?thesis using assms(3) k2 by (auto simp: amper_cm_handler_def kon_cm_connect_request_def)
next
  case False
  then show ?thesis using assms(3) by (auto simp: amper_cm_handler_def kon_cm_connect_request_def Let_def case_prod_unfold)
qed

definition kext_ok :: kext where
  "kext_ok = \<lparr>k_obj = (\<lambda>t. K_obj t), k_malloc = (\<lambda>t. of_nat (Suc t) * 0x1000), k_rc = (\<lambda>_. 0)\<rparr>"

definition kserver0 :: kserver where
  "kserver0 = \<lparr>ks_listen_trans = None, ks_dev_list = [], ks_client_list = None, ks_cur_connections = 0,
     ks_client_num = 0, ks_connect_trans = (\<lambda>_. None)\<rparr>"

definition ktrans0 :: ktransport where
  "ktrans0 = \<lparr>kt_node_id = 0, kt_device = 0, kt_state = DHMP_TRANSPORT_STATE_INIT, kt_cm_id = K_null, kt_dcq = 0, kt_send_addr = 0,
     kt_recv_addr = 0, kt_is_poll_qp = False\<rparr>"

definition kstate0 :: kstate where
  "kstate0 = \<lparr>kserver_ref = Null_ref, ktrans = (\<lambda>_. ktrans0), kheld = [], ktick = 0, kfault = None\<rparr>"

lemma kernel_request_uses_freed_server_witness:
  "kfault (snd (amper_cm_handler kext_ok 0x6000 True (amper_add_one kext_ok kserver0 ktrans0 kstate0))) = Some Dangling"
proof -
  let ?k = "amper_add_one kext_ok kserver0 ktrans0 kstate0"
  have "kfault ?k = None" "fst (amper_cm_handler kext_ok 0x6000 True ?k) = 0"
    by code_simp+
  then show ?thesis
    using kernel_request_uses_freed_server [OF refl _ prod.collapse [symmetric], of kext_ok kserver0 ktrans0 kstate0 kext_ok "0x6000"] by simp
qed

end
