(* ===== verification/Bench.thy ===== *)
theory Bench
  imports DHMP_Prelude
begin

text \<open>
  The benchmark client (\<open>test/client.c\<close>): the sequence of calls to the library that \<open>main\<close> makes, for each
  protocol it can be compiled for.  An object is named by its index in \<open>addr\<close>.  The drawn numbers
  and the table \<open>pf\<close>, which \<open>generate\<close> fills with \<open>pow\<close> in floating point, are arguments.
\<close>

section \<open>Choosing objects\<close>

definition obj_num_max :: nat where "obj_num_max = 1005"
definition objnum :: nat where "objnum = 1000"
definition accessnum :: int where "accessnum = 3000"

lemma objnum_pos: "0 < objnum" by (simp add: objnum_def)

text \<open>The loop of \<open>pick\<close> over the cumulated probabilities.\<close>

function pick_index :: "(nat \<Rightarrow> 'a::linorder) \<Rightarrow> 'a \<Rightarrow> nat \<Rightarrow> nat" where
  "pick_index pf r index =
     (if index < obj_num_max - 6 \<and> pf index < r then pick_index pf r (Suc index) else index)"
  by pat_completeness auto
termination by (relation "measure (\<lambda>(pf, r, index). obj_num_max - index)") (auto simp: obj_num_max_def)

declare pick_index.simps [simp del]

definition pick :: "(nat \<Rightarrow> 'a::linorder) \<Rightarrow> (nat \<Rightarrow> 'a) \<Rightarrow> nat list" where
  "pick pf draw = map (\<lambda>i. pick_index pf (draw i) 0) [0..<obj_num_max]"

section \<open>The calls\<close>

text \<open>
  The macro the client is compiled with; \<open>B_other\<close> stands for any that has no block in \<open>main\<close>.
  (\<open>clover\<close> does not compile: \<open>addr\<close> is not declared and still freed.)
\<close>

datatype bench = B_octopus | B_L5 | B_FaRM | B_RFP | B_scaleRPC | B_DaRPC | B_FaSST | B_herd | B_other

datatype api_call =
    C_init int nat int                \<comment> \<open>\<open>dhmp_client_init\<close>\<close>
  | C_malloc_obj nat int              \<comment> \<open>\<open>addr[i] = dhmp_malloc(size, 0)\<close>\<close>
  | C_malloc int int                  \<comment> \<open>\<open>dhmp_malloc(size, kind)\<close>, the result not kept\<close>
  | C_access bool "nat list" int      \<comment> \<open>the call of the protocol: write?, objects, size\<close>
  | C_check int                       \<comment> \<open>\<open>check_request\<close>\<close>
  | C_free nat                        \<comment> \<open>\<open>dhmp_free(addr[i])\<close>\<close>
  | C_destroy                         \<comment> \<open>\<open>dhmp_client_destroy\<close>\<close>

text \<open>The values of \<open>j\<close> in \<open>for (; j < n; j = j + d)\<close>, and the one at the end; \<open>BATCH\<close> is positive.\<close>

function loop_values :: "int \<Rightarrow> int \<Rightarrow> int \<Rightarrow> int list" where
  "loop_values d j n = (if j < n \<and> 0 < d then j # loop_values d (j + d) n else [])"
  by pat_completeness auto
termination by (relation "measure (\<lambda>(d, j, n). nat (n - j))") auto

declare loop_values.simps [simp del]

definition loop_end :: "int \<Rightarrow> int \<Rightarrow> int \<Rightarrow> int" where
  "loop_end d j n = (if loop_values d j n = [] then j else last (loop_values d j n) + d)"

definition batched :: "bench \<Rightarrow> bool" where
  "batched b \<longleftrightarrow> b \<in> {B_FaRM, B_scaleRPC, B_DaRPC, B_FaSST}"

text \<open>FaRM sends a batch for every \<open>j\<close>; the other batched protocols advance by the batch.\<close>

definition loop_step :: "bench \<Rightarrow> nat \<Rightarrow> int" where
  "loop_step b batch = (if b \<in> {B_scaleRPC, B_DaRPC, B_FaSST} then int batch else 1)"

definition access_objs :: "bench \<Rightarrow> nat \<Rightarrow> nat list \<Rightarrow> int \<Rightarrow> nat list" where
  "access_objs b batch rand_num j =
     (let i = nat (j mod int objnum)
      in if batched b then map (\<lambda>k. rand_num ! ((i + k) mod objnum)) [0..<batch] else [rand_num ! i])"

definition write_accesses :: "int \<Rightarrow> int" where
  "write_accesses write_part = sint (of_int (accessnum div 100 * write_part) :: 32 word)"

definition access_loops :: "bench \<Rightarrow> nat \<Rightarrow> int \<Rightarrow> int \<Rightarrow> nat list \<Rightarrow> api_call list" where
  "access_loops b batch len write_part rand_num =
     (let d = loop_step b batch; n = write_accesses write_part;
          call = (\<lambda>w j. C_access w (access_objs b batch rand_num j) len)
      in map (call True) (loop_values d 0 n) @ map (call False) (loop_values d (loop_end d 0 n) accessnum))"

definition obj_size :: "bench \<Rightarrow> int \<Rightarrow> int" where
  "obj_size b len = (if b = B_octopus then len + 8 else len)"

fun setup_call :: "bench \<Rightarrow> int \<Rightarrow> api_call list" where
  "setup_call B_octopus len = [C_malloc len 10]"
| "setup_call B_L5 len = [C_malloc len 3]"
| "setup_call B_FaRM len = [C_malloc len 8]"
| "setup_call B_RFP len = [C_malloc len 6]"
| "setup_call B_scaleRPC len = [C_malloc len 7]"
| "setup_call B_DaRPC len = [C_malloc 0 5]"
| "setup_call B_herd len = [C_malloc len 9]"
| "setup_call _ len = []"

fun final_call :: "bench \<Rightarrow> api_call list" where
  "final_call B_FaRM = [C_check 1]"
| "final_call B_FaSST = [C_check 3]"
| "final_call B_herd = map C_free [0..<objnum]"
| "final_call _ = []"

definition bench_block :: "bench \<Rightarrow> nat \<Rightarrow> int \<Rightarrow> int \<Rightarrow> nat list \<Rightarrow> api_call list" where
  "bench_block b batch len write_part rand_num =
     (if b = B_other then []
      else map (\<lambda>i. C_malloc_obj i (obj_size b len)) [0..<objnum] @ setup_call b len
           @ access_loops b batch len write_part rand_num @ final_call b)"

definition bench_main :: "bench \<Rightarrow> nat \<Rightarrow> int \<Rightarrow> int \<Rightarrow> nat list \<Rightarrow> api_call list" where
  "bench_main b batch len write_part rand_num =
     C_init len objnum write_part # bench_block b batch len write_part rand_num
     @ map C_free [0..<objnum] @ [C_destroy]"

section \<open>Objects are used between malloc and free\<close>

fun live_after :: "nat set \<Rightarrow> api_call \<Rightarrow> nat set" where
  "live_after L (C_malloc_obj i _) = insert i L"
| "live_after L (C_free i) = L - {i}"
| "live_after L _ = L"

fun call_ok :: "nat set \<Rightarrow> api_call \<Rightarrow> bool" where
  "call_ok L (C_access _ objs _) = (\<forall>i \<in> set objs. i \<in> L)"
| "call_ok L (C_free i) = (i \<in> L)"
| "call_ok L _ = True"

fun calls_ok :: "nat set \<Rightarrow> api_call list \<Rightarrow> bool" where
  "calls_ok L [] = True"
| "calls_ok L (c # cs) = (call_ok L c \<and> calls_ok (live_after L c) cs)"

lemma calls_ok_append: "calls_ok L (xs @ ys) \<longleftrightarrow> calls_ok L xs \<and> calls_ok (fold (\<lambda>c L. live_after L c) xs L) ys"
  by (induction xs arbitrary: L) auto

lemma malloc_calls:
  "calls_ok L (map (\<lambda>i. C_malloc_obj i s) is)" "fold (\<lambda>c L. live_after L c) (map (\<lambda>i. C_malloc_obj i s) is) L = L \<union> set is"
  by (induction "is" arbitrary: L) auto

lemma free_calls:
  "distinct is \<Longrightarrow> set is \<subseteq> L \<Longrightarrow> calls_ok L (map C_free is)" "fold (\<lambda>c L. live_after L c) (map C_free is) L = L - set is"
proof (induction "is" arbitrary: L)
  case (Cons i "is")
  {
    case 1
    then have "set is \<subseteq> L - {i}" by auto
    then show ?case using 1 Cons.IH(1) by simp
  next
    case 2
    then show ?case using Cons.IH(2) by auto
  }
qed auto

lemma calls_keep_live:
  assumes "\<And>c. c \<in> set cs \<Longrightarrow> live_after L c = L \<and> call_ok L c"
  shows "calls_ok L cs" "fold (\<lambda>c L. live_after L c) cs L = L"
  using assms by (induction cs) auto

lemma pick_index_less: "index \<le> 999 \<Longrightarrow> pick_index pf r index < objnum"
  by (induction pf r index rule: pick_index.induct) (subst pick_index.simps, auto simp: obj_num_max_def objnum_def)

lemma pick_objects: "set (pick pf draw) \<subseteq> {..<objnum}" "length (pick pf draw) = obj_num_max"
  by (auto simp: pick_def intro!: pick_index_less)

lemma access_objs_live:
  assumes "set rs \<subseteq> {..<objnum}" "length rs = obj_num_max"
  shows "set (access_objs b batch rs j) \<subseteq> {..<objnum}"
proof -
  have "rs ! n < objnum" if "n < objnum" for n
    using that subsetD [OF assms(1) nth_mem, of n] assms(2) by (simp add: objnum_def obj_num_max_def)
  moreover have "nat (j mod int objnum) < objnum" by (simp add: objnum_def nat_less_iff)
  ultimately show ?thesis by (auto simp: access_objs_def Let_def objnum_pos)
qed

lemma access_loops_live:
  assumes "set rs \<subseteq> {..<objnum}" "length rs = obj_num_max" "c \<in> set (access_loops b batch len w rs)"
  shows "live_after {..<objnum} c = {..<objnum} \<and> call_ok {..<objnum} c"
  using assms(3) subsetD [OF access_objs_live [OF assms(1,2), of b batch]]
  by (auto simp: access_loops_def Let_def)

lemma setup_call_live: "c \<in> set (setup_call b len) \<Longrightarrow> live_after L c = L \<and> call_ok L c"
  by (cases b) auto

text \<open>
  C39: the benchmark uses its objects rightly: whatever numbers it draws, it reads and writes only objects
  that it has allocated and not yet freed, and frees each once -- except that the Herd client frees all of
  them twice, and a client built for a protocol that \<open>main\<close> does not know frees pointers it never set.
\<close>

lemma bench_uses_live_objects:
  "calls_ok {} (bench_main b batch len w (pick pf draw)) \<longleftrightarrow> b \<noteq> B_herd \<and> b \<noteq> B_other"
proof -
  let ?cs = "setup_call b len @ access_loops b batch len w (pick pf draw)"
  have live: "live_after {..<objnum} c = {..<objnum} \<and> call_ok {..<objnum} c" if "c \<in> set ?cs" for c
    using that setup_call_live access_loops_live [OF pick_objects] by (metis UnE set_append)
  note steps = calls_ok_append malloc_calls free_calls(2) calls_keep_live [OF live]
  have block: "b \<noteq> B_other \<Longrightarrow> calls_ok {} (bench_main b batch len w (pick pf draw)) \<longleftrightarrow>
      calls_ok {..<objnum} (final_call b @ map C_free [0..<objnum] @ [C_destroy])"
    using steps by (simp add: bench_main_def bench_block_def atLeast0LessThan flip: append_assoc)
  have "calls_ok {..<objnum} (map C_free [0..<objnum])" by (rule free_calls) auto
  moreover have "\<not> calls_ok {} (map C_free [0..<objnum])" using upt_conv_Cons [of 0 objnum] by (simp add: objnum_pos)
  ultimately show ?thesis
    using block by (cases b) (auto simp: bench_main_def bench_block_def calls_ok_append free_calls(2) atLeast0LessThan)
qed

section \<open>The mix of reads and writes\<close>

lemma loop_values_1: "j \<le> n \<Longrightarrow> loop_values 1 j n = [j..n - 1]"
proof (induction "1::int" j n rule: loop_values.induct)
  case (1 j n)
  have step: "loop_values 1 j n = (if j < n then j # loop_values 1 (j + 1) n else [])"
    by (subst loop_values.simps) simp
  show ?case
  proof (cases "j < n")
    case True
    then have "loop_values 1 (j + 1) n = [j + 1..n - 1]" using 1(1) by simp
    then show ?thesis using True step upto_rec1 [of j "n - 1"] by simp
  qed (use step in simp)
qed

lemma loop_end_1: "j \<le> n \<Longrightarrow> loop_end 1 j n = n"
  by (cases "j < n") (simp_all add: loop_end_def loop_values_1 upto_rec2)

lemma write_accesses_eq: "0 \<le> w \<Longrightarrow> w \<le> 100 \<Longrightarrow> write_accesses w = 30 * w"
  unfolding write_accesses_def accessnum_def sint_sbintrunc' by (simp add: signed_take_bit_int_eq_self)

text \<open>
  The share of writes is the one asked for: a client whose loops advance by one makes 3000 calls, the
  first \<open>write_part\<close> percent of them writes.
\<close>

lemma bench_mix:
  assumes "loop_step b batch = 1" "0 \<le> w" "w \<le> 100"
  shows "map (\<lambda>c. case c of C_access f _ _ \<Rightarrow> f | _ \<Rightarrow> False) (access_loops b batch len w rs)
         = replicate (nat (30 * w)) True @ replicate (nat (3000 - 30 * w)) False"
proof -
  have lv: "loop_values 1 0 (30 * w) = [0..30 * w - 1]" "loop_end 1 0 (30 * w) = 30 * w"
    "loop_values 1 (30 * w) 3000 = [30 * w..3000 - 1]"
    by (rule loop_values_1 loop_end_1, use assms(2,3) in simp)+
  have mix: "map (\<lambda>c. case c of C_access f _ _ \<Rightarrow> f | _ \<Rightarrow> False) (map (\<lambda>j. C_access f (g j) len) js)
      = replicate (length js) f" for f g js
    by (simp add: comp_def map_replicate_const)
  show ?thesis
    unfolding access_loops_def Let_def assms(1) write_accesses_eq [OF assms(2,3)] accessnum_def map_append lv mix length_upto
    by simp
qed

end
