(* ===== verification/Multicast.thy ===== *)
theory Multicast
  imports State "HOL-Library.Multiset"
begin

text \<open>
  The multicast sample \<open>Multicast_ud.c\<close>: a number of nodes, each a connection identifier with its own
  domain, queues and buffer, join a group and send to it or receive from it.  The globals are one
  record; a node is passed and returned by the functions that take a pointer to it.  Answers of the
  libraries come from \<open>mext\<close>, numbered like those of \<open>ext\<close>; events and the results of polling are lists, and
  \<open>Waiting\<close> is a loop that has come to the end of its list.
\<close>

section \<open>State\<close>

datatype mres = M_channel nat | M_nodes nat | M_id nat | M_pd nat | M_cq nat | M_qp nat | M_mem nat | M_mr nat | M_ah nat

record mext =
  m_obj :: "nat \<Rightarrow> nat"      \<comment> \<open>a constructor: a handle, 0 for NULL\<close>
  m_rc :: "nat \<Rightarrow> int"       \<comment> \<open>a call with a status\<close>
  m_mtu :: nat               \<comment> \<open>\<open>active_mtu\<close> of the port\<close>

record cmatest_node =
  node_id_nr :: int
  cma_id :: nat
  n_connected :: bool
  n_pd :: nat
  n_cq :: nat
  n_qp :: bool               \<comment> \<open>\<open>cma_id->qp\<close> is set\<close>
  n_mr :: nat
  n_ah :: nat
  remote_qpn :: u32
  remote_qkey :: u32
  n_mem :: nat

datatype posted = Posted_recv nat int | Posted_send nat int nat u32 u32

record cmatest =
  nodes :: "cmatest_node list"
  connects_left :: int
  message_size :: int
  message_count :: int
  is_sender :: bool
  unmapped_addr :: bool
  has_src_addr :: bool
  posted :: "posted list"
  mheld :: "mres list"
  mtick :: nat
  mfault :: "fault option"

datatype outcome = Ret int | Waiting | Exited int

definition mask_obj :: "mext \<Rightarrow> cmatest \<Rightarrow> nat \<times> cmatest" where
  "mask_obj x s = (m_obj x (mtick s), s\<lparr>mtick := Suc (mtick s)\<rparr>)"

definition mask_rc :: "mext \<Rightarrow> cmatest \<Rightarrow> int \<times> cmatest" where
  "mask_rc x s = (m_rc x (mtick s), s\<lparr>mtick := Suc (mtick s)\<rparr>)"

definition mraise :: "fault \<Rightarrow> cmatest \<Rightarrow> cmatest" where
  "mraise f s = (if mfault s = None then s\<lparr>mfault := Some f\<rparr> else s)"

definition mtake :: "mres \<Rightarrow> cmatest \<Rightarrow> cmatest" where
  "mtake r s = s\<lparr>mheld := r # mheld s\<rparr>"

text \<open>Giving back what is not held is a use of a dead object.\<close>

definition mgive :: "mres \<Rightarrow> cmatest \<Rightarrow> cmatest" where
  "mgive r s = (if r \<in> set (mheld s) then s\<lparr>mheld := remove1 r (mheld s)\<rparr> else mraise Dangling s)"

section \<open>Setting up a node\<close>

definition create_message :: "mext \<Rightarrow> cmatest_node \<Rightarrow> cmatest \<Rightarrow> int \<times> cmatest_node \<times> cmatest" where
  "create_message x nd s =
     (let s = (if message_size s = 0 then s\<lparr>message_count := 0\<rparr> else s)
      in if message_count s = 0 then (0, nd, s)
         else
           let (m, s) = mask_obj x s; nd = nd\<lparr>n_mem := m\<rparr>
           in if m = 0 then (-1, nd, s)
              else
                let (r, s) = mask_obj x (mtake (M_mem m) s); nd = nd\<lparr>n_mr := r\<rparr>
                in if r = 0 then (-1, nd, mgive (M_mem m) s) else (0, nd, mtake (M_mr r) s))"

definition verify_test_params :: "mext \<Rightarrow> cmatest \<Rightarrow> int \<times> cmatest" where
  "verify_test_params x s =
     (let (ret, s) = mask_rc x s
      in if ret \<noteq> 0 then (ret, s)
         else if message_count s \<noteq> 0 \<and> message_size s > 2 ^ (m_mtu x + 7) then (-22, s) else (0, s))"

definition init_node :: "mext \<Rightarrow> cmatest_node \<Rightarrow> cmatest \<Rightarrow> int \<times> cmatest_node \<times> cmatest" where
  "init_node x nd s =
     (let (d, s) = mask_obj x s; nd = nd\<lparr>n_pd := d\<rparr>
      in if d = 0 then (-12, nd, s)
         else
           let (c, s) = mask_obj x (mtake (M_pd d) s); nd = nd\<lparr>n_cq := c\<rparr>
           in if c = 0 then (-12, nd, s)
              else
                let (ret, s) = mask_rc x (mtake (M_cq c) s)
                in if ret \<noteq> 0 then (ret, nd, s)
                   else create_message x (nd\<lparr>n_qp := True\<rparr>) (mtake (M_qp (cma_id nd)) s))"

text \<open>\<open>i\<close> more requests, up to the first that is refused.\<close>

fun post_loop :: "mext \<Rightarrow> posted \<Rightarrow> nat \<Rightarrow> cmatest \<Rightarrow> int \<times> cmatest" where
  "post_loop x w 0 s = (0, s)"
| "post_loop x w (Suc i) s =
     (let (ret, s) = mask_rc x s
      in if ret \<noteq> 0 then (ret, s) else post_loop x w i (s\<lparr>posted := w # posted s\<rparr>))"

definition post_recvs :: "mext \<Rightarrow> cmatest_node \<Rightarrow> cmatest \<Rightarrow> int \<times> cmatest" where
  "post_recvs x nd s =
     (if message_count s = 0 then (0, s)
      else if n_mr nd = 0 then (0, mraise Null_deref s)
      else post_loop x (Posted_recv (n_mem nd) (message_size s + 40)) (nat (message_count s)) s)"

definition post_sends :: "mext \<Rightarrow> cmatest_node \<Rightarrow> cmatest \<Rightarrow> int \<times> cmatest" where
  "post_sends x nd s =
     (if \<not> n_connected nd \<or> message_count s = 0 then (0, s)
      else if n_mr nd = 0 then (0, mraise Null_deref s)
      else post_loop x (Posted_send (n_mem nd) (message_size s) (n_ah nd) (remote_qpn nd) (remote_qkey nd))
             (nat (message_count s)) s)"

definition connect_error :: "cmatest \<Rightarrow> cmatest" where
  "connect_error s = s\<lparr>connects_left := connects_left s - 1\<rparr>"

definition addr_handler :: "mext \<Rightarrow> cmatest_node \<Rightarrow> cmatest \<Rightarrow> int \<times> cmatest_node \<times> cmatest" where
  "addr_handler x nd s =
     (let (ret, s) = verify_test_params x s
      in if ret \<noteq> 0 then (ret, nd, connect_error s)
         else
           let (ret, nd, s) = init_node x nd s
           in if ret \<noteq> 0 then (ret, nd, connect_error s)
              else
                let (ret, s) = (if is_sender s then (0, s) else post_recvs x nd s)
                in if ret \<noteq> 0 then (ret, nd, connect_error s)
                   else
                     let (ret, s) = mask_rc x s
                     in if ret \<noteq> 0 then (ret, nd, connect_error s) else (0, nd, s))"

definition join_handler :: "mext \<Rightarrow> cmatest_node \<Rightarrow> u32 \<Rightarrow> u32 \<Rightarrow> cmatest \<Rightarrow> int \<times> cmatest_node \<times> cmatest" where
  "join_handler x nd qp_num qkey s =
     (let (a, s) = mask_obj x s;
          nd = nd\<lparr>remote_qpn := qp_num, remote_qkey := qkey, n_ah := a\<rparr>
      in if a = 0 then (-1, nd, connect_error s)
         else (0, nd\<lparr>n_connected := True\<rparr>, mtake (M_ah a) (s\<lparr>connects_left := connects_left s - 1\<rparr>)))"

text \<open>The events; \<open>Cma_error\<close> stands for the three that report a status.\<close>

datatype cma_event = Cma_addr_resolved | Cma_joined u32 u32 | Cma_error int | Cma_device_removal | Cma_other

definition cma_handler :: "mext \<Rightarrow> cma_event \<Rightarrow> cmatest_node \<Rightarrow> cmatest \<Rightarrow> int \<times> cmatest_node \<times> cmatest" where
  "cma_handler x ev nd s =
     (case ev of
        Cma_addr_resolved \<Rightarrow> addr_handler x nd s
      | Cma_joined qpn qkey \<Rightarrow> join_handler x nd qpn qkey s
      | Cma_error status \<Rightarrow> (status, nd, connect_error s)
      | Cma_device_removal \<Rightarrow> (0, nd, s)
      | Cma_other \<Rightarrow> (0, nd, s))"

definition destroy_node :: "cmatest_node \<Rightarrow> cmatest \<Rightarrow> cmatest" where
  "destroy_node nd s =
     (if cma_id nd = 0 then s
      else
        let s = (if n_ah nd \<noteq> 0 then mgive (M_ah (n_ah nd)) s else s);
            s = (if n_qp nd then mgive (M_qp (cma_id nd)) s else s);
            s = (if n_cq nd \<noteq> 0 then mgive (M_cq (n_cq nd)) s else s);
            s = (if n_mem nd \<noteq> 0
                 then mgive (M_mem (n_mem nd)) (if n_mr nd = 0 then mraise Null_deref s else mgive (M_mr (n_mr nd)) s)
                 else s);
            s = (if n_pd nd \<noteq> 0 then mgive (M_pd (n_pd nd)) s else s)
        in mgive (M_id (cma_id nd)) s)"

section \<open>All nodes\<close>

definition fresh_node :: "nat \<Rightarrow> nat \<Rightarrow> cmatest_node" where
  "fresh_node i c = \<lparr>node_id_nr = int i, cma_id = c, n_connected = False, n_pd = 0, n_cq = 0, n_qp = False, n_mr = 0, n_ah = 0,
     remote_qpn = 0, remote_qkey = 0, n_mem = 0\<rparr>"

text \<open>The identifiers of the nodes from \<open>i\<close> on; \<open>k\<close> are still to come.  An identifier is not NULL when
  \<open>rdma_create_id\<close> succeeds.\<close>

fun create_ids :: "mext \<Rightarrow> nat \<Rightarrow> nat \<Rightarrow> cmatest \<Rightarrow> int \<times> cmatest" where
  "create_ids x i 0 s = (0, s)"
| "create_ids x i (Suc k) s =
     (let (ret, s) = mask_rc x s; (c, s) = mask_obj x s
      in if ret \<noteq> 0 then (ret, fold (\<lambda>nd s. mgive (M_id (cma_id nd)) s) (rev (nodes s)) s)
         else create_ids x (Suc i) k (mtake (M_id (Suc c)) (s\<lparr>nodes := nodes s @ [fresh_node i (Suc c)]\<rparr>)))"

definition alloc_nodes :: "mext \<Rightarrow> int \<Rightarrow> cmatest \<Rightarrow> int \<times> nat \<times> cmatest" where
  "alloc_nodes x connections s =
     (let (a, s) = mask_obj x s
      in if a = 0 then (-12, 0, s)
         else
           let (ret, s) = create_ids x 0 (nat connections) (mtake (M_nodes a) (s\<lparr>nodes := []\<rparr>))
           in (ret, a, if ret \<noteq> 0 then mgive (M_nodes a) s else s))"

definition destroy_nodes :: "nat \<Rightarrow> cmatest \<Rightarrow> cmatest" where
  "destroy_nodes a s = mgive (M_nodes a) (fold destroy_node (nodes s) s)"

definition on_node :: "nat \<Rightarrow> (cmatest_node \<Rightarrow> cmatest \<Rightarrow> int \<times> cmatest_node \<times> cmatest) \<Rightarrow> cmatest \<Rightarrow> int \<times> cmatest" where
  "on_node i f s =
     (if i < length (nodes s) then let (ret, nd, s) = f (nodes s ! i) s in (ret, s\<lparr>nodes := (nodes s)[i := nd]\<rparr>)
      else (0, mraise Dangling s))"

text \<open>What \<open>rdma_get_cm_event\<close> answers: an error, or an event for a node.\<close>

fun connect_events :: "mext \<Rightarrow> (int + nat \<times> cma_event) list \<Rightarrow> cmatest \<Rightarrow> outcome \<times> cmatest" where
  "connect_events x evs s =
     (if connects_left s = 0 then (Ret 0, s)
      else case evs of
             [] \<Rightarrow> (Waiting, s)
           | Inl ret # evs \<Rightarrow> if ret \<noteq> 0 then (Ret ret, s) else connect_events x evs s
           | Inr (i, ev) # evs \<Rightarrow>
               let (ret, s) = on_node i (cma_handler x ev) s
               in if ret \<noteq> 0 then (Ret ret, s) else connect_events x evs s)"

declare connect_events.simps [simp del]

text \<open>The loop over one queue: the completions are counted, their status is not looked at.\<close>

fun poll_node :: "int \<Rightarrow> int \<Rightarrow> int list \<Rightarrow> outcome \<times> int list" where
  "poll_node n done [] = (if done < n then Waiting else Ret 0, [])"
| "poll_node n done (ret # polls) =
     (if done < n then if ret < 0 then (Ret ret, polls) else poll_node n (done + ret) polls
      else (Ret 0, ret # polls))"

fun poll_cqs :: "int \<Rightarrow> cmatest_node list \<Rightarrow> int list \<Rightarrow> outcome" where
  "poll_cqs n [] polls = Ret 0"
| "poll_cqs n (nd # nds) polls =
     (if \<not> n_connected nd then poll_cqs n nds polls
      else case poll_node n 0 polls of
             (Ret ret, polls) \<Rightarrow> if ret \<noteq> 0 then Ret ret else poll_cqs n nds polls
           | (out, _) \<Rightarrow> out)"

fun send_all :: "mext \<Rightarrow> cmatest_node list \<Rightarrow> cmatest \<Rightarrow> int \<times> cmatest" where
  "send_all x [] s = (0, s)"
| "send_all x (nd # nds) s =
     (let (ret, s) = post_sends x nd s in if ret \<noteq> 0 then (ret, s) else send_all x nds s)"

text \<open>The loop that binds and resolves; a failure returns from \<open>run\<close>.\<close>

fun resolve_all :: "mext \<Rightarrow> nat list \<Rightarrow> cmatest \<Rightarrow> int \<times> cmatest" where
  "resolve_all x [] s = (0, s)"
| "resolve_all x (i # is) s =
     (let (ret, s) = (if has_src_addr s then mask_rc x s else (0, s))
      in if ret \<noteq> 0 then (ret, connect_error s)
         else
           let (ret, s) = (if unmapped_addr s then on_node i (addr_handler x) s else mask_rc x s)
           in if ret \<noteq> 0 then (ret, connect_error s) else resolve_all x is s)"

text \<open>At \<open>out\<close>: every node leaves, and \<open>ret\<close> is overwritten each time.\<close>

fun leave_all :: "mext \<Rightarrow> nat \<Rightarrow> int \<Rightarrow> cmatest \<Rightarrow> int \<times> cmatest" where
  "leave_all x 0 ret s = (ret, s)"
| "leave_all x (Suc k) ret s = (let (ret, s) = mask_rc x s in leave_all x k ret s)"

definition transfer :: "mext \<Rightarrow> int list \<Rightarrow> cmatest \<Rightarrow> outcome \<times> cmatest" where
  "transfer x polls s =
     (if message_count s = 0 then (Ret 0, s)
      else if is_sender s then (let (ret, s) = send_all x (nodes s) s in (Ret ret, s))
      else (poll_cqs (message_count s) (nodes s) polls, s))"

definition leave :: "mext \<Rightarrow> outcome \<times> cmatest \<Rightarrow> outcome \<times> cmatest" where
  "leave x r = (case r of (Ret ret, s) \<Rightarrow> (let (ret, s) = leave_all x (length (nodes s)) ret s in (Ret ret, s))
     | (out, s) \<Rightarrow> (out, s))"

definition run :: "mext \<Rightarrow> (int + nat \<times> cma_event) list \<Rightarrow> int list \<Rightarrow> cmatest \<Rightarrow> outcome \<times> cmatest" where
  "run x evs polls s =
     (let (ret, s) = (if has_src_addr s then mask_rc x s else (0, s))
      in if ret \<noteq> 0 then (Ret ret, s)
         else
           let (ret, s) = mask_rc x s
           in if ret \<noteq> 0 then (Ret ret, s)
              else
                let (ret, s) = resolve_all x [0..<length (nodes s)] s
                in if ret \<noteq> 0 then (Ret ret, s)
                   else leave x (case connect_events x evs s of
                            (Ret ret, s) \<Rightarrow> if ret \<noteq> 0 then (Ret ret, s) else transfer x polls s
                          | (out, s) \<Rightarrow> (out, s)))"

text \<open>\<open>main\<close> after its options; \<open>exit(1)\<close> leaves what is held to the system.\<close>

definition mckey_main :: "mext \<Rightarrow> int \<Rightarrow> (int + nat \<times> cma_event) list \<Rightarrow> int list \<Rightarrow> cmatest \<Rightarrow> outcome \<times> cmatest" where
  "mckey_main x connections evs polls s =
     (let (ch, s) = mask_obj x (s\<lparr>connects_left := connections\<rparr>)
      in if ch = 0 then (Exited 1, s)
         else
           let (ret, a, s) = alloc_nodes x connections (mtake (M_channel ch) s)
           in if ret \<noteq> 0 then (Exited 1, s)
              else case run x evs polls s of
                     (Ret ret, s) \<Rightarrow> (Ret ret, mgive (M_channel ch) (destroy_nodes a s))
                   | (out, s) \<Rightarrow> (out, s))"

section \<open>What is held\<close>

definition node_held :: "cmatest_node \<Rightarrow> mres multiset" where
  "node_held nd = (if n_ah nd \<noteq> 0 then {#M_ah (n_ah nd)#} else {#}) + (if n_qp nd then {#M_qp (cma_id nd)#} else {#})
     + (if n_cq nd \<noteq> 0 then {#M_cq (n_cq nd)#} else {#})
     + (if n_mem nd \<noteq> 0 \<and> n_mr nd \<noteq> 0 then {#M_mem (n_mem nd), M_mr (n_mr nd)#} else {#})
     + (if n_pd nd \<noteq> 0 then {#M_pd (n_pd nd)#} else {#}) + {#M_id (cma_id nd)#}"

text \<open>A node that has not been set up, and what a function on a node keeps.\<close>

definition not_set_up :: "cmatest_node \<Rightarrow> bool" where
  "not_set_up nd \<longleftrightarrow> n_pd nd = 0 \<and> n_cq nd = 0 \<and> \<not> n_qp nd \<and> n_mem nd = 0"

definition accounted :: "cmatest_node \<Rightarrow> cmatest \<Rightarrow> int \<times> cmatest_node \<times> cmatest \<Rightarrow> bool" where
  "accounted nd s = (\<lambda>(ret, nd', s'). mset (mheld s') + node_held nd = mset (mheld s) + node_held nd'
     \<and> nodes s' = nodes s \<and> cma_id nd' = cma_id nd)"

lemma mstate_simps [simp]:
  "mheld (snd (mask_obj x s)) = mheld s" "nodes (snd (mask_obj x s)) = nodes s"
  "mheld (snd (mask_rc x s)) = mheld s" "nodes (snd (mask_rc x s)) = nodes s"
  "mheld (mraise f s) = mheld s" "nodes (mraise f s) = nodes s"
  "mheld (mtake r s) = r # mheld s" "nodes (mtake r s) = nodes s" "nodes (mgive r s) = nodes s"
  "mheld (connect_error s) = mheld s" "nodes (connect_error s) = nodes s"
  "mheld (snd (verify_test_params x s)) = mheld s" "nodes (snd (verify_test_params x s)) = nodes s"
  by (simp_all add: mask_obj_def mask_rc_def mraise_def mtake_def mgive_def connect_error_def verify_test_params_def
      Let_def case_prod_unfold)

lemma mgive_held [simp]: "mheld (mgive r (mtake r s)) = mheld s"
  by (simp add: mgive_def mtake_def)

lemma mgive_faultless: "mfault (mgive r s) = None \<Longrightarrow> mfault s = None \<and> mset (mheld s) = add_mset r (mset (mheld (mgive r s)))"
  by (auto simp: mgive_def mraise_def split: if_splits)

lemma mraise_faultless [simp]: "mfault (mraise f s) \<noteq> None"
  by (simp add: mraise_def)

lemma post_loop_held [simp]: "mheld (snd (post_loop x w i s)) = mheld s" "nodes (snd (post_loop x w i s)) = nodes s"
  by (induction x w i s rule: post_loop.induct) (auto simp: mask_rc_def Let_def)

lemma post_held [simp]:
  "mheld (snd (post_recvs x nd s)) = mheld s" "nodes (snd (post_recvs x nd s)) = nodes s"
  "mheld (snd (post_sends x nd s)) = mheld s" "nodes (snd (post_sends x nd s)) = nodes s"
  by (simp_all add: post_recvs_def post_sends_def)

lemma init_node_accounted: "not_set_up nd \<Longrightarrow> accounted nd s (init_node x nd s)"
  by (auto simp: not_set_up_def accounted_def init_node_def create_message_def node_held_def Let_def case_prod_unfold mtake_def mgive_def mask_obj_def mask_rc_def)

lemma addr_handler_accounted: "not_set_up nd \<Longrightarrow> accounted nd s (addr_handler x nd s)"
  using init_node_accounted [of nd "snd (verify_test_params x s)" x]
  by (auto simp: addr_handler_def accounted_def Let_def case_prod_unfold)

lemma join_handler_accounted: "n_ah nd = 0 \<Longrightarrow> accounted nd s (join_handler x nd qpn qkey s)"
  by (auto simp: accounted_def join_handler_def node_held_def Let_def mask_obj_def mtake_def connect_error_def)

definition held_by :: "cmatest_node list \<Rightarrow> mres multiset" where
  "held_by nds = sum_list (map node_held nds)"

definition balanced :: "mres multiset \<Rightarrow> cmatest \<Rightarrow> bool" where
  "balanced m s \<longleftrightarrow> mset (mheld s) = m + held_by (nodes s) \<and> (\<forall>nd \<in> set (nodes s). cma_id nd \<noteq> 0)"

lemma held_by_update: "i < length nds \<Longrightarrow> held_by (nds[i := nd]) + node_held (nds ! i) = held_by nds + node_held nd"
  by (induction nds arbitrary: i) (auto simp: held_by_def ac_simps split: nat.splits)

lemma on_node_balanced:
  assumes "balanced m s" "i < length (nodes s) \<Longrightarrow> accounted (nodes s ! i) s (f (nodes s ! i) s)" "on_node i f s = (ret, q)"
  shows "balanced m q \<and> length (nodes q) = length (nodes s)"
proof (cases "i < length (nodes s)")
  case True
  obtain ret' nd s' where f: "f (nodes s ! i) s = (ret', nd, s')" by (cases "f (nodes s ! i) s")
  then have q: "q = s'\<lparr>nodes := (nodes s)[i := nd]\<rparr>"
    using assms(2,3) True by (auto simp: on_node_def accounted_def)
  have "mset (mheld s') + node_held (nodes s ! i) = m + (held_by (nodes s) + node_held nd)"
    using assms(1,2) True f by (simp add: accounted_def balanced_def ac_simps)
  then have "mset (mheld s') + node_held (nodes s ! i) = m + held_by ((nodes s)[i := nd]) + node_held (nodes s ! i)"
    using held_by_update [OF True, of nd] by (simp only: add.assoc)
  moreover have "cma_id nd \<noteq> 0"
    using assms(1,2) True f by (auto simp: accounted_def balanced_def)
  then have "\<forall>nd' \<in> set ((nodes s)[i := nd]). cma_id nd' \<noteq> 0"
    using assms(1) set_update_subset_insert [of "nodes s" i nd] by (auto simp: balanced_def)
  ultimately show ?thesis using q by (simp only: add_right_cancel) (simp add: balanced_def)
qed (use assms in \<open>auto simp: on_node_def balanced_def\<close>)

section \<open>The events of a run\<close>

text \<open>The connection manager reports at most one resolution and one join for a node.\<close>

fun event_key :: "int + nat \<times> cma_event \<Rightarrow> (nat \<times> bool) option" where
  "event_key (Inr (i, Cma_addr_resolved)) = Some (i, True)"
| "event_key (Inr (i, Cma_joined _ _)) = Some (i, False)"
| "event_key _ = None"

definition orderly :: "(int + nat \<times> cma_event) list \<Rightarrow> bool" where
  "orderly evs \<longleftrightarrow> distinct (List.map_filter event_key evs)"

definition expects :: "(int + nat \<times> cma_event) list \<Rightarrow> cmatest_node list \<Rightarrow> bool" where
  "expects evs nds \<longleftrightarrow> (\<forall>(i, resolved) \<in> set (List.map_filter event_key evs). i < length nds \<longrightarrow>
     (if resolved then not_set_up (nds ! i) else n_ah (nds ! i) = 0))"

lemma expects_Cons: "expects (e # evs) nds \<longleftrightarrow> expects evs nds \<and> (case event_key e of None \<Rightarrow> True
    | Some (i, resolved) \<Rightarrow> i < length nds \<longrightarrow> (if resolved then not_set_up (nds ! i) else n_ah (nds ! i) = 0))"
  by (auto simp: expects_def map_filter_simps split: option.splits)

lemma orderly_Cons: "orderly (e # evs) \<longleftrightarrow> orderly evs \<and>
    (case event_key e of None \<Rightarrow> True | Some k \<Rightarrow> k \<notin> set (List.map_filter event_key evs))"
  by (auto simp: orderly_def map_filter_simps split: option.splits)

lemma create_message_ah [simp]: "n_ah (fst (snd (create_message x nd s))) = n_ah nd"
  by (simp add: create_message_def Let_def case_prod_unfold)

lemma init_node_ah [simp]: "n_ah (fst (snd (init_node x nd s))) = n_ah nd"
  by (simp add: init_node_def Let_def case_prod_unfold)

lemma handlers_keep [simp]:
  "n_ah (fst (snd (addr_handler x nd s))) = n_ah nd"
  "not_set_up (fst (snd (join_handler x nd qpn qkey s))) = not_set_up nd"
  by (simp_all add: addr_handler_def join_handler_def not_set_up_def Let_def case_prod_unfold)

lemma cma_handler_accounted:
  assumes "expects (Inr (i, ev) # evs) (nodes s)" "i < length (nodes s)"
  shows "accounted (nodes s ! i) s (cma_handler x ev (nodes s ! i) s)"
  using assms addr_handler_accounted [of "nodes s ! i" s x] join_handler_accounted [of "nodes s ! i" s x]
  by (cases ev) (simp_all add: cma_handler_def expects_Cons, simp_all add: accounted_def)

lemma expects_update:
  assumes "expects evs nds" "\<And>b. (i, b) \<in> set (List.map_filter event_key evs) \<Longrightarrow> if b then not_set_up nd else n_ah nd = 0"
  shows "expects evs (nds[i := nd])"
  unfolding expects_def
proof (clarify, cases)
  fix j b assume j: "(j, b) \<in> set (List.map_filter event_key evs)" "j < length (nds[i := nd])" "j = i"
  then show "if b then not_set_up (nds[i := nd] ! j) else n_ah (nds[i := nd] ! j) = 0" using assms(2) [of b] by simp
next
  fix j b assume j: "(j, b) \<in> set (List.map_filter event_key evs)" "j < length (nds[i := nd])" "j \<noteq> i"
  then show "if b then not_set_up (nds[i := nd] ! j) else n_ah (nds[i := nd] ! j) = 0"
    using assms(1) unfolding expects_def by (auto dest!: bspec [of _ _ "(j, b)"])
qed

lemma cma_handler_expects:
  assumes "expects (Inr (i, ev) # evs) (nodes s)" "orderly (Inr (i, ev) # evs)" "i < length (nodes s)"
  shows "expects evs ((nodes s)[i := fst (snd (cma_handler x ev (nodes s ! i) s))])"
proof (rule expects_update)
  show "expects evs (nodes s)" using assms(1) by (simp add: expects_Cons)
  fix b assume b: "(i, b) \<in> set (List.map_filter event_key evs)"
  then have "if b then not_set_up (nodes s ! i) else n_ah (nodes s ! i) = 0"
    using assms(1,3) by (auto simp: expects_def map_filter_simps split: option.splits)
  then show "if b then not_set_up (fst (snd (cma_handler x ev (nodes s ! i) s)))
      else n_ah (fst (snd (cma_handler x ev (nodes s ! i) s))) = 0"
    using b assms(2) by (cases ev) (auto simp: cma_handler_def orderly_Cons split: if_splits)
qed

lemma connect_events_balanced:
  assumes "balanced m s" "expects evs (nodes s)" "orderly evs" "connect_events x evs s = (r, q)"
  shows "balanced m q"
  using assms
proof (induction evs arbitrary: s)
  case (Cons ev evs)
  show ?case
  proof (cases ev)
    case (Inl e)
    then show ?thesis using Cons.IH Cons.prems
      by (auto simp: connect_events.simps [of x "Inl e # evs"] expects_Cons orderly_Cons split: if_splits)
  next
    case (Inr iev)
    obtain i e where ev: "ev = Inr (i, e)" using Inr by (cases iev) simp
    obtain ret s' where on: "on_node i (cma_handler x e) s = (ret, s')" by fastforce
    have bal: "balanced m s'"
      using on_node_balanced [OF Cons.prems(1) _ on] cma_handler_accounted [of i e evs s x] Cons.prems(2) ev by auto
    have "expects evs (nodes s')"
    proof (cases "i < length (nodes s)")
      case True
      moreover have "nodes (snd (snd (cma_handler x e (nodes s ! i) s))) = nodes s"
        using cma_handler_accounted [of i e evs s x] Cons.prems(2) ev True by (simp add: accounted_def case_prod_unfold)
      ultimately show ?thesis using cma_handler_expects [of i e evs s x] Cons.prems(2,3) ev on
        by (auto simp: on_node_def Let_def case_prod_unfold)
    next
      case False
      then show ?thesis using Cons.prems(2) ev on
        by (auto simp: on_node_def expects_Cons)
    qed
    moreover have "orderly evs" using Cons.prems(3) by (simp add: orderly_Cons)
    ultimately show ?thesis using Cons.IH [OF bal] Cons.prems(1,4) bal on ev
      by (auto simp: connect_events.simps [of x "Inr (i, e) # evs"] split: if_splits)
  qed
qed (auto simp: connect_events.simps split: if_splits)

section \<open>A whole run\<close>

lemma resolve_all_frame:
  assumes "resolve_all x is s = (ret, q)" "\<not> unmapped_addr s"
  shows "mheld q = mheld s" "nodes q = nodes s"
  using assms by (induction "is" arbitrary: s) (auto simp: Let_def mask_rc_def connect_error_def split: if_splits)

lemma send_all_frame [simp]: "mheld (snd (send_all x nds s)) = mheld s" "nodes (snd (send_all x nds s)) = nodes s"
  by (induction nds arbitrary: s) (auto simp: Let_def case_prod_unfold)

lemma leave_all_frame [simp]: "mheld (snd (leave_all x k ret s)) = mheld s" "nodes (snd (leave_all x k ret s)) = nodes s"
  by (induction k arbitrary: ret s) (auto simp: Let_def case_prod_unfold)

lemma balanced_cong: "mheld q = mheld s \<Longrightarrow> nodes q = nodes s \<Longrightarrow> balanced m q = balanced m s"
  by (simp add: balanced_def)

lemma transfer_balanced: "balanced m (snd (transfer x polls s)) = balanced m s"
  by (rule balanced_cong) (auto simp: transfer_def Let_def case_prod_unfold)

lemma leave_balanced: "balanced m (snd (leave x r)) = balanced m (snd r)"
  by (rule balanced_cong) (simp_all add: leave_def Let_def case_prod_unfold split: outcome.split)

lemma run_balanced:
  assumes "balanced m s" "expects evs (nodes s)" "orderly evs" "\<not> unmapped_addr s" "run x evs polls s = (r, q)"
  shows "balanced m q"
proof -
  obtain e1 s1 where r1: "(if has_src_addr s then mask_rc x s else (0, s)) = (e1, s1)" by fastforce
  obtain e2 s2 where r2: "mask_rc x s1 = (e2, s2)" by fastforce
  obtain e3 s3 where r3: "resolve_all x [0..<length (nodes s2)] s2 = (e3, s3)" by fastforce
  obtain out s4 where r4: "connect_events x evs s3 = (out, s4)" by fastforce
  have frame: "mheld s1 = mheld s" "nodes s1 = nodes s" "mheld s2 = mheld s" "nodes s2 = nodes s"
    and un: "\<not> unmapped_addr s2"
    using assms(4) r1 r2 by (auto simp: mask_rc_def split: if_splits)
  have s3: "mheld s3 = mheld s" "nodes s3 = nodes s"
    using resolve_all_frame [OF r3 un] frame by simp_all
  have bal: "balanced m s1" "balanced m s2" "balanced m s3"
    using assms(1) frame s3 by (simp_all add: balanced_def)
  then have s4: "balanced m s4" using connect_events_balanced [OF _ _ assms(3) r4] assms(2) s3 by simp
  have "run x evs polls s = (if e1 \<noteq> 0 then (Ret e1, s1) else if e2 \<noteq> 0 then (Ret e2, s2) else if e3 \<noteq> 0 then (Ret e3, s3)
      else leave x (case out of Ret ret \<Rightarrow> if ret \<noteq> 0 then (Ret ret, s4) else transfer x polls s4 | _ \<Rightarrow> (out, s4)))"
    unfolding run_def r1 Let_def prod.case r2 r3 r4 by (simp split: outcome.split)
  then have "balanced m (snd (run x evs polls s))"
    using bal s4 by (simp add: transfer_balanced leave_balanced split: outcome.split)
  then show ?thesis using assms(5) by simp
qed

definition all_fresh :: "cmatest_node list \<Rightarrow> bool" where
  "all_fresh nds \<longleftrightarrow> (\<forall>nd \<in> set nds. not_set_up nd \<and> n_ah nd = 0)"

lemma create_ids_balanced:
  assumes "balanced m s" "all_fresh (nodes s)" "create_ids x i k s = (0, q)"
  shows "balanced m q" "all_fresh (nodes q)" "unmapped_addr q = unmapped_addr s"
proof -
  have "balanced m q \<and> all_fresh (nodes q) \<and> unmapped_addr q = unmapped_addr s"
    using assms
  proof (induction k arbitrary: i s)
    case (Suc k)
    let ?c = "Suc (fst (mask_obj x (snd (mask_rc x s))))" and ?s = "snd (mask_obj x (snd (mask_rc x s)))"
    let ?t = "mtake (M_id ?c) (?s\<lparr>nodes := nodes ?s @ [fresh_node i ?c]\<rparr>)"
    have rec: "create_ids x (Suc i) k ?t = (0, q)"
      using Suc.prems(3) by (auto simp: Let_def case_prod_unfold split: if_splits)
    have "balanced m ?t"
      using Suc.prems(1) by (simp add: balanced_def held_by_def node_held_def fresh_node_def mask_obj_def mask_rc_def mtake_def)
    moreover have "all_fresh (nodes ?t)" "unmapped_addr ?t = unmapped_addr s"
      using Suc.prems(2) by (auto simp: all_fresh_def fresh_node_def not_set_up_def mask_obj_def mask_rc_def mtake_def)
    ultimately show ?case using Suc.IH [of ?t "Suc i"] rec by simp
  qed simp
  then show "balanced m q" "all_fresh (nodes q)" "unmapped_addr q = unmapped_addr s" by auto
qed

lemma destroy_node_gives:
  assumes "mfault (destroy_node nd s) = None" "cma_id nd \<noteq> 0"
  shows "mset (mheld s) = mset (mheld (destroy_node nd s)) + node_held nd \<and> mfault s = None"
  using assms by (auto simp: destroy_node_def node_held_def Let_def dest!: mgive_faultless split: if_splits)

lemma destroy_all_give:
  assumes "mfault (fold destroy_node nds s) = None" "\<forall>nd \<in> set nds. cma_id nd \<noteq> 0"
  shows "mset (mheld s) = mset (mheld (fold destroy_node nds s)) + held_by nds \<and> mfault s = None"
  using assms
proof (induction nds arbitrary: s)
  case (Cons nd nds)
  then show ?case using Cons.IH [of "destroy_node nd s"] destroy_node_gives [of nd s] by (auto simp: held_by_def ac_simps)
qed (simp add: held_by_def)

text \<open>
  C39: the multicast sample gives everything back: when its nodes are resolved and joined at most once each
  and the run ends, whichever call failed on the way, \<open>main\<close> holds nothing any more -- or it has
  used a dead object, which happens when a buffer could not be registered: \<open>create_message\<close> frees it
  and \<open>destroy_node\<close> deregisters NULL and frees it again.
\<close>

lemma multicast_gives_all_back:
  assumes "mckey_main x n evs polls s = (Ret r, q)" "mfault q = None" "mheld s = []" "orderly evs" "\<not> unmapped_addr s"
  shows "mheld q = []"
proof -
  obtain ch s1 where r1: "mask_obj x (s\<lparr>connects_left := n\<rparr>) = (ch, s1)" by fastforce
  obtain a s2 where r2: "mask_obj x (mtake (M_channel ch) s1) = (a, s2)" by fastforce
  obtain e s3 where r3: "create_ids x 0 (nat n) (mtake (M_nodes a) (s2\<lparr>nodes := []\<rparr>)) = (e, s3)" by fastforce
  obtain out s4 where r4: "run x evs polls s3 = (out, s4)" by fastforce
  have e: "e = 0" and q: "q = mgive (M_channel ch) (destroy_nodes a s4)"
    using assms(1) r4 unfolding mckey_main_def alloc_nodes_def r1 r2 r3 Let_def prod.case
    by (auto simp: r3 split: if_splits outcome.splits)
  let ?m = "{#M_nodes a, M_channel ch#}"
  have start: "balanced ?m (mtake (M_nodes a) (s2\<lparr>nodes := []\<rparr>))" "unmapped_addr s2 = unmapped_addr s"
    using r1 r2 assms(3) by (auto simp: balanced_def held_by_def mask_obj_def mtake_def)
  have ids: "balanced ?m s3" "all_fresh (nodes s3)" "\<not> unmapped_addr s3"
    using create_ids_balanced [OF start(1) _ r3 [unfolded e]] start(2) assms(5) by (auto simp: all_fresh_def mtake_def)
  have "expects evs (nodes s3)" using ids(2) by (auto simp: expects_def all_fresh_def)
  then have bal: "balanced ?m s4" using run_balanced [OF ids(1) _ assms(4) ids(3) r4] by simp
  note given = mgive_faultless [OF assms(2) [unfolded q]]
  have "mset (mheld s4) = mset (mheld q) + ?m + held_by (nodes s4)"
    using given mgive_faultless [of "M_nodes a" "fold destroy_node (nodes s4) s4"]
      destroy_all_give [of "nodes s4" s4] bal by (auto simp: destroy_nodes_def balanced_def q)
  then have "mset (mheld q) = {#}" using bal by (simp add: balanced_def)
  then show ?thesis by simp
qed

text \<open>A receiver of two messages: everything works, and what it held is gone.\<close>

definition mext_ok :: mext where
  "mext_ok = \<lparr>m_obj = (\<lambda>t. t + 1), m_rc = (\<lambda>_. 0), m_mtu = 5\<rparr>"

definition receiver :: cmatest where
  "receiver = \<lparr>nodes = [], connects_left = 0, message_size = 100, message_count = 2, is_sender = False, unmapped_addr = False,
     has_src_addr = False, posted = [], mheld = [], mtick = 0, mfault = None\<rparr>"

definition two_received :: "outcome \<times> cmatest" where
  "two_received = mckey_main mext_ok 1 [Inr (0, Cma_addr_resolved), Inr (0, Cma_joined 7 8)] [1, 0, 1] receiver"

lemma multicast_gives_all_back_witness:
  "length (posted (snd two_received)) = 2 \<and> mheld (snd two_received) = []"
proof
  have r: "fst two_received = Ret 0" "mfault (snd two_received) = None" by code_simp+
  show "length (posted (snd two_received)) = 2" by code_simp
  show "mheld (snd two_received) = []"
  proof (rule multicast_gives_all_back)
    show "mckey_main mext_ok 1 [Inr (0, Cma_addr_resolved), Inr (0, Cma_joined 7 8)] [1, 0, 1] receiver = (Ret 0, snd two_received)"
      using r(1) by (metis two_received_def prod.collapse)
  qed (simp_all add: r(2) receiver_def orderly_def map_filter_simps)
qed

text \<open>
  A run that comes to \<open>out\<close> answers what the last \<open>rdma_leave_multicast\<close> answered: an event that reports an
  error, a refused join or a failing queue is not seen in the status of the program.
\<close>

lemma leave_all_status: "0 < k \<Longrightarrow> (\<And>t. m_rc x t = 0) \<Longrightarrow> fst (leave_all x k ret s) = 0"
proof (induction k arbitrary: ret s)
  case (Suc k)
  have "fst (mask_rc x s) = 0" using Suc.prems by (simp add: mask_rc_def)
  then show ?case using Suc by (cases "k = 0") (simp_all add: Let_def case_prod_unfold)
qed simp

lemma run_hides_errors:
  assumes "connect_events x evs s = (Ret e, q)" "e \<noteq> 0" "nodes q \<noteq> []" "\<And>t. m_rc x t = 0"
  shows "fst (leave x (Ret e, q)) = Ret 0"
  using leave_all_status [of "length (nodes q)" x e q] assms by (simp add: leave_def Let_def case_prod_unfold)

end
