(* ===== verification/Stress.thy ===== *)
theory Stress
  imports State
begin

text \<open>
  The stress threads of a client built with \<open>RDMA_STRESS\<close> (\<open>dhmp_client.c\<close>): the loop of
  \<open>dhmp_client_init\<close> that creates them, \<open>rdma_stress_thread\<close> and the loop of \<open>dhmp_client_destroy\<close> that stops and joins
  them, interleaved.  All threads get the address of the same loop variable.
\<close>

section \<open>State\<close>

datatype stress_thread = Not_created | Created | Looping int | Ended

datatype stress_pc = Creating | Counting | Working | Stopping nat | Joining nat | All_joined

text \<open>
  \<open>loop_i\<close> is the variable \<open>i\<close> of \<open>dhmp_client_init\<close>; later loops reuse it, and its frame is dead when
  the function has returned.  \<open>stress_stop j\<close> is \<open>client->stress[j].stop == 1\<close>.
\<close>

record stress_state =
  stress_main :: stress_pc
  loop_i :: int
  stress_threads :: "nat \<Rightarrow> stress_thread"
  stress_stop :: "int \<Rightarrow> bool"
  stress_fault :: "fault option"

definition stress0 :: stress_state where
  "stress0 = \<lparr>stress_main = Creating, loop_i = 0, stress_threads = (\<lambda>_. Not_created), stress_stop = (\<lambda>_. False),
     stress_fault = None\<rparr>"

text \<open>The assignment \<open>client->stress[j].stop = v\<close>; the array has 20 entries.\<close>

definition set_stop :: "int \<Rightarrow> bool \<Rightarrow> stress_state \<Rightarrow> stress_state" where
  "set_stop j v s =
     (if 0 \<le> j \<and> j < 20 then s\<lparr>stress_stop := (stress_stop s)(j := v)\<rparr>
      else if stress_fault s = None then s\<lparr>stress_fault := Some Out_of_bounds\<rparr> else s)"

definition set_thread :: "nat \<Rightarrow> stress_thread \<Rightarrow> stress_state \<Rightarrow> stress_state" where
  "set_thread k t s = s\<lparr>stress_threads := (stress_threads s)(k := t)\<rparr>"

section \<open>Steps\<close>

text \<open>
  \<open>n\<close> is \<open>STRESS_NUM\<close>.  A turn of a thread that does not see its flag changes nothing here and has no
  step.
\<close>

inductive stress_step :: "nat \<Rightarrow> stress_state \<Rightarrow> stress_state \<Rightarrow> bool" for n where
  create: "stress_main s = Creating \<Longrightarrow> loop_i s = int k \<Longrightarrow> k < n \<Longrightarrow>
    stress_step n s (set_thread k Created (s\<lparr>stress_main := Counting\<rparr>))"
| count: "stress_main s = Counting \<Longrightarrow> stress_step n s (s\<lparr>loop_i := loop_i s + 1, stress_main := Creating\<rparr>)"
| created: "stress_main s = Creating \<Longrightarrow> int n \<le> loop_i s \<Longrightarrow> stress_step n s (s\<lparr>stress_main := Working\<rparr>)"
| reuse: "stress_main s \<notin> {Creating, Counting} \<Longrightarrow> stress_step n s (s\<lparr>loop_i := v\<rparr>)"
| destroy: "stress_main s = Working \<Longrightarrow> stress_step n s (s\<lparr>stress_main := Stopping 0\<rparr>)"
| stop: "stress_main s = Stopping k \<Longrightarrow> k < n \<Longrightarrow> stress_step n s (set_stop (int k) True (s\<lparr>stress_main := Joining k\<rparr>))"
| joined: "stress_main s = Joining k \<Longrightarrow> stress_threads s k = Ended \<Longrightarrow> stress_step n s (s\<lparr>stress_main := Stopping (Suc k)\<rparr>)"
| all_joined: "stress_main s = Stopping n \<Longrightarrow> stress_step n s (s\<lparr>stress_main := All_joined\<rparr>)"
| read: "stress_threads s k = Created \<Longrightarrow>
    stress_step n s (set_stop (loop_i s) False (set_thread k (Looping (loop_i s)) s))"
| ends: "stress_threads s k = Looping i \<Longrightarrow> stress_stop s i \<Longrightarrow> stress_step n s (set_thread k Ended s)"

lemma set_simps [simp]:
  "stress_main (set_stop j v s) = stress_main s" "loop_i (set_stop j v s) = loop_i s"
  "stress_threads (set_stop j v s) = stress_threads s"
  "stress_stop (set_stop j v s) = (if 0 \<le> j \<and> j < 20 then (stress_stop s)(j := v) else stress_stop s)"
  "stress_main (set_thread k t s) = stress_main s" "loop_i (set_thread k t s) = loop_i s"
  "stress_threads (set_thread k t s) = (stress_threads s)(k := t)" "stress_stop (set_thread k t s) = stress_stop s"
  "stress_fault (set_thread k t s) = stress_fault s"
  by (simp_all add: set_stop_def set_thread_def)

section \<open>The numbers that the threads read\<close>

text \<open>While the threads are being created, a thread has its own number or that of a later one, at most \<open>n\<close>.\<close>

definition numbers_ok :: "nat \<Rightarrow> stress_state \<Rightarrow> bool" where
  "numbers_ok n s \<longleftrightarrow> (stress_main s \<in> {Creating, Counting} \<longrightarrow>
     0 \<le> loop_i s \<and> loop_i s \<le> int n \<and> (stress_main s = Counting \<longrightarrow> loop_i s < int n)
     \<and> (\<forall>k. stress_threads s k \<noteq> Not_created \<longrightarrow> int k \<le> loop_i s)
     \<and> (\<forall>k i. stress_threads s k = Looping i \<longrightarrow> int k \<le> i \<and> i \<le> loop_i s))"

lemma numbers_ok_step: "stress_step n s r \<Longrightarrow> numbers_ok n s \<Longrightarrow> numbers_ok n r"
  by (erule stress_step.cases) (fastforce simp: numbers_ok_def split: if_splits)+

lemma numbers_ok_start: "numbers_ok n stress0"
  by (simp add: numbers_ok_def stress0_def)

lemma numbers_ok_reachable: "(stress_step n)\<^sup>*\<^sup>* stress0 s \<Longrightarrow> numbers_ok n s"
  by (induction rule: rtranclp_induct) (auto intro: numbers_ok_step numbers_ok_start)

section \<open>A destroy that does not end\<close>

text \<open>Thread 0 watches the flag of thread 1, which is set only after thread 0 has been joined.\<close>

definition hanging :: "stress_state \<Rightarrow> bool" where
  "hanging s \<longleftrightarrow> stress_main s = Joining 0 \<and> stress_threads s 0 = Looping 1 \<and> \<not> stress_stop s 1"

lemma hang_step: "stress_step n s r \<Longrightarrow> hanging s \<Longrightarrow> hanging r"
  by (erule stress_step.cases) (auto simp: hanging_def intro: gr0I)

lemma hangs_for_ever: "(stress_step n)\<^sup>*\<^sup>* s r \<Longrightarrow> hanging s \<Longrightarrow> hanging r"
  by (induction rule: rtranclp_induct) (auto intro: hang_step)

definition first_read :: "nat \<Rightarrow> stress_state" where
  "first_read k = stress0\<lparr>loop_i := int k + 1, stress_threads := (\<lambda>j. if j = 0 then Looping 1 else if j \<le> k then Created else Not_created)\<rparr>"

lemma create_more:
  assumes "Suc k < n"
  shows "(stress_step n)\<^sup>*\<^sup>* (first_read k) (first_read (Suc k))"
proof -
  let ?c = "set_thread (Suc k) Created ((first_read k)\<lparr>stress_main := Counting\<rparr>)"
  have "stress_step n (first_read k) ?c"
    using stress_step.create [of "first_read k" "Suc k" n] assms by (simp add: first_read_def stress0_def)
  moreover have "?c\<lparr>loop_i := loop_i ?c + 1, stress_main := Creating\<rparr> = first_read (Suc k)"
    by (auto simp: first_read_def set_thread_def stress0_def fun_eq_iff)
  then have "stress_step n ?c (first_read (Suc k))" using stress_step.count [of ?c n] by simp
  ultimately show ?thesis by (meson r_into_rtranclp rtranclp.rtrancl_into_rtrancl)
qed

lemma create_all: "k < n \<Longrightarrow> (stress_step n)\<^sup>*\<^sup>* (first_read 0) (first_read k)"
  by (induction k) (auto intro: rtranclp_trans create_more)

text \<open>
  C13: with two or more stress threads \<open>dhmp_client_destroy\<close> may never end: the threads read their number
  from the variable that \<open>dhmp_client_init\<close> is counting up, so thread 0 can run with the number 1; it is
  then joined before the flag it watches is set, and no later step gets the main thread out of that join.
\<close>

lemma stress_destroy_hangs:
  "\<exists>s. (stress_step (Suc (Suc n)))\<^sup>*\<^sup>* stress0 s \<and> stress_fault s = None
     \<and> (\<forall>r. (stress_step (Suc (Suc n)))\<^sup>*\<^sup>* s r \<longrightarrow> stress_main r = Joining 0)"
proof -
  let ?N = "Suc (Suc n)" and ?f = "first_read (Suc n)"
  let ?c = "set_thread 0 Created (stress0\<lparr>stress_main := Counting\<rparr>)"
  let ?d = "?c\<lparr>loop_i := loop_i ?c + 1, stress_main := Creating\<rparr>"
  have "stress_step ?N stress0 ?c"
    using stress_step.create [of stress0 0 ?N] by (simp add: stress0_def)
  moreover have "stress_step ?N ?c ?d" by (rule stress_step.count) simp
  moreover have "set_stop 1 False (set_thread 0 (Looping 1) ?d) = first_read 0"
    by (auto simp: set_stop_def set_thread_def first_read_def stress0_def fun_eq_iff)
  then have "stress_step ?N ?d (first_read 0)"
    using stress_step.read [of ?d 0 ?N] by (simp add: stress0_def)
  moreover have "(stress_step ?N)\<^sup>*\<^sup>* (first_read 0) ?f" by (rule create_all) simp
  moreover have "stress_step ?N ?f (?f\<lparr>stress_main := Working\<rparr>)"
    by (rule stress_step.created) (simp_all add: first_read_def stress0_def)
  moreover have "stress_step ?N (?f\<lparr>stress_main := Working\<rparr>) (?f\<lparr>stress_main := Stopping 0\<rparr>)"
    using stress_step.destroy [of "?f\<lparr>stress_main := Working\<rparr>" ?N] by simp
  moreover have "stress_step ?N (?f\<lparr>stress_main := Stopping 0\<rparr>) (set_stop 0 True (?f\<lparr>stress_main := Joining 0\<rparr>))"
    using stress_step.stop [of "?f\<lparr>stress_main := Stopping 0\<rparr>" 0 ?N] by simp
  ultimately have "(stress_step ?N)\<^sup>*\<^sup>* stress0 (set_stop 0 True (?f\<lparr>stress_main := Joining 0\<rparr>))"
    by (meson converse_rtranclp_into_rtranclp rtranclp.rtrancl_into_rtrancl rtranclp_trans)
  moreover have "hanging (set_stop 0 True (?f\<lparr>stress_main := Joining 0\<rparr>))"
    "stress_fault (set_stop 0 True (?f\<lparr>stress_main := Joining 0\<rparr>)) = None"
    by (simp_all add: hanging_def first_read_def stress0_def set_stop_def)
  ultimately show ?thesis using hangs_for_ever by (metis hanging_def)
qed

lemma stress_destroy_hangs_witness:
  "\<exists>s. (stress_step 2)\<^sup>*\<^sup>* stress0 s \<and> stress_main s = Joining 0 \<and> \<not> (stress_step 2)\<^sup>*\<^sup>* s (s\<lparr>stress_main := All_joined\<rparr>)"
proof -
  obtain s where s: "(stress_step (Suc (Suc 0)))\<^sup>*\<^sup>* stress0 s"
    "\<And>r. (stress_step (Suc (Suc 0)))\<^sup>*\<^sup>* s r \<Longrightarrow> stress_main r = Joining 0"
    using stress_destroy_hangs [of 0] by blast
  have "stress_main s = Joining 0" by (rule s(2)) simp
  moreover have "\<not> (stress_step (Suc (Suc 0)))\<^sup>*\<^sup>* s (s\<lparr>stress_main := All_joined\<rparr>)"
  proof
    assume "(stress_step (Suc (Suc 0)))\<^sup>*\<^sup>* s (s\<lparr>stress_main := All_joined\<rparr>)"
    from s(2) [OF this] show False by simp
  qed
  ultimately show ?thesis using s(1) unfolding numeral_2_eq_2 by blast
qed

end
