(* ===== verification/Log.thy ===== *)
theory Log
  imports State
begin

text \<open>
  Logging (\<open>dhmp_log.h\<close>, \<open>dhmp_log.c\<close>) and the timer of \<open>dhmp_timerfd.c\<close>.  The text that the format string
  and its arguments expand to is an argument, \<open>None\<close> when the conversion fails, and so is the time.
\<close>

section \<open>Printing a line\<close>

definition dec_digit :: "nat \<Rightarrow> char" where
  "dec_digit n = char_of (48 + n)"

fun dec :: "nat \<Rightarrow> string" where
  "dec n = (if n < 10 then [dec_digit n] else dec (n div 10) @ [dec_digit (n mod 10)])"

declare dec.simps [simp del]

text \<open>\<open>%-28s\<close> and \<open>%-5s\<close>.\<close>

definition pad_right :: "nat \<Rightarrow> string \<Rightarrow> string" where
  "pad_right w s = s @ replicate (w - length s) (CHR '' '')"

text \<open>What \<open>snprintf\<close> stores in a buffer of \<open>n\<close> bytes, before the terminating zero.\<close>

definition printed :: "nat \<Rightarrow> string \<Rightarrow> string" where
  "printed n s = take (n - 1) s"

definition c_string :: "string \<Rightarrow> string" where
  "c_string = takeWhile (\<lambda>c. c \<noteq> CHR 0x00)"

definition short_filename :: "string \<Rightarrow> string" where
  "short_filename file = rev (takeWhile (\<lambda>c. c \<noteq> CHR ''/'') (rev file))"

definition level_str :: "string list" where
  "level_str = [''ERROR'', ''WARN'', ''INFO'', ''DEBUG'', ''TRACE'']"

text \<open>
  \<open>vsnprintf\<close> answers the length that the whole text has, also when it did not fit, and the terminating
  zero is stored at that index.
\<close>

definition dhmp_log_impl :: "string \<Rightarrow> string \<Rightarrow> nat \<Rightarrow> nat \<Rightarrow> string option \<Rightarrow> string + fault" where
  "dhmp_log_impl time file line log_level expanded =
     (case expanded of
        None \<Rightarrow> Inr Out_of_bounds
      | Some m \<Rightarrow>
          if length m \<ge> 2048 then Inr Out_of_bounds
          else
            let mbuf = c_string (printed 2048 m);
                filebuf = printed 270 (short_filename file @ '':'' @ dec line)
            in if log_level \<ge> length level_str then Inr Out_of_bounds
               else Inl (''['' @ time @ ''] '' @ pad_right 28 filebuf @ '' ['' @ pad_right 5 (level_str ! log_level)
                         @ ''] - '' @ mbuf @ [CHR 0x0A]))"

definition DHMP_LOG_LEVEL_LAST :: nat where "DHMP_LOG_LEVEL_LAST = 5"
definition DHMP_LOG_LEVEL_WARN :: nat where "DHMP_LOG_LEVEL_WARN = 1"

text \<open>The macro \<open>dhmp_log\<close>; \<open>global_log_level\<close> is \<open>DHMP_LOG_LEVEL_WARN\<close> and nothing changes it.\<close>

definition dhmp_log :: "nat \<Rightarrow> string \<Rightarrow> string \<Rightarrow> nat \<Rightarrow> string option \<Rightarrow> string + fault" where
  "dhmp_log level time file line expanded =
     (if level < DHMP_LOG_LEVEL_LAST \<and> level \<le> DHMP_LOG_LEVEL_WARN then dhmp_log_impl time file line level expanded
      else Inl [])"

section \<open>What is printed\<close>

lemma short_filename_path: "CHR ''/'' \<notin> set f \<Longrightarrow> short_filename (path @ CHR ''/'' # f) = f"
proof -
  assume f: "CHR ''/'' \<notin> set f"
  then have "takeWhile (\<lambda>c. c \<noteq> CHR ''/'') (rev f @ CHR ''/'' # rev path) = rev f"
    by (subst takeWhile_append2) auto
  then show ?thesis by (simp add: short_filename_def)
qed

lemma short_filename_plain:
  assumes "CHR ''/'' \<notin> set f"
  shows "short_filename f = f"
proof -
  have "takeWhile (\<lambda>c. c \<noteq> CHR ''/'') (rev f) = rev f" using assms by (subst takeWhile_eq_all_conv) auto
  then show ?thesis unfolding short_filename_def by (simp only: rev_rev_ident)
qed

lemma c_string_id: "CHR 0x00 \<notin> set m \<Longrightarrow> c_string m = m"
  using takeWhile_eq_all_conv [of "\<lambda>c. c \<noteq> CHR 0x00" m] by (auto simp: c_string_def)

text \<open>
  A message of a level that is printed is printed completely when it is shorter than the buffer, and is a
  store past the buffer otherwise.
\<close>

lemma dhmp_log_bounds:
  assumes "level \<le> 1"
  shows "(\<exists>out. dhmp_log level time file line (Some m) = Inl out) \<longleftrightarrow> length m < 2048"
    "length m < 2048 \<Longrightarrow> CHR 0x00 \<notin> set m \<Longrightarrow> \<exists>prefix. dhmp_log level time file line (Some m) = Inl (prefix @ m @ [CHR 0x0A])"
  using assms by (auto simp: dhmp_log_def dhmp_log_impl_def DHMP_LOG_LEVEL_LAST_def DHMP_LOG_LEVEL_WARN_def level_str_def
      printed_def c_string_id Let_def)

section \<open>The timer\<close>

text \<open>The descriptor, if one is left open, and the answer: it stays open when it cannot be set.\<close>

definition dhmp_timerfd_create :: "int \<Rightarrow> int \<Rightarrow> int option \<times> int" where
  "dhmp_timerfd_create tfd err =
     (if tfd < 0 then (None, -1) else if err \<noteq> 0 then (Some tfd, err) else (Some tfd, tfd))"

lemma timer_descriptor_lost: "0 \<le> tfd \<Longrightarrow> err < 0 \<Longrightarrow> dhmp_timerfd_create tfd err = (Some tfd, err) \<and> err \<noteq> tfd"
  by (simp add: dhmp_timerfd_create_def)

end
