(* ===== verification/Spec2Isabelle.thy ===== *)
theory Spec2Isabelle
  imports Murmur Client_System Startup List_H Kernel_Module Bench Multicast Stress Log
begin

text \<open>
  A verification development for \<open>src/amper\<close>, a user-space library that gives a client remote memory on
  a server over RDMA and compares a dozen RPC protocols on it.

  The program.  A process is a client or a server, never both; the globals \<open>client\<close> and \<open>server\<close> are
  NULL or point to its state.  A client has three threads: the application's, which queues work items
  and spins on their \<open>done_flag\<close>; the worker (\<open>dhmp_work_handle_thread\<close>), which takes the items off a
  list and runs a handler each; and the event thread (\<open>dhmp_context_run\<close>), which handles completions
  and connection events.  A server has the event thread and, for some protocols, one poll thread per
  client.  The processes meet only in registered memory: two-sided messages copied into receive
  buffers, one-sided reads and writes, writes with an immediate value.

  How it is modelled.  \<open>proc\<close> (State) is the state of a process: memory as bytes at 64-bit addresses,
  the requests handed to the adapter (\<open>sq\<close>, \<open>rq\<close>), the records of client and server with the fields of
  the C structs, the transports by address, the flags on which threads wait, the resources that
  have to be given back (\<open>held\<close>), and the first access that would be undefined (\<open>fault\<close>).  A C function
  is a function on \<open>proc\<close>.  What the libraries and the system answer -- \<open>malloc\<close>, \<open>ibv_reg_mr\<close>,
  \<open>ibv_post_send\<close>, status codes -- is the argument \<open>ext\<close>, any sequence of answers, numbered by \<open>tick\<close>.
  Uninitialised memory is an argument (\<open>junk\<close>).  The macros that select code are fields of
  \<open>build\<close>.  A function that spins is resumable: its argument \<open>pc\<close> is the loop it is in, a call runs to
  the next loop, and not returning is the same \<open>pc\<close> again; interleavings are step relations over such
  functions.  Integers have their C width, and what C leaves undefined or the library would make a
  crash raises a fault.

  The theories, from the bottom:

  \<^item> DHMP_Prelude: bytes, little-endian words, memory, the locale \<open>codec\<close> of fixed-width formats.
  \<^item> Verbs, State, Samples: the structs of \<open>infiniband/verbs.h\<close> the program fills in; the records of
    \<open>dhmp_client.h\<close>, \<open>dhmp_server.h\<close>, \<open>dhmp_transport.h\<close>, \<open>dhmp_work.h\<close>; sample states for witnesses.
  \<^item> Murmur: \<open>murmur3_hash.c\<close> and the bucket index.  Each step of the hash of a pointer is invertible.
  \<^item> Messages: the structs of \<open>dhmp.h\<close> on the wire; each is an interpretation of \<open>codec\<close>.
  \<^item> Tasks: \<open>dhmp_task.c\<close>, the send ring, posting, parsing a received message (\<open>dhmp_transport.c\<close>).
    The ring stays in its region, parsing inverts framing.
  \<^item> Addr_Table: the hash table of remote addresses (\<open>dhmp_work.c\<close>), a refinement of a map (locale
    \<open>addr_map\<close>).
  \<^item> Work_Queue: the application's calls (\<open>dhmp_client.c\<close>) and the list they feed (locale \<open>fifo\<close>).
  \<^item> Client_Mem, Server_Mem: malloc, free, read, write, compare-and-set on the client; areas, buffers
    and the request handlers on the server (\<open>dhmp_work.c\<close>, \<open>dhmp_server.c\<close>, \<open>dhmp_transport.c\<close>).
  \<^item> RPC_L5, RPC_RFP, RPC_FaRM (with Herd and pRDMA), RPC_DaRPC (with FaSST), RPC_Octopus, RPC_Tailwind,
    RPC_Scale, RPC_Models (models A to D, Clover): one protocol each, the call, the work handler, the server's
    handler and poll thread.  The lemmas \<open>..._end_to_end\<close> carry a request from the client's memory
    through the adapter to the server's and the answer back; others show what goes wrong.
  \<^item> L5_System: L5 as a transition system of worker, adapter and poll thread; the invariant that a set
    mailbox byte means a complete message.
  \<^item> Dispatch: the worker's switch and the completion thread; it drains its queue unless an
    Octopus request makes a server wait for itself.
  \<^item> Client_System: all threads of a client interleaved; items are well typed, a write flag stays set.
  \<^item> Inet, Conn: printing and parsing of addresses; queues, transports, listening, connecting, the
    handlers of connection events, the event thread (\<open>dhmp_transport.c\<close>, \<open>dhmp_context.c\<close>).
  \<^item> Config: \<open>dhmp_config.c\<close> over the struct as bytes.  A file with one server is read back; a second
    one overwrites the count of servers.
  \<^item> Startup: \<open>dhmp_dev.c\<close>, \<open>dhmp_client_init\<close>, \<open>dhmp_server_init\<close>, \<open>dhmp_client_destroy\<close> against the
    event thread.  The buffers are large enough, clients are numbered, the end is a race.
  \<^item> List_H: the intrusive lists of \<open>linux/list.h\<close>; with their links they are the lists of the other
    theories (locale \<open>linked_list\<close>, interpreted for both kinds).
  \<^item> Kernel_Module: the part of the server carried over to a kernel module (\<open>src/rdma_module\<close>), over a
    state of its own.  It frees its server before the first request comes.
  \<^item> Bench: the calls that the benchmark client (\<open>test/client.c\<close>) makes, against a monitor of the life of
    the objects.
  \<^item> Stress: the stress threads of the client, which \<open>dhmp.h\<close> switches on, against the loops that start and
    join them.  Ending the client may wait for ever.
  \<^item> Log: the line that \<open>dhmp_log.c\<close> prints, and when its buffer is too small; \<open>dhmp_timerfd.c\<close>.
  \<^item> Multicast: the sample \<open>Multicast_ud.c\<close>, over a state of its own; what it takes it gives back.

  Bounds and fuel.  Loops over a count in the code are folds over that count; \<open>list_for_each\<close> takes
  fuel, and the length of the list is enough (\<open>circular_list_is_queue\<close>, \<open>bucket_is_stack\<close>).  The arrays per client have
  three entries; an index outside faults.  End-to-end theorems bound lengths so that a request fits its
  registered region and 31 bits, where the code passes a \<open>size_t\<close> through an \<open>int\<close>.  The delivery of a
  posted request (\<open>delivered\<close>, \<open>received\<close>) is the documented effect of a reliable connection and a
  hypothesis of those theorems; their witnesses deliver concretely.

  Not modelled:

  \<^item> the adapter, the verbs and connection-manager libraries, the XML parser and the operating system:
    parameters, as above; data races on plain flags are interleavings of the modelled steps, and the
    weak memory of C or of the processor is not considered;
  \<^item> \<open>dhmp_server_destroy\<close>, which only waits for threads that never end; \<open>dhmp_print_config\<close>, which only
    prints, and measuring time;
  \<^item> the output and timing of the benchmarks in \<open>test\<close>, and their variants with other sizes;
  \<^item> \<open>src/amper_beforeFaRM\<close>, an earlier snapshot of the same files, the files of the Linux kernel
    copied into \<open>src/rdma_module\<close>, \<open>src/tcpudp\<close>, an echo over sockets, and
    \<open>src/Multicast_ud2.c\<close>, a variant of the other sample;
  \<^item> ports and the second address of a connection, which no modelled decision reads.
\<close>

end
